(* ===== verification/Prelude.thy ===== *)
theory Prelude
  imports Main "HOL-Library.Word"
begin

text \<open>
  What every component shares: polls of futures and bodies, panics as values, the functions of
  the Rust standard library on strings that the crate calls (\<open>str::trim\<close>, \<open>split\<close>,
  \<open>splitn\<close>, \<open>split_once\<close>, \<open>eq_ignore_ascii_case\<close>, \<open>parse::<usize>\<close>), and
  generic lemmas on lists and options.  A Rust string is the list of its bytes.  Rust's
  \<open>Result<A, E>\<close> is \<open>'e + 'a\<close> with \<open>Inl\<close> the error, and \<open>Option\<close> is
  \<open>option\<close>.  A \<open>panic!\<close> or a failed \<open>assert!\<close> is \<open>Inl\<close> of its message in
  a result of type \<open>'a panics\<close>.
\<close>

named_theorems model_defs \<open>definitions of the operations, to unfold a handler to its branches\<close>

section \<open>Polls and panics\<close>

datatype 'a poll = Pending | Ready 'a

type_synonym 'a panics = "string + 'a"

text \<open>A future is its state together with this operation, \<open>Future::poll\<close> without the waker.\<close>

type_synonym ('f, 'o) poll_fn = "'f \<Rightarrow> 'o poll \<times> 'f"

fun map_ready :: "('a \<Rightarrow> 'b) \<Rightarrow> 'a poll \<Rightarrow> 'b poll" where
  "map_ready g Pending = Pending"
| "map_ready g (Ready x) = Ready (g x)"

lemma map_ready_eq_Pending [simp]: "map_ready g p = Pending \<longleftrightarrow> p = Pending"
  by (cases p) auto

lemma map_ready_eq_Ready [simp]: "map_ready g p = Ready y \<longleftrightarrow> (\<exists>x. p = Ready x \<and> y = g x)"
  by (cases p) auto

text \<open>
  The test futures of the witnesses: \<open>ready_after\<close> answers \<open>Pending\<close> as often as its first
  component says and then its value.
\<close>

fun ready_after :: "(nat \<times> 'o, 'o) poll_fn" where
  "ready_after (n, v) = (if n = 0 then (Ready v, (0, v)) else (Pending, (n - 1, v)))"

text \<open>
  The executor polls again after each \<open>Pending\<close>: at most \<open>n\<close> polls, \<open>None\<close> when none of them
  was ready.
\<close>

fun run_future :: "('f, 'o) poll_fn \<Rightarrow> nat \<Rightarrow> 'f \<Rightarrow> 'o option" where
  "run_future poll 0 f = None"
| "run_future poll (Suc n) f =
     (case poll f of (Ready v, _) \<Rightarrow> Some v | (Pending, f') \<Rightarrow> run_future poll n f')"

lemma run_future_mono: "run_future poll n f = Some v \<Longrightarrow> n \<le> m \<Longrightarrow> run_future poll m f = Some v"
proof (induction n arbitrary: f m)
  case (Suc n)
  then obtain m' where "m = Suc m'" by (cases m) auto
  with Suc show ?case by (auto split: prod.splits poll.splits)
qed simp

lemma run_future_add: "run_future poll n f = Some v \<Longrightarrow> run_future poll (n + k) f = Some v"
  by (erule run_future_mono) simp

text \<open>The number of \<open>Pending\<close> answers before the first ready poll among the first \<open>n\<close>.\<close>

fun first_ready :: "('f, 'o) poll_fn \<Rightarrow> nat \<Rightarrow> 'f \<Rightarrow> nat option" where
  "first_ready poll 0 f = None"
| "first_ready poll (Suc n) f =
     (case poll f of (Ready _, _) \<Rightarrow> Some 0 | (Pending, f') \<Rightarrow> map_option Suc (first_ready poll n f'))"

lemma first_ready_None_iff: "first_ready poll n f = None \<longleftrightarrow> run_future poll n f = None"
  by (induction n arbitrary: f) (auto split: prod.split poll.split)

lemma first_ready_less: "first_ready poll n f = Some i \<Longrightarrow> i < n"
  by (induction n arbitrary: f i) (auto split: prod.splits poll.splits)

fun map_result :: "('a \<Rightarrow> 'b) \<Rightarrow> 'e + 'a \<Rightarrow> 'e + 'b" where
  "map_result g (Inl e) = Inl e"
| "map_result g (Inr x) = Inr (g x)"

lemma map_result_comp [simp]: "map_result g (map_result h r) = map_result (\<lambda>x. g (h x)) r"
  by (cases r) auto

lemma map_result_eq_Inr: "map_result g r = Inr y \<longleftrightarrow> (\<exists>x. r = Inr x \<and> y = g x)"
  by (cases r) auto

lemma map_result_eq_Inl: "map_result g r = Inl e \<longleftrightarrow> r = Inl e"
  by (cases r) auto

section \<open>Bytes and strings\<close>

definition byte :: "char \<Rightarrow> nat" where
  "byte c = of_char c"

definition is_ascii :: "string \<Rightarrow> bool" where
  "is_ascii s = list_all (\<lambda>c. byte c < 128) s"

definition to_ascii_lower :: "char \<Rightarrow> char" where
  "to_ascii_lower c = (if 65 \<le> byte c \<and> byte c \<le> 90 then char_of (byte c + 32) else c)"

definition eq_ignore_ascii_case :: "string \<Rightarrow> string \<Rightarrow> bool" where
  "eq_ignore_ascii_case s t = (map to_ascii_lower s = map to_ascii_lower t)"

definition is_whitespace :: "char \<Rightarrow> bool" where
  "is_whitespace c = (byte c = 32 \<or> (9 \<le> byte c \<and> byte c \<le> 13))"

definition trim_start :: "string \<Rightarrow> string" where
  "trim_start s = dropWhile is_whitespace s"

definition trim_end :: "string \<Rightarrow> string" where
  "trim_end s = rev (dropWhile is_whitespace (rev s))"

definition trim :: "string \<Rightarrow> string" where
  "trim s = trim_end (trim_start s)"

definition is_digit :: "char \<Rightarrow> bool" where
  "is_digit c = (48 \<le> byte c \<and> byte c \<le> 57)"

definition digit_val :: "char \<Rightarrow> nat" where
  "digit_val c = byte c - 48"

fun split_on :: "char \<Rightarrow> string \<Rightarrow> string list" where
  "split_on d [] = [[]]"
| "split_on d (c # cs) =
     (if c = d then [] # split_on d cs
      else (case split_on d cs of [] \<Rightarrow> [[c]] | w # ws \<Rightarrow> (c # w) # ws))"

text \<open>\<open>s.splitn(2, d)\<close>: what stands before the first \<open>d\<close> and, if there is one, all that follows.\<close>

fun splitn2 :: "char \<Rightarrow> string \<Rightarrow> string \<times> string option" where
  "splitn2 d [] = ([], None)"
| "splitn2 d (c # cs) =
     (if c = d then ([], Some cs) else (let (a, b) = splitn2 d cs in (c # a, b)))"

fun strip_prefix :: "string \<Rightarrow> string \<Rightarrow> string option" where
  "strip_prefix [] s = Some s"
| "strip_prefix (p # ps) [] = None"
| "strip_prefix (p # ps) (c # cs) = (if p = c then strip_prefix ps cs else None)"

definition starts_with :: "string \<Rightarrow> string \<Rightarrow> bool" where
  "starts_with s p = (strip_prefix p s \<noteq> None)"

fun split_once :: "string \<Rightarrow> string \<Rightarrow> (string \<times> string) option" where
  "split_once d [] = (case strip_prefix d [] of Some r \<Rightarrow> Some ([], r) | None \<Rightarrow> None)"
| "split_once d (c # cs) =
     (case strip_prefix d (c # cs) of
        Some r \<Rightarrow> Some ([], r)
      | None \<Rightarrow> map_option (\<lambda>(a, b). (c # a, b)) (split_once d cs))"

fun join_with :: "string \<Rightarrow> string list \<Rightarrow> string" where
  "join_with d [] = []"
| "join_with d [w] = w"
| "join_with d (w # v # ws) = w @ d @ join_with d (v # ws)"

text \<open>\<open>str::from_utf8\<close>: the byte sequences of the UTF-8 encoding of a Unicode scalar value.\<close>

definition cont_byte :: "char \<Rightarrow> bool" where
  "cont_byte c = (128 \<le> byte c \<and> byte c \<le> 191)"

fun utf8_valid :: "string \<Rightarrow> bool" where
  "utf8_valid [] = True"
| "utf8_valid (a # s) =
     (if byte a < 128 then utf8_valid s
      else if 194 \<le> byte a \<and> byte a \<le> 223 then
        (case s of b # t \<Rightarrow> cont_byte b \<and> utf8_valid t | _ \<Rightarrow> False)
      else if 224 \<le> byte a \<and> byte a \<le> 239 then
        (case s of b # c # t \<Rightarrow>
           cont_byte b \<and> cont_byte c \<and> (byte a = 224 \<longrightarrow> 160 \<le> byte b) \<and>
           (byte a = 237 \<longrightarrow> byte b \<le> 159) \<and> utf8_valid t
         | _ \<Rightarrow> False)
      else if 240 \<le> byte a \<and> byte a \<le> 244 then
        (case s of b # c # d # t \<Rightarrow>
           cont_byte b \<and> cont_byte c \<and> cont_byte d \<and> (byte a = 240 \<longrightarrow> 144 \<le> byte b) \<and>
           (byte a = 244 \<longrightarrow> byte b \<le> 143) \<and> utf8_valid t
         | _ \<Rightarrow> False)
      else False)"

definition from_utf8 :: "string \<Rightarrow> string option" where
  "from_utf8 b = (if utf8_valid b then Some b else None)"

text \<open>\<open>str::parse::<usize>\<close> on a 64-bit target: an optional \<open>+\<close>, digits, an error on overflow.\<close>

definition usize_max :: nat where
  "usize_max = 2 ^ 64 - 1"

definition digits_val :: "string \<Rightarrow> nat" where
  "digits_val s = foldl (\<lambda>n c. 10 * n + digit_val c) 0 s"

definition parse_usize :: "string \<Rightarrow> nat option" where
  "parse_usize s =
     (let ds = (case s of CHR ''+'' # r \<Rightarrow> r | _ \<Rightarrow> s)
      in if ds = [] \<or> \<not> list_all is_digit ds then None
         else if digits_val ds \<le> usize_max then Some (digits_val ds) else None)"

text \<open>Decimal printing of an unsigned integer.\<close>

fun show_nat :: "nat \<Rightarrow> string" where
  "show_nat n = (if n < 10 then [char_of (48 + n)] else show_nat (n div 10) @ [char_of (48 + n mod 10)])"

declare show_nat.simps [simp del]

lemmas string_defs = byte_def is_ascii_def to_ascii_lower_def eq_ignore_ascii_case_def
  is_whitespace_def trim_start_def trim_end_def trim_def is_digit_def digit_val_def

lemmas parse_usize_eval = parse_usize_def digits_val_def usize_max_def is_digit_def digit_val_def
  byte_def

section \<open>Generic lemmas\<close>

lemma colon_append_eq:
  "u @ '':'' @ p = u' @ '':'' @ p' \<Longrightarrow> CHR '':'' \<notin> set u \<Longrightarrow> CHR '':'' \<notin> set u' \<Longrightarrow> u = u' \<and> p = p'"
proof (induction u arbitrary: u')
  case Nil
  then show ?case by (cases u') auto
next
  case (Cons c u)
  then show ?case by (cases u') auto
qed

lemma split_on_not_Nil [simp]: "split_on d s \<noteq> []"
  by (cases s) (auto split: list.split)

lemma join_split_on: "join_with [d] (split_on d s) = s"
proof (induction s)
  case Nil
  then show ?case by simp
next
  case (Cons c cs)
  obtain w ws where "split_on d cs = w # ws"
    by (cases "split_on d cs") auto
  with Cons.IH show ?case by (cases ws) auto
qed

lemma split_on_pieces: "w \<in> set (split_on d s) \<Longrightarrow> d \<notin> set w"
proof (induction s arbitrary: w)
  case Nil
  then show ?case by simp
next
  case (Cons c cs)
  obtain v vs where "split_on d cs = v # vs"
    by (cases "split_on d cs") auto
  with Cons show ?case by (auto split: if_splits)
qed

lemma split_on_no_sep: "d \<notin> set w \<Longrightarrow> split_on d w = [w]"
  by (induction w) auto

lemma split_on_Cons_sep:
  "d \<notin> set w \<Longrightarrow> split_on d (w @ d # r) = w # split_on d r"
  by (induction w) auto

lemma split_on_join:
  "ws \<noteq> [] \<Longrightarrow> \<forall>w \<in> set ws. d \<notin> set w \<Longrightarrow> split_on d (join_with [d] ws) = ws"
proof (induction ws rule: induct_list012)
  case (3 w v ws)
  then show ?case by (simp add: split_on_Cons_sep)
qed (auto simp: split_on_no_sep)

lemma set_join_with: "set (join_with d ws) \<subseteq> set d \<union> \<Union> (set ` set ws)"
  by (induction d ws rule: join_with.induct) auto

lemma strip_prefix_Some: "strip_prefix p s = Some r \<longleftrightarrow> s = p @ r"
  by (induction p s rule: strip_prefix.induct) auto

lemma starts_with_iff: "starts_with s p \<longleftrightarrow> (\<exists>r. s = p @ r)"
  by (auto simp: starts_with_def strip_prefix_Some)

lemma eq_ignore_ascii_case_refl [simp]: "eq_ignore_ascii_case s s"
  by (simp add: eq_ignore_ascii_case_def)

lemma eq_ignore_ascii_case_sym: "eq_ignore_ascii_case s t \<Longrightarrow> eq_ignore_ascii_case t s"
  by (simp add: eq_ignore_ascii_case_def)

lemma eq_ignore_ascii_case_trans:
  "eq_ignore_ascii_case s t \<Longrightarrow> eq_ignore_ascii_case t u \<Longrightarrow> eq_ignore_ascii_case s u"
  by (simp add: eq_ignore_ascii_case_def)

lemma parse_usize_bound: "parse_usize s = Some n \<Longrightarrow> n \<le> usize_max"
  by (auto simp: parse_usize_def Let_def split: if_splits)

lemma digits_val_show_nat: "digits_val (show_nat n) = n"
proof (induction n rule: show_nat.induct)
  case (1 n)
  have digit: "digit_val (char_of (48 + k :: nat)) = k" if "k < 10" for k
    using that by (simp add: digit_val_def byte_def)
  show ?case
  proof (cases "n < 10")
    case True
    then show ?thesis by (simp add: show_nat.simps digits_val_def digit)
  next
    case False
    then have "digits_val (show_nat n) = 10 * digits_val (show_nat (n div 10)) + digit_val (char_of (48 + n mod 10))"
      by (subst show_nat.simps) (simp add: digits_val_def)
    with 1 False show ?thesis by (simp add: digit)
  qed
qed

lemma show_nat_inject [simp]: "show_nat a = show_nat b \<longleftrightarrow> a = b"
  by (metis digits_val_show_nat)

lemma set_map_filter_iff: "y \<in> set (List.map_filter g xs) \<longleftrightarrow> (\<exists>x \<in> set xs. g x = Some y)"
  by (induction xs) (auto split: option.splits)

lemma list_ex_map_filter:
  "list_ex P (List.map_filter g xs) \<longleftrightarrow> (\<exists>x \<in> set xs. \<exists>y. g x = Some y \<and> P y)"
  by (induction xs) (auto split: option.splits)

lemma find_SomeD: "find P xs = Some x \<Longrightarrow> P x \<and> x \<in> set xs"
  by (induction xs) (auto split: if_splits)

lemma list_all_lookup: "list_all P xs \<Longrightarrow> x \<in> set xs \<Longrightarrow> P x"
  by (simp add: list_all_iff)

end
