(* ===== verification/Http.thy ===== *)
theory Http
  imports Prelude
begin

text \<open>
  The types of the \<open>http\<close> crate as the middleware uses them.  The crate is not part of the
  repository: its header map, header values and extension maps are a parameter of the model, a
  record of operations of type \<open>http_api\<close> that every definition using them takes as its
  argument \<open>H\<close>.  What the code relies on is stated as the locales \<open>header_map\<close>
  and \<open>header_text\<close>, the documented behaviour of \<open>http::HeaderMap\<close> and
  \<open>http::HeaderValue\<close>: a header map is observed through \<open>get_all\<close>, \<open>insert\<close> replaces all
  values of a name, \<open>append\<close> adds one, \<open>remove\<close> drops them all, and extending by a drained
  map replaces the names that map has.  Both are interpreted on \<open>list_http\<close>, a multimap kept as
  the list of header lines, which the witnesses evaluate.

  Header names are lower-case strings, a method is its token, a status code is a number.  A
  request is its parts and a body, as \<open>Request::into_parts\<close> splits it.
\<close>

section \<open>Messages\<close>

record ('h, 'u, 'x) parts =
  req_method :: string
  req_uri :: 'u
  req_version :: string
  req_headers :: 'h
  req_extensions :: 'x

record ('h, 'u, 'x, 'b) request = "('h, 'u, 'x) parts" +
  req_body :: 'b

record ('h, 'x, 'b) response =
  res_status :: nat
  res_version :: string
  res_headers :: 'h
  res_extensions :: 'x
  res_body :: 'b

definition request_parts :: "('h, 'u, 'x, 'b) request \<Rightarrow> ('h, 'u, 'x) parts" where
  "request_parts r = \<lparr>req_method = req_method r, req_uri = req_uri r, req_version = req_version r,
     req_headers = req_headers r, req_extensions = req_extensions r\<rparr>"

definition from_parts :: "('h, 'u, 'x) parts \<Rightarrow> 'b \<Rightarrow> ('h, 'u, 'x, 'b) request" where
  "from_parts p b = \<lparr>req_method = req_method p, req_uri = req_uri p, req_version = req_version p,
     req_headers = req_headers p, req_extensions = req_extensions p, req_body = b\<rparr>"

definition map_response :: "('b \<Rightarrow> 'c) \<Rightarrow> ('h, 'x, 'b) response \<Rightarrow> ('h, 'x, 'c) response" where
  "map_response g r = \<lparr>res_status = res_status r, res_version = res_version r,
     res_headers = res_headers r, res_extensions = res_extensions r, res_body = g (res_body r)\<rparr>"

lemma request_parts_simps [simp]:
  "req_method (request_parts r) = req_method r" "req_uri (request_parts r) = req_uri r"
  "req_version (request_parts r) = req_version r" "req_headers (request_parts r) = req_headers r"
  "req_extensions (request_parts r) = req_extensions r"
  by (simp_all add: request_parts_def)

lemma from_parts_simps [simp]:
  "req_method (from_parts p b) = req_method p" "req_uri (from_parts p b) = req_uri p"
  "req_version (from_parts p b) = req_version p" "req_headers (from_parts p b) = req_headers p"
  "req_extensions (from_parts p b) = req_extensions p" "req_body (from_parts p b) = b"
  by (simp_all add: from_parts_def)

lemma from_parts_request_parts [simp]: "from_parts (request_parts r) (req_body r) = r"
  by (simp add: from_parts_def)

lemma map_response_simps [simp]:
  "res_status (map_response g r) = res_status r" "res_version (map_response g r) = res_version r"
  "res_headers (map_response g r) = res_headers r" "res_body (map_response g r) = g (res_body r)"
  "res_extensions (map_response g r) = res_extensions r"
  by (simp_all add: map_response_def)

section \<open>The interface of the http crate\<close>

record ('h, 'v, 'x) http_api =
  hm_new :: 'h
  hm_get_all :: "'h \<Rightarrow> string \<Rightarrow> 'v list"
  hm_get :: "'h \<Rightarrow> string \<Rightarrow> 'v option"
  hm_contains :: "'h \<Rightarrow> string \<Rightarrow> bool"
  hm_insert :: "'h \<Rightarrow> string \<Rightarrow> 'v \<Rightarrow> 'h"
  hm_append :: "'h \<Rightarrow> string \<Rightarrow> 'v \<Rightarrow> 'h"
  hm_remove :: "'h \<Rightarrow> string \<Rightarrow> 'v option \<times> 'h"
  hm_extend :: "'h \<Rightarrow> 'h \<Rightarrow> 'h"
  hm_clear :: "'h \<Rightarrow> 'h"
  to_str :: "'v \<Rightarrow> string option"
  from_bytes :: "string \<Rightarrow> 'v option"
  ext_new :: 'x

text \<open>\<open>Response::new\<close>: status 200, no headers, no extensions.\<close>

definition response_new :: "('h, 'v, 'x) http_api \<Rightarrow> 'b \<Rightarrow> ('h, 'x, 'b) response" where
  "response_new H b = \<lparr>res_status = 200, res_version = ''HTTP/1.1'', res_headers = hm_new H,
     res_extensions = ext_new H, res_body = b\<rparr>"

text \<open>\<open>HeaderMap::extend\<close> with an \<open>Option<(HeaderName, HeaderValue)>\<close>: appends the pair, if any.\<close>

definition hm_extend_opt :: "('h, 'v, 'x) http_api \<Rightarrow> 'h \<Rightarrow> (string \<times> 'v) option \<Rightarrow> 'h" where
  "hm_extend_opt H h p = (case p of None \<Rightarrow> h | Some (n, v) \<Rightarrow> hm_append H h n v)"

locale header_map =
  fixes H :: "('h, 'v, 'x) http_api"
  assumes get_all_new: "hm_get_all H (hm_new H) n = []"
    and get_first: "hm_get H h n = (case hm_get_all H h n of [] \<Rightarrow> None | v # _ \<Rightarrow> Some v)"
    and contains_iff: "hm_contains H h n \<longleftrightarrow> hm_get_all H h n \<noteq> []"
    and get_all_insert:
      "hm_get_all H (hm_insert H h n v) m = (if m = n then [v] else hm_get_all H h m)"
    and get_all_append:
      "hm_get_all H (hm_append H h n v) m =
         (if m = n then hm_get_all H h m @ [v] else hm_get_all H h m)"
    and fst_remove: "fst (hm_remove H h n) = hm_get H h n"
    and get_all_remove:
      "hm_get_all H (snd (hm_remove H h n)) m = (if m = n then [] else hm_get_all H h m)"
    and get_all_extend:
      "hm_get_all H (hm_extend H h g) m =
         (if hm_get_all H g m = [] then hm_get_all H h m else hm_get_all H g m)"
    and get_all_clear: "hm_get_all H (hm_clear H h) n = []"
begin

lemmas laws = get_all_new get_all_clear contains_iff get_all_insert get_all_append fst_remove get_all_remove
  get_all_extend

lemma get_None_iff: "hm_get H h n = None \<longleftrightarrow> hm_get_all H h n = []"
  by (simp add: get_first split: list.split)

lemma get_insert: "hm_get H (hm_insert H h n v) m = (if m = n then Some v else hm_get H h m)"
  by (simp add: get_first get_all_insert)

lemma get_remove: "hm_get H (snd (hm_remove H h n)) m = (if m = n then None else hm_get H h m)"
  by (simp add: get_first get_all_remove)

lemma get_new: "hm_get H (hm_new H) n = None"
  by (simp add: get_first get_all_new)

lemma get_append_absent:
  "hm_get_all H h n = [] \<Longrightarrow> hm_get H (hm_append H h n v) n = Some v"
  by (simp add: get_first get_all_append)

lemma get_append_other: "m \<noteq> n \<Longrightarrow> hm_get H (hm_append H h n v) m = hm_get H h m"
  by (simp add: get_first get_all_append)

lemma get_append_present:
  "hm_get H h n = Some w \<Longrightarrow> hm_get H (hm_append H h n v) n = Some w"
  by (auto simp: get_first get_all_append split: list.splits)

lemma get_all_extend_opt:
  "hm_get_all H (hm_extend_opt H h p) m =
     hm_get_all H h m @ (case p of None \<Rightarrow> [] | Some (n, v) \<Rightarrow> if m = n then [v] else [])"
  by (auto simp: hm_extend_opt_def get_all_append split: option.split)

lemma get_extend:
  "hm_get H (hm_extend H h g) m = (case hm_get H g m of None \<Rightarrow> hm_get H h m | Some v \<Rightarrow> Some v)"
  by (simp add: get_first get_all_extend split: list.split)

end

text \<open>
  \<open>HeaderValue::to_str\<close> gives the bytes of a value of visible ASCII characters and never any
  other text; \<open>HeaderValue::from_bytes\<close> accepts the bytes from 32 to 255 but 127 and keeps them.
\<close>

definition visible_ascii :: "char \<Rightarrow> bool" where
  "visible_ascii c = (32 \<le> byte c \<and> byte c < 127)"

definition permitted_byte :: "char \<Rightarrow> bool" where
  "permitted_byte c = (32 \<le> byte c \<and> byte c \<noteq> 127)"

locale header_text = header_map H for H :: "('h, string, 'x) http_api" +
  assumes to_str_ascii: "to_str H v = Some s \<Longrightarrow> s = v \<and> is_ascii v"
    and to_str_visible: "list_all visible_ascii v \<Longrightarrow> to_str H v = Some v"
    and from_bytes_keeps: "from_bytes H b = Some v \<Longrightarrow> v = b"
    and from_bytes_permitted: "list_all permitted_byte b \<Longrightarrow> from_bytes H b = Some b"
begin

lemma to_str_is: "to_str H v = Some s \<Longrightarrow> s = v"
  using to_str_ascii by blast

end

section \<open>The interface of \<open>http::Uri\<close>\<close>

text \<open>
  Parsing (\<open>Inl\<close> is the message of \<open>InvalidUri\<close>) and the accessors of a parsed URI.  The authority
  is kept as the text it was written with; host and path are parts of the text.
\<close>

record 'u uri_api =
  uri_parse :: "string \<Rightarrow> string + 'u"
  uri_scheme :: "'u \<Rightarrow> string option"
  uri_authority :: "'u \<Rightarrow> string option"
  uri_host :: "'u \<Rightarrow> string option"
  uri_port :: "'u \<Rightarrow> nat option"
  uri_to_string :: "'u \<Rightarrow> string"
  uri_path :: "'u \<Rightarrow> string"
  uri_query :: "'u \<Rightarrow> string option"

text \<open>
  A small parser for the witnesses: \<open>scheme://authority/path?query\<close>, or a path alone.
\<close>

record simple_uri =
  su_scheme :: "string option"
  su_authority :: "string option"
  su_path :: string
  su_query :: "string option"

definition su_split_path :: "string \<Rightarrow> string \<times> string option" where
  "su_split_path s = (case splitn2 CHR ''?'' s of (p, q) \<Rightarrow> (if p = [] then ''/'' else p, q))"

definition su_parse :: "string \<Rightarrow> string + simple_uri" where
  "su_parse s =
     (case split_once ''://'' s of
        Some (sch, rest) \<Rightarrow>
          (let a = takeWhile (\<lambda>c. c \<noteq> CHR ''/'' \<and> c \<noteq> CHR ''?'') rest;
               (p, q) = su_split_path (drop (length a) rest)
           in if sch = [] \<or> a = [] then Inl ''invalid format''
              else Inr \<lparr>su_scheme = Some sch, su_authority = Some a, su_path = p, su_query = q\<rparr>)
      | None \<Rightarrow>
          (if starts_with s ''/''
           then (let (p, q) = su_split_path s
                 in Inr \<lparr>su_scheme = None, su_authority = None, su_path = p, su_query = q\<rparr>)
           else Inl ''invalid format''))"

definition simple_uri_api :: "simple_uri uri_api" where
  "simple_uri_api = \<lparr>uri_parse = su_parse, uri_scheme = su_scheme, uri_authority = su_authority,
     uri_host = (\<lambda>u. map_option (\<lambda>a. fst (splitn2 CHR '':'' a)) (su_authority u)),
     uri_port = (\<lambda>u. Option.bind (su_authority u) (\<lambda>a. Option.bind (snd (splitn2 CHR '':'' a)) parse_usize)),
     uri_to_string = (\<lambda>u. (case (su_scheme u, su_authority u) of (Some s, Some a) \<Rightarrow> s @ ''://'' @ a | _ \<Rightarrow> [])
        @ su_path u @ (case su_query u of Some q \<Rightarrow> ''?'' @ q | None \<Rightarrow> [])),
     uri_path = su_path, uri_query = su_query\<rparr>"

section \<open>The reference header map: a list of header lines\<close>

definition list_api ::
  "('v \<Rightarrow> string option) \<Rightarrow> (string \<Rightarrow> 'v option) \<Rightarrow> 'x \<Rightarrow> ((string \<times> 'v) list, 'v, 'x) http_api" where
  "list_api ts fb e =
     \<lparr>hm_new = [],
      hm_get_all = (\<lambda>h n. map snd (filter (\<lambda>p. fst p = n) h)),
      hm_get = (\<lambda>h n. map_of h n),
      hm_contains = (\<lambda>h n. list_ex (\<lambda>p. fst p = n) h),
      hm_insert = (\<lambda>h n v. filter (\<lambda>p. fst p \<noteq> n) h @ [(n, v)]),
      hm_append = (\<lambda>h n v. h @ [(n, v)]),
      hm_remove = (\<lambda>h n. (map_of h n, filter (\<lambda>p. fst p \<noteq> n) h)),
      hm_extend = (\<lambda>h g. filter (\<lambda>p. \<not> list_ex (\<lambda>q. fst q = fst p) g) h @ g),
      hm_clear = (\<lambda>h. []),
      to_str = ts, from_bytes = fb, ext_new = e\<rparr>"

definition list_http :: "'x \<Rightarrow> ((string \<times> string) list, string, 'x) http_api" where
  "list_http e =
     list_api (\<lambda>v. if list_all visible_ascii v then Some v else None)
       (\<lambda>b. if list_all permitted_byte b then Some b else None) e"

lemma map_of_filter_fst: "map_of h n = (case map snd (filter (\<lambda>p. fst p = n) h) of
    [] \<Rightarrow> None | v # _ \<Rightarrow> Some v)"
  by (induction h) auto

lemma filter_fst_other:
  "filter (\<lambda>p. fst p \<noteq> n \<and> fst p = m) h = (if m = n then [] else filter (\<lambda>p. fst p = m) h)"
  by (induction h) auto

lemma filter_fst_absent:
  "filter (\<lambda>p. (\<forall>q \<in> set g. fst q \<noteq> fst p) \<and> fst p = m) h =
     (if \<forall>q \<in> set g. fst q \<noteq> m then filter (\<lambda>p. fst p = m) h else [])"
  by (induction h) auto

lemma header_map_list_api: "header_map (list_api ts fb e)"
proof
  fix h :: "(string \<times> 'a) list" and g m
  show "hm_get_all (list_api ts fb e) (hm_extend (list_api ts fb e) h g) m =
      (if hm_get_all (list_api ts fb e) g m = [] then hm_get_all (list_api ts fb e) h m
       else hm_get_all (list_api ts fb e) g m)"
    by (simp add: list_api_def list_ex_iff filter_fst_absent filter_empty_conv)
qed (auto simp: list_api_def filter_fst_other list_ex_iff filter_empty_conv map_of_filter_fst)

interpretation lists: header_map "list_api ts fb e" for ts fb e
  by (rule header_map_list_api)

lemma header_map_list_http: "header_map (list_http e)"
  unfolding list_http_def by (rule header_map_list_api)

lemma header_text_list_http: "header_text (list_http e)"
  by (intro header_text.intro header_map_list_http header_text_axioms.intro)
    (auto simp: list_http_def list_api_def is_ascii_def list_all_iff visible_ascii_def
      split: if_splits)

interpretation lh: header_text "list_http e" for e
  by (rule header_text_list_http)

lemma list_http_simps:
  "hm_new (list_http e) = []"
  "hm_get_all (list_http e) h n = map snd (filter (\<lambda>p. fst p = n) h)"
  "hm_get (list_http e) h n = map_of h n"
  "hm_contains (list_http e) h n = list_ex (\<lambda>p. fst p = n) h"
  "hm_insert (list_http e) h n v = filter (\<lambda>p. fst p \<noteq> n) h @ [(n, v)]"
  "hm_append (list_http e) h n v = h @ [(n, v)]"
  "hm_remove (list_http e) h n = (map_of h n, filter (\<lambda>p. fst p \<noteq> n) h)"
  "hm_extend (list_http e) h g = filter (\<lambda>p. \<not> list_ex (\<lambda>q. fst q = fst p) g) h @ g"
  "hm_clear (list_http e) h = []"
  "to_str (list_http e) v = (if list_all visible_ascii v then Some v else None)"
  "from_bytes (list_http e) v = (if list_all permitted_byte v then Some v else None)"
  "ext_new (list_http e) = e"
  by (simp_all add: list_http_def list_api_def)

lemmas list_http_defs = list_http_def list_api_def response_new_def hm_extend_opt_def

end
