(* ===== verification/Content_Encoding.thy ===== *)
theory Content_Encoding
  imports Http "HOL-Library.Product_Lexorder"
begin

text \<open>
  \<open>content_encoding.rs\<close>: negotiation of the content coding of a response from the request's
  \<open>Accept-Encoding\<close> headers, with every \<open>compression-*\<close> feature and \<open>fs\<close> enabled.
  A q-value is kept as the number of thousandths that the code's \<open>u16\<close> holds; that its
  arithmetic never passes the width of a \<open>u16\<close> is a lemma.
\<close>

section \<open>Codings and their order\<close>

datatype encoding = Identity | Deflate | Gzip | Brotli | Zstd

text \<open>The derived \<open>Ord\<close>: the variants from least to most preferred, in declaration order.\<close>

fun enc_rank :: "encoding \<Rightarrow> nat" where
  "enc_rank Identity = 0"
| "enc_rank Deflate = 1"
| "enc_rank Gzip = 2"
| "enc_rank Brotli = 3"
| "enc_rank Zstd = 4"

lemma enc_rank_inject: "enc_rank a = enc_rank b \<Longrightarrow> a = b"
  by (cases a; cases b) auto

instantiation encoding :: linorder
begin

definition less_eq_encoding :: "encoding \<Rightarrow> encoding \<Rightarrow> bool" where
  "a \<le> b \<longleftrightarrow> enc_rank a \<le> enc_rank b"

definition less_encoding :: "encoding \<Rightarrow> encoding \<Rightarrow> bool" where
  "a < b \<longleftrightarrow> enc_rank a < enc_rank b"

instance
  by standard (auto simp: less_eq_encoding_def less_encoding_def dest: enc_rank_inject)

end

record supported =
  sup_gzip :: bool
  sup_deflate :: bool
  sup_br :: bool
  sup_zstd :: bool

fun enc_to_str :: "encoding \<Rightarrow> string" where
  "enc_to_str Gzip = ''gzip''"
| "enc_to_str Deflate = ''deflate''"
| "enc_to_str Brotli = ''br''"
| "enc_to_str Zstd = ''zstd''"
| "enc_to_str Identity = ''identity''"

fun to_file_extension :: "encoding \<Rightarrow> string option" where
  "to_file_extension Gzip = Some ''.gz''"
| "to_file_extension Deflate = Some ''.zz''"
| "to_file_extension Brotli = Some ''.br''"
| "to_file_extension Zstd = Some ''.zst''"
| "to_file_extension Identity = None"

definition encoding_parse :: "string \<Rightarrow> supported \<Rightarrow> encoding option" where
  "encoding_parse s se =
     (if (eq_ignore_ascii_case s ''gzip'' \<or> eq_ignore_ascii_case s ''x-gzip'') \<and> sup_gzip se
      then Some Gzip
      else if eq_ignore_ascii_case s ''deflate'' \<and> sup_deflate se then Some Deflate
      else if eq_ignore_ascii_case s ''br'' \<and> sup_br se then Some Brotli
      else if eq_ignore_ascii_case s ''zstd'' \<and> sup_zstd se then Some Zstd
      else if eq_ignore_ascii_case s ''identity'' then Some Identity
      else None)"

fun is_supported :: "supported \<Rightarrow> encoding \<Rightarrow> bool" where
  "is_supported se Identity = True"
| "is_supported se Deflate = sup_deflate se"
| "is_supported se Gzip = sup_gzip se"
| "is_supported se Brotli = sup_br se"
| "is_supported se Zstd = sup_zstd se"

section \<open>q-values\<close>

definition qvalue_one :: nat where
  "qvalue_one = 1000"

text \<open>The loop over the fractional digits: \<open>factor\<close> and \<open>value\<close> are its variables.\<close>

fun qvalue_digits :: "nat \<Rightarrow> nat \<Rightarrow> string \<Rightarrow> nat option" where
  "qvalue_digits factor value [] = (if value \<le> 1000 then Some value else None)"
| "qvalue_digits factor value (n # cs) =
     (if is_digit n then
        (if factor < 1 then None
         else qvalue_digits (factor div 10) (value + factor * digit_val n) cs)
      else None)"

definition qvalue_parse :: "string \<Rightarrow> nat option" where
  "qvalue_parse s =
     (case s of
        q # e # d # r \<Rightarrow>
          if q \<noteq> CHR ''q'' \<and> q \<noteq> CHR ''Q'' then None
          else if e \<noteq> CHR ''='' then None
          else if d \<noteq> CHR ''0'' \<and> d \<noteq> CHR ''1'' then None
          else (let value = (if d = CHR ''0'' then 0 else 1000)
                in (case r of
                      [] \<Rightarrow> Some value
                    | p # cs \<Rightarrow> if p = CHR ''.'' then qvalue_digits 100 value cs else None))
      | _ \<Rightarrow> None)"

section \<open>The Accept-Encoding list\<close>

text \<open>The comma-separated items of all header lines that are text.\<close>

definition accept_items :: "('h, 'v, 'x) http_api \<Rightarrow> 'h \<Rightarrow> string list" where
  "accept_items H h =
     concat (map (split_on CHR '','')
       (List.map_filter (to_str H) (hm_get_all H h ''accept-encoding'')))"

definition item_qvalue :: "string option \<Rightarrow> nat option" where
  "item_qvalue q = (case q of Some s \<Rightarrow> qvalue_parse (trim s) | None \<Rightarrow> Some qvalue_one)"

definition encoding_item :: "supported \<Rightarrow> string \<Rightarrow> (encoding \<times> nat) option" where
  "encoding_item se v =
     (let (name, q) = splitn2 CHR '';'' v
      in (case encoding_parse (trim name) se of
            None \<Rightarrow> None
          | Some e \<Rightarrow> map_option (\<lambda>qv. (e, qv)) (item_qvalue q)))"

definition encodings ::
  "('h, 'v, 'x) http_api \<Rightarrow> 'h \<Rightarrow> supported \<Rightarrow> (encoding \<times> nat) list" where
  "encodings H h se = List.map_filter (encoding_item se) (accept_items H h)"

definition wildcard_item :: "string \<Rightarrow> nat option" where
  "wildcard_item v =
     (let (coding, q) = splitn2 CHR '';'' v
      in if trim coding \<noteq> ''*'' then None else item_qvalue q)"

fun find_map :: "('a \<Rightarrow> 'b option) \<Rightarrow> 'a list \<Rightarrow> 'b option" where
  "find_map g [] = None"
| "find_map g (x # xs) = (case g x of Some y \<Rightarrow> Some y | None \<Rightarrow> find_map g xs)"

definition wildcard_qvalue :: "('h, 'v, 'x) http_api \<Rightarrow> 'h \<Rightarrow> nat option" where
  "wildcard_qvalue H h = find_map wildcard_item (accept_items H h)"

section \<open>Choice of the coding\<close>

text \<open>\<open>Iterator::max_by_key\<close> keeps the last of the greatest elements.\<close>

fun max_by_key :: "('a \<Rightarrow> 'k::linorder) \<Rightarrow> 'a list \<Rightarrow> 'a option" where
  "max_by_key k [] = None"
| "max_by_key k (x # xs) =
     Some (foldl (\<lambda>best y. if k best \<le> k y then y else best) x xs)"

definition preferred_encoding :: "(encoding \<times> nat) list \<Rightarrow> encoding option" where
  "preferred_encoding xs =
     map_option fst (max_by_key (\<lambda>(e, q). (q, e)) (filter (\<lambda>(e, q). q > 0) xs))"

definition all_supported_encodings :: "supported \<Rightarrow> encoding list" where
  "all_supported_encodings se =
     [Identity] @ (if sup_gzip se then [Gzip] else []) @ (if sup_deflate se then [Deflate] else [])
       @ (if sup_br se then [Brotli] else []) @ (if sup_zstd se then [Zstd] else [])"

definition effective_qvalue :: "(encoding \<times> nat) list \<Rightarrow> nat \<Rightarrow> encoding \<Rightarrow> nat" where
  "effective_qvalue explicit w e =
     (case find (\<lambda>p. fst p = e) explicit of Some p \<Rightarrow> snd p | None \<Rightarrow> w)"

definition preferred_encoding_with_wildcard ::
  "('h, 'v, 'x) http_api \<Rightarrow> 'h \<Rightarrow> supported \<Rightarrow> encoding option" where
  "preferred_encoding_with_wildcard H h se =
     (let explicit = encodings H h se
      in (case wildcard_qvalue H h of
            None \<Rightarrow>
              (let identity_rejected = list_ex (\<lambda>(e, q). e = Identity \<and> q = 0) explicit
               in (case preferred_encoding explicit of
                     Some e \<Rightarrow> Some e
                   | None \<Rightarrow> if identity_rejected then None else Some Identity))
          | Some w \<Rightarrow>
              preferred_encoding
                (map (\<lambda>e. (e, effective_qvalue explicit w e)) (all_supported_encodings se))))"

definition from_headers ::
  "('h, 'v, 'x) http_api \<Rightarrow> 'h \<Rightarrow> supported \<Rightarrow> encoding option" where
  "from_headers H h se = preferred_encoding_with_wildcard H h se"

section \<open>q-values: the grammar and the width\<close>

text \<open>
  RFC 7231, 5.3.1, as the comment of \<open>QValue::parse\<close> cites it: \<open>q=\<close>, a digit 0 or 1, and
  optionally a point with at most three digits, the value being at most one.
\<close>

definition qvalue_grammar :: "string \<Rightarrow> nat \<Rightarrow> bool" where
  "qvalue_grammar s v \<longleftrightarrow>
     (\<exists>q d. q \<in> {CHR ''q'', CHR ''Q''} \<and> d \<in> {CHR ''0'', CHR ''1''} \<and>
        (s = [q, CHR ''='', d] \<and> v = 1000 * digit_val d \<or>
         (\<exists>fs. s = [q, CHR ''='', d, CHR ''.''] @ fs \<and> list_all is_digit fs \<and> length fs \<le> 3 \<and>
            v = 1000 * digit_val d + digits_val fs * 10 ^ (3 - length fs) \<and> v \<le> 1000)))"

lemma digits_val_snoc: "digits_val (s @ [c]) = 10 * digits_val s + digit_val c"
  by (simp add: digits_val_def)

lemma foldl_digits: "foldl (\<lambda>n c. 10 * n + digit_val c) a s = a * 10 ^ length s + digits_val s"
  by (induction s rule: rev_induct) (auto simp: digits_val_def algebra_simps)

lemma digits_val_Nil [simp]: "digits_val [] = 0"
  by (simp add: digits_val_def)

lemma digits_val_Cons: "digits_val (c # s) = digit_val c * 10 ^ length s + digits_val s"
  using foldl_digits [of "digit_val c" s] by (simp add: digits_val_def)

lemma digit_val_le: "is_digit c \<Longrightarrow> digit_val c \<le> 9"
  unfolding is_digit_def digit_val_def by linarith

lemma qvalue_digits_zero:
  "qvalue_digits 0 v fs = (if fs = [] \<and> v \<le> 1000 then Some v else None)"
  by (cases fs) auto

text \<open>The loop from factor \<open>10 ^ k\<close> reads at most \<open>k + 1\<close> digits.\<close>

lemma qvalue_digits_pow:
  "qvalue_digits (10 ^ k) v fs = Some u \<longleftrightarrow>
     list_all is_digit fs \<and> length fs \<le> Suc k \<and>
     u = v + digits_val fs * 10 ^ (Suc k - length fs) \<and> u \<le> 1000"
proof (induction k arbitrary: v fs)
  case 0
  then show ?case
    by (cases fs) (auto simp: qvalue_digits_zero digits_val_Cons)
next
  case (Suc k)
  show ?case
  proof (cases fs)
    case Nil
    then show ?thesis by auto
  next
    case (Cons c cs)
    have pow: "10 ^ length cs * 10 ^ (Suc k - length cs) = (10::nat) ^ Suc k"
      if "length cs \<le> Suc k" using that by (simp flip: power_add)
    have "digits_val (c # cs) * 10 ^ (Suc k - length cs) =
        10 ^ Suc k * digit_val c + digits_val cs * 10 ^ (Suc k - length cs)"
      if "length cs \<le> Suc k"
      using pow [OF that] by (simp add: digits_val_Cons algebra_simps)
    with Suc.IH [of "v + 10 ^ Suc k * digit_val c" cs] Cons show ?thesis
      by (auto simp del: power_Suc simp: power_Suc [of 10 k])
  qed
qed

text \<open>No intermediate value of the loop reaches \<open>2 ^ 16\<close>: the \<open>u16\<close> arithmetic is exact.\<close>

fun qvalue_trace :: "nat \<Rightarrow> nat \<Rightarrow> string \<Rightarrow> nat list" where
  "qvalue_trace factor value [] = [value]"
| "qvalue_trace factor value (n # cs) =
     value # (if is_digit n \<and> \<not> factor < 1
              then qvalue_trace (factor div 10) (value + factor * digit_val n) cs else [])"

lemma qvalue_trace_bound:
  "\<forall>u \<in> set (qvalue_trace factor v cs). u \<le> v + 10 * factor"
proof (induction factor v cs rule: qvalue_trace.induct)
  case (2 factor v n cs)
  have "factor * digit_val n + 10 * (factor div 10) \<le> 10 * factor" if "is_digit n"
  proof -
    have "factor * digit_val n \<le> 9 * factor"
      using mult_le_mono1 [OF digit_val_le [OF that], of factor] by (simp add: mult.commute)
    moreover have "10 * (factor div 10) \<le> factor" by simp
    ultimately show ?thesis by linarith
  qed
  with 2 show ?case by fastforce
qed simp


text \<open>
  Claim C39.  \<open>QValue::parse\<close> accepts exactly the strings of the RFC 7231 grammar and returns
  their value in thousandths: it accepts no longer fraction, no value above one, and no other text.
\<close>

theorem qvalue_parse_iff_grammar: "qvalue_parse s = Some v \<longleftrightarrow> qvalue_grammar s v"
proof -
  have d: "digit_val CHR ''0'' = 0" "digit_val CHR ''1'' = 1"
    by (simp_all add: digit_val_def byte_def)
  have step: "qvalue_digits 100 w fs = Some u \<longleftrightarrow> list_all is_digit fs \<and> length fs \<le> 3 \<and>
      u = w + digits_val fs * 10 ^ (3 - length fs) \<and> u \<le> 1000" for w fs u
    using qvalue_digits_pow [of 2 w fs u] by (simp add: numeral_3_eq_3)
  show ?thesis
  proof (cases "\<exists>q e c r. s = q # e # c # r")
    case False
    then have "qvalue_parse s = None"
      by (auto simp: qvalue_parse_def split: list.split)
    with False show ?thesis by (auto simp: qvalue_grammar_def)
  next
    case True
    then obtain q e c r where s: "s = q # e # c # r" by blast
    show ?thesis
      by (cases r) (auto simp: s qvalue_parse_def qvalue_grammar_def step d)
  qed
qed

section \<open>The choice is the best acceptable coding\<close>

lemma foldl_max_key:
  fixes k :: "'a \<Rightarrow> 'k::linorder"
  defines "m \<equiv> \<lambda>x xs. foldl (\<lambda>best y. if k best \<le> k y then y else best) x xs"
  shows "m x xs \<in> insert x (set xs) \<and> (\<forall>y \<in> insert x (set xs). k y \<le> k (m x xs))"
proof (induction xs arbitrary: x)
  case Nil
  then show ?case by (simp add: m_def)
next
  case (Cons y ys)
  have "m x (y # ys) = m (if k x \<le> k y then y else x) ys" by (simp add: m_def)
  with Cons.IH [of x] Cons.IH [of y] show ?case
    by (cases "k x \<le> k y") (auto dest: order_trans)
qed

lemma max_by_key_None: "max_by_key k xs = None \<longleftrightarrow> xs = []"
  by (cases xs) auto

lemma max_by_key_Some:
  assumes "max_by_key k xs = Some x"
  shows "x \<in> set xs \<and> (\<forall>y \<in> set xs. k y \<le> k x)"
proof (cases xs)
  case Nil
  with assms show ?thesis by simp
next
  case (Cons y ys)
  with assms foldl_max_key [of k y ys] show ?thesis by auto
qed

text \<open>\<open>best_of xs e\<close>: \<open>e\<close> has a positive weight in \<open>xs\<close>, the greatest by weight and then preference.\<close>

definition best_of :: "(encoding \<times> nat) list \<Rightarrow> encoding \<Rightarrow> bool" where
  "best_of xs e \<longleftrightarrow>
     (\<exists>q > 0. (e, q) \<in> set xs \<and> (\<forall>(e', q') \<in> set xs. 0 < q' \<longrightarrow> (q', e') \<le> (q, e)))"

lemma preferred_encoding_None:
  "preferred_encoding xs = None \<longleftrightarrow> (\<forall>(e, q) \<in> set xs. q = 0)"
  by (auto simp: preferred_encoding_def max_by_key_None filter_empty_conv)

lemma preferred_encoding_Some:
  assumes "preferred_encoding xs = Some e"
  shows "best_of xs e"
proof -
  obtain q where "max_by_key (\<lambda>(e, q). (q, e)) (filter (\<lambda>(e, q). q > 0) xs) = Some (e, q)"
    using assms by (auto simp: preferred_encoding_def)
  from max_by_key_Some [OF this] show ?thesis by (auto simp: best_of_def)
qed

lemma find_map_Some: "find_map g xs = Some y \<Longrightarrow> \<exists>x \<in> set xs. g x = Some y"
  by (induction xs) (auto split: option.splits)

lemma encoding_parse_supported: "encoding_parse s se = Some e \<Longrightarrow> is_supported se e"
  by (auto simp: encoding_parse_def split: if_splits)

lemma encoding_item_Some:
  "encoding_item se v = Some (e, q) \<Longrightarrow> encoding_parse (trim (fst (splitn2 CHR '';'' v))) se = Some e"
  by (cases "splitn2 CHR '';'' v") (auto simp: encoding_item_def split: option.splits)

lemma encodings_supported: "(e, q) \<in> set (encodings H h se) \<Longrightarrow> is_supported se e"
  by (auto simp: encodings_def set_map_filter_iff dest!: encoding_item_Some
      intro: encoding_parse_supported)

lemma all_supported_iff: "e \<in> set (all_supported_encodings se) \<longleftrightarrow> is_supported se e"
  by (cases e) (auto simp: all_supported_encodings_def)

lemma effective_qvalue_explicit:
  assumes "(e, q) \<in> set xs"
  shows "(e, effective_qvalue xs w e) \<in> set xs"
proof (cases "find (\<lambda>p. fst p = e) xs")
  case None
  with assms show ?thesis by (auto simp: find_None_iff)
next
  case (Some p)
  with find_SomeD [OF Some] show ?thesis by (cases p) (simp add: effective_qvalue_def)
qed

text \<open>The weighted list the choice is made from.\<close>

definition candidates ::
  "('h, 'v, 'x) http_api \<Rightarrow> 'h \<Rightarrow> supported \<Rightarrow> (encoding \<times> nat) list" where
  "candidates H h se =
     (case wildcard_qvalue H h of
        None \<Rightarrow> encodings H h se
      | Some w \<Rightarrow> map (\<lambda>e. (e, effective_qvalue (encodings H h se) w e)) (all_supported_encodings se))"

lemma from_headers_candidates:
  "from_headers H h se =
     (case preferred_encoding (candidates H h se) of
        Some e \<Rightarrow> Some e
      | None \<Rightarrow> if wildcard_qvalue H h \<noteq> None \<or> (Identity, 0) \<in> set (encodings H h se) then None
                else Some Identity)"
  by (auto simp: from_headers_def preferred_encoding_with_wildcard_def candidates_def list_ex_iff
      split: option.splits)

lemma candidates_supported: "(e, q) \<in> set (candidates H h se) \<Longrightarrow> is_supported se e"
  by (auto simp: candidates_def all_supported_iff dest: encodings_supported split: option.splits)

text \<open>
  Claim C37.  A coding that \<open>Encoding::from_headers\<close> returns is one the server supports, and it
  is the best of the acceptable ones (greatest q-value, then the server's preference); the only
  other answer is identity, when nothing listed is acceptable, there is no wildcard and identity
  was not refused.
\<close>

theorem from_headers_best:
  assumes "from_headers H h se = Some e"
  shows "is_supported se e \<and>
    (best_of (candidates H h se) e \<or>
     e = Identity \<and> (\<forall>(e', q) \<in> set (candidates H h se). q = 0) \<and> wildcard_qvalue H h = None \<and>
       (Identity, 0) \<notin> set (encodings H h se))"
proof (cases "preferred_encoding (candidates H h se)")
  case None
  with assms show ?thesis
    by (auto simp: from_headers_candidates preferred_encoding_None split: if_splits)
next
  case (Some e')
  with assms have e': "e' = e" by (simp add: from_headers_candidates)
  from Some have "best_of (candidates H h se) e'" by (rule preferred_encoding_Some)
  with e' show ?thesis by (auto simp: best_of_def dest: candidates_supported)
qed

theorem from_headers_best_witness:
  "from_headers (list_http ()) [(''accept-encoding'', ''gzip;q=0.5, br'')]
     \<lparr>sup_gzip = True, sup_deflate = False, sup_br = True, sup_zstd = False\<rparr> = Some Brotli \<and>
   is_supported \<lparr>sup_gzip = True, sup_deflate = False, sup_br = True, sup_zstd = False\<rparr> Brotli"
proof -
  have r: "from_headers (list_http ()) [(''accept-encoding'', ''gzip;q=0.5, br'')]
     \<lparr>sup_gzip = True, sup_deflate = False, sup_br = True, sup_zstd = False\<rparr> = Some Brotli"
    by code_simp
  show ?thesis using r from_headers_best [OF r] by blast
qed

text \<open>
  \<open>Encoding::from_headers\<close> signals 406 exactly when no coding is acceptable: every
  candidate has weight 0 and identity is excluded, by an explicit \<open>identity;q=0\<close> or a wildcard
  (which the candidates then already apply to identity).
\<close>

theorem from_headers_not_acceptable:
  "from_headers H h se = None \<longleftrightarrow>
     (\<forall>(e, q) \<in> set (candidates H h se). q = 0) \<and>
     ((Identity, 0) \<in> set (encodings H h se) \<or> wildcard_qvalue H h \<noteq> None)"
  by (cases "preferred_encoding (candidates H h se)")
    (auto simp: from_headers_candidates simp flip: preferred_encoding_None)

theorem from_headers_not_acceptable_witness:
  "from_headers (list_http ()) [(''accept-encoding'', ''gzip;q=0, *;q=0'')]
     \<lparr>sup_gzip = True, sup_deflate = True, sup_br = True, sup_zstd = True\<rparr> = None"
  by (subst from_headers_not_acceptable) code_simp

text \<open>
  A coding that the client lists, and lists with q-value 0 each time, is never chosen,
  with or without a wildcard.
\<close>

theorem from_headers_respects_refusal:
  assumes listed: "(e, 0) \<in> set (encodings H h se)"
    and only: "\<And>q. (e, q) \<in> set (encodings H h se) \<Longrightarrow> q = 0"
  shows "from_headers H h se \<noteq> Some e"
proof
  assume r: "from_headers H h se = Some e"
  have zero: "q = 0" if "(e, q) \<in> set (candidates H h se)" for q
    using that only effective_qvalue_explicit [OF listed]
    by (auto simp: candidates_def split: option.splits)
  from from_headers_best [OF r] show False
    using zero listed by (auto simp: best_of_def)
qed

theorem from_headers_respects_refusal_witness:
  "from_headers (list_http ()) [(''accept-encoding'', ''identity;q=0, *'')]
     \<lparr>sup_gzip = True, sup_deflate = True, sup_br = False, sup_zstd = False\<rparr> \<noteq> Some Identity"
proof (rule from_headers_respects_refusal)
  have e: "encodings (list_http ()) [(''accept-encoding'', ''identity;q=0, *'')]
     \<lparr>sup_gzip = True, sup_deflate = True, sup_br = False, sup_zstd = False\<rparr> = [(Identity, 0)]"
    by code_simp
  show "(Identity, 0) \<in> set (encodings (list_http ()) [(''accept-encoding'', ''identity;q=0, *'')]
     \<lparr>sup_gzip = True, sup_deflate = True, sup_br = False, sup_zstd = False\<rparr>)"
    by (simp add: e)
  show "q = 0" if "(Identity, q) \<in> set (encodings (list_http ())
     [(''accept-encoding'', ''identity;q=0, *'')]
     \<lparr>sup_gzip = True, sup_deflate = True, sup_br = False, sup_zstd = False\<rparr>)" for q
    using that by (simp add: e)
qed

text \<open>
  The name that a coding is written with in \<open>Content-Encoding\<close> is read back as that
  coding by a server that supports it, and as nothing by one that does not.
\<close>

theorem encoding_parse_to_str:
  "encoding_parse (enc_to_str e) se = (if is_supported se e then Some e else None)"
  by (cases e) (simp_all add: encoding_parse_def string_defs)

context header_map
begin

lemma from_headers_no_header:
  "hm_get_all H h ''accept-encoding'' = [] \<Longrightarrow> from_headers H h se = Some Identity"
  by (simp add: from_headers_def preferred_encoding_with_wildcard_def encodings_def
      wildcard_qvalue_def accept_items_def preferred_encoding_def Let_def List.map_filter_def)

end

end
