(* ===== verification/Cors_Headers.thy ===== *)
theory Cors_Headers
  imports Http
begin

text \<open>
  The eight parts of a CORS policy (\<open>cors/allow_*.rs\<close>, \<open>expose_headers.rs\<close>, \<open>max_age.rs\<close>,
  \<open>vary.rs\<close>), each with its constructors and the response header it computes from a request.
  \<open>'p\<close> are the request parts a predicate sees, \<open>'g\<close> is the state of the future an asynchronous
  origin predicate returns, polled by the argument \<open>pg\<close>.
\<close>

section \<open>Access-Control-Allow-Credentials\<close>

type_synonym header = "string \<times> string"

definition WILDCARD :: string where
  "WILDCARD = ''*''"

datatype 'p allow_credentials = CredYes | CredNo | CredPredicate "string \<Rightarrow> 'p \<Rightarrow> bool"

fun allow_credentials_from :: "bool \<Rightarrow> 'p allow_credentials" where
  "allow_credentials_from True = CredYes"
| "allow_credentials_from False = CredNo"

definition allow_credentials_is_true :: "'p allow_credentials \<Rightarrow> bool" where
  "allow_credentials_is_true c = (case c of CredYes \<Rightarrow> True | _ \<Rightarrow> False)"

definition then_some :: "bool \<Rightarrow> 'a \<Rightarrow> 'a option" where
  "then_some b x = (if b then Some x else None)"

fun allow_credentials_to_header :: "'p allow_credentials \<Rightarrow> string option \<Rightarrow> 'p \<Rightarrow> header option" where
  "allow_credentials_to_header CredYes og p = Some (''access-control-allow-credentials'', ''true'')"
| "allow_credentials_to_header CredNo og p = None"
| "allow_credentials_to_header (CredPredicate c) og p =
     (case og of None \<Rightarrow> None
      | Some v \<Rightarrow> then_some (c v p) (''access-control-allow-credentials'', ''true''))"

section \<open>Comma-separated constants: allowed methods, allowed and exposed headers\<close>

definition separated_by_commas :: "('h, string, 'x) http_api \<Rightarrow> string list \<Rightarrow> string option panics" where
  "separated_by_commas H vs =
     (case vs of
        [] \<Rightarrow> Inr None
      | v # rest \<Rightarrow>
          (case from_bytes H (foldl (\<lambda>r w. r @ '','' @ w) v rest) of
             Some b \<Rightarrow> Inr (Some b)
           | None \<Rightarrow> Inl ''called `Result::unwrap()` on an `Err` value''))"

datatype allow_headers = HeadersConst "string option" | HeadersMirror

definition allow_headers_any :: allow_headers where
  "allow_headers_any = HeadersConst (Some WILDCARD)"

definition allow_headers_list ::
  "('h, string, 'x) http_api \<Rightarrow> string list \<Rightarrow> allow_headers panics" where
  "allow_headers_list H ns = map_result HeadersConst (separated_by_commas H ns)"

definition allow_headers_is_wildcard :: "allow_headers \<Rightarrow> bool" where
  "allow_headers_is_wildcard a = (case a of HeadersConst (Some v) \<Rightarrow> v = WILDCARD | _ \<Rightarrow> False)"

definition varies_with_request_headers :: "allow_headers \<Rightarrow> bool" where
  "varies_with_request_headers a = (case a of HeadersConst _ \<Rightarrow> False | _ \<Rightarrow> True)"

fun allow_headers_to_header ::
  "('h, string, 'x) http_api \<Rightarrow> allow_headers \<Rightarrow> ('h, 'u, 'x) parts \<Rightarrow> header option" where
  "allow_headers_to_header H (HeadersConst v) p =
     map_option (\<lambda>w. (''access-control-allow-headers'', w)) v"
| "allow_headers_to_header H HeadersMirror p =
     map_option (\<lambda>w. (''access-control-allow-headers'', w))
       (hm_get H (req_headers p) ''access-control-request-headers'')"

datatype allow_methods = MethodsConst "string option" | MethodsMirror

definition allow_methods_any :: allow_methods where
  "allow_methods_any = MethodsConst (Some WILDCARD)"

definition allow_methods_exact :: "('h, string, 'x) http_api \<Rightarrow> string \<Rightarrow> allow_methods panics" where
  "allow_methods_exact H m =
     (case from_bytes H m of
        Some b \<Rightarrow> Inr (MethodsConst (Some b))
      | None \<Rightarrow> Inl ''called `Result::unwrap()` on an `Err` value'')"

definition allow_methods_list ::
  "('h, string, 'x) http_api \<Rightarrow> string list \<Rightarrow> allow_methods panics" where
  "allow_methods_list H ms =
     (if list_all (\<lambda>m. from_bytes H m \<noteq> None) ms
      then map_result MethodsConst (separated_by_commas H (List.map_filter (from_bytes H) ms))
      else Inl ''called `Result::unwrap()` on an `Err` value'')"

definition allow_methods_is_wildcard :: "allow_methods \<Rightarrow> bool" where
  "allow_methods_is_wildcard a = (case a of MethodsConst (Some v) \<Rightarrow> v = WILDCARD | _ \<Rightarrow> False)"

definition varies_with_request_method :: "allow_methods \<Rightarrow> bool" where
  "varies_with_request_method a = (case a of MethodsConst _ \<Rightarrow> False | _ \<Rightarrow> True)"

fun allow_methods_to_header ::
  "('h, string, 'x) http_api \<Rightarrow> allow_methods \<Rightarrow> ('h, 'u, 'x) parts \<Rightarrow> header option" where
  "allow_methods_to_header H (MethodsConst v) p =
     map_option (\<lambda>w. (''access-control-allow-methods'', w)) v"
| "allow_methods_to_header H MethodsMirror p =
     map_option (\<lambda>w. (''access-control-allow-methods'', w))
       (hm_get H (req_headers p) ''access-control-request-method'')"

datatype expose_headers = ExposeConst "string option"

definition expose_headers_any :: expose_headers where
  "expose_headers_any = ExposeConst (Some WILDCARD)"

definition expose_headers_list ::
  "('h, string, 'x) http_api \<Rightarrow> string list \<Rightarrow> expose_headers panics" where
  "expose_headers_list H ns = map_result ExposeConst (separated_by_commas H ns)"

definition expose_headers_is_wildcard :: "expose_headers \<Rightarrow> bool" where
  "expose_headers_is_wildcard a = (case a of ExposeConst (Some v) \<Rightarrow> v = WILDCARD | _ \<Rightarrow> False)"

fun expose_headers_to_header :: "expose_headers \<Rightarrow> 'p \<Rightarrow> header option" where
  "expose_headers_to_header (ExposeConst v) p =
     map_option (\<lambda>w. (''access-control-expose-headers'', w)) v"

section \<open>Access-Control-Allow-Origin\<close>

datatype ('p, 'g) allow_origin =
  OriginConst string
| OriginList "string list"
| OriginPredicate "string \<Rightarrow> 'p \<Rightarrow> bool"
| OriginAsync "string \<Rightarrow> 'p \<Rightarrow> 'g"

definition allow_origin_any :: "('p, 'g) allow_origin" where
  "allow_origin_any = OriginConst WILDCARD"

definition allow_origin_list :: "string list \<Rightarrow> ('p, 'g) allow_origin panics" where
  "allow_origin_list os =
     (if WILDCARD \<in> set os
      then Inl ''Wildcard origin (`*`) cannot be passed to `AllowOrigin::list`. Use `AllowOrigin::any()` instead''
      else Inr (OriginList os))"

definition allow_origin_mirror_request :: "('p, 'g) allow_origin" where
  "allow_origin_mirror_request = OriginPredicate (\<lambda>_ _. True)"

definition allow_origin_is_wildcard :: "('p, 'g) allow_origin \<Rightarrow> bool" where
  "allow_origin_is_wildcard a = (case a of OriginConst v \<Rightarrow> v = WILDCARD | _ \<Rightarrow> False)"

definition varies_with_origin :: "('p, 'g) allow_origin \<Rightarrow> bool" where
  "varies_with_origin a = (case a of OriginConst _ \<Rightarrow> False | _ \<Rightarrow> True)"

text \<open>\<open>AllowOriginFuture\<close>: an answer, or a boxed predicate future with the origin it is asked about.\<close>

datatype 'g allow_origin_future = OriginOk "header option" | OriginFuture 'g string

fun allow_origin_to_future ::
  "('p, 'g) allow_origin \<Rightarrow> string option \<Rightarrow> 'p \<Rightarrow> 'g allow_origin_future" where
  "allow_origin_to_future (OriginConst v) og p = OriginOk (Some (''access-control-allow-origin'', v))"
| "allow_origin_to_future (OriginList l) og p =
     OriginOk (case og of
       Some v \<Rightarrow> then_some (v \<in> set l) (''access-control-allow-origin'', v) | None \<Rightarrow> None)"
| "allow_origin_to_future (OriginPredicate c) og p =
     OriginOk (case og of
       Some v \<Rightarrow> then_some (c v p) (''access-control-allow-origin'', v) | None \<Rightarrow> None)"
| "allow_origin_to_future (OriginAsync k) og p =
     (case og of Some v \<Rightarrow> OriginFuture (k v p) v | None \<Rightarrow> OriginOk None)"

fun allow_origin_poll :: "('g, bool) poll_fn \<Rightarrow> ('g allow_origin_future, header option) poll_fn" where
  "allow_origin_poll pg (OriginOk res) = (Ready res, OriginOk None)"
| "allow_origin_poll pg (OriginFuture g v) =
     (case pg g of
        (Pending, g') \<Rightarrow> (Pending, OriginFuture g' v)
      | (Ready b, g') \<Rightarrow>
          (Ready (then_some b (''access-control-allow-origin'', v)), OriginFuture g' v))"

section \<open>Access-Control-Allow-Private-Network, Access-Control-Max-Age and Vary\<close>

datatype 'p allow_private_network = PrivYes | PrivNo | PrivPredicate "string \<Rightarrow> 'p \<Rightarrow> bool"

fun allow_private_network_from :: "bool \<Rightarrow> 'p allow_private_network" where
  "allow_private_network_from True = PrivYes"
| "allow_private_network_from False = PrivNo"

definition allow_private_network_to_header ::
  "('h, string, 'x) http_api \<Rightarrow> ('h, 'u, 'x) parts allow_private_network \<Rightarrow> string option \<Rightarrow>
     ('h, 'u, 'x) parts \<Rightarrow> header option" where
  "allow_private_network_to_header H a og p =
     (case a of
        PrivNo \<Rightarrow> None
      | _ \<Rightarrow>
          if hm_get H (req_headers p) ''access-control-request-private-network'' \<noteq> Some ''true'' then None
          else (case a of
                  PrivYes \<Rightarrow> Some (''access-control-allow-private-network'', ''true'')
                | PrivNo \<Rightarrow> None
                | PrivPredicate c \<Rightarrow>
                    (case og of None \<Rightarrow> None
                     | Some v \<Rightarrow> then_some (c v p) (''access-control-allow-private-network'', ''true''))))"

text \<open>A \<open>Duration\<close> is its nanoseconds; \<open>as_secs().into()\<close> writes whole seconds in decimal.\<close>

definition secs_value :: "nat \<Rightarrow> string" where
  "secs_value nanos = show_nat (nanos div 1000000000)"

datatype 'p max_age = MaxAgeExact "string option" | MaxAgeFn "string \<Rightarrow> 'p \<Rightarrow> nat"

definition max_age_exact :: "nat \<Rightarrow> 'p max_age" where
  "max_age_exact d = MaxAgeExact (Some (secs_value d))"

fun max_age_to_header :: "'p max_age \<Rightarrow> string option \<Rightarrow> 'p \<Rightarrow> header option" where
  "max_age_to_header (MaxAgeExact v) og p = map_option (\<lambda>w. (''access-control-max-age'', w)) v"
| "max_age_to_header (MaxAgeFn c) og p =
     (case og of None \<Rightarrow> None | Some v \<Rightarrow> Some (''access-control-max-age'', secs_value (c v p)))"

definition vary_to_header ::
  "('h, string, 'x) http_api \<Rightarrow> string list \<Rightarrow> header option panics" where
  "vary_to_header H vs =
     (case vs of
        [] \<Rightarrow> Inr None
      | v # rest \<Rightarrow>
          (case from_bytes H (foldl (\<lambda>r w. r @ '', '' @ w) v rest) of
             Some b \<Rightarrow> Inr (Some (''vary'', b))
           | None \<Rightarrow> Inl ''comma-separated list of HeaderValues is always a valid HeaderValue''))"

definition preflight_request_headers :: "string list" where
  "preflight_request_headers =
     [''origin'', ''access-control-request-method'', ''access-control-request-headers'']"

section \<open>Each part computes at most its own header\<close>

named_theorems header_names \<open>the name of the header a part computes\<close>

lemma then_some_Some [simp]: "then_some b x = Some y \<longleftrightarrow> b \<and> y = x"
  by (auto simp: then_some_def)

lemma allow_credentials_name [header_names]:
  "allow_credentials_to_header c og p = Some (n, v) \<Longrightarrow> n = ''access-control-allow-credentials'' \<and> v = ''true''"
  by (cases c) (auto split: option.splits)

lemma allow_private_network_name [header_names]:
  "allow_private_network_to_header H a og p = Some (n, v) \<Longrightarrow>
     n = ''access-control-allow-private-network'' \<and> v = ''true''"
  by (auto simp: allow_private_network_to_header_def split: allow_private_network.splits option.splits if_splits)

lemma allow_headers_name [header_names]:
  "allow_headers_to_header H a p = Some (n, v) \<Longrightarrow> n = ''access-control-allow-headers''"
  by (cases a) auto

lemma allow_methods_name [header_names]:
  "allow_methods_to_header H a p = Some (n, v) \<Longrightarrow> n = ''access-control-allow-methods''"
  by (cases a) auto

lemma expose_headers_name [header_names]:
  "expose_headers_to_header a p = Some (n, v) \<Longrightarrow> n = ''access-control-expose-headers''"
  by (cases a) auto

lemma max_age_name [header_names]:
  "max_age_to_header a og p = Some (n, v) \<Longrightarrow> n = ''access-control-max-age''"
  by (cases a) (auto split: option.splits)

lemma vary_name [header_names]: "vary_to_header H vs = Inr (Some (n, v)) \<Longrightarrow> n = ''vary''"
  by (auto simp: vary_to_header_def split: list.splits option.splits)

lemma allow_origin_to_future_ok:
  "allow_origin_to_future a og p = OriginOk (Some (n, v)) \<Longrightarrow> n = ''access-control-allow-origin''"
  by (cases a) (auto split: option.splits)

text \<open>What the origin part allows, once its future, if any, has answered \<open>b\<close>.\<close>

fun origin_answer :: "bool \<Rightarrow> 'g allow_origin_future \<Rightarrow> string option" where
  "origin_answer b (OriginOk res) = map_option snd res"
| "origin_answer b (OriginFuture g v) = then_some b v"

section \<open>Joining never panics on header values\<close>

lemma foldl_join: "foldl (\<lambda>r w. r @ d @ w) v ws = join_with d (v # ws)"
proof (induction ws arbitrary: v)
  case (Cons w ws)
  have "join_with d ((v @ d @ w) # ws) = v @ d @ join_with d (w # ws)"
    by (cases ws) auto
  with Cons [of "v @ d @ w"] show ?case by simp
qed simp

lemma permitted_join:
  "list_all permitted_byte d \<Longrightarrow> \<forall>w \<in> set ws. list_all permitted_byte w \<Longrightarrow>
     list_all permitted_byte (join_with d ws)"
  using set_join_with [of d ws] by (fastforce simp: list_all_iff)

context header_text
begin

lemma separated_by_commas_ok:
  assumes "\<forall>w \<in> set ws. list_all permitted_byte w"
  shows "separated_by_commas H ws =
    Inr (case ws of [] \<Rightarrow> None | _ \<Rightarrow> Some (join_with '','' ws))"
proof (cases ws)
  case (Cons v vs)
  have "list_all permitted_byte (join_with '','' ws)"
    using assms by (intro permitted_join) (simp_all add: permitted_byte_def byte_def)
  then show ?thesis
    by (simp add: Cons separated_by_commas_def from_bytes_permitted foldl_join [of "'',''", simplified])
qed (simp add: separated_by_commas_def)

lemma vary_to_header_ok:
  assumes "\<forall>w \<in> set ws. list_all permitted_byte w"
  shows "vary_to_header H ws =
    Inr (case ws of [] \<Rightarrow> None | _ \<Rightarrow> Some (''vary'', join_with '', '' ws))"
proof (cases ws)
  case (Cons v vs)
  have "list_all permitted_byte (join_with '', '' ws)"
    using assms by (intro permitted_join) (simp_all add: permitted_byte_def byte_def)
  then show ?thesis
    by (simp add: Cons vary_to_header_def from_bytes_permitted foldl_join [of "'', ''", simplified])
qed (simp add: vary_to_header_def)

lemma separated_by_commas_wildcard:
  "separated_by_commas H ns = Inr (Some ''*'') \<Longrightarrow> join_with '','' ns = ''*''"
  by (cases ns) (auto simp: separated_by_commas_def foldl_join [of "'',''", simplified]
      dest: from_bytes_keeps split: option.splits)

end

end
