(* ===== verification/Cors.thy ===== *)
theory Cors
  imports Cors_Headers
begin

text \<open>
  \<open>cors/mod.rs\<close>: the \<open>CorsLayer\<close> with its builder methods, the \<open>Cors\<close> service that answers
  preflight requests itself and decorates the response of every other request, and its response
  future.  The inner service is a function from its state and a request to its new state and a
  response future; the response future is polled by the argument \<open>pf\<close>, the future of an
  asynchronous origin predicate by \<open>pg\<close>.
\<close>

section \<open>The layer\<close>

record ('p, 'g) cors_layer =
  cl_allow_credentials :: "'p allow_credentials"
  cl_allow_headers :: allow_headers
  cl_allow_methods :: allow_methods
  cl_allow_origin :: "('p, 'g) allow_origin"
  cl_allow_private_network :: "'p allow_private_network"
  cl_expose_headers :: expose_headers
  cl_max_age :: "'p max_age"
  cl_vary :: "string list"
  cl_is_vary_custom :: bool

definition cors_layer_new :: "('p, 'g) cors_layer" where
  "cors_layer_new = \<lparr>cl_allow_credentials = CredNo, cl_allow_headers = HeadersConst None,
     cl_allow_methods = MethodsConst None, cl_allow_origin = OriginList [],
     cl_allow_private_network = PrivNo, cl_expose_headers = ExposeConst None,
     cl_max_age = MaxAgeExact None, cl_vary = preflight_request_headers,
     cl_is_vary_custom = False\<rparr>"

definition cors_layer_permissive :: "('p, 'g) cors_layer" where
  "cors_layer_permissive = cors_layer_new\<lparr>cl_allow_headers := allow_headers_any,
     cl_allow_methods := allow_methods_any, cl_allow_origin := allow_origin_any,
     cl_expose_headers := expose_headers_any\<rparr>"

definition cors_layer_very_permissive :: "('p, 'g) cors_layer" where
  "cors_layer_very_permissive = cors_layer_new\<lparr>cl_allow_credentials := allow_credentials_from True,
     cl_allow_headers := HeadersMirror, cl_allow_methods := MethodsMirror,
     cl_allow_origin := allow_origin_mirror_request\<rparr>"

definition cors_vary :: "string list \<Rightarrow> ('p, 'g) cors_layer \<Rightarrow> ('p, 'g) cors_layer" where
  "cors_vary ns l = l\<lparr>cl_vary := ns, cl_is_vary_custom := True\<rparr>"

definition update_vary_header :: "('p, 'g) cors_layer \<Rightarrow> ('p, 'g) cors_layer" where
  "update_vary_header l =
     (if \<not> cl_is_vary_custom l then
        (let vary_origin = varies_with_origin (cl_allow_origin l);
             vary_method = varies_with_request_method (cl_allow_methods l);
             vary_headers = varies_with_request_headers (cl_allow_headers l)
         in if \<not> (vary_origin \<or> vary_method \<or> vary_headers) then l\<lparr>cl_vary := []\<rparr>
            else l\<lparr>cl_vary := (if vary_origin then [''origin''] else []) @
                     (if vary_method then [''access-control-request-method''] else []) @
                     (if vary_headers then [''access-control-request-headers''] else [])\<rparr>)
      else l)"

definition ensure_usable_cors_rules :: "('p, 'g) cors_layer \<Rightarrow> unit panics" where
  "ensure_usable_cors_rules l =
     (if allow_credentials_is_true (cl_allow_credentials l) then
        (if allow_headers_is_wildcard (cl_allow_headers l)
         then Inl ''Invalid CORS configuration: Cannot combine `Access-Control-Allow-Credentials: true` with `Access-Control-Allow-Headers: *`''
         else if allow_methods_is_wildcard (cl_allow_methods l)
         then Inl ''Invalid CORS configuration: Cannot combine `Access-Control-Allow-Credentials: true` with `Access-Control-Allow-Methods: *`''
         else if allow_origin_is_wildcard (cl_allow_origin l)
         then Inl ''Invalid CORS configuration: Cannot combine `Access-Control-Allow-Credentials: true` with `Access-Control-Allow-Origin: *`''
         else if expose_headers_is_wildcard (cl_expose_headers l)
         then Inl ''Invalid CORS configuration: Cannot combine `Access-Control-Allow-Credentials: true` with `Access-Control-Expose-Headers: *`''
         else Inr ())
      else Inr ())"

section \<open>The service\<close>

record ('p, 'g, 's) cors =
  cors_inner :: 's
  cors_rules :: "('p, 'g) cors_layer"

definition cors_new :: "'s \<Rightarrow> ('p, 'g, 's) cors" where
  "cors_new s = \<lparr>cors_inner = s, cors_rules = cors_layer_new\<rparr>"

definition cors_permissive :: "'s \<Rightarrow> ('p, 'g, 's) cors" where
  "cors_permissive s = \<lparr>cors_inner = s, cors_rules = cors_layer_permissive\<rparr>"

definition cors_very_permissive :: "'s \<Rightarrow> ('p, 'g, 's) cors" where
  "cors_very_permissive s = \<lparr>cors_inner = s, cors_rules = cors_layer_very_permissive\<rparr>"

definition cors_layer_apply :: "('p, 'g) cors_layer \<Rightarrow> 's \<Rightarrow> ('p, 'g, 's) cors panics" where
  "cors_layer_apply l s =
     (case ensure_usable_cors_rules l of
        Inl m \<Rightarrow> Inl m
      | Inr _ \<Rightarrow> Inr \<lparr>cors_inner = s, cors_rules = update_vary_header l\<rparr>)"

definition cors_map_layer ::
  "(('p, 'g) cors_layer \<Rightarrow> ('p, 'g) cors_layer) \<Rightarrow> ('p, 'g, 's) cors \<Rightarrow> ('p, 'g, 's) cors" where
  "cors_map_layer f c = c\<lparr>cors_rules := update_vary_header (f (cors_rules c))\<rparr>"

datatype ('g, 'f, 'h) cors_future =
  CorsCall "'g allow_origin_future" bool 'f 'h
| PreflightCall "'g allow_origin_future" 'h

definition cors_poll_ready ::
  "('s \<Rightarrow> ('e + unit) poll \<times> 's) \<Rightarrow> ('p, 'g, 's) cors \<Rightarrow> (('e + unit) poll \<times> ('p, 'g, 's) cors) panics" where
  "cors_poll_ready inner_ready c =
     (case ensure_usable_cors_rules (cors_rules c) of
        Inl m \<Rightarrow> Inl m
      | Inr _ \<Rightarrow> (let (r, s) = inner_ready (cors_inner c) in Inr (r, c\<lparr>cors_inner := s\<rparr>)))"

definition cors_call ::
  "('h, string, 'x) http_api \<Rightarrow> ('s \<Rightarrow> ('h, 'u, 'x, 'b) request \<Rightarrow> 's \<times> 'f) \<Rightarrow>
     (('h, 'u, 'x) parts, 'g, 's) cors \<Rightarrow> ('h, 'u, 'x, 'b) request \<Rightarrow>
     ((('h, 'u, 'x) parts, 'g, 's) cors \<times> ('g, 'f, 'h) cors_future) panics" where
  "cors_call H inner_call c req =
     (let p = request_parts req; b = req_body req; l = cors_rules c;
          og = hm_get H (req_headers p) ''origin'';
          h1 = hm_extend_opt H (hm_new H) (allow_credentials_to_header (cl_allow_credentials l) og p);
          h2 = hm_extend_opt H h1 (allow_private_network_to_header H (cl_allow_private_network l) og p)
      in case vary_to_header H (cl_vary l) of
           Inl m \<Rightarrow> Inl m
         | Inr vary \<Rightarrow>
             (let h3 = hm_extend_opt H h2 vary;
                  aof = allow_origin_to_future (cl_allow_origin l) og p
              in if req_method p = ''OPTIONS'' then
                   (let h4 = hm_extend_opt H h3 (allow_methods_to_header H (cl_allow_methods l) p);
                        h5 = hm_extend_opt H h4 (allow_headers_to_header H (cl_allow_headers l) p);
                        h6 = hm_extend_opt H h5 (max_age_to_header (cl_max_age l) og p)
                    in Inr (c, PreflightCall aof h6))
                 else
                   (let h4 = hm_extend_opt H h3 (expose_headers_to_header (cl_expose_headers l) p);
                        (s, f) = inner_call (cors_inner c) (from_parts p b)
                    in Inr (c\<lparr>cors_inner := s\<rparr>, CorsCall aof False f h4))))"

section \<open>The response future\<close>

text \<open>The headers of the inner response, once the CORS headers \<open>h\<close> are complete.\<close>

definition decorate :: "('h, 'v, 'x) http_api \<Rightarrow> 'h \<Rightarrow> 'h \<Rightarrow> 'h" where
  "decorate H h rh =
     (let (vary, h') = hm_remove H h ''vary'';
          rh' = (case vary of Some v \<Rightarrow> hm_append H rh ''vary'' v | None \<Rightarrow> rh)
      in hm_extend H rh' h')"

fun cors_future_poll ::
  "('h, string, 'x) http_api \<Rightarrow> ('g, bool) poll_fn \<Rightarrow> ('f, 'e + ('h, 'x, 'b) response) poll_fn \<Rightarrow> 'b \<Rightarrow>
     (('g, 'f, 'h) cors_future, 'e + ('h, 'x, 'b) response) poll_fn" where
  "cors_future_poll H pg pf def_body (CorsCall aof complete f h) =
     (case (if complete then (Ready None, aof) else allow_origin_poll pg aof) of
        (Pending, aof') \<Rightarrow> (Pending, CorsCall aof' complete f h)
      | (Ready r, aof') \<Rightarrow>
          (let h' = hm_extend_opt H h r
           in case pf f of
                (Pending, f') \<Rightarrow> (Pending, CorsCall aof' True f' h')
              | (Ready (Inl e), f') \<Rightarrow> (Ready (Inl e), CorsCall aof' True f' h')
              | (Ready (Inr resp), f') \<Rightarrow>
                  (Ready (Inr (resp\<lparr>res_headers := decorate H h' (res_headers resp)\<rparr>)),
                   CorsCall aof' True f' (hm_new H))))"
| "cors_future_poll H pg pf def_body (PreflightCall aof h) =
     (case allow_origin_poll pg aof of
        (Pending, aof') \<Rightarrow> (Pending, PreflightCall aof' h)
      | (Ready r, aof') \<Rightarrow>
          (Ready (Inr ((response_new H def_body)\<lparr>res_headers := hm_extend_opt H h r\<rparr>)),
           PreflightCall aof' (hm_new H)))"

text \<open>The preflight future only waits for the origin decision.\<close>

lemma run_preflight:
  "run_future (cors_future_poll H pg pf db) n (PreflightCall aof h) =
     map_option (\<lambda>r. Inr ((response_new H db)\<lparr>res_headers := hm_extend_opt H h r\<rparr>))
       (run_future (allow_origin_poll pg) n aof)"
  by (induction n arbitrary: aof) (auto split: prod.splits poll.splits)

text \<open>A decorated call first waits for the origin decision, then for the inner service.\<close>

definition decorate_response ::
  "('h, string, 'x) http_api \<Rightarrow> 'h \<Rightarrow> ('h, 'x, 'b) response \<Rightarrow> ('h, 'x, 'b) response" where
  "decorate_response H h r = r\<lparr>res_headers := decorate H h (res_headers r)\<rparr>"

lemma run_cors_complete:
  "run_future (cors_future_poll H pg pf db) n (CorsCall aof True f h) =
     map_option (map_result (decorate_response H h)) (run_future pf n f)"
proof (induction n arbitrary: f)
  case (Suc n)
  obtain o1 f1 where pf: "pf f = (o1, f1)" by (cases "pf f")
  have h: "hm_extend_opt H h None = h" by (simp add: hm_extend_opt_def)
  show ?case
  proof (cases o1)
    case Pending
    with Suc pf h show ?thesis by simp
  next
    case (Ready v)
    with pf h show ?thesis by (cases v) (simp_all add: decorate_response_def)
  qed
qed simp

lemma run_cors_call:
  assumes "run_future (allow_origin_poll pg) n aof = Some r" and "run_future pf m f = Some v"
  shows "run_future (cors_future_poll H pg pf db) (n + m) (CorsCall aof False f h) =
    Some (map_result (decorate_response H (hm_extend_opt H h r)) v)"
  using assms(1)
proof (induction n arbitrary: aof)
  case (Suc n)
  obtain o1 a1 where po: "allow_origin_poll pg aof = (o1, a1)" by (cases "allow_origin_poll pg aof")
  show ?case
  proof (cases o1)
    case Pending
    with Suc po show ?thesis by simp
  next
    case (Ready q)
    with Suc.prems po have q: "q = r" by simp
    let ?h = "hm_extend_opt H h r"
    have none: "hm_extend_opt H ?h None = ?h" by (simp add: hm_extend_opt_def)
    have "run_future (cors_future_poll H pg pf db) (Suc (n + m)) (CorsCall aof False f h) =
        run_future (cors_future_poll H pg pf db) (Suc (n + m)) (CorsCall a1 True f ?h)"
      using po Ready q none by (cases "pf f") (auto split: poll.splits sum.splits)
    also have "\<dots> = Some (map_result (decorate_response H ?h) v)"
      using run_future_mono [OF assms(2), of "Suc (n + m)"]
      by (simp add: run_cors_complete del: run_future.simps)
    finally show ?thesis by simp
  qed
qed simp

lemma run_allow_origin_name:
  assumes "run_future (allow_origin_poll pg) n (allow_origin_to_future a og p) = Some (Some (k, v))"
  shows "k = ''access-control-allow-origin''"
proof (cases "allow_origin_to_future a og p")
  case (OriginOk res)
  with assms show ?thesis
    by (cases n) (auto dest: allow_origin_to_future_ok [of a og p])
next
  case (OriginFuture g w)
  have "run_future (allow_origin_poll pg) n (OriginFuture g w) = Some (Some (k, v)) \<Longrightarrow>
      k = ''access-control-allow-origin''"
    by (induction n arbitrary: g) (auto split: prod.splits poll.splits)
  with assms OriginFuture show ?thesis by simp
qed

section \<open>The headers of a response\<close>

definition pair_values :: "('n \<times> 'v) option \<Rightarrow> 'n \<Rightarrow> 'v list" where
  "pair_values p m = (case p of None \<Rightarrow> [] | Some (n, v) \<Rightarrow> if m = n then [v] else [])"

lemma pair_values_None [simp]: "pair_values None m = []"
  by (simp add: pair_values_def)

definition values_of :: "('n \<times> 'v) option list \<Rightarrow> 'n \<Rightarrow> 'v list" where
  "values_of ps m = concat (map (\<lambda>p. pair_values p m) ps)"

text \<open>The headers the parts of a policy compute for a preflight request and for any other.\<close>

definition preflight_pairs where
  "preflight_pairs H l p vary r =
     (let og = hm_get H (req_headers p) ''origin''
      in [allow_credentials_to_header (cl_allow_credentials l) og p,
          allow_private_network_to_header H (cl_allow_private_network l) og p, vary,
          allow_methods_to_header H (cl_allow_methods l) p,
          allow_headers_to_header H (cl_allow_headers l) p,
          max_age_to_header (cl_max_age l) og p, r])"

definition actual_pairs where
  "actual_pairs H l p vary r =
     (let og = hm_get H (req_headers p) ''origin''
      in [allow_credentials_to_header (cl_allow_credentials l) og p,
          allow_private_network_to_header H (cl_allow_private_network l) og p, vary,
          expose_headers_to_header (cl_expose_headers l) p, r])"

lemma pair_values_other:
  "(\<And>k v. q = Some (k, v) \<Longrightarrow> k = n) \<Longrightarrow> m \<noteq> n \<Longrightarrow> pair_values q m = []"
  by (auto simp: pair_values_def split: option.split)

lemma vary_other: "vary_to_header H vs = Inr q \<Longrightarrow> m \<noteq> ''vary'' \<Longrightarrow> pair_values q m = []"
  by (rule pair_values_other) (auto dest: vary_name)

lemma origin_other:
  "run_future (allow_origin_poll pg) n (allow_origin_to_future a og p) = Some r \<Longrightarrow>
     m \<noteq> ''access-control-allow-origin'' \<Longrightarrow> pair_values r m = []"
  by (rule pair_values_other) (auto dest: run_allow_origin_name)

lemmas part_others = allow_credentials_name [THEN conjunct1, THEN pair_values_other]
  allow_private_network_name [THEN conjunct1, THEN pair_values_other]
  allow_headers_name [THEN pair_values_other] allow_methods_name [THEN pair_values_other]
  expose_headers_name [THEN pair_values_other] max_age_name [THEN pair_values_other]

lemma actual_pairs_vary:
  assumes vary: "vary_to_header H (cl_vary l) = Inr vary"
    and r: "run_future (allow_origin_poll pg) n
      (allow_origin_to_future (cl_allow_origin l) (hm_get H (req_headers p) ''origin'') p) = Some r"
  shows "values_of (actual_pairs H l p vary r) ''vary'' = pair_values vary ''vary''"
  by (simp add: values_of_def actual_pairs_def Let_def part_others origin_other [OF r])

lemma take_pair_values [simp]: "take (Suc 0) (pair_values q m) = pair_values q m"
  by (auto simp: pair_values_def split: option.split)

definition origin_future where
  "origin_future H l p = allow_origin_to_future (cl_allow_origin l) (hm_get H (req_headers p) ''origin'') p"


context header_map
begin

lemma get_all_extend_values: "hm_get_all H (hm_extend_opt H h p) m = hm_get_all H h m @ pair_values p m"
  by (simp add: get_all_extend_opt pair_values_def)

lemma get_take: "(case hm_get H h m of None \<Rightarrow> [] | Some v \<Rightarrow> [v]) = take 1 (hm_get_all H h m)"
  by (simp add: get_first split: list.split)

end

context header_map
begin

lemma get_all_decorate:
  "hm_get_all H (decorate H h rh) m =
     (if m = ''vary'' then hm_get_all H rh m @ take 1 (hm_get_all H h m)
      else if hm_get_all H h m = [] then hm_get_all H rh m else hm_get_all H h m)"
proof (cases "hm_remove H h ''vary''")
  case (Pair v h')
  then have v: "v = hm_get H h ''vary''" and h': "\<And>k. hm_get_all H h' k = (if k = ''vary'' then [] else hm_get_all H h k)"
    using fst_remove [of h "''vary''"] get_all_remove [of h "''vary''"] by auto
  have "take 1 (hm_get_all H h ''vary'') = (case v of None \<Rightarrow> [] | Some w \<Rightarrow> [w])"
    by (simp only: v get_take)
  then show ?thesis
    by (cases v) (auto simp: decorate_def Pair get_all_extend h' get_all_append)
qed

end

context header_text
begin

lemma cors_call_preflight:
  assumes "req_method req = ''OPTIONS''" "vary_to_header H (cl_vary l) = Inr vary"
  shows "\<exists>h. cors_call H inner_call \<lparr>cors_inner = s, cors_rules = l\<rparr> req =
      Inr (\<lparr>cors_inner = s, cors_rules = l\<rparr>, PreflightCall (origin_future H l (request_parts req)) h) \<and>
    (\<forall>r m. hm_get_all H (hm_extend_opt H h r) m =
       values_of (preflight_pairs H l (request_parts req) vary r) m)"
  using assms
  by (simp add: cors_call_def Let_def origin_future_def get_all_extend_values get_all_new
      values_of_def preflight_pairs_def)

lemma cors_call_actual:
  assumes "req_method req \<noteq> ''OPTIONS''" "vary_to_header H (cl_vary l) = Inr vary"
    "inner_call s req = (s', f)"
  shows "\<exists>h. cors_call H inner_call \<lparr>cors_inner = s, cors_rules = l\<rparr> req =
      Inr (\<lparr>cors_inner = s', cors_rules = l\<rparr>,
        CorsCall (origin_future H l (request_parts req)) False f h) \<and>
    (\<forall>r m. hm_get_all H (hm_extend_opt H h r) m =
       values_of (actual_pairs H l (request_parts req) vary r) m)"
  using assms
  by (simp add: cors_call_def Let_def origin_future_def get_all_extend_values get_all_new
      values_of_def actual_pairs_def)

end

text \<open>
  Claim C5.  A preflight request is answered by the middleware itself: the inner service is not
  called and its state is unchanged; once the origin decision \<open>r\<close> is there the response is 200 with
  the default body, and its headers are exactly those the parts of the policy compute (credentials,
  private network, vary, methods, headers, max age, origin), nothing else.
\<close>

theorem cors_preflight_response:
  assumes H: "header_text H" and options: "req_method req = ''OPTIONS''"
    and vary: "vary_to_header H (cl_vary l) = Inr vary"
    and origin: "run_future (allow_origin_poll pg) n (origin_future H l (request_parts req)) = Some r"
  shows "\<exists>fut resp.
    cors_call H inner_call \<lparr>cors_inner = s, cors_rules = l\<rparr> req =
      Inr (\<lparr>cors_inner = s, cors_rules = l\<rparr>, fut) \<and>
    run_future (cors_future_poll H pg pf def_body) n fut = Some (Inr resp) \<and>
    res_status resp = 200 \<and> res_body resp = def_body \<and>
    (\<forall>m. hm_get_all H (res_headers resp) m =
       values_of (preflight_pairs H l (request_parts req) vary r) m)"
proof -
  from header_text.cors_call_preflight [OF H options vary, where inner_call = inner_call and s = s] obtain h where
    call: "cors_call H inner_call \<lparr>cors_inner = s, cors_rules = l\<rparr> req =
      Inr (\<lparr>cors_inner = s, cors_rules = l\<rparr>, PreflightCall (origin_future H l (request_parts req)) h)"
    and hs: "\<And>m. hm_get_all H (hm_extend_opt H h r) m =
       values_of (preflight_pairs H l (request_parts req) vary r) m"
    by blast
  show ?thesis
    by (intro exI conjI, rule call, simp only: run_preflight origin option.map)
      (simp_all add: response_new_def hs)
qed

text \<open>
  Claim C6.  Every other request goes to the inner service unchanged; once the origin decision and the
  inner response are there, the response keeps status and body, the \<open>Vary\<close> values of the inner
  response stay in front of the middleware's own, each CORS header the policy computes replaces the inner
  one, and every other header is the inner response's.
\<close>

theorem cors_actual_response:
  assumes H: "header_text H" and meth: "req_method req \<noteq> ''OPTIONS''"
    and vary: "vary_to_header H (cl_vary l) = Inr vary"
    and inner: "inner_call s req = (s', f)"
    and origin: "run_future (allow_origin_poll pg) n (origin_future H l (request_parts req)) = Some r"
    and answer: "run_future pf k f = Some (Inr resp)"
  shows "\<exists>fut resp'.
    cors_call H inner_call \<lparr>cors_inner = s, cors_rules = l\<rparr> req =
      Inr (\<lparr>cors_inner = s', cors_rules = l\<rparr>, fut) \<and>
    run_future (cors_future_poll H pg pf def_body) (n + k) fut = Some (Inr resp') \<and>
    res_status resp' = res_status resp \<and> res_body resp' = res_body resp \<and>
    (\<forall>m. hm_get_all H (res_headers resp') m =
      (let own = values_of (actual_pairs H l (request_parts req) vary r) m
       in if m = ''vary'' then hm_get_all H (res_headers resp) m @ own
          else if own = [] then hm_get_all H (res_headers resp) m else own))"
proof -
  from header_text.cors_call_actual [OF H meth vary, of inner_call s s' f] inner obtain h where
    call: "cors_call H inner_call \<lparr>cors_inner = s, cors_rules = l\<rparr> req =
      Inr (\<lparr>cors_inner = s', cors_rules = l\<rparr>,
        CorsCall (origin_future H l (request_parts req)) False f h)"
    and hs: "\<And>m. hm_get_all H (hm_extend_opt H h r) m =
       values_of (actual_pairs H l (request_parts req) vary r) m"
    by blast
  have run: "run_future (cors_future_poll H pg pf def_body) (n + k)
      (CorsCall (origin_future H l (request_parts req)) False f h) =
    Some (Inr (decorate_response H (hm_extend_opt H h r) resp))"
    using run_cors_call [OF origin answer] by simp
  have one: "take 1 (values_of (actual_pairs H l (request_parts req) vary r) ''vary'') =
      values_of (actual_pairs H l (request_parts req) vary r) ''vary''"
    using actual_pairs_vary [OF vary origin [unfolded origin_future_def]] by simp
  show ?thesis
    by (intro exI conjI, rule call, rule run)
      (use one in \<open>simp_all add: decorate_response_def Let_def hs header_map.get_all_decorate [OF header_text.axioms(1) [OF H]]\<close>)
qed

theorem cors_actual_response_witness:
  "\<exists>fut resp'.
    cors_call (list_http ()) (\<lambda>n q. (Suc n, (2, Inr (response_new (list_http ()) (req_body q)))))
      \<lparr>cors_inner = 0, cors_rules = (cors_layer_very_permissive :: (_, nat \<times> bool) cors_layer)\<rparr>
      \<lparr>req_method = ''GET'', req_uri = (), req_version = ''1.1'',
        req_headers = [(''origin'', ''https://a'')], req_extensions = (), req_body = ''b''\<rparr> =
      Inr (\<lparr>cors_inner = Suc 0, cors_rules = cors_layer_very_permissive\<rparr>, fut) \<and>
    run_future (cors_future_poll (list_http ()) ready_after ready_after []) (1 + 3) fut =
      Some (Inr resp' :: unit + _) \<and>
    hm_get_all (list_http ()) (res_headers resp') ''access-control-allow-origin'' = [''https://a'']"
proof -
  let ?H = "list_http ()"
  let ?q = "\<lparr>req_method = ''GET'', req_uri = (), req_version = ''1.1'',
        req_headers = [(''origin'', ''https://a'')], req_extensions = (), req_body = ''b''\<rparr>"
  let ?l = "cors_layer_very_permissive :: (_, nat \<times> bool) cors_layer"
  let ?resp = "response_new ?H ''b''"
  have v: "vary_to_header ?H (cl_vary ?l) =
      Inr (Some (''vary'', ''origin, access-control-request-method, access-control-request-headers''))"
    by code_simp
  have o: "run_future (allow_origin_poll ready_after) 1 (origin_future ?H ?l (request_parts ?q)) =
      Some (Some (''access-control-allow-origin'', ''https://a''))"
    by (simp add: origin_future_def cors_layer_very_permissive_def allow_origin_mirror_request_def
        list_http_defs then_some_def)
  have f: "run_future ready_after 3 ((2, Inr ?resp) :: nat \<times> (unit + _)) = Some (Inr ?resp)"
    by (simp add: eval_nat_numeral)
  have own: "values_of (actual_pairs ?H ?l (request_parts ?q)
      (Some (''vary'', ''origin, access-control-request-method, access-control-request-headers''))
      (Some (''access-control-allow-origin'', ''https://a''))) ''access-control-allow-origin'' = [''https://a'']"
    by code_simp
  have m: "req_method ?q \<noteq> ''OPTIONS''" by simp
  have i: "(\<lambda>n q. (Suc n, (2 :: nat, Inr (response_new ?H (req_body q)) :: unit + _))) 0 ?q =
      (Suc 0, (2, Inr ?resp))" by simp
  from cors_actual_response [where inner_call = "\<lambda>n q. (Suc n, (2 :: nat,
      Inr (response_new ?H (req_body q)) :: unit + _))" and s = "0 :: nat" and req = ?q and
      def_body = "[]", OF header_text_list_http m v i o f]
  show ?thesis by (elim exE conjE) (intro exI conjI, assumption+, simp add: own)
qed

theorem cors_preflight_response_witness:
  "\<exists>fut resp.
    cors_call (list_http ()) (\<lambda>n q. (Suc n, ()))
      \<lparr>cors_inner = 0, cors_rules = (cors_layer_permissive :: (_, nat \<times> bool) cors_layer)\<rparr>
      \<lparr>req_method = ''OPTIONS'', req_uri = (), req_version = ''1.1'', req_headers = [],
        req_extensions = (), req_body = ()\<rparr> =
      Inr (\<lparr>cors_inner = 0, cors_rules = cors_layer_permissive\<rparr>, fut) \<and>
    run_future (cors_future_poll (list_http ()) ready_after
      (\<lambda>u. (Pending :: (unit + _) poll, u)) ''none'') 1 fut = Some (Inr resp) \<and> res_status resp = 200"
proof -
  let ?H = "list_http ()"
  let ?q = "\<lparr>req_method = ''OPTIONS'', req_uri = (), req_version = ''1.1'', req_headers = [],
        req_extensions = (), req_body = ()\<rparr>"
  let ?l = "cors_layer_permissive :: (_, nat \<times> bool) cors_layer"
  have v: "vary_to_header ?H (cl_vary ?l) =
      Inr (Some (''vary'', ''origin, access-control-request-method, access-control-request-headers''))"
    by code_simp
  have o: "run_future (allow_origin_poll ready_after) 1 (origin_future ?H ?l (request_parts ?q)) =
      Some (Some (''access-control-allow-origin'', ''*''))"
    by (simp add: origin_future_def cors_layer_permissive_def allow_origin_any_def WILDCARD_def)
  have m: "req_method ?q = ''OPTIONS''" by simp
  from cors_preflight_response [OF header_text_list_http m v o, where s = "0 :: nat" and
      inner_call = "\<lambda>n q. (Suc n, ())" and def_body = "''none''" and
      pf = "\<lambda>u. (Pending :: (unit + _) poll, u)"]
  show ?thesis by (elim exE conjE) (intro exI conjI, assumption+)
qed

section \<open>Safety of the configuration\<close>

lemma run_cors_call_inv:
  "run_future (cors_future_poll H pg pf db) n (CorsCall aof False f h) = Some v \<Longrightarrow>
    \<exists>r u. run_future (allow_origin_poll pg) n aof = Some r \<and> run_future pf n f = Some u \<and>
      v = map_result (decorate_response H (hm_extend_opt H h r)) u"
proof (induction n arbitrary: aof)
  case (Suc n)
  obtain o1 a1 where po: "allow_origin_poll pg aof = (o1, a1)" by (cases "allow_origin_poll pg aof")
  show ?case
  proof (cases o1)
    case Pending
    with Suc.prems po have "run_future (cors_future_poll H pg pf db) n (CorsCall a1 False f h) = Some v"
      by simp
    from Suc.IH [OF this] obtain r u where
      r: "run_future (allow_origin_poll pg) n a1 = Some r" and u: "run_future pf n f = Some u" and
      v: "v = map_result (decorate_response H (hm_extend_opt H h r)) u"
      by blast
    have "run_future pf (Suc n) f = Some u" using u by (rule run_future_mono) simp
    moreover have "run_future (allow_origin_poll pg) (Suc n) aof = Some r" using r po Pending by simp
    ultimately show ?thesis using v by blast
  next
    case (Ready q)
    let ?h = "hm_extend_opt H h q"
    have none: "hm_extend_opt H ?h None = ?h" by (simp add: hm_extend_opt_def)
    have "run_future (cors_future_poll H pg pf db) (Suc n) (CorsCall aof False f h) =
        run_future (cors_future_poll H pg pf db) (Suc n) (CorsCall a1 True f ?h)"
      using po Ready none by (cases "pf f") (auto split: poll.splits sum.splits)
    with Suc.prems have "map_option (map_result (decorate_response H ?h)) (run_future pf (Suc n) f) = Some v"
      by (simp only: run_cors_complete)
    with po Ready show ?thesis by (auto simp del: run_future.simps(2) simp: run_future.simps(2) [of _ n aof])
  qed
qed simp

text \<open>What a run of the origin future can answer.\<close>

lemma run_allow_origin_future:
  "run_future (allow_origin_poll pg) n (OriginFuture g v) = Some r \<Longrightarrow>
     r = None \<or> r = Some (''access-control-allow-origin'', v)"
  by (induction n arbitrary: g) (auto simp: then_some_def split: prod.splits poll.splits if_splits)

lemma run_allow_origin_ok: "run_future (allow_origin_poll pg) n (OriginOk q) = Some r \<Longrightarrow> r = q"
  by (cases n) auto

lemma run_allow_origin_answer:
  assumes "run_future (allow_origin_poll pg) n (allow_origin_to_future a og p) = Some (Some (k, v))"
  shows "a = OriginConst v \<or> og = Some v \<and>
    (case a of OriginConst _ \<Rightarrow> False | OriginList l \<Rightarrow> v \<in> set l | OriginPredicate c \<Rightarrow> c v p | OriginAsync _ \<Rightarrow> True)"
  using assms
  by (cases a; cases og)
    (auto simp: then_some_def split: if_splits dest!: run_allow_origin_future run_allow_origin_ok)

lemma run_allow_origin_list:
  assumes "run_future (allow_origin_poll pg) n (allow_origin_to_future (OriginList os) og p) = Some r"
  shows "pair_values r ''access-control-allow-origin'' =
    (case og of Some v \<Rightarrow> if v \<in> set os then [v] else [] | None \<Rightarrow> [])"
  using assms by (cases n) (auto simp: pair_values_def then_some_def split: option.splits if_splits)

lemma preflight_pairs_origin:
  assumes vary: "vary_to_header H (cl_vary l) = Inr vary"
  shows "values_of (preflight_pairs H l p vary r) ''access-control-allow-origin'' =
    pair_values r ''access-control-allow-origin''"
  by (simp add: values_of_def preflight_pairs_def Let_def part_others vary_other [OF vary])

lemma actual_pairs_origin:
  assumes vary: "vary_to_header H (cl_vary l) = Inr vary"
  shows "values_of (actual_pairs H l p vary r) ''access-control-allow-origin'' =
    pair_values r ''access-control-allow-origin''"
  by (simp add: values_of_def actual_pairs_def Let_def part_others vary_other [OF vary])

lemma preflight_pairs_methods:
  assumes vary: "vary_to_header H (cl_vary l) = Inr vary"
    and r: "run_future (allow_origin_poll pg) n (origin_future H l p) = Some r"
  shows "values_of (preflight_pairs H l p vary r) ''access-control-allow-methods'' =
    pair_values (allow_methods_to_header H (cl_allow_methods l) p) ''access-control-allow-methods''"
    and "values_of (preflight_pairs H l p vary r) ''access-control-allow-headers'' =
    pair_values (allow_headers_to_header H (cl_allow_headers l) p) ''access-control-allow-headers''"
  by (simp_all add: values_of_def preflight_pairs_def Let_def part_others vary_other [OF vary]
      origin_other [OF r [unfolded origin_future_def]])

text \<open>
  The allow-list constructors and the check that runs when the layer is applied keep a policy that
  allows credentials free of wildcards.
\<close>

lemma cors_layer_apply_Inr:
  "cors_layer_apply l s = Inr c \<longleftrightarrow>
     ensure_usable_cors_rules l = Inr () \<and> c = \<lparr>cors_inner = s, cors_rules = update_vary_header l\<rparr>"
  by (auto simp: cors_layer_apply_def split: sum.splits)

lemma ensure_usable_iff:
  "ensure_usable_cors_rules l = Inr () \<longleftrightarrow>
     \<not> (allow_credentials_is_true (cl_allow_credentials l) \<and>
        (allow_headers_is_wildcard (cl_allow_headers l) \<or> allow_methods_is_wildcard (cl_allow_methods l) \<or>
         allow_origin_is_wildcard (cl_allow_origin l) \<or> expose_headers_is_wildcard (cl_expose_headers l)))"
  by (auto simp: ensure_usable_cors_rules_def)

lemma update_vary_header_fields [simp]:
  "cl_allow_credentials (update_vary_header l) = cl_allow_credentials l"
  "cl_allow_headers (update_vary_header l) = cl_allow_headers l"
  "cl_allow_methods (update_vary_header l) = cl_allow_methods l"
  "cl_allow_origin (update_vary_header l) = cl_allow_origin l"
  "cl_allow_private_network (update_vary_header l) = cl_allow_private_network l"
  "cl_expose_headers (update_vary_header l) = cl_expose_headers l"
  "cl_max_age (update_vary_header l) = cl_max_age l"
  "cl_is_vary_custom (update_vary_header l) = cl_is_vary_custom l"
  by (simp_all add: update_vary_header_def Let_def)

lemma preflight_value_cases:
  assumes vary: "vary_to_header H (cl_vary l) = Inr vary"
    and r: "run_future (allow_origin_poll pg) n (origin_future H l p) = Some r"
  shows "w \<in> set (values_of (preflight_pairs H l p vary r) ''access-control-allow-origin'') \<Longrightarrow>
      cl_allow_origin l = OriginConst w \<or> hm_get H (req_headers p) ''origin'' = Some w"
    and "w \<in> set (values_of (preflight_pairs H l p vary r) ''access-control-allow-methods'') \<Longrightarrow>
      cl_allow_methods l = MethodsConst (Some w) \<or>
      hm_get H (req_headers p) ''access-control-request-method'' = Some w"
    and "w \<in> set (values_of (preflight_pairs H l p vary r) ''access-control-allow-headers'') \<Longrightarrow>
      cl_allow_headers l = HeadersConst (Some w) \<or>
      hm_get H (req_headers p) ''access-control-request-headers'' = Some w"
  subgoal
    using run_allow_origin_answer r [unfolded origin_future_def]
    by (fastforce simp: preflight_pairs_origin [OF vary] pair_values_def split: option.splits if_splits)
  subgoal
    by (cases "cl_allow_methods l")
      (auto simp: preflight_pairs_methods [OF vary r] pair_values_def split: option.splits if_splits)
  subgoal
    by (cases "cl_allow_headers l")
      (auto simp: preflight_pairs_methods [OF vary r] pair_values_def split: option.splits if_splits)
  done


text \<open>
  With a list of allowed origins, and an inner service that does not set the header itself, a
  response to a non-preflight request allows an origin only if the request came from it and it is on
  the list; then it allows exactly that origin.
\<close>

theorem cors_origin_list_exact:
  assumes H: "header_text H" and list: "cl_allow_origin l = OriginList os"
    and meth: "req_method req \<noteq> ''OPTIONS''"
    and inner: "inner_call s req = (s', f)"
    and silent: "\<And>k u. run_future pf k f = Some (Inr u) \<Longrightarrow>
      hm_get_all H (res_headers u) ''access-control-allow-origin'' = []"
    and call: "cors_call H inner_call \<lparr>cors_inner = s, cors_rules = l\<rparr> req = Inr (c', fut)"
    and run: "run_future (cors_future_poll H pg pf def_body) n fut = Some (Inr resp)"
  shows "hm_get_all H (res_headers resp) ''access-control-allow-origin'' =
    (case hm_get H (req_headers req) ''origin'' of
       Some v \<Rightarrow> if v \<in> set os then [v] else [] | None \<Rightarrow> [])"
proof -
  let ?p = "request_parts req" and ?n = "''access-control-allow-origin''"
  obtain vary where vary: "vary_to_header H (cl_vary l) = Inr vary"
    using call by (cases "vary_to_header H (cl_vary l)") (simp_all add: cors_call_def Let_def)
  obtain h where fut: "fut = CorsCall (origin_future H l ?p) False f h"
    and hs: "\<And>r m. hm_get_all H (hm_extend_opt H h r) m = values_of (actual_pairs H l ?p vary r) m"
    using header_text.cors_call_actual [OF H meth vary, of inner_call s s' f] inner call by auto
  obtain r w where r: "run_future (allow_origin_poll pg) n (origin_future H l ?p) = Some r"
    and w: "run_future pf n f = Some w"
    and out: "Inr resp = map_result (decorate_response H (hm_extend_opt H h r)) w"
    using run_cors_call_inv [OF run [unfolded fut]] by blast
  from out obtain u where w': "w = Inr u" and resp: "resp = decorate_response H (hm_extend_opt H h r) u"
    by (cases w) auto
  from w w' have u: "run_future pf n f = Some (Inr u)" by simp
  have "hm_get_all H (res_headers resp) ?n = pair_values r ?n"
    using silent [OF u]
    by (simp add: resp decorate_response_def header_map.get_all_decorate [OF header_text.axioms(1) [OF H]]
        hs actual_pairs_origin [OF vary])
  then show ?thesis
    using run_allow_origin_list r by (simp add: origin_future_def list)
qed

theorem cors_origin_list_exact_witness:
  "\<exists>c' fut resp.
    cors_call (list_http ()) (\<lambda>n q. (n, (0, Inr (response_new (list_http ()) ()))))
      \<lparr>cors_inner = (), cors_rules = (cors_layer_new :: (_, nat \<times> bool) cors_layer)
         \<lparr>cl_allow_origin := OriginList [''https://a'', ''https://b'']\<rparr>\<rparr>
      \<lparr>req_method = ''GET'', req_uri = (), req_version = ''1.1'',
        req_headers = [(''origin'', ''https://b'')], req_extensions = (), req_body = ()\<rparr> = Inr (c', fut) \<and>
    run_future (cors_future_poll (list_http ()) ready_after ready_after ()) 2 fut = Some (Inr resp :: unit + _) \<and>
    hm_get_all (list_http ()) (res_headers resp) ''access-control-allow-origin'' = [''https://b'']"
proof -
  let ?H = "list_http ()"
  let ?q = "\<lparr>req_method = ''GET'', req_uri = (), req_version = ''1.1'',
        req_headers = [(''origin'', ''https://b'')], req_extensions = (), req_body = ()\<rparr>"
  let ?l = "(cors_layer_new :: (_, nat \<times> bool) cors_layer)\<lparr>cl_allow_origin := OriginList [''https://a'', ''https://b'']\<rparr>"
  let ?inner = "\<lambda>n q. (n, (0 :: nat, Inr (response_new ?H ()) :: unit + _))"
  let ?f = "(0 :: nat, Inr (response_new ?H ()) :: unit + _)"
  have l: "cl_allow_origin ?l = OriginList [''https://a'', ''https://b'']" by simp
  have m: "req_method ?q \<noteq> ''OPTIONS''" by simp
  have silent: "hm_get_all ?H (res_headers u) ''access-control-allow-origin'' = []"
    if "run_future ready_after k ?f = Some (Inr u)" for k u
    using that by (cases k) (auto simp: list_http_defs)
  obtain c' fut where call: "cors_call ?H ?inner \<lparr>cors_inner = (), cors_rules = ?l\<rparr> ?q = Inr (c', fut)"
    and fut: "\<exists>resp. run_future (cors_future_poll ?H ready_after ready_after ()) 2 fut = Some (Inr resp)"
    by (simp add: cors_call_def Let_def cors_layer_new_def vary_to_header_def preflight_request_headers_def
        list_http_defs permitted_byte_def byte_def eval_nat_numeral then_some_def)
  from fut obtain resp where run:
    "run_future (cors_future_poll ?H ready_after ready_after ()) 2 fut = Some (Inr resp)" by blast
  have "hm_get_all ?H (res_headers resp) ''access-control-allow-origin'' =
      (case hm_get ?H (req_headers ?q) ''origin'' of
         Some v \<Rightarrow> if v \<in> set [''https://a'', ''https://b''] then [v] else [] | None \<Rightarrow> [])"
    by (rule cors_origin_list_exact [where inner_call = ?inner and s = "()" and s' = "()" and f = ?f,
          OF header_text_list_http l m _ silent call run]) simp_all
  with call run show ?thesis by (auto simp: list_http_defs)
qed


section \<open>Vary covers what the answer depends on\<close>

definition origin_only :: "('p, 'g) allow_origin \<Rightarrow> bool" where
  "origin_only a \<longleftrightarrow>
     (case a of OriginPredicate c \<Rightarrow> \<forall>v p q. c v p = c v q
      | OriginAsync k \<Rightarrow> \<forall>v p q. k v p = k v q | _ \<Rightarrow> True)"

text \<open>
  Unless the caller chose its own \<open>Vary\<close>, the layer computes one that covers the answer: two
  requests that agree on every request header it names get the same allowed methods, allowed headers
  and origin decision (for origin predicates that look at the origin only).
\<close>

lemma computed_vary_sound:
  assumes custom: "\<not> cl_is_vary_custom l"
    and same: "\<And>n. n \<in> set (cl_vary (update_vary_header l)) \<Longrightarrow>
      hm_get H (req_headers p) n = hm_get H (req_headers q) n"
    and only: "origin_only (cl_allow_origin l)"
  shows "allow_methods_to_header H (cl_allow_methods l) p = allow_methods_to_header H (cl_allow_methods l) q \<and>
    allow_headers_to_header H (cl_allow_headers l) p = allow_headers_to_header H (cl_allow_headers l) q \<and>
    origin_future H l p = origin_future H l q"
proof -
  have o: "varies_with_origin (cl_allow_origin l) \<Longrightarrow>
      hm_get H (req_headers p) ''origin'' = hm_get H (req_headers q) ''origin''"
    and m: "varies_with_request_method (cl_allow_methods l) \<Longrightarrow>
      hm_get H (req_headers p) ''access-control-request-method'' =
      hm_get H (req_headers q) ''access-control-request-method''"
    and h: "varies_with_request_headers (cl_allow_headers l) \<Longrightarrow>
      hm_get H (req_headers p) ''access-control-request-headers'' =
      hm_get H (req_headers q) ''access-control-request-headers''"
    using same custom by (auto simp: update_vary_header_def Let_def)
  have "allow_methods_to_header H (cl_allow_methods l) p = allow_methods_to_header H (cl_allow_methods l) q"
    using m by (cases "cl_allow_methods l") (auto simp: varies_with_request_method_def)
  moreover have "allow_headers_to_header H (cl_allow_headers l) p = allow_headers_to_header H (cl_allow_headers l) q"
    using h by (cases "cl_allow_headers l") (auto simp: varies_with_request_headers_def)
  moreover have "origin_future H l p = origin_future H l q"
    using o only unfolding origin_only_def origin_future_def
    by (cases "cl_allow_origin l") (auto simp: varies_with_origin_def then_some_def split: option.split)
  ultimately show ?thesis by blast
qed

end
