(* ===== verification/Cors_Builder.thy ===== *)
theory Cors_Builder
  imports Cors
begin

text \<open>
  The builder of a CORS policy: the constructors and conversions of \<open>cors/allow_*.rs\<close>, \<open>expose_headers.rs\<close>,
  \<open>max_age.rs\<close> and \<open>vary.rs\<close> that only wrap a value, the setters of \<open>CorsLayer\<close> and those of \<open>Cors\<close>, which
  go through \<open>cors_map_layer\<close>.  A conversion \<open>Into<...>\<close> is applied by the caller, so that each setter takes
  the converted value.  The relation \<open>cors_built\<close> is the set of services these operations make; on all
  of them the computed \<open>Vary\<close> header follows the rules.
\<close>

section \<open>Constructors of the parts\<close>

definition allow_credentials_yes :: "'p allow_credentials" where
  "allow_credentials_yes = CredYes"

definition allow_credentials_predicate :: "(string \<Rightarrow> 'p \<Rightarrow> bool) \<Rightarrow> 'p allow_credentials" where
  "allow_credentials_predicate f = CredPredicate f"

definition allow_headers_mirror_request :: allow_headers where
  "allow_headers_mirror_request = HeadersMirror"

datatype any = Any

fun allow_headers_from_any :: "any \<Rightarrow> allow_headers" where
  "allow_headers_from_any Any = allow_headers_any"

definition allow_headers_from_vec ::
  "('h, string, 'x) http_api \<Rightarrow> string list \<Rightarrow> allow_headers panics" where
  "allow_headers_from_vec H ns = allow_headers_list H ns"

definition allow_methods_mirror_request :: allow_methods where
  "allow_methods_mirror_request = MethodsMirror"

fun allow_methods_from_any :: "any \<Rightarrow> allow_methods" where
  "allow_methods_from_any Any = allow_methods_any"

definition allow_methods_from_method :: "('h, string, 'x) http_api \<Rightarrow> string \<Rightarrow> allow_methods panics" where
  "allow_methods_from_method H m = allow_methods_exact H m"

definition allow_methods_from_vec ::
  "('h, string, 'x) http_api \<Rightarrow> string list \<Rightarrow> allow_methods panics" where
  "allow_methods_from_vec H ms = allow_methods_list H ms"

definition allow_origin_exact :: "string \<Rightarrow> ('p, 'g) allow_origin" where
  "allow_origin_exact v = OriginConst v"

definition allow_origin_predicate :: "(string \<Rightarrow> 'p \<Rightarrow> bool) \<Rightarrow> ('p, 'g) allow_origin" where
  "allow_origin_predicate f = OriginPredicate f"

definition allow_origin_async_predicate :: "(string \<Rightarrow> 'p \<Rightarrow> 'g) \<Rightarrow> ('p, 'g) allow_origin" where
  "allow_origin_async_predicate f = OriginAsync f"

fun allow_origin_from_any :: "any \<Rightarrow> ('p, 'g) allow_origin" where
  "allow_origin_from_any Any = allow_origin_any"

definition allow_origin_from_value :: "string \<Rightarrow> ('p, 'g) allow_origin" where
  "allow_origin_from_value v = allow_origin_exact v"

definition allow_origin_from_vec :: "string list \<Rightarrow> ('p, 'g) allow_origin panics" where
  "allow_origin_from_vec os = allow_origin_list os"

definition allow_private_network_yes :: "'p allow_private_network" where
  "allow_private_network_yes = PrivYes"

definition allow_private_network_predicate :: "(string \<Rightarrow> 'p \<Rightarrow> bool) \<Rightarrow> 'p allow_private_network" where
  "allow_private_network_predicate f = PrivPredicate f"

fun expose_headers_from_any :: "any \<Rightarrow> expose_headers" where
  "expose_headers_from_any Any = expose_headers_any"

definition expose_headers_from_vec ::
  "('h, string, 'x) http_api \<Rightarrow> string list \<Rightarrow> expose_headers panics" where
  "expose_headers_from_vec H ns = expose_headers_list H ns"

definition max_age_dynamic :: "(string \<Rightarrow> 'p \<Rightarrow> nat) \<Rightarrow> 'p max_age" where
  "max_age_dynamic f = MaxAgeFn f"

definition max_age_from_duration :: "nat \<Rightarrow> 'p max_age" where
  "max_age_from_duration d = max_age_exact d"

definition vary_list :: "string list \<Rightarrow> string list" where
  "vary_list ns = ns"

definition vary_from_vec :: "string list \<Rightarrow> string list" where
  "vary_from_vec ns = vary_list ns"

section \<open>Setters of the layer\<close>

definition layer_allow_credentials :: "'p allow_credentials \<Rightarrow> ('p, 'g) cors_layer \<Rightarrow> ('p, 'g) cors_layer" where
  "layer_allow_credentials v l = l\<lparr>cl_allow_credentials := v\<rparr>"

definition layer_allow_headers :: "allow_headers \<Rightarrow> ('p, 'g) cors_layer \<Rightarrow> ('p, 'g) cors_layer" where
  "layer_allow_headers v l = l\<lparr>cl_allow_headers := v\<rparr>"

definition layer_max_age :: "'p max_age \<Rightarrow> ('p, 'g) cors_layer \<Rightarrow> ('p, 'g) cors_layer" where
  "layer_max_age v l = l\<lparr>cl_max_age := v\<rparr>"

definition layer_allow_methods :: "allow_methods \<Rightarrow> ('p, 'g) cors_layer \<Rightarrow> ('p, 'g) cors_layer" where
  "layer_allow_methods v l = l\<lparr>cl_allow_methods := v\<rparr>"

definition layer_allow_origin :: "('p, 'g) allow_origin \<Rightarrow> ('p, 'g) cors_layer \<Rightarrow> ('p, 'g) cors_layer" where
  "layer_allow_origin v l = l\<lparr>cl_allow_origin := v\<rparr>"

definition layer_expose_headers :: "expose_headers \<Rightarrow> ('p, 'g) cors_layer \<Rightarrow> ('p, 'g) cors_layer" where
  "layer_expose_headers v l = l\<lparr>cl_expose_headers := v\<rparr>"

definition layer_allow_private_network ::
  "'p allow_private_network \<Rightarrow> ('p, 'g) cors_layer \<Rightarrow> ('p, 'g) cors_layer" where
  "layer_allow_private_network v l = l\<lparr>cl_allow_private_network := v\<rparr>"

definition cors_layer_default :: "('p, 'g) cors_layer" where
  "cors_layer_default = cors_layer_new"

section \<open>Setters of the service\<close>

definition cors_layer_fn :: "('p, 'g) cors_layer" where
  "cors_layer_fn = cors_layer_new"

definition cors_allow_credentials :: "('p, 'g, 's) cors \<Rightarrow> 'p allow_credentials \<Rightarrow> ('p, 'g, 's) cors" where
  "cors_allow_credentials c v = cors_map_layer (layer_allow_credentials v) c"

definition cors_allow_headers :: "('p, 'g, 's) cors \<Rightarrow> allow_headers \<Rightarrow> ('p, 'g, 's) cors" where
  "cors_allow_headers c v = cors_map_layer (layer_allow_headers v) c"

definition cors_max_age :: "('p, 'g, 's) cors \<Rightarrow> 'p max_age \<Rightarrow> ('p, 'g, 's) cors" where
  "cors_max_age c v = cors_map_layer (layer_max_age v) c"

definition cors_allow_methods :: "('p, 'g, 's) cors \<Rightarrow> allow_methods \<Rightarrow> ('p, 'g, 's) cors" where
  "cors_allow_methods c v = cors_map_layer (layer_allow_methods v) c"

definition cors_allow_origin :: "('p, 'g, 's) cors \<Rightarrow> ('p, 'g) allow_origin \<Rightarrow> ('p, 'g, 's) cors" where
  "cors_allow_origin c v = cors_map_layer (layer_allow_origin v) c"

definition cors_expose_headers :: "('p, 'g, 's) cors \<Rightarrow> expose_headers \<Rightarrow> ('p, 'g, 's) cors" where
  "cors_expose_headers c v = cors_map_layer (layer_expose_headers v) c"

definition cors_allow_private_network ::
  "('p, 'g, 's) cors \<Rightarrow> 'p allow_private_network \<Rightarrow> ('p, 'g, 's) cors" where
  "cors_allow_private_network c v = cors_map_layer (layer_allow_private_network v) c"

lemmas layer_setter_defs = layer_allow_credentials_def layer_allow_headers_def layer_max_age_def
  layer_allow_methods_def layer_allow_origin_def layer_expose_headers_def layer_allow_private_network_def

lemmas cors_setter_defs = cors_allow_credentials_def cors_allow_headers_def cors_max_age_def
  cors_allow_methods_def cors_allow_origin_def cors_expose_headers_def cors_allow_private_network_def

section \<open>What the builder makes\<close>

text \<open>The layers of the public methods, in any order and number.\<close>

inductive layer_built :: "('p, 'g) cors_layer \<Rightarrow> bool" where
  built_new: "layer_built cors_layer_new"
| built_permissive: "layer_built cors_layer_permissive"
| built_very_permissive: "layer_built cors_layer_very_permissive"
| built_credentials: "layer_built l \<Longrightarrow> layer_built (layer_allow_credentials a l)"
| built_headers: "layer_built l \<Longrightarrow> layer_built (layer_allow_headers h l)"
| built_age: "layer_built l \<Longrightarrow> layer_built (layer_max_age m l)"
| built_methods: "layer_built l \<Longrightarrow> layer_built (layer_allow_methods ms l)"
| built_origin: "layer_built l \<Longrightarrow> layer_built (layer_allow_origin og l)"
| built_expose: "layer_built l \<Longrightarrow> layer_built (layer_expose_headers e l)"
| built_private: "layer_built l \<Longrightarrow> layer_built (layer_allow_private_network pn l)"
| built_vary: "layer_built l \<Longrightarrow> layer_built (cors_vary ns l)"

text \<open>The services: a layer applied to an inner service, or a service given its first setter by a method of
  \<open>Cors\<close>, and then any setters.\<close>

definition cors_setter :: "(('p, 'g) cors_layer \<Rightarrow> ('p, 'g) cors_layer) \<Rightarrow> bool" where
  "cors_setter f \<longleftrightarrow> f \<in> range layer_allow_credentials \<union> range layer_allow_headers \<union>
     range layer_max_age \<union> range layer_allow_methods \<union> range layer_allow_origin \<union>
     range layer_expose_headers \<union> range layer_allow_private_network \<union> range cors_vary"

inductive cors_built :: "('p, 'g, 's) cors \<Rightarrow> bool" where
  built_layer: "layer_built l \<Longrightarrow> cors_layer_apply l s = Inr c \<Longrightarrow> cors_built c"
| built_cors: "layer_built l \<Longrightarrow> cors_setter f \<Longrightarrow> cors_built (cors_map_layer f \<lparr>cors_inner = s, cors_rules = l\<rparr>)"
| built_more: "cors_built c \<Longrightarrow> cors_setter f \<Longrightarrow> cors_built (cors_map_layer f c)"

lemma update_vary_idem [simp]: "update_vary_header (update_vary_header l) = update_vary_header l"
  by (simp add: update_vary_header_def Let_def)

lemma update_vary_keeps [simp]:
  "cl_allow_credentials (update_vary_header l) = cl_allow_credentials l"
  "cl_allow_headers (update_vary_header l) = cl_allow_headers l"
  "cl_allow_methods (update_vary_header l) = cl_allow_methods l"
  "cl_allow_origin (update_vary_header l) = cl_allow_origin l"
  "cl_allow_private_network (update_vary_header l) = cl_allow_private_network l"
  "cl_expose_headers (update_vary_header l) = cl_expose_headers l"
  "cl_max_age (update_vary_header l) = cl_max_age l"
  "cl_is_vary_custom (update_vary_header l) = cl_is_vary_custom l"
  by (simp_all add: update_vary_header_def Let_def)

lemma cors_map_layer_vary: "update_vary_header (cors_rules (cors_map_layer f c)) = cors_rules (cors_map_layer f c)"
  by (simp add: cors_map_layer_def)

text \<open>The rules of a built service have the \<open>Vary\<close> header that \<open>update_vary_header\<close> computes.\<close>

lemma cors_built_vary: "cors_built c \<Longrightarrow> update_vary_header (cors_rules c) = cors_rules c"
proof (induction rule: cors_built.induct)
  case (built_layer l s c)
  then have "cors_rules c = update_vary_header l"
    by (auto simp: cors_layer_apply_def split: sum.splits)
  then show ?case by simp
qed (rule cors_map_layer_vary)+

text \<open>
  A service made by \<open>Cors::new\<close>, or \<open>Cors::permissive\<close>, without a setter does not have it: it answers
  with all three names although nothing depends on them.
\<close>

lemma cors_permissive_vary:
  "cl_vary (cors_rules (cors_permissive s)) = preflight_request_headers \<and>
   cl_vary (update_vary_header (cors_rules (cors_permissive s))) = []"
  by (simp add: cors_permissive_def cors_layer_permissive_def cors_layer_new_def update_vary_header_def
      allow_origin_any_def allow_headers_any_def allow_methods_any_def varies_with_origin_def
      varies_with_request_method_def varies_with_request_headers_def)

text \<open>
  The computed header does not look at the predicate of the credentials: with a constant origin the
  answer depends on the request's origin and \<open>Vary\<close> does not name it.
\<close>

lemma credentials_predicate_not_in_vary:
  fixes l :: "('p, 'g) cors_layer"
  defines "l \<equiv> layer_allow_credentials (allow_credentials_predicate (\<lambda>og _. og = ''https://a''))
    (layer_allow_origin (allow_origin_exact ''https://a'') cors_layer_new)"
  shows "cl_vary (update_vary_header l) = [] \<and>
    allow_credentials_to_header (cl_allow_credentials l) (Some ''https://a'') p \<noteq>
    allow_credentials_to_header (cl_allow_credentials l) (Some ''https://b'') p"
  by (simp add: l_def layer_setter_defs allow_credentials_predicate_def allow_origin_exact_def cors_layer_new_def
      update_vary_header_def varies_with_origin_def varies_with_request_method_def varies_with_request_headers_def
      then_some_def)

text \<open>
  Building the layer first and wrapping the service, or wrapping first, gives the same service, as
  long as the layer is usable.
\<close>

definition computed_vary :: "('p, 'g) allow_origin \<Rightarrow> allow_methods \<Rightarrow> allow_headers \<Rightarrow> string list" where
  "computed_vary og ms hs = (if varies_with_origin og then [''origin''] else []) @
     (if varies_with_request_method ms then [''access-control-request-method''] else []) @
     (if varies_with_request_headers hs then [''access-control-request-headers''] else [])"

lemma update_vary_header_eq:
  "update_vary_header l = (if cl_is_vary_custom l then l else
     l\<lparr>cl_vary := computed_vary (cl_allow_origin l) (cl_allow_methods l) (cl_allow_headers l)\<rparr>)"
  by (simp add: update_vary_header_def computed_vary_def)

lemma update_vary_setters:
  "update_vary_header (layer_allow_credentials v1 (update_vary_header l)) = update_vary_header (layer_allow_credentials v1 l)"
  "update_vary_header (layer_allow_headers v2 (update_vary_header l)) = update_vary_header (layer_allow_headers v2 l)"
  "update_vary_header (layer_max_age v3 (update_vary_header l)) = update_vary_header (layer_max_age v3 l)"
  "update_vary_header (layer_allow_methods v4 (update_vary_header l)) = update_vary_header (layer_allow_methods v4 l)"
  "update_vary_header (layer_allow_origin v5 (update_vary_header l)) = update_vary_header (layer_allow_origin v5 l)"
  "update_vary_header (layer_expose_headers v6 (update_vary_header l)) = update_vary_header (layer_expose_headers v6 l)"
  "update_vary_header (layer_allow_private_network v7 (update_vary_header l)) =
     update_vary_header (layer_allow_private_network v7 l)"
  by (simp_all add: layer_setter_defs update_vary_header_eq)

lemma cors_setters_of_layer:
  assumes "cors_layer_apply l s = Inr c"
  shows "cors_layer_apply (layer_allow_origin og l) s = Inr d \<Longrightarrow> cors_allow_origin c og = d"
    and "cors_layer_apply (layer_allow_methods ms l) s = Inr d \<Longrightarrow> cors_allow_methods c ms = d"
    and "cors_layer_apply (layer_allow_headers h l) s = Inr d \<Longrightarrow> cors_allow_headers c h = d"
    and "cors_layer_apply (layer_allow_credentials a l) s = Inr d \<Longrightarrow> cors_allow_credentials c a = d"
    and "cors_layer_apply (layer_expose_headers e l) s = Inr d \<Longrightarrow> cors_expose_headers c e = d"
    and "cors_layer_apply (layer_max_age m l) s = Inr d \<Longrightarrow> cors_max_age c m = d"
    and "cors_layer_apply (layer_allow_private_network pn l) s = Inr d \<Longrightarrow> cors_allow_private_network c pn = d"
  using assms
  by (auto simp: cors_layer_apply_def cors_map_layer_def cors_setter_defs update_vary_setters split: sum.splits)


text \<open>A very permissive service that is then given a list of methods no longer varies with the method.\<close>

definition ex_built :: "(((string \<times> string) list, unit, unit) parts, nat, unit) cors" where
  "ex_built = cors_allow_methods \<lparr>cors_inner = (), cors_rules = cors_layer_very_permissive\<rparr> allow_methods_any"

lemma ex_built_built: "cors_built ex_built"
  unfolding ex_built_def cors_allow_methods_def
  by (rule built_cors [OF built_very_permissive]) (simp add: cors_setter_def)


end
