(* ===== verification/Cors_Browser.thy ===== *)
theory Cors_Browser
  imports Cors_Builder
begin

text \<open>
  What a CORS layer promises, stated from the other side of the wire.  A policy says which origins, methods
  and headers a resource is shared with; the Fetch standard says what a browser does with the headers of a
  response.  The theorems of this theory show that the two agree: the browser sends the request after the
  preflight response of the \<open>Cors\<close> service, and shows the script the response and a header of it, exactly
  when the policy the layer was built from allows it.  So the comma-separated header texts, the mirrored
  values and the wildcard, which means nothing to a request with credentials, implement the policy.
\<close>

section \<open>The policy\<close>

datatype allowance = Everything | Echo | Only "string list"

datatype 'p origin_policy = EveryOrigin | OneOrigin string | TheseOrigins "string list"
  | OriginsWhere "string \<Rightarrow> 'p \<Rightarrow> bool"

record 'p cors_policy =
  po_origins :: "'p origin_policy"
  po_credentials :: "'p allow_credentials"
  po_methods :: allowance
  po_headers :: allowance
  po_expose :: allowance

text \<open>A policy names origins, methods and headers; \<open>Everything\<close> is the only way to write the wildcard.\<close>

definition token_char :: "char \<Rightarrow> bool" where
  "token_char c = (48 \<le> byte c \<and> byte c \<le> 57 \<or> 65 \<le> byte c \<and> byte c \<le> 90 \<or> 97 \<le> byte c \<and> byte c \<le> 122 \<or>
     c \<in> set ''!#$%&*+-.^_|~'' \<or> byte c = 39 \<or> byte c = 96)"

definition token :: "string \<Rightarrow> bool" where
  "token w = (w \<noteq> [] \<and> list_all token_char w)"

definition name_token :: "string \<Rightarrow> bool" where
  "name_token w = (token w \<and> w \<noteq> ''*'')"

definition lower_name :: "string \<Rightarrow> bool" where
  "lower_name w = (name_token w \<and> map to_ascii_lower w = w)"

fun names_in :: "(string \<Rightarrow> bool) \<Rightarrow> allowance \<Rightarrow> bool" where
  "names_in ok (Only ws) = list_all ok ws"
| "names_in ok _ = True"

definition policy_ok :: "'p cors_policy \<Rightarrow> bool" where
  "policy_ok P = (names_in name_token (po_methods P) \<and> names_in lower_name (po_headers P) \<and>
     names_in lower_name (po_expose P) \<and> po_expose P \<noteq> Echo \<and> po_origins P \<noteq> OneOrigin ''*'')"

section \<open>The layers that carry a policy\<close>

text \<open>
  The parts are those the constructors of the crate make.  A predicate over origins may be one that answers
  at once or one whose future answers within \<open>n\<close> polls.
\<close>

fun origin_part :: "('g, bool) poll_fn \<Rightarrow> nat \<Rightarrow> 'p origin_policy \<Rightarrow> ('p, 'g) allow_origin \<Rightarrow> bool" where
  "origin_part pg n EveryOrigin a = (a = allow_origin_any)"
| "origin_part pg n (OneOrigin v) a = (a = allow_origin_exact v)"
| "origin_part pg n (TheseOrigins os) a = (allow_origin_list os = Inr a)"
| "origin_part pg n (OriginsWhere f) a = (a = allow_origin_predicate f \<or>
     (\<exists>k. a = allow_origin_async_predicate k \<and> (\<forall>v p. run_future pg n (k v p) = Some (f v p))))"

fun methods_part :: "('h, string, 'x) http_api \<Rightarrow> allowance \<Rightarrow> allow_methods \<Rightarrow> bool" where
  "methods_part H Everything a = (a = allow_methods_any)"
| "methods_part H Echo a = (a = allow_methods_mirror_request)"
| "methods_part H (Only ms) a = (allow_methods_list H ms = Inr a)"

fun headers_part :: "('h, string, 'x) http_api \<Rightarrow> allowance \<Rightarrow> allow_headers \<Rightarrow> bool" where
  "headers_part H Everything a = (a = allow_headers_any)"
| "headers_part H Echo a = (a = allow_headers_mirror_request)"
| "headers_part H (Only ns) a = (allow_headers_list H ns = Inr a)"

fun expose_part :: "('h, string, 'x) http_api \<Rightarrow> allowance \<Rightarrow> expose_headers \<Rightarrow> bool" where
  "expose_part H Everything a = (a = expose_headers_any)"
| "expose_part H Echo a = False"
| "expose_part H (Only ns) a = (expose_headers_list H ns = Inr a)"

definition carries_policy ::
  "('h, string, 'x) http_api \<Rightarrow> ('g, bool) poll_fn \<Rightarrow> nat \<Rightarrow> 'p cors_policy \<Rightarrow> ('p, 'g) cors_layer \<Rightarrow> bool" where
  "carries_policy H pg n P l =
     (origin_part pg n (po_origins P) (cl_allow_origin l) \<and> methods_part H (po_methods P) (cl_allow_methods l) \<and>
      headers_part H (po_headers P) (cl_allow_headers l) \<and> expose_part H (po_expose P) (cl_expose_headers l) \<and>
      cl_allow_credentials l = po_credentials P)"

section \<open>The browser\<close>

text \<open>
  A cross-origin request of a page, as the Fetch standard has it: the serialised origin, whether credentials
  are included, the method, the names of the headers that need permission (in lower case, as the standard
  sorts them) and the flag that forces a preflight.
\<close>

record browser_request =
  br_origin :: string
  br_credentials :: bool
  br_method :: string
  br_unsafe :: "string list"
  br_forced :: bool

definition browser_ok :: "browser_request \<Rightarrow> bool" where
  "browser_ok br = (br_origin br \<noteq> ''*'' \<and> token (br_method br) \<and> list_all lower_name (br_unsafe br))"

definition browser_preflight :: "('h, string, 'x) http_api \<Rightarrow> browser_request \<Rightarrow> ('h, 'u, 'x, 'b) request \<Rightarrow> bool" where
  "browser_preflight H br req =
     (req_method req = ''OPTIONS'' \<and> hm_get H (req_headers req) ''origin'' = Some (br_origin br) \<and>
      hm_get H (req_headers req) ''access-control-request-method'' = Some (br_method br) \<and>
      hm_get H (req_headers req) ''access-control-request-headers'' =
        (if br_unsafe br = [] then None else Some (join_with '','' (br_unsafe br))))"

definition strip_ows :: "string \<Rightarrow> string" where
  "strip_ows w = (let ows = (\<lambda>c. byte c = 32 \<or> byte c = 9) in rev (dropWhile ows (rev (dropWhile ows w))))"

definition list_items :: "string \<Rightarrow> string list" where
  "list_items v = filter (\<lambda>w. w \<noteq> []) (map strip_ows (split_on CHR '','' v))"

definition combined :: "('h, string, 'x) http_api \<Rightarrow> 'h \<Rightarrow> string \<Rightarrow> string option" where
  "combined H h n = (case hm_get_all H h n of [] \<Rightarrow> None | vs \<Rightarrow> Some (join_with '', '' vs))"

text \<open>\<open>Inl\<close>: the values are not lists of tokens; \<open>Inr None\<close>: there is no such header.\<close>

definition extract_list :: "('h, string, 'x) http_api \<Rightarrow> 'h \<Rightarrow> string \<Rightarrow> unit + string list option" where
  "extract_list H h n =
     (case hm_get_all H h n of
        [] \<Rightarrow> Inr None
      | vs \<Rightarrow> (let ws = concat (map list_items vs) in if list_all token ws then Inr (Some ws) else Inl ()))"

definition cors_check :: "('h, string, 'x) http_api \<Rightarrow> browser_request \<Rightarrow> 'h \<Rightarrow> bool" where
  "cors_check H br h =
     (case combined H h ''access-control-allow-origin'' of
        None \<Rightarrow> False
      | Some og \<Rightarrow>
          if \<not> br_credentials br \<and> og = ''*'' then True
          else if og \<noteq> br_origin br then False
          else if \<not> br_credentials br then True
          else combined H h ''access-control-allow-credentials'' = Some ''true'')"

definition safelisted_method :: "string \<Rightarrow> bool" where
  "safelisted_method m = (m \<in> {''GET'', ''HEAD'', ''POST''})"

definition method_granted :: "browser_request \<Rightarrow> string list option \<Rightarrow> bool" where
  "method_granted br methods =
     (let ms = (case methods of None \<Rightarrow> if br_forced br then [br_method br] else [] | Some ms \<Rightarrow> ms)
      in br_method br \<in> set ms \<or> safelisted_method (br_method br) \<or> \<not> br_credentials br \<and> ''*'' \<in> set ms)"

definition header_granted :: "browser_request \<Rightarrow> string list option \<Rightarrow> string \<Rightarrow> bool" where
  "header_granted br headers n =
     (let hs = (case headers of None \<Rightarrow> [] | Some hs \<Rightarrow> hs)
      in list_ex (eq_ignore_ascii_case n) hs \<or>
         \<not> br_credentials br \<and> ''*'' \<in> set hs \<and> n \<noteq> ''authorization'')"

definition preflight_granted ::
  "('h, string, 'x) http_api \<Rightarrow> browser_request \<Rightarrow> ('h, 'x, 'b) response \<Rightarrow> bool" where
  "preflight_granted H br res =
     (cors_check H br (res_headers res) \<and> 200 \<le> res_status res \<and> res_status res \<le> 299 \<and>
      (case (extract_list H (res_headers res) ''access-control-allow-methods'',
             extract_list H (res_headers res) ''access-control-allow-headers'') of
         (Inr ms, Inr hs) \<Rightarrow> method_granted br ms \<and> list_all (header_granted br hs) (br_unsafe br)
       | _ \<Rightarrow> False))"

definition safelisted_response_header :: "string \<Rightarrow> bool" where
  "safelisted_response_header n = (n \<in> {''cache-control'', ''content-language'', ''content-length'',
     ''content-type'', ''expires'', ''last-modified'', ''pragma''})"

text \<open>Whether a script that may read the response sees its header \<open>n\<close>.\<close>

definition header_visible :: "('h, string, 'x) http_api \<Rightarrow> browser_request \<Rightarrow> 'h \<Rightarrow> string \<Rightarrow> bool" where
  "header_visible H br h n =
     (hm_get_all H h n \<noteq> [] \<and> n \<notin> {''set-cookie'', ''set-cookie2''} \<and>
      (safelisted_response_header n \<or>
       (case extract_list H h ''access-control-expose-headers'' of
          Inr (Some ws) \<Rightarrow> (\<not> br_credentials br \<and> ''*'' \<in> set ws) \<or> list_ex (eq_ignore_ascii_case n) ws
        | _ \<Rightarrow> False)))"

section \<open>What the policy allows\<close>

fun origin_allowed :: "'p origin_policy \<Rightarrow> browser_request \<Rightarrow> 'p \<Rightarrow> bool" where
  "origin_allowed EveryOrigin br p = (\<not> br_credentials br)"
| "origin_allowed (OneOrigin v) br p = (br_origin br = v)"
| "origin_allowed (TheseOrigins os) br p = (br_origin br \<in> set os)"
| "origin_allowed (OriginsWhere f) br p = f (br_origin br) p"

fun credentials_allowed :: "'p allow_credentials \<Rightarrow> string \<Rightarrow> 'p \<Rightarrow> bool" where
  "credentials_allowed CredYes v p = True"
| "credentials_allowed CredNo v p = False"
| "credentials_allowed (CredPredicate c) v p = c v p"

definition sharing_allowed :: "'p cors_policy \<Rightarrow> browser_request \<Rightarrow> 'p \<Rightarrow> bool" where
  "sharing_allowed P br p = (origin_allowed (po_origins P) br p \<and>
     (br_credentials br \<longrightarrow> credentials_allowed (po_credentials P) (br_origin br) p))"

fun method_allowed :: "allowance \<Rightarrow> browser_request \<Rightarrow> bool" where
  "method_allowed Everything br =
     (safelisted_method (br_method br) \<or> \<not> br_credentials br \<or> br_method br = ''*'')"
| "method_allowed Echo br = True"
| "method_allowed (Only ms) br =
     (safelisted_method (br_method br) \<or> br_method br \<in> set ms \<or> ms = [] \<and> br_forced br)"

fun header_allowed :: "allowance \<Rightarrow> browser_request \<Rightarrow> string \<Rightarrow> bool" where
  "header_allowed Everything br n = (\<not> br_credentials br \<and> n \<noteq> ''authorization'')"
| "header_allowed Echo br n = True"
| "header_allowed (Only ns) br n = (n \<in> set ns)"

definition request_allowed :: "'p cors_policy \<Rightarrow> browser_request \<Rightarrow> 'p \<Rightarrow> bool" where
  "request_allowed P br p = (sharing_allowed P br p \<and> method_allowed (po_methods P) br \<and>
     list_all (header_allowed (po_headers P) br) (br_unsafe br))"

fun exposure_allowed :: "allowance \<Rightarrow> browser_request \<Rightarrow> string \<Rightarrow> bool" where
  "exposure_allowed (Only ns) br n = (n \<in> set ns)"
| "exposure_allowed _ br n = (\<not> br_credentials br)"

section \<open>Lists of names and their header text\<close>

lemma token_charD: "token_char c \<Longrightarrow> c \<noteq> CHR '','' \<and> byte c \<noteq> 32 \<and> byte c \<noteq> 9 \<and> permitted_byte c"
  by (auto simp: token_char_def permitted_byte_def byte_def)

lemma tokenD:
  assumes "token w"
  shows "w \<noteq> []" "CHR '','' \<notin> set w" "list_all permitted_byte w" "strip_ows w = w"
proof -
  have c: "\<And>c. c \<in> set w \<Longrightarrow> c \<noteq> CHR '','' \<and> byte c \<noteq> 32 \<and> byte c \<noteq> 9 \<and> permitted_byte c" and w: "w \<noteq> []"
    using assms token_charD by (auto simp: token_def list_all_iff)
  show "w \<noteq> []" by (rule w)
  show "CHR '','' \<notin> set w" "list_all permitted_byte w" using c by (auto simp: list_all_iff)
  have "dropWhile (\<lambda>c. byte c = 32 \<or> byte c = 9) w = w" using c w by (auto simp: dropWhile_eq_self_iff)
  moreover have "dropWhile (\<lambda>c. byte c = 32 \<or> byte c = 9) (rev w) = rev w"
    using c w by (auto simp: dropWhile_eq_self_iff hd_rev)
  ultimately show "strip_ows w = w" by (simp add: strip_ows_def Let_def)
qed

lemma name_token_token: "name_token w \<Longrightarrow> token w \<and> w \<noteq> ''*''"
  by (simp add: name_token_def)

lemma lower_name_token: "lower_name w \<Longrightarrow> token w \<and> w \<noteq> ''*''"
  by (simp add: lower_name_def name_token_def)

lemma lower_name_ignore_case: "lower_name v \<Longrightarrow> lower_name w \<Longrightarrow> eq_ignore_ascii_case v w \<longleftrightarrow> v = w"
  by (simp add: lower_name_def eq_ignore_ascii_case_def)

lemma list_items_join:
  assumes "ws \<noteq> []" "list_all token ws"
  shows "list_items (join_with '','' ws) = ws"
proof -
  have "split_on CHR '','' (join_with '','' ws) = ws"
    using assms by (intro split_on_join) (auto simp: list_all_iff tokenD)
  moreover have "map strip_ows ws = ws" using assms by (auto intro!: map_idI simp: list_all_iff tokenD)
  moreover have "filter (\<lambda>w. w \<noteq> []) ws = ws" using assms by (auto simp: filter_id_conv list_all_iff tokenD)
  ultimately show ?thesis by (simp add: list_items_def)
qed

lemma list_items_token: "token w \<Longrightarrow> list_items w = [w]"
  using list_items_join [of "[w]"] by simp

text \<open>The header text of a list of names, as the constructors of the crate write it.\<close>

definition names_text :: "string list \<Rightarrow> string option" where
  "names_text ws = (case ws of [] \<Rightarrow> None | _ \<Rightarrow> Some (join_with '','' ws))"

lemma extract_names:
  assumes "hm_get_all H h n = (case names_text ws of None \<Rightarrow> [] | Some v \<Rightarrow> [v])" "list_all token ws"
  shows "extract_list H h n = Inr (if ws = [] then None else Some ws)"
  using assms list_items_join [of ws] by (cases ws) (auto simp: extract_list_def names_text_def)

context header_text
begin

lemma separated_names:
  "list_all token ws \<Longrightarrow> separated_by_commas H ws = Inr (names_text ws)"
  using tokenD(3) by (simp add: separated_by_commas_ok names_text_def list_all_iff [of token])

lemma methods_names:
  assumes "list_all token ms"
  shows "allow_methods_list H ms = Inr (MethodsConst (names_text ms))"
proof -
  have ok: "\<And>m. m \<in> set ms \<Longrightarrow> from_bytes H m = Some m"
    using assms tokenD(3) by (auto simp: list_all_iff [of token] intro!: from_bytes_permitted)
  have "List.map_filter (from_bytes H) ms = ms"
    using ok by (induction ms) (simp_all add: List.map_filter_simps)
  then show ?thesis
    using ok separated_names [OF assms] by (auto simp: allow_methods_list_def list_all_iff)
qed

text \<open>The names a policy lets through, as the text of the header that the part writes.\<close>

lemma methods_part_header:
  assumes "methods_part H A a" "names_in name_token A"
  shows "allow_methods_to_header H a p =
    map_option (Pair ''access-control-allow-methods'')
      (case A of Everything \<Rightarrow> Some ''*'' | Only ms \<Rightarrow> names_text ms
       | Echo \<Rightarrow> hm_get H (req_headers p) ''access-control-request-method'')"
proof (cases A)
  case (Only ms)
  with assms have "a = MethodsConst (names_text ms)"
    using methods_names [of ms] by (auto simp: list_all_iff name_token_token)
  with Only show ?thesis by simp
qed (use assms in \<open>auto simp: allow_methods_any_def allow_methods_mirror_request_def WILDCARD_def\<close>)

lemma headers_part_header:
  assumes "headers_part H A a" "names_in lower_name A"
  shows "allow_headers_to_header H a p =
    map_option (Pair ''access-control-allow-headers'')
      (case A of Everything \<Rightarrow> Some ''*'' | Only ms \<Rightarrow> names_text ms
       | Echo \<Rightarrow> hm_get H (req_headers p) ''access-control-request-headers'')"
proof (cases A)
  case (Only ms)
  with assms have "a = HeadersConst (names_text ms)"
    using separated_names [of ms] by (auto simp: allow_headers_list_def list_all_iff lower_name_token)
  with Only show ?thesis by simp
qed (use assms in \<open>auto simp: allow_headers_any_def allow_headers_mirror_request_def WILDCARD_def\<close>)

lemma expose_part_header:
  assumes "expose_part H A a" "names_in lower_name A"
  shows "expose_headers_to_header a p =
    map_option (Pair ''access-control-expose-headers'')
      (case A of Everything \<Rightarrow> Some ''*'' | Only ms \<Rightarrow> names_text ms | Echo \<Rightarrow> None)"
proof (cases A)
  case (Only ms)
  with assms have "a = ExposeConst (names_text ms)"
    using separated_names [of ms] by (auto simp: expose_headers_list_def list_all_iff lower_name_token)
  with Only show ?thesis by simp
qed (use assms in \<open>auto simp: expose_headers_any_def WILDCARD_def\<close>)

end

section \<open>The decision on the origin\<close>

fun origin_text :: "'p origin_policy \<Rightarrow> string \<Rightarrow> 'p \<Rightarrow> string option" where
  "origin_text EveryOrigin og p = Some ''*''"
| "origin_text (OneOrigin v) og p = Some v"
| "origin_text (TheseOrigins os) og p = then_some (og \<in> set os) og"
| "origin_text (OriginsWhere f) og p = then_some (f og p) og"

lemma run_origin_future:
  "run_future pg n g = Some b \<Longrightarrow>
     run_future (allow_origin_poll pg) n (OriginFuture g v) =
       Some (then_some b (''access-control-allow-origin'', v))"
  by (induction n arbitrary: g) (auto split: prod.splits poll.splits)

lemma run_origin_part:
  assumes "origin_part pg n Q a"
  shows "run_future (allow_origin_poll pg) (Suc n) (allow_origin_to_future a (Some og) p) =
    Some (map_option (Pair ''access-control-allow-origin'') (origin_text Q og p))"
proof (cases Q)
  case (OriginsWhere f)
  show ?thesis
  proof (cases "a = allow_origin_predicate f")
    case False
    then obtain k where a: "a = OriginAsync k" and k: "run_future pg n (k og p) = Some (f og p)"
      using assms OriginsWhere by (auto simp: allow_origin_async_predicate_def)
    from k have "run_future pg (Suc n) (k og p) = Some (f og p)" by (rule run_future_mono) simp
    from run_origin_future [OF this, of og] show ?thesis
      by (simp add: a OriginsWhere then_some_def del: run_future.simps)
  qed (simp add: OriginsWhere allow_origin_predicate_def then_some_def)
qed (use assms in \<open>auto simp: allow_origin_any_def allow_origin_exact_def allow_origin_list_def
    WILDCARD_def then_some_def split: if_splits\<close>)

lemma run_policy_origin:
  assumes "origin_part pg n Q (cl_allow_origin l)" "hm_get H (req_headers p) ''origin'' = Some og"
  shows "run_future (allow_origin_poll pg) (Suc n) (origin_future H l p) =
    Some (map_option (Pair ''access-control-allow-origin'') (origin_text Q og p))"
  using run_origin_part [OF assms(1), of og p] assms(2) by (simp add: origin_future_def del: run_future.simps)

lemma credentials_header:
  "allow_credentials_to_header c (Some v) p =
     map_option (Pair ''access-control-allow-credentials'') (then_some (credentials_allowed c v p) ''true'')"
  by (cases c) (simp_all add: then_some_def)

definition option_list :: "'a option \<Rightarrow> 'a list" where
  "option_list q = (case q of None \<Rightarrow> [] | Some v \<Rightarrow> [v])"

lemma pair_values_map [simp]: "pair_values (map_option (Pair n) q) n = option_list q"
  by (cases q) (simp_all add: pair_values_def option_list_def)

text \<open>The CORS check of the browser, on the two headers the origin and credentials parts write.\<close>

lemma cors_check_policy:
  assumes "hm_get_all H h ''access-control-allow-origin'' = option_list (origin_text Q (br_origin br) p)"
    and "hm_get_all H h ''access-control-allow-credentials'' =
      option_list (then_some (credentials_allowed c (br_origin br) p) ''true'')"
    and "br_origin br \<noteq> ''*''" "Q \<noteq> OneOrigin ''*''"
  shows "cors_check H br h \<longleftrightarrow> origin_allowed Q br p \<and>
    (br_credentials br \<longrightarrow> credentials_allowed c (br_origin br) p)"
  using assms
  by (cases Q) (auto simp: cors_check_def combined_def option_list_def then_some_def)

section \<open>The preflight response\<close>

lemma method_granted_policy:
  assumes "token (br_method br)" "names_in name_token A"
    and that: "hm_get_all H h ''access-control-allow-methods'' = option_list (case A of Everything \<Rightarrow> Some ''*''
      | Only ms \<Rightarrow> names_text ms | Echo \<Rightarrow> Some (br_method br))"
  shows "\<exists>ms. extract_list H h ''access-control-allow-methods'' = Inr ms \<and>
      method_granted br ms = method_allowed A br"
proof (cases A)
  case (Only ms)
  with assms have "list_all token ms" "''*'' \<notin> set ms" by (auto simp: list_all_iff name_token_def)
  moreover from this Only that have "extract_list H h ''access-control-allow-methods'' =
      Inr (if ms = [] then None else Some ms)"
    by (intro extract_names) (auto simp: option_list_def split: option.split)
  ultimately show ?thesis by (auto simp: Only method_granted_def Let_def)
next
  case Everything
  have "token ''*''" by code_simp
  with that Everything show ?thesis by (auto simp: option_list_def extract_list_def list_items_token method_granted_def)
next
  case Echo
  with that assms show ?thesis by (auto simp: option_list_def extract_list_def list_items_token method_granted_def)
qed

lemma header_granted_names:
  assumes "list_all lower_name ns" "lower_name n"
  shows "header_granted br (if ns = [] then None else Some ns) n \<longleftrightarrow> n \<in> set ns"
proof -
  have "list_ex (eq_ignore_ascii_case n) ns \<longleftrightarrow> n \<in> set ns"
    using assms by (auto simp: list_ex_iff list_all_iff lower_name_ignore_case)
  moreover have "''*'' \<notin> set ns" using assms by (auto simp: list_all_iff lower_name_def name_token_def)
  ultimately show ?thesis by (auto simp: header_granted_def Let_def)
qed

lemma headers_granted_policy:
  assumes unsafe: "list_all lower_name (br_unsafe br)" and "names_in lower_name A"
    and h: "hm_get_all H h ''access-control-allow-headers'' = option_list (case A of Everything \<Rightarrow> Some ''*''
      | Only ns \<Rightarrow> names_text ns | Echo \<Rightarrow> names_text (br_unsafe br))"
  shows "\<exists>hs. extract_list H h ''access-control-allow-headers'' = Inr hs \<and>
      list_all (header_granted br hs) (br_unsafe br) = list_all (header_allowed A br) (br_unsafe br)"
proof -
  have names: "\<exists>hs. extract_list H h ''access-control-allow-headers'' = Inr hs \<and>
      list_all (header_granted br hs) (br_unsafe br) = list_all (\<lambda>n. n \<in> set ns) (br_unsafe br)"
    if get: "hm_get_all H h ''access-control-allow-headers'' = option_list (names_text ns)"
      and ns: "list_all lower_name ns" for ns
  proof (intro exI conjI)
    show "extract_list H h ''access-control-allow-headers'' = Inr (if ns = [] then None else Some ns)"
      using get ns by (intro extract_names) (auto simp: option_list_def list_all_iff lower_name_token)
    show "list_all (header_granted br (if ns = [] then None else Some ns)) (br_unsafe br) =
        list_all (\<lambda>n. n \<in> set ns) (br_unsafe br)"
      using unsafe header_granted_names [OF ns] by (intro list.pred_cong refl) (simp add: list_all_iff)
  qed
  show ?thesis
  proof (cases A)
    case (Only ns)
    then have "header_allowed A br = (\<lambda>n. n \<in> set ns)" by (simp add: fun_eq_iff)
    with Only names [of ns] h assms(2) show ?thesis by simp
  next
    case Echo
    then have "list_all (\<lambda>n. n \<in> set (br_unsafe br)) (br_unsafe br)" "list_all (header_allowed A br) (br_unsafe br)"
      by (simp_all add: list_all_iff)
    with Echo names [of "br_unsafe br"] h unsafe show ?thesis by simp
  next
    case Everything
    have star: "token ''*''" by code_simp
    have "map to_ascii_lower ''*'' = ''*''" by code_simp
    then have "\<And>n. lower_name n \<Longrightarrow> \<not> eq_ignore_ascii_case n ''*''"
      using lower_name_token by (simp add: eq_ignore_ascii_case_def lower_name_def)
    then have "\<And>n. n \<in> set (br_unsafe br) \<Longrightarrow> header_granted br (Some [''*'']) n = header_allowed A br n"
      using unsafe Everything by (simp add: header_granted_def list_all_iff)
    then have "list_all (header_granted br (Some [''*''])) (br_unsafe br) = list_all (header_allowed A br) (br_unsafe br)"
      by (intro list.pred_cong refl)
    moreover have "extract_list H h ''access-control-allow-headers'' = Inr (Some [''*''])"
      using h star by (simp add: Everything option_list_def extract_list_def list_items_token)
    ultimately show ?thesis by blast
  qed
qed

lemma preflight_pairs_policy:
  assumes vary: "vary_to_header H (cl_vary l) = Inr vary"
    and r: "run_future (allow_origin_poll pg) n (origin_future H l p) = Some r"
  shows "values_of (preflight_pairs H l p vary r) ''access-control-allow-credentials'' =
    pair_values (allow_credentials_to_header (cl_allow_credentials l) (hm_get H (req_headers p) ''origin'') p)
      ''access-control-allow-credentials''"
  by (simp add: values_of_def preflight_pairs_def Let_def part_others vary_other [OF vary]
      origin_other [OF r [unfolded origin_future_def]])

context header_text
begin

lemma run_preflight_call:
  assumes options: "req_method req = ''OPTIONS''" and vary: "vary_to_header H (cl_vary (cors_rules c)) = Inr vary"
    and r: "run_future (allow_origin_poll pg) n (origin_future H (cors_rules c) (request_parts req)) = Some r"
  shows "\<exists>fut resp. cors_call H inner_call c req = Inr (c, fut) \<and>
    run_future (cors_future_poll H pg pf def_body) n fut = Some (Inr resp) \<and> res_status resp = 200 \<and>
    (\<forall>m. hm_get_all H (res_headers resp) m =
       values_of (preflight_pairs H (cors_rules c) (request_parts req) vary r) m)"
proof -
  have c: "\<lparr>cors_inner = cors_inner c, cors_rules = cors_rules c\<rparr> = c" by simp
  obtain h where call: "cors_call H inner_call c req =
      Inr (c, PreflightCall (origin_future H (cors_rules c) (request_parts req)) h)"
    and hs: "\<And>r m. hm_get_all H (hm_extend_opt H h r) m =
      values_of (preflight_pairs H (cors_rules c) (request_parts req) vary r) m"
    using cors_call_preflight [OF options vary, of inner_call "cors_inner c"] unfolding c by auto
  show ?thesis
    by (intro exI conjI, rule call, simp only: run_preflight r option.map) (simp_all add: response_new_def hs)
qed

end

text \<open>
  Claim C1.  The preflight response implements the policy: on a service whose layer carries the policy, the
  browser that asks for a cross-origin request with a preflight is answered by the middleware alone, and lets
  the request go out exactly when the policy shares the resource with its origin (with credentials, if it
  includes them) and allows its method and each of its headers.
\<close>

theorem cors_preflight_implements_policy:
  assumes H: "header_text H" and carries: "carries_policy H pg n P (cors_rules c)" and ok: "policy_ok P"
    and vary: "list_all (list_all permitted_byte) (cl_vary (cors_rules c))"
    and br: "browser_ok br" "browser_preflight H br req"
  shows "\<exists>fut resp. cors_call H inner_call c req = Inr (c, fut) \<and>
    run_future (cors_future_poll H pg pf def_body) (Suc n) fut = Some (Inr resp) \<and>
    (preflight_granted H br resp \<longleftrightarrow> request_allowed P br (request_parts req))"
proof -
  let ?l = "cors_rules c" and ?p = "request_parts req"
  let ?h = "req_headers ?p" and ?og = "br_origin br"
  have req: "req_method req = ''OPTIONS''" "hm_get H ?h ''origin'' = Some ?og"
    "hm_get H ?h ''access-control-request-method'' = Some (br_method br)"
    "hm_get H ?h ''access-control-request-headers'' = names_text (br_unsafe br)"
    using br by (auto simp: browser_preflight_def request_parts_def names_text_def split: list.split)
  have P: "names_in name_token (po_methods P)" "names_in lower_name (po_headers P)" "po_origins P \<noteq> OneOrigin ''*''"
    and parts: "origin_part pg n (po_origins P) (cl_allow_origin ?l)" "methods_part H (po_methods P) (cl_allow_methods ?l)"
      "headers_part H (po_headers P) (cl_allow_headers ?l)" "cl_allow_credentials ?l = po_credentials P"
    using ok carries by (simp_all add: policy_ok_def carries_policy_def)
  obtain vh where v: "vary_to_header H (cl_vary ?l) = Inr vh"
    using header_text.vary_to_header_ok [OF H, of "cl_vary ?l"] vary by (auto simp: list_all_iff [of "list_all _"])
  obtain r where r: "run_future (allow_origin_poll pg) (Suc n) (origin_future H ?l ?p) = Some r"
    and r': "r = map_option (Pair ''access-control-allow-origin'') (origin_text (po_origins P) ?og ?p)"
    using run_policy_origin [OF parts(1) req(2)] by blast
  obtain fut resp where call: "cors_call H inner_call c req = Inr (c, fut)"
    and run: "run_future (cors_future_poll H pg pf def_body) (Suc n) fut = Some (Inr resp)"
    and status: "res_status resp = 200"
    and get: "\<And>m. hm_get_all H (res_headers resp) m = values_of (preflight_pairs H ?l ?p vh r) m"
    using header_text.run_preflight_call [where inner_call = inner_call and c = c and pf = pf and
        def_body = def_body, OF H req(1) v r] by blast
  have origin: "hm_get_all H (res_headers resp) ''access-control-allow-origin'' =
      option_list (origin_text (po_origins P) ?og ?p)"
    by (simp only: get preflight_pairs_origin [OF v]) (simp add: r')
  have creds: "hm_get_all H (res_headers resp) ''access-control-allow-credentials'' =
      option_list (then_some (credentials_allowed (po_credentials P) ?og ?p) ''true'')"
    by (simp only: get preflight_pairs_policy [OF v r] parts(4) req(2) credentials_header pair_values_map)
  have check: "cors_check H br (res_headers resp) \<longleftrightarrow> sharing_allowed P br ?p"
    using cors_check_policy [OF origin creds] br(1) P(3) by (simp add: browser_ok_def sharing_allowed_def)
  obtain ms where ms: "extract_list H (res_headers resp) ''access-control-allow-methods'' = Inr ms"
    "method_granted br ms = method_allowed (po_methods P) br"
    using method_granted_policy [of br "po_methods P" H "res_headers resp"] P(1) br req(3)
    by (auto simp: get preflight_pairs_methods [OF v r] header_text.methods_part_header [OF H parts(2) P(1)]
        browser_ok_def cong: allowance.case_cong)
  obtain us where us: "extract_list H (res_headers resp) ''access-control-allow-headers'' = Inr us"
    "list_all (header_granted br us) (br_unsafe br) = list_all (header_allowed (po_headers P) br) (br_unsafe br)"
    using headers_granted_policy [of br "po_headers P" H "res_headers resp"] P(2) br req(4)
    by (auto simp: get preflight_pairs_methods [OF v r] header_text.headers_part_header [OF H parts(3) P(2)]
        browser_ok_def cong: allowance.case_cong)
  have "preflight_granted H br resp \<longleftrightarrow> request_allowed P br ?p"
    by (simp add: preflight_granted_def request_allowed_def check ms us status)
  with call run show ?thesis by blast
qed

section \<open>The response to the request itself\<close>

definition cors_response_names :: "string list" where
  "cors_response_names = [''access-control-allow-origin'', ''access-control-allow-credentials'',
     ''access-control-allow-private-network'', ''access-control-expose-headers'', ''vary'']"

lemma actual_pairs_policy:
  assumes vary: "vary_to_header H (cl_vary l) = Inr vary"
    and r: "run_future (allow_origin_poll pg) n (origin_future H l p) = Some r"
  shows "values_of (actual_pairs H l p vary r) ''access-control-allow-credentials'' =
      pair_values (allow_credentials_to_header (cl_allow_credentials l) (hm_get H (req_headers p) ''origin'') p)
        ''access-control-allow-credentials''"
    and "values_of (actual_pairs H l p vary r) ''access-control-expose-headers'' =
      pair_values (expose_headers_to_header (cl_expose_headers l) p) ''access-control-expose-headers''"
    and "m \<notin> set cors_response_names \<Longrightarrow> values_of (actual_pairs H l p vary r) m = []"
  by (simp_all add: values_of_def actual_pairs_def Let_def part_others vary_other [OF vary]
      origin_other [OF r [unfolded origin_future_def]] cors_response_names_def)

lemma header_visible_policy:
  assumes h: "hm_get_all H h ''access-control-expose-headers'' = option_list (case A of Everything \<Rightarrow> Some ''*''
      | Only ns \<Rightarrow> names_text ns | Echo \<Rightarrow> None)"
    and A: "names_in lower_name A" "A \<noteq> Echo" and n: "lower_name n"
  shows "header_visible H br h n \<longleftrightarrow> hm_get_all H h n \<noteq> [] \<and> n \<notin> {''set-cookie'', ''set-cookie2''} \<and>
    (safelisted_response_header n \<or> exposure_allowed A br n)"
proof (cases A)
  case (Only ns)
  with A have "list_all token ns" "''*'' \<notin> set ns" by (auto simp: list_all_iff lower_name_def name_token_def)
  moreover from this Only h have "extract_list H h ''access-control-expose-headers'' =
      Inr (if ns = [] then None else Some ns)"
    by (intro extract_names) (auto simp: option_list_def split: option.split)
  moreover have "list_ex (eq_ignore_ascii_case n) ns \<longleftrightarrow> n \<in> set ns"
    using A Only n by (auto simp: list_ex_iff list_all_iff lower_name_ignore_case)
  ultimately show ?thesis by (auto simp: Only header_visible_def)
next
  case Everything
  have star: "token ''*''" by code_simp
  have "map to_ascii_lower ''*'' = ''*''" by code_simp
  then have "\<not> eq_ignore_ascii_case n ''*''"
    using lower_name_token [OF n] n by (simp add: eq_ignore_ascii_case_def lower_name_def)
  moreover have "extract_list H h ''access-control-expose-headers'' = Inr (Some [''*''])"
    using h star by (simp add: Everything option_list_def extract_list_def list_items_token)
  ultimately show ?thesis by (simp add: Everything header_visible_def)
qed (use A in simp)

context header_text
begin

lemma run_actual:
  assumes meth: "req_method req \<noteq> ''OPTIONS''" and vary: "vary_to_header H (cl_vary (cors_rules c)) = Inr vary"
    and inner: "inner_call (cors_inner c) req = (s', f)"
    and r: "run_future (allow_origin_poll pg) n (origin_future H (cors_rules c) (request_parts req)) = Some r"
    and answer: "run_future pf k f = Some (Inr u)"
  shows "\<exists>fut resp. cors_call H inner_call c req = Inr (c\<lparr>cors_inner := s'\<rparr>, fut) \<and>
    run_future (cors_future_poll H pg pf def_body) (n + k) fut = Some (Inr resp) \<and>
    res_status resp = res_status u \<and> res_body resp = res_body u \<and>
    (\<forall>m. m \<noteq> ''vary'' \<longrightarrow> hm_get_all H (res_headers resp) m =
      (let own = values_of (actual_pairs H (cors_rules c) (request_parts req) vary r) m
       in if own = [] then hm_get_all H (res_headers u) m else own))"
proof -
  have c: "\<lparr>cors_inner = cors_inner c, cors_rules = cors_rules c\<rparr> = c"
    "\<lparr>cors_inner = s', cors_rules = cors_rules c\<rparr> = c\<lparr>cors_inner := s'\<rparr>" by simp_all
  obtain h where call: "cors_call H inner_call c req =
      Inr (c\<lparr>cors_inner := s'\<rparr>, CorsCall (origin_future H (cors_rules c) (request_parts req)) False f h)"
    and hs: "\<And>r m. hm_get_all H (hm_extend_opt H h r) m =
      values_of (actual_pairs H (cors_rules c) (request_parts req) vary r) m"
    using cors_call_actual [where inner_call = inner_call and l = "cors_rules c", OF meth vary inner]
    unfolding c by auto
  show ?thesis
    by (intro exI conjI, rule call, simp only: run_cors_call [OF r answer] map_result.simps)
      (simp_all add: decorate_response_def get_all_decorate hs Let_def)
qed

end

text \<open>
  Claim C3.  The response to the request itself implements the policy: around an inner service that sets no
  CORS header of its own, the browser shows the response to the script exactly when the policy shares it with
  the origin, and a header of it exactly when it is one every script may see or the policy exposes it; status,
  body and every header the middleware does not own are the inner response's.
\<close>

theorem cors_response_implements_policy:
  assumes H: "header_text H" and carries: "carries_policy H pg n P (cors_rules c)" and ok: "policy_ok P"
    and vary: "list_all (list_all permitted_byte) (cl_vary (cors_rules c))"
    and br: "browser_ok br" "req_method req \<noteq> ''OPTIONS''" "hm_get H (req_headers req) ''origin'' = Some (br_origin br)"
    and inner: "inner_call (cors_inner c) req = (s', f)" and answer: "run_future pf k f = Some (Inr u)"
    and silent: "\<And>m. m \<in> set cors_response_names \<Longrightarrow> m \<noteq> ''vary'' \<Longrightarrow> hm_get_all H (res_headers u) m = []"
    and name: "lower_name name" "name \<notin> set cors_response_names"
  shows "\<exists>fut resp. cors_call H inner_call c req = Inr (c\<lparr>cors_inner := s'\<rparr>, fut) \<and>
    run_future (cors_future_poll H pg pf def_body) (Suc n + k) fut = Some (Inr resp) \<and>
    res_status resp = res_status u \<and> res_body resp = res_body u \<and>
    hm_get_all H (res_headers resp) name = hm_get_all H (res_headers u) name \<and>
    (cors_check H br (res_headers resp) \<longleftrightarrow> sharing_allowed P br (request_parts req)) \<and>
    (header_visible H br (res_headers resp) name \<longleftrightarrow>
       hm_get_all H (res_headers u) name \<noteq> [] \<and> name \<notin> {''set-cookie'', ''set-cookie2''} \<and>
       (safelisted_response_header name \<or> exposure_allowed (po_expose P) br name))"
proof -
  let ?l = "cors_rules c" and ?p = "request_parts req"
  let ?og = "br_origin br"
  have og: "hm_get H (req_headers ?p) ''origin'' = Some ?og" using br by (simp add: request_parts_def)
  have P: "names_in lower_name (po_expose P)" "po_expose P \<noteq> Echo" "po_origins P \<noteq> OneOrigin ''*''"
    and parts: "origin_part pg n (po_origins P) (cl_allow_origin ?l)" "expose_part H (po_expose P) (cl_expose_headers ?l)"
      "cl_allow_credentials ?l = po_credentials P"
    using ok carries by (simp_all add: policy_ok_def carries_policy_def)
  obtain vh where v: "vary_to_header H (cl_vary ?l) = Inr vh"
    using header_text.vary_to_header_ok [OF H, of "cl_vary ?l"] vary by (auto simp: list_all_iff [of "list_all _"])
  note r = run_policy_origin [OF parts(1) og]
  obtain fut resp where call: "cors_call H inner_call c req = Inr (c\<lparr>cors_inner := s'\<rparr>, fut)"
    and run: "run_future (cors_future_poll H pg pf def_body) (Suc n + k) fut = Some (Inr resp)"
    and same: "res_status resp = res_status u" "res_body resp = res_body u"
    and get: "\<And>m. m \<noteq> ''vary'' \<Longrightarrow> hm_get_all H (res_headers resp) m =
      (let own = values_of (actual_pairs H ?l ?p vh (map_option (Pair ''access-control-allow-origin'')
          (origin_text (po_origins P) ?og ?p))) m
       in if own = [] then hm_get_all H (res_headers u) m else own)"
    using header_text.run_actual [where inner_call = inner_call and c = c, OF H br(2) v inner r answer] by blast
  note own = get [unfolded Let_def] silent actual_pairs_origin [OF v] actual_pairs_policy [OF v r]
  have origin: "hm_get_all H (res_headers resp) ''access-control-allow-origin'' =
      option_list (origin_text (po_origins P) ?og ?p)"
    by (simp add: own cors_response_names_def)
  have creds: "hm_get_all H (res_headers resp) ''access-control-allow-credentials'' =
      option_list (then_some (credentials_allowed (po_credentials P) ?og ?p) ''true'')"
    using og by (simp add: own cors_response_names_def parts(3) credentials_header)
  have exposed: "hm_get_all H (res_headers resp) ''access-control-expose-headers'' =
      option_list (case po_expose P of Everything \<Rightarrow> Some ''*'' | Only ns \<Rightarrow> names_text ns | Echo \<Rightarrow> None)"
    by (simp add: own cors_response_names_def header_text.expose_part_header [OF H parts(2) P(1)])
  have other: "hm_get_all H (res_headers resp) name = hm_get_all H (res_headers u) name"
    using name(2) by (simp add: own cors_response_names_def)
  have "cors_check H br (res_headers resp) \<longleftrightarrow> sharing_allowed P br ?p"
    using cors_check_policy [OF origin creds] br(1) P(3) by (simp add: browser_ok_def sharing_allowed_def)
  with call run same other header_visible_policy [OF exposed P(1,2) name(1)] show ?thesis by auto
qed

section \<open>An example\<close>

definition ex_policy :: "'p cors_policy" where
  "ex_policy = \<lparr>po_origins = TheseOrigins [''https://a''], po_credentials = CredYes, po_methods = Only [''PUT'', ''DELETE''],
     po_headers = Only [''x-a'', ''x-b''], po_expose = Only [''x-id'']\<rparr>"

definition ex_sharing :: "(((string \<times> string) list, unit, unit) parts, nat \<times> bool, nat) cors" where
  "ex_sharing = \<lparr>cors_inner = 0, cors_rules = update_vary_header (cors_layer_new\<lparr>
     cl_allow_origin := OriginList [''https://a''], cl_allow_credentials := CredYes,
     cl_allow_methods := MethodsConst (Some ''PUT,DELETE''), cl_allow_headers := HeadersConst (Some ''x-a,x-b''),
     cl_expose_headers := ExposeConst (Some ''x-id'')\<rparr>)\<rparr>"

definition ex_page :: browser_request where
  "ex_page = \<lparr>br_origin = ''https://a'', br_credentials = True, br_method = ''DELETE'', br_unsafe = [''x-b''], br_forced = False\<rparr>"

definition ex_cors_request :: "string \<Rightarrow> ((string \<times> string) list, unit, unit, unit) request" where
  "ex_cors_request m = \<lparr>req_method = m, req_uri = (), req_version = ''1.1'', req_headers = [(''origin'', ''https://a''),
     (''access-control-request-method'', ''DELETE''), (''access-control-request-headers'', ''x-b'')],
     req_extensions = (), req_body = ()\<rparr>"

definition ex_cors_answer :: "((string \<times> string) list, unit, unit) response" where
  "ex_cors_answer = \<lparr>res_status = 200, res_version = ''1.1'', res_headers = [(''x-id'', ''7'')], res_extensions = (), res_body = ()\<rparr>"

lemma ex_sharing_carries:
  "carries_policy (list_http ()) ready_after 0 ex_policy (cors_rules ex_sharing)"
proof -
  have "methods_part (list_http ()) (Only [''PUT'', ''DELETE'']) (MethodsConst (Some ''PUT,DELETE''))"
    "headers_part (list_http ()) (Only [''x-a'', ''x-b'']) (HeadersConst (Some ''x-a,x-b''))"
    "expose_part (list_http ()) (Only [''x-id'']) (ExposeConst (Some ''x-id''))"
    by code_simp+
  then show ?thesis
    by (simp add: carries_policy_def ex_policy_def ex_sharing_def allow_origin_list_def WILDCARD_def)
qed

lemma ex_policy_ok: "policy_ok (ex_policy :: 'p cors_policy)"
proof -
  have "names_in name_token (Only [''PUT'', ''DELETE''])" "names_in lower_name (Only [''x-a'', ''x-b''])"
    "names_in lower_name (Only [''x-id''])"
    by code_simp+
  then show ?thesis by (simp add: policy_ok_def ex_policy_def)
qed

lemma ex_page_ok:
  "browser_ok ex_page" "browser_preflight (list_http ()) ex_page (ex_cors_request ''OPTIONS'')"
  "list_all (list_all permitted_byte) (cl_vary (cors_rules ex_sharing))"
  by code_simp+

theorem cors_preflight_implements_policy_witness:
  "\<exists>fut resp. cors_call (list_http ()) (\<lambda>s q. (Suc s, ())) ex_sharing (ex_cors_request ''OPTIONS'') = Inr (ex_sharing, fut) \<and>
    run_future (cors_future_poll (list_http ()) ready_after (\<lambda>u. (Pending :: (unit + _) poll, u)) ()) (Suc 0) fut =
      Some (Inr resp) \<and>
    preflight_granted (list_http ()) ex_page resp"
proof -
  have "request_allowed ex_policy ex_page (request_parts (ex_cors_request ''OPTIONS''))"
    by (simp add: request_allowed_def sharing_allowed_def ex_policy_def ex_page_def)
  with cors_preflight_implements_policy [OF header_text_list_http ex_sharing_carries ex_policy_ok ex_page_ok(3,1,2),
      where inner_call = "\<lambda>s q. (Suc s, ())" and pf = "\<lambda>u. (Pending :: (unit + _) poll, u)" and def_body = "()"]
  show ?thesis by blast
qed

theorem cors_response_implements_policy_witness:
  "\<exists>fut resp. cors_call (list_http ()) (\<lambda>s q. (Suc s, (1 :: nat, Inr ex_cors_answer :: unit + _))) ex_sharing
      (ex_cors_request ''DELETE'') = Inr (ex_sharing\<lparr>cors_inner := Suc 0\<rparr>, fut) \<and>
    run_future (cors_future_poll (list_http ()) ready_after ready_after ()) (Suc 0 + 2) fut = Some (Inr resp) \<and>
    cors_check (list_http ()) ex_page (res_headers resp) \<and>
    header_visible (list_http ()) ex_page (res_headers resp) ''x-id''"
proof -
  let ?call = "\<lambda>s (q :: (_, unit, unit, unit) request). (Suc s, (1 :: nat, Inr ex_cors_answer :: unit + _))"
  have req: "req_method (ex_cors_request ''DELETE'') \<noteq> ''OPTIONS''"
    "hm_get (list_http ()) (req_headers (ex_cors_request ''DELETE'')) ''origin'' = Some (br_origin ex_page)"
    by (simp_all add: ex_cors_request_def ex_page_def list_http_defs)
  have inner: "?call (cors_inner ex_sharing) (ex_cors_request ''DELETE'') = (Suc 0, (1, Inr ex_cors_answer))"
    by (simp add: ex_sharing_def)
  have run: "run_future ready_after 2 (1 :: nat, Inr ex_cors_answer :: unit + _) = Some (Inr ex_cors_answer)"
    by (simp add: eval_nat_numeral)
  have silent: "\<And>m. m \<in> set cors_response_names \<Longrightarrow> m \<noteq> ''vary'' \<Longrightarrow>
      hm_get_all (list_http ()) (res_headers ex_cors_answer) m = []"
    by (auto simp: cors_response_names_def ex_cors_answer_def list_http_defs)
  have name: "lower_name ''x-id''" "''x-id'' \<notin> set cors_response_names"
    by code_simp+
  have allowed: "sharing_allowed ex_policy ex_page (request_parts (ex_cors_request ''DELETE''))"
    "exposure_allowed (po_expose (ex_policy :: unit cors_policy)) ex_page ''x-id''"
    "hm_get_all (list_http ()) (res_headers ex_cors_answer) ''x-id'' \<noteq> []"
    by (simp_all add: sharing_allowed_def ex_policy_def ex_page_def ex_cors_answer_def list_http_defs)
  from cors_response_implements_policy [where inner_call = ?call and def_body = "()",
      OF header_text_list_http ex_sharing_carries ex_policy_ok ex_page_ok(3,1) req inner run silent name] allowed
  show ?thesis by (auto simp: ex_policy_def)
qed

end
