(* ===== verification/Csrf.thy ===== *)
theory Csrf
  imports Http
begin

text \<open>
  \<open>csrf/\<close>: cross-site request forgery protection from the \<open>Sec-Fetch-Site\<close> and \<open>Origin\<close> headers.
  The layer with its list of trusted origins and bypass predicate, the check of a configured origin
  (\<open>url.rs\<close>), the decision of \<open>Csrf::verify\<close>, the service and its response future.  \<open>U\<close> is the
  interface of \<open>http::Uri\<close>; \<open>'t\<close> is the state of the rejection handler.
\<close>

section \<open>Errors and configuration\<close>

datatype config_error =
  InvalidOriginUrl string string
| InvalidOriginUrlComponents string
| OpaqueOrigin string
| NonAsciiHostname string

datatype protection_error_kind = CrossOriginRequest | CrossOriginRequestFromOldBrowser

record protection_error =
  pe_kind :: protection_error_kind

definition protection_error_display :: "protection_error \<Rightarrow> string" where
  "protection_error_display e =
     (case pe_kind e of
        CrossOriginRequest \<Rightarrow> ''Cross-Origin request detected''
      | CrossOriginRequestFromOldBrowser \<Rightarrow> ''Cross-Origin request from old browser detected'')"

type_synonym origins = "string set"

definition origins_contains :: "origins \<Rightarrow> string \<Rightarrow> bool" where
  "origins_contains os v = (v \<in> os)"

definition origins_insert :: "origins \<Rightarrow> string \<Rightarrow> origins" where
  "origins_insert os v = insert v os"

definition http_scheme :: "string option \<Rightarrow> bool" where
  "http_scheme s = (s = Some ''http'' \<or> s = Some ''https'')"

definition parse_origin :: "'u uri_api \<Rightarrow> string \<Rightarrow> config_error + 'u" where
  "parse_origin U i =
     (if CHR ''#'' \<in> set i then Inl (InvalidOriginUrlComponents i)
      else if \<not> is_ascii i then Inl (NonAsciiHostname i)
      else (case uri_parse U i of
              Inl m \<Rightarrow> Inl (InvalidOriginUrl i m)
            | Inr u \<Rightarrow>
                if \<not> http_scheme (uri_scheme U u) \<or>
                   (case uri_host U u of None \<Rightarrow> True | Some h \<Rightarrow> h = []) then Inl (OpaqueOrigin i)
                else (let after_scheme = (case split_once ''://'' i of None \<Rightarrow> [] | Some (_, rest) \<Rightarrow> rest)
                      in if CHR ''/'' \<in> set after_scheme \<or> uri_query U u \<noteq> None
                         then Inl (InvalidOriginUrlComponents i) else Inr u)))"

record ('u, 't) csrf_layer =
  cf_insecure_bypass :: "(string \<Rightarrow> 'u \<Rightarrow> bool) option"
  cf_rejection_response :: 't
  cf_trusted_origins :: origins

definition csrf_layer_default :: "'t \<Rightarrow> ('u, 't) csrf_layer" where
  "csrf_layer_default t = \<lparr>cf_insecure_bypass = None, cf_rejection_response = t, cf_trusted_origins = {}\<rparr>"

definition add_trusted_origin ::
  "'u uri_api \<Rightarrow> string \<Rightarrow> ('u, 't) csrf_layer \<Rightarrow> config_error + ('u, 't) csrf_layer" where
  "add_trusted_origin U i l =
     (case parse_origin U i of
        Inl e \<Rightarrow> Inl e
      | Inr _ \<Rightarrow> Inr (l\<lparr>cf_trusted_origins := origins_insert (cf_trusted_origins l) i\<rparr>))"

definition with_insecure_bypass ::
  "(string \<Rightarrow> 'u \<Rightarrow> bool) \<Rightarrow> ('u, 't) csrf_layer \<Rightarrow> ('u, 't) csrf_layer" where
  "with_insecure_bypass p l = l\<lparr>cf_insecure_bypass := Some p\<rparr>"

definition with_rejection_response :: "'r \<Rightarrow> ('u, 't) csrf_layer \<Rightarrow> ('u, 'r) csrf_layer" where
  "with_rejection_response r l = \<lparr>cf_insecure_bypass = cf_insecure_bypass l, cf_rejection_response = r,
     cf_trusted_origins = cf_trusted_origins l\<rparr>"

section \<open>The service\<close>

record ('u, 't, 's) csrf =
  cs_inner :: 's
  cs_insecure_bypass :: "(string \<Rightarrow> 'u \<Rightarrow> bool) option"
  cs_rejection_response :: 't
  cs_trusted_origins :: origins

definition csrf_layer_apply :: "('u, 't) csrf_layer \<Rightarrow> 's \<Rightarrow> ('u, 't, 's) csrf" where
  "csrf_layer_apply l s = \<lparr>cs_inner = s, cs_insecure_bypass = cf_insecure_bypass l,
     cs_rejection_response = cf_rejection_response l, cs_trusted_origins = cf_trusted_origins l\<rparr>"

definition is_exempt ::
  "('u, 't, 's) csrf \<Rightarrow> ('h, 'u, 'x, 'b) request \<Rightarrow> string option \<Rightarrow> bool" where
  "is_exempt c req origin =
     (let bypass = (case cs_insecure_bypass c of None \<Rightarrow> False | Some p \<Rightarrow> p (req_method req) (req_uri req))
      in if bypass then True
         else (let trusted = (case origin of None \<Rightarrow> False | Some b \<Rightarrow> origins_contains (cs_trusted_origins c) b)
               in if trusted then True else False))"

definition is_safe_method :: "string \<Rightarrow> bool" where
  "is_safe_method m = (m = ''GET'' \<or> m = ''HEAD'' \<or> m = ''OPTIONS'')"

definition parsed_origin :: "'u uri_api \<Rightarrow> string option \<Rightarrow> 'u option" where
  "parsed_origin U origin =
     (case origin of
        None \<Rightarrow> None
      | Some b \<Rightarrow>
          if b = [] then None
          else (case uri_parse U b of
                  Inl _ \<Rightarrow> None
                | Inr u \<Rightarrow> if http_scheme (uri_scheme U u) then Some u else None))"

definition same_host :: "'u uri_api \<Rightarrow> 'u option \<Rightarrow> string option \<Rightarrow> bool" where
  "same_host U origin_uri effective_host =
     (case (origin_uri, effective_host) of
        (Some u, Some h) \<Rightarrow> uri_authority U u = Some h
      | _ \<Rightarrow> False)"

definition effective_host ::
  "('h, string, 'x) http_api \<Rightarrow> 'u uri_api \<Rightarrow> ('h, 'u, 'x, 'b) request \<Rightarrow> string option" where
  "effective_host H U req =
     (case uri_authority U (req_uri req) of
        Some a \<Rightarrow> Some a | None \<Rightarrow> hm_get H (req_headers req) ''host'')"

definition csrf_verify ::
  "('h, string, 'x) http_api \<Rightarrow> 'u uri_api \<Rightarrow> ('u, 't, 's) csrf \<Rightarrow> ('h, 'u, 'x, 'b) request \<Rightarrow>
     protection_error + unit" where
  "csrf_verify H U c req =
     (if is_safe_method (req_method req) then Inr ()
      else
        (let origin = hm_get H (req_headers req) ''origin'';
             origin_uri = parsed_origin U origin;
             sec_fetch_site = hm_get H (req_headers req) ''sec-fetch-site'';
             old_browser =
               (if origin = None \<or> origin = Some [] then Inr ()
                else if same_host U origin_uri (effective_host H U req) then Inr ()
                else if is_exempt c req origin then Inr ()
                else Inl \<lparr>pe_kind = CrossOriginRequestFromOldBrowser\<rparr>)
         in case sec_fetch_site of
              None \<Rightarrow> old_browser
            | Some v \<Rightarrow>
                if v = ''same-origin'' \<or> v = ''none'' then Inr ()
                else if v = [] then old_browser
                else if is_exempt c req origin then Inr ()
                else Inl \<lparr>pe_kind = CrossOriginRequest\<rparr>))"

text \<open>\<open>DefaultResponseForProtectionError\<close>: 403 with the default body.\<close>

definition default_response_for_protection_error ::
  "('h, 'v, 'x) http_api \<Rightarrow> 'b \<Rightarrow> unit \<Rightarrow> protection_error \<Rightarrow> ('h, 'x, 'b) response \<times> unit" where
  "default_response_for_protection_error H b t e = ((response_new H b)\<lparr>res_status := 403\<rparr>, ())"

datatype ('f, 'o) csrf_future = CsrfFuture 'f | CsrfRejected "'o option"

definition csrf_call ::
  "('h, string, 'x) http_api \<Rightarrow> 'u uri_api \<Rightarrow> (protection_error \<Rightarrow> 'x \<Rightarrow> 'x) \<Rightarrow>
     ('t \<Rightarrow> protection_error \<Rightarrow> ('h, 'x, 'r) response \<times> 't) \<Rightarrow>
     ('s \<Rightarrow> ('h, 'u, 'x, 'b) request \<Rightarrow> 's \<times> 'f) \<Rightarrow> ('u, 't, 's) csrf \<Rightarrow> ('h, 'u, 'x, 'b) request \<Rightarrow>
     ('u, 't, 's) csrf \<times> ('f, 'e + ('h, 'x, 'r) response) csrf_future" where
  "csrf_call H U ext_insert reject inner_call c req =
     (case csrf_verify H U c req of
        Inr _ \<Rightarrow> (let (s, f) = inner_call (cs_inner c) req in (c\<lparr>cs_inner := s\<rparr>, CsrfFuture f))
      | Inl err \<Rightarrow>
          (let (resp, t) = reject (cs_rejection_response c) err
           in (c\<lparr>cs_rejection_response := t\<rparr>,
               CsrfRejected (Some (Inr (resp\<lparr>res_extensions := ext_insert err (res_extensions resp)\<rparr>))))))"

text \<open>Polling a rejected future a second time panics.\<close>

fun csrf_future_poll ::
  "('f, 'o) poll_fn \<Rightarrow> ('f, 'o) csrf_future \<Rightarrow> ('o poll \<times> ('f, 'o) csrf_future) panics" where
  "csrf_future_poll pf (CsrfFuture f) = (case pf f of (r, f') \<Rightarrow> Inr (r, CsrfFuture f'))"
| "csrf_future_poll pf (CsrfRejected (Some r)) = Inr (Ready r, CsrfRejected None)"
| "csrf_future_poll pf (CsrfRejected None) = Inl ''ResponseFuture polled after completion''"

section \<open>The decision\<close>

text \<open>
  The promise of the middleware, without the order of its checks.  A request passes if its method is
  safe, the browser says it is same-origin or user-initiated, it is exempt, or no browser reports
  where it comes from: then the \<open>Origin\<close> is absent or names the host the request is for.
\<close>

definition csrf_accepts ::
  "('h, string, 'x) http_api \<Rightarrow> 'u uri_api \<Rightarrow> ('u, 't, 's) csrf \<Rightarrow> ('h, 'u, 'x, 'b) request \<Rightarrow> bool" where
  "csrf_accepts H U c req \<longleftrightarrow>
     (let site = hm_get H (req_headers req) ''sec-fetch-site'';
          origin = hm_get H (req_headers req) ''origin''
      in is_safe_method (req_method req) \<or> site \<in> {Some ''same-origin'', Some ''none''} \<or>
         is_exempt c req origin \<or>
         (site \<in> {None, Some []} \<and>
          (origin \<in> {None, Some []} \<or>
           same_host U (parsed_origin U origin) (effective_host H U req))))"



text \<open>
  An origin is accepted into the trusted list only if it is ASCII, parses as an http or https
  URI with a host, and has no path, query or fragment; then exactly this text is added and the rest of the
  layer is unchanged.
\<close>

theorem add_trusted_origin_ok:
  assumes "add_trusted_origin U i l = Inr l'"
  shows "cf_trusted_origins l' = insert i (cf_trusted_origins l) \<and>
    cf_insecure_bypass l' = cf_insecure_bypass l \<and> cf_rejection_response l' = cf_rejection_response l \<and>
    is_ascii i \<and> CHR ''#'' \<notin> set i \<and>
    (\<exists>u h. uri_parse U i = Inr u \<and> uri_scheme U u \<in> {Some ''http'', Some ''https''} \<and>
       uri_host U u = Some h \<and> h \<noteq> [] \<and> uri_query U u = None \<and>
       (\<forall>a r. split_once ''://'' i = Some (a, r) \<longrightarrow> CHR ''/'' \<notin> set r))"
  using assms
  by (auto simp: add_trusted_origin_def parse_origin_def origins_insert_def http_scheme_def Let_def
      split: if_splits sum.splits option.splits)

theorem add_trusted_origin_ok_witness:
  "\<exists>l'. add_trusted_origin simple_uri_api ''https://a.example:8443'' (csrf_layer_default ()) = Inr l' \<and>
     cf_trusted_origins l' = {''https://a.example:8443''}"
proof -
  let ?i = "''https://a.example:8443''"
  have "parse_origin simple_uri_api ?i =
      Inr \<lparr>su_scheme = Some ''https'', su_authority = Some ''a.example:8443'', su_path = ''/'', su_query = None\<rparr>"
    by code_simp
  then obtain l' where l': "add_trusted_origin simple_uri_api ?i (csrf_layer_default ()) = Inr l'"
    by (simp add: add_trusted_origin_def)
  from add_trusted_origin_ok [OF l'] l' show ?thesis by (auto simp: csrf_layer_default_def)
qed


end
