(* ===== verification/Follow_Redirect_Policy.thy ===== *)
theory Follow_Redirect_Policy
  imports Http
begin

text \<open>
  \<open>follow_redirect/policy/\<close>: when a redirection is followed and what is done to the next request.
  A policy is a state with the three methods of the trait \<open>Policy\<close>, a record of type \<open>policy\<close>; each
  policy of the crate and both combinators are such records.
\<close>

section \<open>The Policy trait\<close>

datatype action = Follow | Stop

record 'u attempt =
  at_status :: nat
  at_method :: string
  at_location :: 'u
  at_previous_method :: string
  at_previous :: 'u

definition is_follow :: "action \<Rightarrow> bool" where
  "is_follow a = (case a of Follow \<Rightarrow> True | _ \<Rightarrow> False)"

definition is_stop :: "action \<Rightarrow> bool" where
  "is_stop a = (case a of Stop \<Rightarrow> True | _ \<Rightarrow> False)"

record ('p, 'u, 'q, 'b, 'e) policy =
  pol_redirect :: "'p \<Rightarrow> 'u attempt \<Rightarrow> ('e + action) \<times> 'p"
  pol_on_request :: "'p \<Rightarrow> 'q \<Rightarrow> 'q \<times> 'p"
  pol_clone_body :: "'p \<Rightarrow> 'b \<Rightarrow> 'b option"

text \<open>The default methods of the trait: leave the request alone, do not clone the body.\<close>

definition default_on_request :: "'p \<Rightarrow> 'q \<Rightarrow> 'q \<times> 'p" where
  "default_on_request p q = (q, p)"

definition default_clone_body :: "'p \<Rightarrow> 'b \<Rightarrow> 'b option" where
  "default_clone_body p b = None"

definition action_policy :: "(action, 'u, 'q, 'b, 'e) policy" where
  "action_policy = \<lparr>pol_redirect = (\<lambda>a _. (Inr a, a)), pol_on_request = default_on_request,
     pol_clone_body = default_clone_body\<rparr>"

definition result_policy :: "('e + action, 'u, 'q, 'b, 'e) policy" where
  "result_policy = \<lparr>pol_redirect = (\<lambda>r _. (r, r)), pol_on_request = default_on_request,
     pol_clone_body = default_clone_body\<rparr>"

definition redirect_fn_policy :: "('p \<Rightarrow> 'u attempt \<Rightarrow> ('e + action) \<times> 'p) \<Rightarrow> ('p, 'u, 'q, 'b, 'e) policy" where
  "redirect_fn_policy f = \<lparr>pol_redirect = f, pol_on_request = default_on_request,
     pol_clone_body = default_clone_body\<rparr>"

definition clone_body_fn_policy :: "('b \<Rightarrow> 'b option) \<Rightarrow> (unit, 'u, 'q, 'b, 'e) policy" where
  "clone_body_fn_policy f = \<lparr>pol_redirect = (\<lambda>p _. (Inr Follow, p)), pol_on_request = default_on_request,
     pol_clone_body = (\<lambda>_ b. f b)\<rparr>"

section \<open>Limited and same-origin\<close>

record limited =
  remaining :: nat

definition limited_new :: "nat \<Rightarrow> limited" where
  "limited_new m = \<lparr>remaining = m\<rparr>"

definition limited_default :: limited where
  "limited_default = limited_new 20"

definition limited_redirect :: "limited \<Rightarrow> 'u attempt \<Rightarrow> ('e + action) \<times> limited" where
  "limited_redirect l a =
     (if remaining l > 0 then (Inr Follow, l\<lparr>remaining := remaining l - 1\<rparr>) else (Inr Stop, l))"

definition limited_policy :: "(limited, 'u, 'q, 'b, 'e) policy" where
  "limited_policy = \<lparr>pol_redirect = limited_redirect, pol_on_request = default_on_request,
     pol_clone_body = default_clone_body\<rparr>"

text \<open>Equality of schemes ignores case, as that of \<open>http::uri::Scheme\<close> does; hosts are compared as text.\<close>

definition eq_origin :: "'u uri_api \<Rightarrow> 'u \<Rightarrow> 'u \<Rightarrow> bool" where
  "eq_origin U lhs rhs =
     (case (uri_scheme U lhs, uri_scheme U rhs) of
        (Some l, Some r) \<Rightarrow>
          if \<not> eq_ignore_ascii_case l r then False
          else (let default_port = (if eq_ignore_ascii_case l ''http'' then Some 80
                                    else if eq_ignore_ascii_case l ''https'' then Some 443 else None)
                in case default_port of
                     None \<Rightarrow> False
                   | Some dp \<Rightarrow>
                       (case (uri_host U lhs, uri_host U rhs) of
                          (Some lh, Some rh) \<Rightarrow>
                            if lh = rh
                            then (case uri_port U lhs of Some p \<Rightarrow> p | None \<Rightarrow> dp) =
                                 (case uri_port U rhs of Some p \<Rightarrow> p | None \<Rightarrow> dp)
                            else False
                        | _ \<Rightarrow> False))
      | _ \<Rightarrow> False)"

definition same_origin_policy :: "'u uri_api \<Rightarrow> (unit, 'u, 'q, 'b, 'e) policy" where
  "same_origin_policy U =
     \<lparr>pol_redirect = (\<lambda>p a. (Inr (if eq_origin U (at_previous a) (at_location a) then Follow else Stop), p)),
      pol_on_request = default_on_request, pol_clone_body = default_clone_body\<rparr>"

section \<open>Filtering of credentials\<close>

record 'x filter_credentials =
  fc_block_cross_origin :: bool
  fc_block_any :: bool
  fc_remove_blocklisted :: bool
  fc_remove_all :: bool
  fc_remove_all_extensions :: bool
  fc_extension_allowlist :: "('x \<Rightarrow> 'x \<Rightarrow> 'x \<times> 'x) list"
  fc_blocked :: bool

definition BLOCKLIST :: "string list" where
  "BLOCKLIST = [''authorization'', ''cookie'', ''proxy-authorization'']"

definition filter_credentials_new :: "'x filter_credentials" where
  "filter_credentials_new = \<lparr>fc_block_cross_origin = True, fc_block_any = False,
     fc_remove_blocklisted = True, fc_remove_all = False, fc_remove_all_extensions = True,
     fc_extension_allowlist = [], fc_blocked = False\<rparr>"

definition fc_set_block_cross_origin :: "'x filter_credentials \<Rightarrow> bool \<Rightarrow> 'x filter_credentials" where
  "fc_set_block_cross_origin f enable = f\<lparr>fc_block_cross_origin := enable\<rparr>"

definition fc_set_block_any :: "'x filter_credentials \<Rightarrow> 'x filter_credentials" where
  "fc_set_block_any f = f\<lparr>fc_block_any := True\<rparr>"

definition fc_set_block_none :: "'x filter_credentials \<Rightarrow> 'x filter_credentials" where
  "fc_set_block_none f = fc_set_block_cross_origin (f\<lparr>fc_block_any := False\<rparr>) False"

definition fc_set_remove_blocklisted :: "'x filter_credentials \<Rightarrow> bool \<Rightarrow> 'x filter_credentials" where
  "fc_set_remove_blocklisted f enable = f\<lparr>fc_remove_blocklisted := enable\<rparr>"

definition fc_set_remove_all :: "'x filter_credentials \<Rightarrow> 'x filter_credentials" where
  "fc_set_remove_all f = f\<lparr>fc_remove_all := True\<rparr>"

definition fc_set_remove_none :: "'x filter_credentials \<Rightarrow> 'x filter_credentials" where
  "fc_set_remove_none f = fc_set_remove_blocklisted (f\<lparr>fc_remove_all := False\<rparr>) False"

definition fc_set_remove_all_extensions :: "'x filter_credentials \<Rightarrow> 'x filter_credentials" where
  "fc_set_remove_all_extensions f = f\<lparr>fc_remove_all_extensions := True\<rparr>"

definition fc_set_keep_all_extensions :: "'x filter_credentials \<Rightarrow> 'x filter_credentials" where
  "fc_set_keep_all_extensions f = f\<lparr>fc_remove_all_extensions := False\<rparr>"

text \<open>
  \<open>allow_extension::<T>\<close> pushes a function that moves the value of type \<open>T\<close>, if there is one,
  from the first extension map to the second; the functions of the two maps are arguments.
\<close>

definition fc_allow_extension ::
  "('x \<Rightarrow> 'v option \<times> 'x) \<Rightarrow> ('v \<Rightarrow> 'x \<Rightarrow> 'x) \<Rightarrow> 'x filter_credentials \<Rightarrow> 'x filter_credentials" where
  "fc_allow_extension ext_remove ext_insert f = f\<lparr>fc_extension_allowlist := fc_extension_allowlist f @
     [\<lambda>src tgt. (case ext_remove src of
         (Some v, src') \<Rightarrow> (src', ext_insert v tgt)
       | (None, src') \<Rightarrow> (src', tgt))]\<rparr>"

definition fc_redirect ::
  "'u uri_api \<Rightarrow> 'x filter_credentials \<Rightarrow> 'u attempt \<Rightarrow> ('e + action) \<times> 'x filter_credentials" where
  "fc_redirect U f a =
     (Inr Follow, f\<lparr>fc_blocked := fc_block_any f \<or>
        (fc_block_cross_origin f \<and> \<not> eq_origin U (at_previous a) (at_location a))\<rparr>)"

definition fc_on_request ::
  "('h, 'v, 'x) http_api \<Rightarrow> 'x filter_credentials \<Rightarrow> ('h, 'u, 'x, 'b) request \<Rightarrow>
     ('h, 'u, 'x, 'b) request \<times> 'x filter_credentials" where
  "fc_on_request H f q =
     (if fc_blocked f then
        (let headers = (if fc_remove_all f then hm_clear H (req_headers q)
                        else if fc_remove_blocklisted f
                        then foldl (\<lambda>h k. snd (hm_remove H h k)) (req_headers q) BLOCKLIST
                        else req_headers q);
             extensions = (if fc_remove_all_extensions f then
                             (if fc_extension_allowlist f = [] then ext_new H
                              else snd (foldl (\<lambda>(src, tgt) t. t src tgt) (req_extensions q, ext_new H)
                                          (fc_extension_allowlist f)))
                           else req_extensions q)
         in (q\<lparr>req_headers := headers, req_extensions := extensions\<rparr>, f))
      else (q, f))"

definition fc_policy ::
  "('h, 'v, 'x) http_api \<Rightarrow> 'u uri_api \<Rightarrow> ('x filter_credentials, 'u, ('h, 'u, 'x, 'b) request, 'b, 'e) policy" where
  "fc_policy H U = \<lparr>pol_redirect = fc_redirect U, pol_on_request = fc_on_request H,
     pol_clone_body = default_clone_body\<rparr>"

section \<open>Combinators\<close>

definition and_policy ::
  "('p, 'u, 'q, 'b, 'e) policy \<Rightarrow> ('r, 'u, 'q, 'b, 'e) policy \<Rightarrow> ('p \<times> 'r, 'u, 'q, 'b, 'e) policy" where
  "and_policy A B =
     \<lparr>pol_redirect = (\<lambda>(a, b) t.
        (case pol_redirect A a t of
           (Inr Follow, a') \<Rightarrow> (case pol_redirect B b t of (r, b') \<Rightarrow> (r, (a', b')))
         | (r, a') \<Rightarrow> (r, (a', b)))),
      pol_on_request = (\<lambda>(a, b) q.
        (case pol_on_request A a q of (q1, a') \<Rightarrow>
           (case pol_on_request B b q1 of (q2, b') \<Rightarrow> (q2, (a', b'))))),
      pol_clone_body = (\<lambda>(a, b) body.
        (case pol_clone_body A a body of Some x \<Rightarrow> Some x | None \<Rightarrow> pol_clone_body B b body))\<rparr>"

definition or_policy ::
  "('p, 'u, 'q, 'b, 'e) policy \<Rightarrow> ('r, 'u, 'q, 'b, 'e) policy \<Rightarrow> ('p \<times> 'r, 'u, 'q, 'b, 'e) policy" where
  "or_policy A B =
     \<lparr>pol_redirect = (\<lambda>(a, b) t.
        (case pol_redirect A a t of
           (Inr Follow, a') \<Rightarrow> (Inr Follow, (a', b))
         | (_, a') \<Rightarrow> (case pol_redirect B b t of (r, b') \<Rightarrow> (r, (a', b'))))),
      pol_on_request = (\<lambda>(a, b) q.
        (case pol_on_request A a q of (q1, a') \<Rightarrow>
           (case pol_on_request B b q1 of (q2, b') \<Rightarrow> (q2, (a', b'))))),
      pol_clone_body = (\<lambda>(a, b) body.
        (case pol_clone_body A a body of Some x \<Rightarrow> Some x | None \<Rightarrow> pol_clone_body B b body))\<rparr>"

text \<open>\<open>Standard\<close> is \<open>And<Limited, FilterCredentials>\<close>.\<close>

definition standard_policy ::
  "('h, 'v, 'x) http_api \<Rightarrow> 'u uri_api \<Rightarrow>
     (limited \<times> 'x filter_credentials, 'u, ('h, 'u, 'x, 'b) request, 'b, 'e) policy" where
  "standard_policy H U = and_policy limited_policy (fc_policy H U)"

definition standard_default :: "limited \<times> 'x filter_credentials" where
  "standard_default = (limited_default, filter_credentials_new)"

end
