(* ===== verification/Follow_Redirect.thy ===== *)
theory Follow_Redirect
  imports Follow_Redirect_Policy
begin

text \<open>
  \<open>follow_redirect/mod.rs\<close>: the service that reissues a request to the location of a redirection.
  The response future keeps what the next request is made of (method, URI, version, headers,
  extensions and, if it can be repeated, the body) and polls either the future of the first call or a
  \<open>tower\<close> oneshot of a later one.  The inner service, its futures, the oneshot, the size of a body
  and the \<open>url\<close> crate are arguments.
\<close>

section \<open>The body that can be sent again\<close>

datatype 'b body_repr = BodySome 'b | BodyEmpty | BodyNone

definition clone_body ::
  "('p, 'u, 'q, 'b, 'e) policy \<Rightarrow> ('b \<Rightarrow> nat option) \<Rightarrow> 'b \<Rightarrow> 'p \<Rightarrow> 'b \<Rightarrow> 'b option" where
  "clone_body P size_exact def_body p b =
     (if size_exact b = Some 0 then Some def_body else pol_clone_body P p b)"

fun body_take :: "'b \<Rightarrow> 'b body_repr \<Rightarrow> 'b option \<times> 'b body_repr" where
  "body_take def_body (BodySome b) = (Some b, BodyNone)"
| "body_take def_body BodyEmpty = (Some def_body, BodyEmpty)"
| "body_take def_body BodyNone = (None, BodyNone)"

fun try_clone_from ::
  "('p, 'u, 'q, 'b, 'e) policy \<Rightarrow> ('b \<Rightarrow> nat option) \<Rightarrow> 'b \<Rightarrow> 'p \<Rightarrow> 'b \<Rightarrow> 'b body_repr \<Rightarrow> 'b body_repr" where
  "try_clone_from P size_exact def_body p b BodyNone =
     (case clone_body P size_exact def_body p b of Some c \<Rightarrow> BodySome c | None \<Rightarrow> BodyNone)"
| "try_clone_from P size_exact def_body p b r = r"

section \<open>Resolution of the location\<close>

record 'l url_api =
  url_parse :: "string \<Rightarrow> 'l option"
  url_join :: "'l \<Rightarrow> string \<Rightarrow> 'l option"
  url_to_string :: "'l \<Rightarrow> string"

definition resolve_uri :: "'u uri_api \<Rightarrow> 'l url_api \<Rightarrow> string \<Rightarrow> 'u \<Rightarrow> 'u option" where
  "resolve_uri U L relative base =
     (case url_parse L (uri_to_string U base) of
        None \<Rightarrow> None
      | Some base_url \<Rightarrow>
          (case url_join L base_url relative of
             None \<Rightarrow> None
           | Some resolved \<Rightarrow>
               (case uri_parse U (url_to_string L resolved) of Inl _ \<Rightarrow> None | Inr u \<Rightarrow> Some u)))"

section \<open>The layer and the service\<close>

record 'p follow_redirect_layer =
  frl_policy :: 'p
  frl_preserve_extensions :: bool

definition follow_redirect_layer_with_policy :: "'p \<Rightarrow> 'p follow_redirect_layer" where
  "follow_redirect_layer_with_policy p = \<lparr>frl_policy = p, frl_preserve_extensions = True\<rparr>"

definition follow_redirect_layer_default :: "'p \<Rightarrow> 'p follow_redirect_layer" where
  "follow_redirect_layer_default default_policy = follow_redirect_layer_with_policy default_policy"

definition follow_redirect_layer_new :: "(limited \<times> 'x filter_credentials) follow_redirect_layer" where
  "follow_redirect_layer_new = follow_redirect_layer_default standard_default"

definition follow_redirect_layer_preserve_extensions ::
  "'p follow_redirect_layer \<Rightarrow> bool \<Rightarrow> 'p follow_redirect_layer" where
  "follow_redirect_layer_preserve_extensions l preserve = l\<lparr>frl_preserve_extensions := preserve\<rparr>"

record ('s, 'p) follow_redirect =
  fr_inner :: 's
  fr_policy :: 'p
  fr_preserve_extensions :: bool

definition follow_redirect_with_policy :: "'s \<Rightarrow> 'p \<Rightarrow> ('s, 'p) follow_redirect" where
  "follow_redirect_with_policy s p = \<lparr>fr_inner = s, fr_policy = p, fr_preserve_extensions = True\<rparr>"

definition follow_redirect_new :: "'s \<Rightarrow> ('s, limited \<times> 'x filter_credentials) follow_redirect" where
  "follow_redirect_new s = follow_redirect_with_policy s standard_default"

definition follow_redirect_preserve_extensions ::
  "('s, 'p) follow_redirect \<Rightarrow> bool \<Rightarrow> ('s, 'p) follow_redirect" where
  "follow_redirect_preserve_extensions s preserve = s\<lparr>fr_preserve_extensions := preserve\<rparr>"

definition follow_redirect_layer_apply :: "'p follow_redirect_layer \<Rightarrow> 's \<Rightarrow> ('s, 'p) follow_redirect" where
  "follow_redirect_layer_apply l s =
     follow_redirect_preserve_extensions (follow_redirect_with_policy s (frl_policy l)) (frl_preserve_extensions l)"

record ('f, 'o, 's, 'p, 'u, 'h, 'x, 'b) redirect_future =
  rf_future :: "'f + 'o"
  rf_service :: 's
  rf_policy :: 'p
  rf_method :: string
  rf_uri :: 'u
  rf_version :: string
  rf_headers :: 'h
  rf_extensions :: 'x
  rf_body :: "'b body_repr"

text \<open>The service keeps the clone and the future gets the instance that was polled ready.\<close>

definition follow_redirect_call ::
  "('s \<Rightarrow> 's) \<Rightarrow> ('h, 'v, 'x) http_api \<Rightarrow> ('p, 'u, ('h, 'u, 'x, 'b) request, 'b, 'e) policy \<Rightarrow> ('b \<Rightarrow> nat option) \<Rightarrow> 'b \<Rightarrow>
     ('s \<Rightarrow> ('h, 'u, 'x, 'b) request \<Rightarrow> 's \<times> 'f) \<Rightarrow> ('s, 'p) follow_redirect \<Rightarrow> ('h, 'u, 'x, 'b) request \<Rightarrow>
     ('s, 'p) follow_redirect \<times> ('f, 'o, 's, 'p, 'u, 'h, 'x, 'b) redirect_future" where
  "follow_redirect_call clone H P size_exact def_body inner_call fr req =
     (let body = try_clone_from P size_exact def_body (fr_policy fr) (req_body req) BodyNone;
          (req', policy) = pol_on_request P (fr_policy fr) req;
          extensions = (if fr_preserve_extensions fr then req_extensions req' else ext_new H);
          (service, f) = inner_call (fr_inner fr) req'
      in (fr\<lparr>fr_inner := clone (fr_inner fr)\<rparr>, \<lparr>rf_future = Inl f, rf_service = service, rf_policy = policy,
               rf_method = req_method req', rf_uri = req_uri req', rf_version = req_version req',
               rf_headers = req_headers req', rf_extensions = extensions, rf_body = body\<rparr>))"

section \<open>The response future\<close>

definition drop_payload_headers :: "('h, 'v, 'x) http_api \<Rightarrow> 'h \<Rightarrow> 'h" where
  "drop_payload_headers H h =
     foldl (\<lambda>h k. snd (hm_remove H h k)) h
       [''content-type'', ''content-length'', ''content-encoding'', ''transfer-encoding'']"

text \<open>
  The match on the status: \<open>None\<close> when it is not a redirection, otherwise method, body and headers of
  the next request.
\<close>

definition redirect_rewrite ::
  "('h, 'v, 'x) http_api \<Rightarrow> nat \<Rightarrow> string \<times> 'b body_repr \<times> 'h \<Rightarrow> (string \<times> 'b body_repr \<times> 'h) option" where
  "redirect_rewrite H status t =
     (case t of (m, body, h) \<Rightarrow>
        if status = 301 \<or> status = 302 then
          (if m = ''POST'' then Some (''GET'', BodyEmpty, drop_payload_headers H h) else Some (m, body, h))
        else if status = 303 then
          Some (if m \<noteq> ''HEAD'' then ''GET'' else m, BodyEmpty, drop_payload_headers H h)
        else if status = 307 \<or> status = 308 then Some (m, body, h)
        else None)"

definition poll_either ::
  "('f, 'r) poll_fn \<Rightarrow> ('o, 'r) poll_fn \<Rightarrow> ('f + 'o, 'r) poll_fn" where
  "poll_either pf po x =
     (case x of Inl f \<Rightarrow> (case pf f of (r, f') \<Rightarrow> (r, Inl f'))
      | Inr k \<Rightarrow> (case po k of (r, k') \<Rightarrow> (r, Inr k')))"

text \<open>What \<open>poll\<close> does once the pending call has answered with \<open>res\<close>.\<close>

definition redirect_response ::
  "('h, 'v, 'x) http_api \<Rightarrow> 'u uri_api \<Rightarrow> 'l url_api \<Rightarrow>
     ('p, 'u, ('h, 'u, 'x, 'b) request, 'b, 'e) policy \<Rightarrow> ('v \<Rightarrow> string) \<Rightarrow> ('u \<Rightarrow> 'x \<Rightarrow> 'x) \<Rightarrow>
     ('b \<Rightarrow> nat option) \<Rightarrow> 'b \<Rightarrow> ('s \<Rightarrow> ('h, 'u, 'x, 'b) request \<Rightarrow> 'o) \<Rightarrow>
     ('f, 'o, 's, 'p, 'u, 'h, 'x, 'b) redirect_future \<Rightarrow> ('h, 'x, 'r) response \<Rightarrow>
     ('e + ('h, 'x, 'r) response) poll \<times> ('f, 'o, 's, 'p, 'u, 'h, 'x, 'b) redirect_future" where
  "redirect_response H U L P as_bytes ext_insert_uri size_exact def_body oneshot st res0 =
     (let res = res0\<lparr>res_extensions := ext_insert_uri (rf_uri st) (res_extensions res0)\<rparr>;
          previous_method = rf_method st
      in case redirect_rewrite H (res_status res) (rf_method st, rf_body st, rf_headers st) of
           None \<Rightarrow> (Ready (Inr res), st)
         | Some (m, b, h) \<Rightarrow>
             (case body_take def_body b of
                (None, b') \<Rightarrow> (Ready (Inr res), st\<lparr>rf_method := m, rf_headers := h, rf_body := b'\<rparr>)
              | (Some body, b') \<Rightarrow>
                  (let st1 = st\<lparr>rf_method := m, rf_headers := h, rf_body := b'\<rparr>
                   in case Option.bind (hm_get H (res_headers res) ''location'')
                             (\<lambda>loc. Option.bind (from_utf8 (as_bytes loc)) (\<lambda>s. resolve_uri U L s (rf_uri st))) of
                        None \<Rightarrow> (Ready (Inr res), st1)
                      | Some location \<Rightarrow>
                          (let attempt = \<lparr>at_status = res_status res, at_method = m, at_location = location,
                                          at_previous_method = previous_method, at_previous = rf_uri st\<rparr>
                           in case pol_redirect P (rf_policy st) attempt of
                                (Inl e, p) \<Rightarrow> (Ready (Inl e), st1\<lparr>rf_policy := p\<rparr>)
                              | (Inr Stop, p) \<Rightarrow> (Ready (Inr res), st1\<lparr>rf_policy := p\<rparr>)
                              | (Inr Follow, p) \<Rightarrow>
                                  (let b2 = try_clone_from P size_exact def_body p body b';
                                       req = \<lparr>req_method = m, req_uri = location, req_version = rf_version st,
                                              req_headers = h, req_extensions = rf_extensions st, req_body = body\<rparr>;
                                       (req', p') = pol_on_request P p req
                                   in (Pending,
                                       st1\<lparr>rf_uri := location, rf_body := b2, rf_policy := p',
                                           rf_headers := req_headers req', rf_extensions := req_extensions req',
                                           rf_future := Inr (oneshot (rf_service st) req')\<rparr>))))))"

definition redirect_future_poll ::
  "('h, 'v, 'x) http_api \<Rightarrow> 'u uri_api \<Rightarrow> 'l url_api \<Rightarrow>
     ('p, 'u, ('h, 'u, 'x, 'b) request, 'b, 'e) policy \<Rightarrow> ('v \<Rightarrow> string) \<Rightarrow> ('u \<Rightarrow> 'x \<Rightarrow> 'x) \<Rightarrow>
     ('b \<Rightarrow> nat option) \<Rightarrow> 'b \<Rightarrow> ('s \<Rightarrow> ('h, 'u, 'x, 'b) request \<Rightarrow> 'o) \<Rightarrow>
     ('f, 'e + ('h, 'x, 'r) response) poll_fn \<Rightarrow> ('o, 'e + ('h, 'x, 'r) response) poll_fn \<Rightarrow>
     (('f, 'o, 's, 'p, 'u, 'h, 'x, 'b) redirect_future, 'e + ('h, 'x, 'r) response) poll_fn" where
  "redirect_future_poll H U L P as_bytes ext_insert_uri size_exact def_body oneshot pf po st =
     (case poll_either pf po (rf_future st) of
        (Pending, k) \<Rightarrow> (Pending, st\<lparr>rf_future := k\<rparr>)
      | (Ready (Inl e), k) \<Rightarrow> (Ready (Inl e), st\<lparr>rf_future := k\<rparr>)
      | (Ready (Inr res), k) \<Rightarrow>
          redirect_response H U L P as_bytes ext_insert_uri size_exact def_body oneshot (st\<lparr>rf_future := k\<rparr>) res)"

section \<open>One followed redirection\<close>

definition redirect_attempt where
  "redirect_attempt st status m location = \<lparr>at_status = status, at_method = m, at_location = location,
     at_previous_method = rf_method st, at_previous = rf_uri st\<rparr>"

definition redirect_request where
  "redirect_request st m location h body = \<lparr>req_method = m, req_uri = location,
     req_version = rf_version st, req_headers = h, req_extensions = rf_extensions st, req_body = body\<rparr>"

lemmas redirect_step_defs = redirect_attempt_def redirect_request_def

text \<open>A pending answer of \<open>redirect_response\<close> is a followed redirection: everything the code checked.\<close>

lemma redirect_response_Pending:
  assumes "redirect_response H U L P ab ei sz db oneshot st res = (Pending, st')"
  obtains m b h body b' location p q p' where
    "redirect_rewrite H (res_status res) (rf_method st, rf_body st, rf_headers st) = Some (m, b, h)"
    "body_take db b = (Some body, b')"
    "pol_redirect P (rf_policy st) (redirect_attempt st (res_status res) m location) = (Inr Follow, p)"
    "pol_on_request P p (redirect_request st m location h body) = (q, p')"
    "st' = st\<lparr>rf_method := m, rf_headers := req_headers q, rf_body := try_clone_from P sz db p body b',
      rf_uri := location, rf_policy := p', rf_extensions := req_extensions q,
      rf_future := Inr (oneshot (rf_service st) q)\<rparr>"
  using assms
  by (auto simp: redirect_response_def redirect_step_defs Let_def
      split: option.splits prod.splits sum.splits action.splits)

text \<open>
  Chains of followed redirections: the listed responses were followed, in this order, between the two
  states.  Polling the call in between changes the future only.
\<close>

inductive redirect_chain for H U L P ab ei sz db oneshot where
  chain_refl: "redirect_chain H U L P ab ei sz db oneshot [] st st"
| chain_step: "redirect_chain H U L P ab ei sz db oneshot rs st st1 \<Longrightarrow>
    redirect_response H U L P ab ei sz db oneshot (st1\<lparr>rf_future := k\<rparr>) res = (Pending, st2) \<Longrightarrow>
    redirect_chain H U L P ab ei sz db oneshot (rs @ [res]) st st2"

inductive_cases chain_snocE: "redirect_chain H U L P ab ei sz db oneshot (rs @ [res]) st st2"

section \<open>Interfaces of policies\<close>

text \<open>A policy with a budget that each followed redirection spends.\<close>

locale policy_budget =
  fixes P :: "('p, 'u, ('h, 'u, 'x, 'b) request, 'b, 'e) policy" and budget :: "'p \<Rightarrow> nat"
  assumes follow_spends: "pol_redirect P p a = (Inr Follow, p') \<Longrightarrow> budget p' < budget p"
    and request_keeps: "pol_on_request P p q = (q', p') \<Longrightarrow> budget p' \<le> budget p"

text \<open>A policy that only removes headers from the next request.\<close>

locale shrinking_policy = header_map H
  for H :: "('h, 'v, 'x) http_api" +
  fixes P :: "('p, 'u, ('h, 'u, 'x, 'b) request, 'b, 'e) policy"
  assumes shrinks: "pol_on_request P p q = (q', p') \<Longrightarrow>
    hm_get_all H (req_headers q') n = [] \<or>
    hm_get_all H (req_headers q') n = hm_get_all H (req_headers q) n"

context header_map
begin

lemma get_all_remove_list:
  "hm_get_all H (foldl (\<lambda>h k. snd (hm_remove H h k)) h ks) n = (if n \<in> set ks then [] else hm_get_all H h n)"
  by (induction ks arbitrary: h) (auto simp: get_all_remove)

lemma get_all_drop_payload:
  "hm_get_all H (drop_payload_headers H h) n =
     (if n \<in> {''content-type'', ''content-length'', ''content-encoding'', ''transfer-encoding''} then []
      else hm_get_all H h n)"
  unfolding drop_payload_headers_def get_all_remove_list by simp

lemma redirect_rewrite_shrinks:
  "redirect_rewrite H s (m, b, h) = Some (m', b', h') \<Longrightarrow>
     hm_get_all H h' n = [] \<or> hm_get_all H h' n = hm_get_all H h n"
  by (auto simp: redirect_rewrite_def get_all_drop_payload split: if_splits)

lemma fc_on_request_shrinks:
  "fc_on_request H f q = (q', f') \<Longrightarrow> hm_get_all H (req_headers q') n = [] \<or>
     hm_get_all H (req_headers q') n = hm_get_all H (req_headers q) n"
  by (auto simp: fc_on_request_def Let_def get_all_remove_list get_all_clear split: if_splits)

lemma fc_on_request_blocked:
  "fc_on_request H f q = (q', f') \<Longrightarrow> fc_blocked f \<Longrightarrow> fc_remove_blocklisted f \<or> fc_remove_all f \<Longrightarrow>
     n \<in> set BLOCKLIST \<Longrightarrow> hm_get_all H (req_headers q') n = []"
  by (auto simp: fc_on_request_def Let_def get_all_remove_list get_all_clear split: if_splits)

end

context shrinking_policy
begin

lemma step_shrinks:
  assumes "redirect_response H U L P ab ei sz db oneshot st res = (Pending, st')"
  shows "hm_get_all H (rf_headers st') n = [] \<or>
    hm_get_all H (rf_headers st') n = hm_get_all H (rf_headers st) n"
  using assms
proof (rule redirect_response_Pending)
  fix m b h body b' location p q p'
  assume rw: "redirect_rewrite H (res_status res) (rf_method st, rf_body st, rf_headers st) = Some (m, b, h)"
    and req: "pol_on_request P p (redirect_request st m location h body) = (q, p')"
    and st': "st' = st\<lparr>rf_method := m, rf_headers := req_headers q, rf_body := try_clone_from P sz db p body b',
      rf_uri := location, rf_policy := p', rf_extensions := req_extensions q,
      rf_future := Inr (oneshot (rf_service st) q)\<rparr>"
  show ?thesis
    using redirect_rewrite_shrinks [OF rw, of n] shrinks [OF req, of n]
    by (auto simp: st' redirect_request_def)
qed

lemma chain_shrinks:
  "redirect_chain H U L P ab ei sz db oneshot rs st st' \<Longrightarrow>
     hm_get_all H (rf_headers st') n = [] \<or>
     hm_get_all H (rf_headers st') n = hm_get_all H (rf_headers st) n"
  by (induction rule: redirect_chain.induct) (auto dest: step_shrinks [where n = n])

end

context policy_budget
begin

lemma step_spends:
  assumes "redirect_response H U L P ab ei sz db oneshot st res = (Pending, st')"
  shows "budget (rf_policy st') < budget (rf_policy st)"
  using assms
  by (rule redirect_response_Pending) (auto dest!: follow_spends request_keeps)

lemma chain_bound:
  "redirect_chain H U L P ab ei sz db oneshot rs st st' \<Longrightarrow> length rs + budget (rf_policy st') \<le> budget (rf_policy st)"
  by (induction rule: redirect_chain.induct) (fastforce dest: step_spends)+

end

section \<open>Running the response future\<close>

lemma run_poll_either [simp]:
  "run_future (poll_either pf po) n (Inl f) = run_future pf n f"
  "run_future (poll_either pf po) n (Inr k) = run_future po n k"
  by (induction n arbitrary: f k) (auto simp: poll_either_def split: prod.splits poll.splits)

text \<open>Polling up to the answer of the pending call, and what happens there.\<close>

lemma run_redirect:
  assumes "run_future (poll_either pf po) k (rf_future st) = Some r"
  shows "\<exists>x. case r of
      Inl e \<Rightarrow> run_future (redirect_future_poll H U L P ab ei sz db oneshot pf po) k st = Some (Inl e)
    | Inr res \<Rightarrow>
        (case redirect_response H U L P ab ei sz db oneshot (st\<lparr>rf_future := x\<rparr>) res of
           (Ready v, _) \<Rightarrow> run_future (redirect_future_poll H U L P ab ei sz db oneshot pf po) k st = Some v
         | (Pending, st') \<Rightarrow> \<forall>m v. run_future (redirect_future_poll H U L P ab ei sz db oneshot pf po) m st' = Some v \<longrightarrow>
             run_future (redirect_future_poll H U L P ab ei sz db oneshot pf po) (k + m) st = Some v)"
  using assms
proof (induction k arbitrary: st)
  case (Suc k)
  obtain o1 x1 where po: "poll_either pf po (rf_future st) = (o1, x1)"
    by (cases "poll_either pf po (rf_future st)")
  show ?case
  proof (cases o1)
    case Pending
    with Suc.prems po have "run_future (poll_either pf po) k (rf_future (st\<lparr>rf_future := x1\<rparr>)) = Some r"
      by simp
    note ih = Suc.IH [OF this]
    have shift: "run_future (redirect_future_poll H U L P ab ei sz db oneshot pf po) (Suc n) st =
        run_future (redirect_future_poll H U L P ab ei sz db oneshot pf po) n (st\<lparr>rf_future := x1\<rparr>)" for n
      by (simp add: redirect_future_poll_def po Pending)
    from ih show ?thesis
      by (simp add: shift cong: sum.case_cong prod.case_cong poll.case_cong del: run_future.simps)
  next
    case (Ready w)
    with Suc.prems po have w: "w = r" by simp
    show ?thesis
    proof (cases r)
      case (Inl e)
      with po Ready w show ?thesis by (simp add: redirect_future_poll_def)
    next
      case (Inr res)
      obtain o2 st2 where rr:
        "redirect_response H U L P ab ei sz db oneshot (st\<lparr>rf_future := x1\<rparr>) res = (o2, st2)"
        by (cases "redirect_response H U L P ab ei sz db oneshot (st\<lparr>rf_future := x1\<rparr>) res")
      show ?thesis
      proof (cases o2)
        case (Ready v)
        with po \<open>o1 = Ready w\<close> w Inr rr show ?thesis
          by (intro exI [of _ x1]) (simp add: redirect_future_poll_def)
      next
        case Pending
        have "run_future (redirect_future_poll H U L P ab ei sz db oneshot pf po) (Suc (k + m)) st = Some v"
          if "run_future (redirect_future_poll H U L P ab ei sz db oneshot pf po) m st2 = Some v" for m v
          using run_future_mono [OF that, of "k + m"] po \<open>o1 = Ready w\<close> w Inr rr Pending
          by (simp add: redirect_future_poll_def)
        with Inr rr Pending show ?thesis by (intro exI [of _ x1]) simp
      qed
    qed
  qed
qed simp

context policy_budget
begin

lemma run_terminates:
  assumes "run_future (poll_either pf po) k (rf_future st) = Some r"
    and calls: "\<And>s q. \<exists>r. run_future po k (oneshot s q) = Some r"
  shows "\<exists>v. run_future (redirect_future_poll H U L P ab ei sz db oneshot pf po)
    (Suc (budget (rf_policy st)) * k) st = Some v"
  using assms(1)
proof (induction "budget (rf_policy st)" arbitrary: st r rule: less_induct)
  case less
  let ?run = "run_future (redirect_future_poll H U L P ab ei sz db oneshot pf po)"
  have more: "\<exists>v. ?run (Suc (budget (rf_policy st)) * k) st = Some v" if "?run k st = Some v" for v
    using run_future_mono [OF that, of "Suc (budget (rf_policy st)) * k"] by auto
  from run_redirect [OF less.prems, of H U L P ab ei sz db oneshot] obtain x where
    x: "case r of Inl e \<Rightarrow> ?run k st = Some (Inl e) | Inr res \<Rightarrow>
      (case redirect_response H U L P ab ei sz db oneshot (st\<lparr>rf_future := x\<rparr>) res of
         (Ready v, _) \<Rightarrow> ?run k st = Some v
       | (Pending, st') \<Rightarrow> \<forall>m v. ?run m st' = Some v \<longrightarrow> ?run (k + m) st = Some v)"
    by blast
  show ?case
  proof (cases r)
    case (Inl e)
    with x more show ?thesis by auto
  next
    case (Inr res)
    obtain o2 st2 where rr:
      "redirect_response H U L P ab ei sz db oneshot (st\<lparr>rf_future := x\<rparr>) res = (o2, st2)"
      by (cases "redirect_response H U L P ab ei sz db oneshot (st\<lparr>rf_future := x\<rparr>) res")
    show ?thesis
    proof (cases o2)
      case (Ready v)
      with x Inr rr more show ?thesis by auto
    next
      case Pending
      with rr have step: "redirect_response H U L P ab ei sz db oneshot (st\<lparr>rf_future := x\<rparr>) res = (Pending, st2)"
        by simp
      from step_spends [OF step] have b: "budget (rf_policy st2) < budget (rf_policy st)" by simp
      obtain s q where "rf_future st2 = Inr (oneshot s q)"
        using step by (rule redirect_response_Pending) simp
      with calls [of s q] obtain r2 where "run_future (poll_either pf po) k (rf_future st2) = Some r2"
        by auto
      from less.hyps [OF b this] obtain v where "?run (Suc (budget (rf_policy st2)) * k) st2 = Some v"
        by blast
      with x Inr step have v: "?run (k + Suc (budget (rf_policy st2)) * k) st = Some v" by simp
      have "k + Suc (budget (rf_policy st2)) * k = Suc (Suc (budget (rf_policy st2))) * k" by simp
      also have "\<dots> \<le> Suc (budget (rf_policy st)) * k"
        using b by (intro mult_le_mono1) simp
      finally show ?thesis using run_future_mono [OF v] by blast
    qed
  qed
qed

end

section \<open>The policies of the crate\<close>

text \<open>The budget of the first policy of a conjunction is one of the conjunction.\<close>

locale and_budget = policy_budget A budget
  for A :: "('p, 'u, ('h, 'u, 'x, 'b) request, 'b, 'e) policy" and budget :: "'p \<Rightarrow> nat" +
  fixes B :: "('r, 'u, ('h, 'u, 'x, 'b) request, 'b, 'e) policy"

sublocale and_budget \<subseteq> conj: policy_budget "and_policy A B" "\<lambda>p. budget (fst p)"
  by unfold_locales
    (auto simp: and_policy_def dest!: follow_spends request_keeps
      split: prod.splits sum.splits action.splits)

interpretation limited: policy_budget limited_policy remaining
  by unfold_locales
    (auto simp: limited_policy_def limited_redirect_def default_on_request_def split: if_splits)

interpretation standard: and_budget limited_policy remaining "fc_policy H U" for H U
  by unfold_locales

lemma shrinking_standard:
  assumes "header_map H"
  shows "shrinking_policy H (standard_policy H U)"
proof (intro shrinking_policy.intro shrinking_policy_axioms.intro assms)
  fix p q q' p' n
  assume "pol_on_request (standard_policy H U) p q = (q', p')"
  then have "\<exists>f'. fc_on_request H (snd p) q = (q', f')"
    by (auto simp: standard_policy_def and_policy_def limited_policy_def fc_policy_def
        default_on_request_def split: prod.splits)
  then show "hm_get_all H (req_headers q') n = [] \<or>
      hm_get_all H (req_headers q') n = hm_get_all H (req_headers q) n"
    by (auto dest: header_map.fc_on_request_shrinks [OF assms])
qed

interpretation standard_list: shrinking_policy "list_http e" "standard_policy (list_http e) U" for e U
  by (rule shrinking_standard [OF header_map_list_http])

section \<open>Properties of the standard policy\<close>

text \<open>
  With the standard policy at most as many redirections are followed as its limit has left,
  so at most twenty from the default.
\<close>

theorem standard_redirects_bounded:
  assumes st: "st = snd (follow_redirect_call clone H (standard_policy H U) sz db inner_call fr req)"
    and chain: "redirect_chain H U L (standard_policy H U) ab ei sz db oneshot rs st st'"
  shows "length rs + remaining (fst (rf_policy st')) \<le> remaining (fst (fr_policy fr))"
proof -
  have "remaining (fst (rf_policy st)) \<le> remaining (fst (fr_policy fr))"
    using standard.conj.request_keeps [of H U "fr_policy fr" req]
    by (auto simp: st follow_redirect_call_def Let_def standard_policy_def split: prod.split)
  moreover have "length rs + remaining (fst (rf_policy st')) \<le> remaining (fst (rf_policy st))"
    by (rule standard.conj.chain_bound [OF chain [unfolded standard_policy_def]])
  ultimately show ?thesis by linarith
qed

text \<open>
  Claim C26.  If every call of the inner service answers within \<open>k\<close> polls, the response future with the
  standard policy answers within \<open>k\<close> polls for the first call and each redirection the limit allows:
  no server can keep the client redirecting forever.
\<close>

theorem standard_redirects_terminate:
  assumes P: "P = standard_policy H U"
    and st: "st = snd (follow_redirect_call clone H P sz db inner_call fr req)"
    and inner: "inner_call (fr_inner fr) (fst (pol_on_request P (fr_policy fr) req)) = (s, f)"
    and first: "run_future pf k f = Some r"
    and calls: "\<And>s q. \<exists>r. run_future po k (oneshot s q) = Some r"
  shows "\<exists>v. run_future (redirect_future_poll H U L P ab ei sz db oneshot pf po)
    (Suc (remaining (fst (fr_policy fr))) * k) st = Some v"
proof -
  obtain q p where req: "pol_on_request P (fr_policy fr) req = (q, p)"
    by (rule prod.exhaust)
  have fut: "rf_future st = Inl f" "rf_policy st = p"
    using inner req by (simp_all add: st follow_redirect_call_def Let_def)
  have le: "remaining (fst p) \<le> remaining (fst (fr_policy fr))"
    using standard.conj.request_keeps [of H U "fr_policy fr" req q p] req by (simp add: P standard_policy_def)
  have "run_future (poll_either pf po) k (rf_future st) = Some r" by (simp add: fut first)
  from standard.conj.run_terminates [where oneshot = oneshot, OF this calls] obtain v where
    "run_future (redirect_future_poll H U L P ab ei sz db oneshot pf po)
      (Suc (remaining (fst (rf_policy st))) * k) st = Some v"
    unfolding P standard_policy_def by blast
  then have v: "run_future (redirect_future_poll H U L P ab ei sz db oneshot pf po)
      (Suc (remaining (fst p)) * k) st = Some v" by (simp only: fut)
  have "Suc (remaining (fst p)) * k \<le> Suc (remaining (fst (fr_policy fr))) * k"
    using le by (intro mult_le_mono1) simp
  from run_future_mono [OF v this] show ?thesis by blast
qed

text \<open>The flags of the credential filter do not change while redirections are followed.\<close>

definition filters_credentials :: "'x filter_credentials \<Rightarrow> bool" where
  "filters_credentials f \<longleftrightarrow> fc_block_cross_origin f \<and> (fc_remove_blocklisted f \<or> fc_remove_all f)"

lemma standard_step:
  assumes "redirect_response H U L (standard_policy H U) ab ei sz db oneshot st res = (Pending, st')"
  obtains m b h body f q where
    "redirect_rewrite H (res_status res) (rf_method st, rf_body st, rf_headers st) = Some (m, b, h)"
    "body_take db b = (Some body, snd (body_take db b))"
    "f = (snd (rf_policy st))\<lparr>fc_blocked := fc_block_any (snd (rf_policy st)) \<or>
      (fc_block_cross_origin (snd (rf_policy st)) \<and> \<not> eq_origin U (rf_uri st) (rf_uri st'))\<rparr>"
    "fc_on_request H f (redirect_request st m (rf_uri st') h body) = (q, f)"
    "snd (rf_policy st') = f" "rf_headers st' = req_headers q" "rf_extensions st' = req_extensions q"
    "rf_future st' = Inr (oneshot (rf_service st) q)" "rf_method st' = m"
  using assms
proof (rule redirect_response_Pending)
  fix m b h body b' location p q p'
  assume rw: "redirect_rewrite H (res_status res) (rf_method st, rf_body st, rf_headers st) = Some (m, b, h)"
    and take: "body_take db b = (Some body, b')"
    and red: "pol_redirect (standard_policy H U) (rf_policy st)
      (redirect_attempt st (res_status res) m location) = (Inr Follow, p)"
    and req: "pol_on_request (standard_policy H U) p (redirect_request st m location h body) = (q, p')"
    and st': "st' = st\<lparr>rf_method := m, rf_headers := req_headers q,
      rf_body := try_clone_from (standard_policy H U) sz db p body b', rf_uri := location, rf_policy := p',
      rf_extensions := req_extensions q, rf_future := Inr (oneshot (rf_service st) q)\<rparr>"
  let ?f = "(snd (rf_policy st))\<lparr>fc_blocked := fc_block_any (snd (rf_policy st)) \<or>
      (fc_block_cross_origin (snd (rf_policy st)) \<and> \<not> eq_origin U (rf_uri st) location)\<rparr>"
  have "snd p = ?f"
    using red by (auto simp: standard_policy_def and_policy_def fc_policy_def fc_redirect_def
        redirect_attempt_def split: prod.splits sum.splits action.splits)
  moreover have "fc_on_request H (snd p) (redirect_request st m location h body) = (q, snd p')"
    using req by (auto simp: standard_policy_def and_policy_def limited_policy_def fc_policy_def
        default_on_request_def split: prod.splits)
  moreover have "snd (fc_on_request H (snd p) (redirect_request st m location h body)) = snd p"
    by (simp add: fc_on_request_def Let_def)
  ultimately show thesis
    using rw take st' by (intro that [of m b h body ?f q]) auto
qed

lemma chain_filters:
  "redirect_chain H U L (standard_policy H U) ab ei sz db oneshot rs st st' \<Longrightarrow>
     filters_credentials (snd (rf_policy st')) = filters_credentials (snd (rf_policy st))"
proof (induction rule: redirect_chain.induct)
  case (chain_step rs st st1 k res st2)
  from chain_step.hyps(2) show ?case
    by (rule standard_step) (use chain_step.IH in \<open>simp add: filters_credentials_def\<close>)
qed simp

text \<open>The call under way carries the headers the future keeps.\<close>

definition sends_headers where
  "sends_headers oneshot st \<longleftrightarrow> (\<exists>s q. rf_future st = Inr (oneshot s q) \<and> req_headers q = rf_headers st)"

lemma step_sends:
  "redirect_response H U L P ab ei sz db oneshot st res = (Pending, st') \<Longrightarrow> sends_headers oneshot st'"
  by (erule redirect_response_Pending) (auto simp: sends_headers_def)

lemma chain_sends:
  "redirect_chain H U L P ab ei sz db oneshot rs st st' \<Longrightarrow> sends_headers oneshot st \<Longrightarrow> sends_headers oneshot st'"
  by (induction rule: redirect_chain.induct) (auto dest: step_sends)

text \<open>
  Claim C24.  Once a redirection has left the origin of the request, the credentials it carried are gone
  for good: neither the request to the other origin nor any later one, not even one back to the first
  origin, has an \<open>Authorization\<close>, \<open>Cookie\<close> or \<open>Proxy-Authorization\<close> header.
\<close>

theorem standard_drops_credentials:
  assumes H: "header_map H"
    and before: "redirect_chain H U L (standard_policy H U) ab ei sz db oneshot rs0 st0 st"
    and on: "filters_credentials (snd (rf_policy st0))"
    and step: "redirect_response H U L (standard_policy H U) ab ei sz db oneshot (st\<lparr>rf_future := k\<rparr>) res = (Pending, st1)"
    and cross: "\<not> eq_origin U (rf_uri st) (rf_uri st1)"
    and after: "redirect_chain H U L (standard_policy H U) ab ei sz db oneshot rs st1 st2"
    and n: "n \<in> {''authorization'', ''cookie'', ''proxy-authorization''}"
  shows "\<exists>s q. rf_future st2 = Inr (oneshot s q) \<and> hm_get_all H (req_headers q) n = []"
proof -
  have f: "filters_credentials (snd (rf_policy st))" using chain_filters [OF before] on by simp
  from step have "hm_get_all H (rf_headers st1) n = []"
  proof (rule standard_step)
    fix m b h body f q
    assume "f = (snd (rf_policy (st\<lparr>rf_future := k\<rparr>)))\<lparr>fc_blocked := fc_block_any (snd (rf_policy (st\<lparr>rf_future := k\<rparr>))) \<or>
        (fc_block_cross_origin (snd (rf_policy (st\<lparr>rf_future := k\<rparr>))) \<and>
         \<not> eq_origin U (rf_uri (st\<lparr>rf_future := k\<rparr>)) (rf_uri st1))\<rparr>"
      and "fc_on_request H f (redirect_request (st\<lparr>rf_future := k\<rparr>) m (rf_uri st1) h body) = (q, f)"
      and "rf_headers st1 = req_headers q"
    with \<open>filters_credentials (snd (rf_policy st))\<close> cross n
    show ?thesis
      by (auto simp: filters_credentials_def BLOCKLIST_def intro!: header_map.fc_on_request_blocked [OF H])
  qed
  then have "hm_get_all H (rf_headers st2) n = []"
    using shrinking_policy.chain_shrinks [OF shrinking_standard [OF H] after, of n] by auto
  with chain_sends [OF after step_sends [OF step]] show ?thesis
    unfolding sends_headers_def by metis
qed

definition keeps_request_line where
  "keeps_request_line P \<longleftrightarrow> (\<forall>p q. let q' = fst (pol_on_request P p q) in
     req_method q' = req_method q \<and> req_uri q' = req_uri q \<and> req_version q' = req_version q \<and>
     req_body q' = req_body q)"

lemma standard_keeps_request_line: "keeps_request_line (standard_policy H U)"
  by (auto simp: keeps_request_line_def standard_policy_def and_policy_def limited_policy_def fc_policy_def
      default_on_request_def fc_on_request_def Let_def)

text \<open>
  Claim C28.  How a followed redirection rewrites the request, for any policy: POST becomes GET on 301 and 302,
  every method but HEAD becomes GET on 303, both without the body and, if the policy only removes headers,
  without the headers that describe it; otherwise, and always on 307 and 308, the method stays; the request
  goes to the new URI with the version of the first one.
\<close>

theorem redirect_rewrites_request:
  assumes P: "shrinking_policy H P"
    and step: "redirect_response H U L P ab ei sz db oneshot st res = (Pending, st')"
    and keeps: "keeps_request_line P"
  shows "\<exists>q. rf_future st' = Inr (oneshot (rf_service st) q) \<and>
    res_status res \<in> {301, 302, 303, 307, 308} \<and> req_uri q = rf_uri st' \<and> req_version q = rf_version st \<and>
    (let to_get = (res_status res \<in> {301, 302} \<and> rf_method st = ''POST'' \<or>
                   res_status res = 303 \<and> rf_method st \<noteq> ''HEAD'');
         bodyless = (res_status res \<in> {301, 302} \<and> rf_method st = ''POST'' \<or> res_status res = 303)
     in req_method q = (if to_get then ''GET'' else rf_method st) \<and>
        (bodyless \<longrightarrow> req_body q = db \<and>
           hm_get_all H (req_headers q) ''content-length'' = [] \<and> hm_get_all H (req_headers q) ''content-type'' = [] \<and>
           hm_get_all H (req_headers q) ''transfer-encoding'' = []) \<and>
        (\<not> bodyless \<longrightarrow> (rf_body st = BodySome (req_body q) \<or> rf_body st = BodyEmpty \<and> req_body q = db)))"
  using step
proof (rule redirect_response_Pending)
  fix m b h body b' location p q p'
  assume rw: "redirect_rewrite H (res_status res) (rf_method st, rf_body st, rf_headers st) = Some (m, b, h)"
    and take: "body_take db b = (Some body, b')"
    and req: "pol_on_request P p (redirect_request st m location h body) = (q, p')"
    and st': "st' = st\<lparr>rf_method := m, rf_headers := req_headers q, rf_body := try_clone_from P sz db p body b',
      rf_uri := location, rf_policy := p', rf_extensions := req_extensions q,
      rf_future := Inr (oneshot (rf_service st) q)\<rparr>"
  have q: "req_method q = m" "req_uri q = location" "req_version q = rf_version st" "req_body q = body"
    using keeps [unfolded keeps_request_line_def, rule_format, of p "redirect_request st m location h body"] req
    by (simp_all add: redirect_request_def)
  have drop: "hm_get_all H (req_headers q) k = []"
    if "k \<in> {''content-type'', ''content-length'', ''content-encoding'', ''transfer-encoding''}"
      "h = drop_payload_headers H x" for x k
    using shrinking_policy.shrinks [OF P req, of k] that
    by (auto simp add: redirect_request_def header_map.get_all_drop_payload [OF shrinking_policy.axioms(1) [OF P]])
  have sent: "b = BodySome body \<or> b = BodyEmpty \<and> body = db"
    using take by (cases b) auto
  have fields: "rf_future st' = Inr (oneshot (rf_service st) q)" "rf_uri st' = location" by (simp_all add: st')
  show ?thesis
    using rw sent drop [of "''content-length''"] drop [of "''content-type''"] drop [of "''transfer-encoding''"]
    by (intro exI [of _ q]) (simp add: fields q redirect_rewrite_def Let_def split: if_splits; auto)
qed

section \<open>A redirection to another origin, evaluated\<close>

definition ex_url_api :: "string url_api" where
  "ex_url_api = \<lparr>url_parse = Some, url_join = (\<lambda>_ r. Some r), url_to_string = (\<lambda>l. l)\<rparr>"

definition ex_uri :: "string \<Rightarrow> simple_uri" where
  "ex_uri a = \<lparr>su_scheme = Some ''https'', su_authority = Some a, su_path = ''/'', su_query = None\<rparr>"

definition ex_request :: "((string \<times> string) list, simple_uri, string, unit) request" where
  "ex_request = \<lparr>req_method = ''POST'', req_uri = ex_uri ''a'', req_version = ''HTTP/1.1'',
     req_headers = [(''authorization'', ''secret''), (''accept'', ''text/html'')],
     req_extensions = ''ext'', req_body = ()\<rparr>"

definition ex_found :: "((string \<times> string) list, string, unit) response" where
  "ex_found = \<lparr>res_status = 302, res_version = ''HTTP/1.1'', res_headers = [(''location'', ''https://b/x'')],
     res_extensions = [], res_body = ()\<rparr>"

type_synonym ex_answer = "unit + ((string \<times> string) list, string, unit) response"

definition ex_policy ::
  "(limited \<times> string filter_credentials, simple_uri, ((string \<times> string) list, simple_uri, string, unit) request, unit, unit) policy" where
  "ex_policy = standard_policy (list_http []) simple_uri_api"

definition ex_service :: "(unit, limited \<times> string filter_credentials) follow_redirect" where
  "ex_service = follow_redirect_with_policy () standard_default"

definition ex_oneshot :: "unit \<Rightarrow> ((string \<times> string) list, simple_uri, string, unit) request \<Rightarrow> nat \<times> ex_answer" where
  "ex_oneshot s q = (1, Inr \<lparr>res_status = 200, res_version = req_method q, res_headers = req_headers q,
     res_extensions = [], res_body = ()\<rparr>)"

definition ex_state ::
  "(nat \<times> ex_answer, nat \<times> ex_answer, unit, limited \<times> string filter_credentials, simple_uri,
    (string \<times> string) list, string, unit) redirect_future" where
  "ex_state = snd (follow_redirect_call id (list_http []) ex_policy (\<lambda>_. Some 0) ()
     (\<lambda>s q. (s, (1, Inr ex_found))) ex_service ex_request)"

definition ex_step where
  "ex_step = redirect_response (list_http []) simple_uri_api ex_url_api ex_policy id (\<lambda>u x. uri_to_string simple_uri_api u)
     (\<lambda>_. Some 0) () ex_oneshot (ex_state\<lparr>rf_future := rf_future ex_state\<rparr>) ex_found"

lemma ex_step_pending: "ex_step = (Pending, snd ex_step)"
proof -
  have "fst ex_step = Pending" by code_simp
  then show ?thesis by (metis prod.collapse)
qed

lemma ex_step_eq:
  "redirect_response (list_http []) simple_uri_api ex_url_api ex_policy id (\<lambda>u x. uri_to_string simple_uri_api u)
     (\<lambda>_. Some 0) () ex_oneshot (ex_state\<lparr>rf_future := rf_future ex_state\<rparr>) ex_found = (Pending, snd ex_step)"
  unfolding ex_step_def [symmetric] by (rule ex_step_pending)

lemma ex_chain:
  "redirect_chain (list_http []) simple_uri_api ex_url_api ex_policy id (\<lambda>u x. uri_to_string simple_uri_api u)
     (\<lambda>_. Some 0) () ex_oneshot [ex_found] ex_state (snd ex_step)"
  using chain_step [OF chain_refl ex_step_eq] by simp

lemma ex_shrinking: "shrinking_policy (list_http []) ex_policy"
  unfolding ex_policy_def by (rule shrinking_standard [OF header_map_list_http])

lemma ex_keeps: "keeps_request_line ex_policy"
  unfolding ex_policy_def by (rule standard_keeps_request_line)

theorem standard_redirects_bounded_witness:
  "length [ex_found] + remaining (fst (rf_policy (snd ex_step))) \<le> 20"
proof -
  have "length [ex_found] + remaining (fst (rf_policy (snd ex_step))) \<le> remaining (fst (fr_policy ex_service))"
    by (rule standard_redirects_bounded [OF ex_state_def [unfolded ex_policy_def] ex_chain [unfolded ex_policy_def]])
  moreover have "remaining (fst (fr_policy ex_service)) = 20" by code_simp
  ultimately show ?thesis by simp
qed

theorem standard_redirects_terminate_witness:
  "\<exists>v. run_future (redirect_future_poll (list_http []) simple_uri_api ex_url_api ex_policy id
     (\<lambda>u x. uri_to_string simple_uri_api u) (\<lambda>_. Some 0) () ex_oneshot ready_after ready_after)
     (Suc 20 * 2) ex_state = Some v"
proof -
  have f: "run_future ready_after 2 (1 :: nat, Inr ex_found :: ex_answer) = Some (Inr ex_found)"
    by (simp add: eval_nat_numeral)
  have calls: "\<exists>r. run_future ready_after 2 (ex_oneshot s q) = Some r" for s q
    by (simp add: ex_oneshot_def eval_nat_numeral)
  have r: "remaining (fst (fr_policy ex_service)) = 20" by code_simp
  show ?thesis
    unfolding r [symmetric]
    by (rule standard_redirects_terminate [where oneshot = ex_oneshot, OF ex_policy_def ex_state_def _ f calls])
      (rule refl)
qed

theorem standard_drops_credentials_witness:
  "\<exists>s q. rf_future (snd ex_step) = Inr (ex_oneshot s q) \<and>
     hm_get_all (list_http ([] :: string)) (req_headers q) ''authorization'' = []"
proof -
  have on: "filters_credentials (snd (rf_policy ex_state))" by code_simp
  have cross: "\<not> eq_origin simple_uri_api (rf_uri ex_state) (rf_uri (snd ex_step))" by code_simp
  have n: "''authorization'' \<in> {''authorization'', ''cookie'', ''proxy-authorization''}" by simp
  note step = ex_step_eq [unfolded ex_policy_def]
  from standard_drops_credentials [OF header_map_list_http chain_refl on step cross chain_refl n]
  show ?thesis by blast
qed

theorem redirect_rewrites_request_witness:
  "\<exists>q. rf_future (snd ex_step) = Inr (ex_oneshot () q) \<and> req_method q = ''GET''"
proof -
  have s: "rf_method ex_state = ''POST''" "res_status ex_found = 302" by code_simp+
  from redirect_rewrites_request [OF ex_shrinking ex_step_eq ex_keeps]
  show ?thesis by (auto simp: s Let_def)
qed

end
