(* ===== verification/Body.thy ===== *)
theory Body
  imports Http
begin

text \<open>
  \<open>http_body::Body\<close> and the bodies of \<open>body.rs\<close>.  The trait is a record of its three
  functions; its documented contract is the locale \<open>body_contract\<close>: a body that says it is at
  its end answers \<open>None\<close>, and the upper bound of a size hint is not below the lower one.  The
  bodies of the \<open>http_body_util\<close> crate are arguments of this type.  \<open>body_methods\<close> is the macro of
  \<open>body.rs\<close> that forwards the trait to a field.  \<open>body_read\<close> reads a body as a consumer does;
  \<open>script_body\<close> replays a list of poll results in the witnesses.
\<close>

section \<open>The Body trait\<close>

datatype ('d, 't) frame = DataFrame 'd | TrailersFrame 't

record size_hint =
  sh_lower :: nat
  sh_upper :: "nat option"

type_synonym ('d, 't, 'e) frame_result = "('e + ('d, 't) frame) option"

record ('b, 'd, 't, 'e) body_api =
  body_poll_frame :: "('b, ('d, 't, 'e) frame_result) poll_fn"
  body_is_end_stream :: "'b \<Rightarrow> bool"
  body_size_hint :: "'b \<Rightarrow> size_hint"

text \<open>The default methods of the trait: not at the end, between zero and any number of bytes.\<close>

definition size_hint_default :: size_hint where
  "size_hint_default = \<lparr>sh_lower = 0, sh_upper = None\<rparr>"

definition hint_ok :: "size_hint \<Rightarrow> bool" where
  "hint_ok h = (case sh_upper h of None \<Rightarrow> True | Some u \<Rightarrow> sh_lower h \<le> u)"

lemma hint_ok_default [simp]: "hint_ok size_hint_default"
  by (simp add: hint_ok_def size_hint_default_def)

locale body_contract =
  fixes B :: "('b, 'd, 't, 'e) body_api"
  assumes end_stream_None: "body_is_end_stream B b \<Longrightarrow> fst (body_poll_frame B b) = Ready None"
    and hint_bounds: "hint_ok (body_size_hint B b)"
begin

lemma frame_not_end: "body_poll_frame B b = (Ready (Some r), b') \<Longrightarrow> \<not> body_is_end_stream B b"
  using end_stream_None [of b] by auto

lemma pending_not_end: "body_poll_frame B b = (Pending, b') \<Longrightarrow> \<not> body_is_end_stream B b"
  using end_stream_None [of b] by auto

end

text \<open>
  A consumer that polls at most \<open>n\<close> times: the frames it gets up to the end of the stream or the
  first error.
\<close>

fun body_read :: "('b, 'd, 't, 'e) body_api \<Rightarrow> nat \<Rightarrow> 'b \<Rightarrow> ('d, 't) frame list" where
  "body_read B 0 b = []"
| "body_read B (Suc n) b =
     (case body_poll_frame B b of
        (Pending, b') \<Rightarrow> body_read B n b'
      | (Ready (Some (Inr f)), b') \<Rightarrow> f # body_read B n b'
      | (Ready _, b') \<Rightarrow> [])"

fun frame_len :: "(string, 't) frame \<Rightarrow> nat" where
  "frame_len (DataFrame d) = length d"
| "frame_len (TrailersFrame t) = 0"

definition data_len :: "(string, 't) frame list \<Rightarrow> nat" where
  "data_len fs = sum_list (map frame_len fs)"

lemma data_len_simps [simp]:
  "data_len [] = 0" "data_len (f # fs) = frame_len f + data_len fs"
  by (simp_all add: data_len_def)

text \<open>
  A complete reading: the consumer that keeps polling gets the frames of the list and then the end
  of the stream, at which the body stays.  Pending polls are not seen.
\<close>

coinductive ended :: "('b, 'd, 't, 'e) body_api \<Rightarrow> 'b \<Rightarrow> bool" for B where
  ended_step: "body_poll_frame B b = (Ready None, b') \<Longrightarrow> ended B b' \<Longrightarrow> ended B b"

inductive reads :: "('b, 'd, 't, 'e) body_api \<Rightarrow> 'b \<Rightarrow> ('d, 't) frame list \<Rightarrow> bool" for B where
  reads_end: "body_poll_frame B b = (Ready None, b') \<Longrightarrow> ended B b' \<Longrightarrow> reads B b []"
| reads_pending: "body_poll_frame B b = (Pending, b') \<Longrightarrow> reads B b' fs \<Longrightarrow> reads B b fs"
| reads_frame: "body_poll_frame B b = (Ready (Some (Inr f)), b') \<Longrightarrow> reads B b' fs \<Longrightarrow>
    reads B b (f # fs)"

lemma ended_reads: "ended B b \<Longrightarrow> reads B b []"
  by (erule ended.cases) (auto intro: reads_end)

lemma ended_same_poll: "ended B b \<Longrightarrow> body_poll_frame B c = body_poll_frame B b \<Longrightarrow> ended B c"
  by (erule ended.cases) (auto intro: ended_step)

lemma reads_same_poll: "reads B b fs \<Longrightarrow> body_poll_frame B c = body_poll_frame B b \<Longrightarrow> reads B c fs"
  by (erule reads.cases) (auto intro: reads_end reads_pending reads_frame)

text \<open>
  A simulation: a body whose polls follow those of another, as long as its frames satisfy \<open>P\<close>,
  reads as the other one.
\<close>

lemma ended_simulation:
  assumes fin: "\<And>b c b'. R b c \<Longrightarrow> body_poll_frame B b = (Ready None, b') \<Longrightarrow>
      \<exists>c'. body_poll_frame A c = (Ready None, c') \<and> R b' c'"
    and "ended B b" "R b c"
  shows "ended A c"
  using assms(2,3)
proof (coinduction arbitrary: b c rule: ended.coinduct)
  case (ended b c)
  then obtain b' where "body_poll_frame B b = (Ready None, b')" "ended B b'"
    by (auto elim: ended.cases)
  with fin [OF ended(2)] obtain c' where
    "body_poll_frame A c = (Ready None, c')" "R b' c'" by blast
  with \<open>ended B b'\<close> show ?case by (intro exI [of _ c] exI [of _ c']) auto
qed

lemma reads_simulation:
  assumes pend: "\<And>b c b'. R b c \<Longrightarrow> body_poll_frame B b = (Pending, b') \<Longrightarrow>
      \<exists>c'. body_poll_frame A c = (Pending, c') \<and> R b' c'"
    and fin: "\<And>b c b'. R b c \<Longrightarrow> body_poll_frame B b = (Ready None, b') \<Longrightarrow>
      \<exists>c'. body_poll_frame A c = (Ready None, c') \<and> R b' c'"
    and frm: "\<And>b c b' f. R b c \<Longrightarrow> body_poll_frame B b = (Ready (Some (Inr f)), b') \<Longrightarrow> P f \<Longrightarrow>
      \<exists>c'. body_poll_frame A c = (Ready (Some (Inr f)), c') \<and> R b' c'"
    and "reads B b fs" "R b c" "list_all P fs"
  shows "reads A c fs"
  using assms(4-6)
proof (induction arbitrary: c rule: reads.induct)
  case (reads_end b b')
  then have "ended B b" by (auto intro: ended_step)
  have "ended A c"
    by (rule ended_simulation [of R B A b c])
      (simp_all add: fin \<open>ended B b\<close> reads_end.prems(1))
  then show ?case by (rule ended_reads)
next
  case (reads_pending b b' fs)
  with pend obtain c' where "body_poll_frame A c = (Pending, c')" "R b' c'" by blast
  with reads_pending show ?case by (blast intro: reads.reads_pending)
next
  case (reads_frame b f b' fs)
  then have "P f" "list_all P fs" by simp_all
  with frm reads_frame obtain c' where "body_poll_frame A c = (Ready (Some (Inr f)), c')" "R b' c'"
    by blast
  with reads_frame \<open>list_all P fs\<close> show ?case by (blast intro: reads.reads_frame)
qed

text \<open>The frames of a message: data, then possibly trailers.\<close>

definition message_frames :: "'d list \<Rightarrow> 't option \<Rightarrow> ('d, 't) frame list" where
  "message_frames ds t = map DataFrame ds @ (case t of None \<Rightarrow> [] | Some x \<Rightarrow> [TrailersFrame x])"

lemma message_frames_Nil: "message_frames ds t = [] \<longleftrightarrow> ds = [] \<and> t = None"
  by (auto simp: message_frames_def split: option.split)

lemma message_frames_Data:
  "message_frames ds t = DataFrame d # fs \<longleftrightarrow> (\<exists>ds'. ds = d # ds' \<and> fs = message_frames ds' t)"
  by (cases ds) (auto simp: message_frames_def split: option.splits)

lemma message_frames_Trailers:
  "message_frames ds t = TrailersFrame x # fs \<longleftrightarrow> ds = [] \<and> t = Some x \<and> fs = []"
  by (cases ds) (auto simp: message_frames_def split: option.splits)

lemma message_frames_simps [simp]:
  "message_frames [] None = []" "message_frames [] (Some x) = [TrailersFrame x]"
  "message_frames (d # ds) t = DataFrame d # message_frames ds t"
  by (simp_all add: message_frames_def)

section \<open>Forwarding to a field\<close>

definition body_methods ::
  "('w \<Rightarrow> 'b) \<Rightarrow> ('b \<Rightarrow> 'w \<Rightarrow> 'w) \<Rightarrow> ('b, 'd, 't, 'e) body_api \<Rightarrow> ('w, 'd, 't, 'e) body_api" where
  "body_methods inner set_inner B =
     \<lparr>body_poll_frame = (\<lambda>w. case body_poll_frame B (inner w) of (p, b) \<Rightarrow> (p, set_inner b w)),
      body_is_end_stream = (\<lambda>w. body_is_end_stream B (inner w)),
      body_size_hint = (\<lambda>w. body_size_hint B (inner w))\<rparr>"

lemma body_methods_simps [simp]:
  "body_is_end_stream (body_methods g s B) w = body_is_end_stream B (g w)"
  "body_size_hint (body_methods g s B) w = body_size_hint B (g w)"
  "body_poll_frame (body_methods g s B) w = (case body_poll_frame B (g w) of (p, b) \<Rightarrow> (p, s b w))"
  by (simp_all add: body_methods_def)

lemma body_methods_contract: "body_contract B \<Longrightarrow> body_contract (body_methods g s B)"
  by (auto simp: body_contract_def split: prod.split)

text \<open>Forwarding is transparent: the wrapper reads as the body it holds.\<close>

lemma body_read_methods:
  assumes "\<And>b w. g (s b w) = b"
  shows "body_read (body_methods g s B) n w = body_read B n (g w)"
proof (induction n arbitrary: w)
  case (Suc n)
  then show ?case
    by (auto simp: assms split: prod.split poll.split option.split sum.split)
qed simp

record 'g full = full_inner :: 'g

definition full_new :: "'g \<Rightarrow> 'g full" where
  "full_new i = \<lparr>full_inner = i\<rparr>"

definition full_body :: "('g, 'd, 't, 'e) body_api \<Rightarrow> ('g full, 'd, 't, 'e) body_api" where
  "full_body = body_methods full_inner (\<lambda>i w. w\<lparr>full_inner := i\<rparr>)"

record 'l limited_wrap = limited_inner :: 'l

definition limited_wrap_new :: "'l \<Rightarrow> 'l limited_wrap" where
  "limited_wrap_new i = \<lparr>limited_inner = i\<rparr>"

definition limited_body :: "('l, 'd, 't, 'e) body_api \<Rightarrow> ('l limited_wrap, 'd, 't, 'e) body_api" where
  "limited_body = body_methods limited_inner (\<lambda>i w. w\<lparr>limited_inner := i\<rparr>)"

record 'm unsync_box_body = unsync_inner :: 'm

definition unsync_box_body_default :: "'m \<Rightarrow> 'm unsync_box_body" where
  "unsync_box_body_default default_inner = \<lparr>unsync_inner = default_inner\<rparr>"

definition unsync_box_body_from_inner :: "'m \<Rightarrow> 'm unsync_box_body" where
  "unsync_box_body_from_inner i = \<lparr>unsync_inner = i\<rparr>"

definition unsync_box_body_new :: "('b \<Rightarrow> 'm) \<Rightarrow> 'b \<Rightarrow> 'm unsync_box_body" where
  "unsync_box_body_new boxed b = \<lparr>unsync_inner = boxed b\<rparr>"

definition unsync_body :: "('m, 'd, 't, 'e) body_api \<Rightarrow> ('m unsync_box_body, 'd, 't, 'e) body_api" where
  "unsync_body = body_methods unsync_inner (\<lambda>i w. w\<lparr>unsync_inner := i\<rparr>)"

lemma limited_body_read: "body_read (limited_body B) n (limited_wrap_new l) = body_read B n l"
  unfolding limited_body_def by (subst body_read_methods) (simp_all add: limited_wrap_new_def)

section \<open>Scripted bodies\<close>

fun script_poll :: "(('d, 't, 'e) frame_result poll list, ('d, 't, 'e) frame_result) poll_fn" where
  "script_poll [] = (Ready None, [])"
| "script_poll (p # ps) = (p, ps)"

definition script_body :: "(('d, 't, 'e) frame_result poll list, 'd, 't, 'e) body_api" where
  "script_body = \<lparr>body_poll_frame = script_poll, body_is_end_stream = (\<lambda>ps. ps = []),
     body_size_hint = (\<lambda>ps. size_hint_default)\<rparr>"

lemma script_body_simps [simp]:
  "body_poll_frame script_body ps = script_poll ps"
  "body_is_end_stream script_body ps \<longleftrightarrow> ps = []"
  "body_size_hint script_body ps = size_hint_default"
  by (simp_all add: script_body_def)

lemma script_body_contract: "body_contract script_body"
  by unfold_locales auto

lemma ended_script: "ended script_body []"
  by (coinduction rule: ended.coinduct) auto

lemma reads_script: "reads script_body (map (\<lambda>f. Ready (Some (Inr f))) fs) fs"
  by (induction fs) (auto intro: reads_end reads_frame ended_script)

interpretation scripted: body_contract script_body
  by (rule script_body_contract)

interpretation full: body_contract "full_body script_body"
  unfolding full_body_def by (rule body_methods_contract [OF script_body_contract])

interpretation limited_wrap: body_contract "limited_body script_body"
  unfolding limited_body_def by (rule body_methods_contract [OF script_body_contract])

interpretation unsync: body_contract "unsync_body script_body"
  unfolding unsync_body_def by (rule body_methods_contract [OF script_body_contract])

end
