(* ===== verification/Service.thy ===== *)
theory Service
  imports Body
begin

text \<open>
  What the response futures of the middlewares share.  A service is a function from its state and
  a request to its state and a future.  Most response futures hold the future of the inner service
  and apply a function to its result: the locale \<open>response_adaptor\<close> states that contract, with the
  conclusion that running the outer future is running the inner one and mapping its result.
\<close>

type_synonym ('s, 'q, 'f) service_fn = "'s \<Rightarrow> 'q \<Rightarrow> 's \<times> 'f"

text \<open>\<open>ready!(inner.poll(cx)?)\<close> and what follows it: \<open>g\<close> on the value, an error is passed on.\<close>

definition poll_map :: "('f, 'a) poll_fn \<Rightarrow> ('a \<Rightarrow> 'b) \<Rightarrow> ('f, 'b) poll_fn" where
  "poll_map poll g f = (case poll f of (p, f') \<Rightarrow> (map_ready g p, f'))"

locale response_adaptor =
  fixes poll_inner :: "('f, 'a) poll_fn"
    and poll_outer :: "('w, 'b) poll_fn"
    and inner :: "'w \<Rightarrow> 'f"
    and out :: "'w \<Rightarrow> 'a \<Rightarrow> 'b"
  assumes outer_pending: "poll_inner (inner w) = (Pending, f) \<Longrightarrow>
      fst (poll_outer w) = Pending \<and> inner (snd (poll_outer w)) = f \<and>
      out (snd (poll_outer w)) = out w"
    and outer_ready: "poll_inner (inner w) = (Ready v, f) \<Longrightarrow> fst (poll_outer w) = Ready (out w v)"
begin

text \<open>The outer future is ready after exactly as many polls as the inner one.\<close>

lemma run_outer: "run_future poll_outer n w = map_option (out w) (run_future poll_inner n (inner w))"
proof (induction n arbitrary: w)
  case (Suc n)
  obtain p f where pf: "poll_inner (inner w) = (p, f)" by (rule prod.exhaust)
  show ?case
  proof (cases p)
    case Pending
    with outer_pending pf obtain w' where
      "poll_outer w = (Pending, w')" "inner w' = f" "out w' = out w"
      by (metis prod.collapse)
    with Suc pf Pending show ?thesis by simp
  next
    case (Ready v)
    with outer_ready pf obtain w' where "poll_outer w = (Ready (out w v), w')"
      by (metis prod.collapse)
    with pf Ready show ?thesis by simp
  qed
qed simp

lemma run_outer_Some:
  "run_future poll_inner n (inner w) = Some v \<Longrightarrow> run_future poll_outer n w = Some (out w v)"
  by (simp add: run_outer)

end

lemma run_ready_after: "run_future ready_after (Suc n) (n, v) = Some v"
  by (induction n) auto

end
