(* ===== verification/Limit.thy ===== *)
theory Limit
  imports Service
begin

text \<open>
  \<open>limit/\<close>: the request body limit.  The layer, the service that compares \<open>Content-Length\<close> with
  the limit and wraps the request body, the response future and the response body.  The bodies
  \<open>Full\<close> and \<open>Limited\<close> of \<open>http_body_util\<close> are arguments: \<open>full_of\<close> and \<open>limited_of\<close> construct
  them and \<open>F\<close>, \<open>L\<close> are their \<open>Body\<close> implementations.
\<close>

section \<open>The response body\<close>

datatype ('g, 'b) limit_body = BodyPayloadTooLarge 'g | BodyOf 'b

definition BODY :: string where
  "BODY = ''length limit exceeded''"

definition limit_body_payload_too_large :: "(string \<Rightarrow> 'g) \<Rightarrow> ('g, 'b) limit_body" where
  "limit_body_payload_too_large full_of = BodyPayloadTooLarge (full_of BODY)"

definition limit_body_new :: "'b \<Rightarrow> ('g, 'b) limit_body" where
  "limit_body_new b = BodyOf b"

definition limit_body_default :: "'b \<Rightarrow> ('g, 'b) limit_body" where
  "limit_body_default b = BodyOf b"

definition limit_body_poll_frame ::
  "('g, string, 't, 'e) body_api \<Rightarrow> ('b, string, 't, 'e) body_api \<Rightarrow>
     (('g, 'b) limit_body, (string, 't, 'e) frame_result) poll_fn" where
  "limit_body_poll_frame F B w =
     (case w of
        BodyPayloadTooLarge g \<Rightarrow> (case body_poll_frame F g of (p, g') \<Rightarrow> (p, BodyPayloadTooLarge g'))
      | BodyOf b \<Rightarrow> (case body_poll_frame B b of (p, b') \<Rightarrow> (p, BodyOf b')))"

definition limit_body_is_end_stream ::
  "('g, string, 't, 'e) body_api \<Rightarrow> ('b, string, 't, 'e) body_api \<Rightarrow> ('g, 'b) limit_body \<Rightarrow> bool" where
  "limit_body_is_end_stream F B w =
     (case w of BodyPayloadTooLarge g \<Rightarrow> body_is_end_stream F g | BodyOf b \<Rightarrow> body_is_end_stream B b)"

definition limit_body_size_hint ::
  "('g, string, 't, 'e) body_api \<Rightarrow> ('b, string, 't, 'e) body_api \<Rightarrow> ('g, 'b) limit_body \<Rightarrow> size_hint" where
  "limit_body_size_hint F B w =
     (case w of BodyPayloadTooLarge g \<Rightarrow> body_size_hint F g | BodyOf b \<Rightarrow> body_size_hint B b)"

definition limit_body_api ::
  "('g, string, 't, 'e) body_api \<Rightarrow> ('b, string, 't, 'e) body_api \<Rightarrow>
     (('g, 'b) limit_body, string, 't, 'e) body_api" where
  "limit_body_api F B = \<lparr>body_poll_frame = limit_body_poll_frame F B,
     body_is_end_stream = limit_body_is_end_stream F B, body_size_hint = limit_body_size_hint F B\<rparr>"

lemmas limit_body_defs = limit_body_api_def limit_body_poll_frame_def limit_body_is_end_stream_def
  limit_body_size_hint_def

lemma limit_body_contract:
  assumes F: "body_contract F" and B: "body_contract B"
  shows "body_contract (limit_body_api F B)"
proof
  fix w :: "('a, 'd) limit_body"
  show "hint_ok (body_size_hint (limit_body_api F B) w)"
    using assms by (cases w) (auto simp: limit_body_defs body_contract_def)
  assume "body_is_end_stream (limit_body_api F B) w"
  then show "fst (body_poll_frame (limit_body_api F B) w) = Ready None"
    using assms by (cases w) (auto simp: limit_body_defs body_contract_def split: prod.split)
qed

interpretation limit_scripted: body_contract "limit_body_api script_body script_body"
  by (rule limit_body_contract [OF script_body_contract script_body_contract])

lemma limit_body_read:
  "body_read (limit_body_api F B) n w =
     (case w of BodyPayloadTooLarge g \<Rightarrow> body_read F n g | BodyOf b \<Rightarrow> body_read B n b)"
proof (induction n arbitrary: w)
  case (Suc n)
  then show ?case
    by (cases w)
      (auto simp: limit_body_defs split: prod.split poll.split option.split sum.split)
qed (simp split: limit_body.split)

section \<open>The service\<close>

definition create_error_response ::
  "('h, string, 'x) http_api \<Rightarrow> (string \<Rightarrow> 'g) \<Rightarrow> ('h, 'x, ('g, 'b) limit_body) response" where
  "create_error_response H full_of =
     (let res = (response_new H (limit_body_payload_too_large full_of))\<lparr>res_status := 413\<rparr>
      in res\<lparr>res_headers := hm_insert H (res_headers res) ''content-type'' ''text/plain; charset=utf-8''\<rparr>)"

record request_body_limit_layer =
  rl_limit :: nat

definition request_body_limit_layer_new :: "nat \<Rightarrow> request_body_limit_layer" where
  "request_body_limit_layer_new n = \<lparr>rl_limit = n\<rparr>"

record 's request_body_limit =
  rb_inner :: 's
  rb_limit :: nat

definition request_body_limit_layer_apply :: "request_body_limit_layer \<Rightarrow> 's \<Rightarrow> 's request_body_limit" where
  "request_body_limit_layer_apply l s = \<lparr>rb_inner = s, rb_limit = rl_limit l\<rparr>"

definition request_body_limit_new :: "'s \<Rightarrow> nat \<Rightarrow> 's request_body_limit" where
  "request_body_limit_new s n = \<lparr>rb_inner = s, rb_limit = n\<rparr>"

datatype 'f limit_future = FutPayloadTooLarge | FutFuture 'f

definition content_length_of :: "('h, string, 'x) http_api \<Rightarrow> 'h \<Rightarrow> nat option" where
  "content_length_of H h =
     Option.bind (hm_get H h ''content-length'') (\<lambda>v. Option.bind (to_str H v) parse_usize)"

definition request_body_limit_call ::
  "('h, string, 'x) http_api \<Rightarrow> ('b \<Rightarrow> nat \<Rightarrow> 'l) \<Rightarrow>
     ('s, ('h, 'u, 'x, 'l limited_wrap) request, 'f) service_fn \<Rightarrow>
     ('s request_body_limit, ('h, 'u, 'x, 'b) request, 'f limit_future) service_fn" where
  "request_body_limit_call H limited_of inner_call m req =
     (let content_length = content_length_of H (req_headers req);
          proceed = (\<lambda>body_limit.
            let req' = from_parts (request_parts req) (limited_wrap_new (limited_of (req_body req) body_limit))
            in case inner_call (rb_inner m) req' of (s, f) \<Rightarrow> (m\<lparr>rb_inner := s\<rparr>, FutFuture f))
      in case content_length of
           Some len \<Rightarrow> if len > rb_limit m then (m, FutPayloadTooLarge) else proceed (min (rb_limit m) len)
         | None \<Rightarrow> proceed (rb_limit m))"

definition limit_future_poll ::
  "('h, string, 'x) http_api \<Rightarrow> (string \<Rightarrow> 'g) \<Rightarrow> ('f, 'e + ('h, 'x, 'b) response) poll_fn \<Rightarrow>
     ('f limit_future, 'e + ('h, 'x, ('g, 'b) limit_body) response) poll_fn" where
  "limit_future_poll H full_of poll w =
     (case w of
        FutPayloadTooLarge \<Rightarrow> (Ready (Inr (create_error_response H full_of)), FutPayloadTooLarge)
      | FutFuture f \<Rightarrow>
          (case poll f of (p, f') \<Rightarrow>
             (map_ready (map_result (map_response limit_body_new)) p, FutFuture f')))"

section \<open>The limit holds\<close>

text \<open>
  The documented behaviour of \<open>http_body_util::Limited\<close>: it never yields more data than its limit.
\<close>

definition limited_law :: "('b \<Rightarrow> nat \<Rightarrow> 'l) \<Rightarrow> ('l, string, 't, 'e) body_api \<Rightarrow> bool" where
  "limited_law limited_of L \<longleftrightarrow> (\<forall>b n k. data_len (body_read L k (limited_of b n)) \<le> n)"

lemma request_body_limit_proceeds:
  assumes "request_body_limit_call H limited_of inner_call m req = (m', FutFuture f)"
  obtains body_limit where
    "inner_call (rb_inner m)
       (from_parts (request_parts req) (limited_wrap_new (limited_of (req_body req) body_limit))) =
       (rb_inner m', f)"
    "body_limit \<le> rb_limit m" "rb_limit m' = rb_limit m"
    "\<forall>len. content_length_of H (req_headers req) = Some len \<longrightarrow> len \<le> rb_limit m \<and> body_limit = len"
  using assms
  by (auto simp: request_body_limit_call_def Let_def split: option.splits if_splits prod.splits)

text \<open>
  Claim C29. The limit of \<open>RequestBodyLimit\<close> is enforced: a call whose future is not the immediate
  413 has called the inner service on a request with the same parts, whose body yields at most
  \<open>limit\<close> bytes however often it is polled, and at most \<open>Content-Length\<close> bytes when the request
  declares them.
\<close>

theorem body_limit_enforced:
  assumes law: "limited_law limited_of L"
    and call: "request_body_limit_call H limited_of inner_call m req = (m', FutFuture f)"
  shows "\<exists>req'. inner_call (rb_inner m) req' = (rb_inner m', f) \<and>
    request_parts req' = request_parts req \<and>
    (\<forall>k. data_len (body_read (limited_body L) k (req_body req')) \<le> rb_limit m) \<and>
    (\<forall>len k. content_length_of H (req_headers req) = Some len \<longrightarrow>
       data_len (body_read (limited_body L) k (req_body req')) \<le> len)"
proof -
  from call obtain bl where bl:
    "inner_call (rb_inner m)
       (from_parts (request_parts req) (limited_wrap_new (limited_of (req_body req) bl))) = (rb_inner m', f)"
    "bl \<le> rb_limit m"
    "\<forall>len. content_length_of H (req_headers req) = Some len \<longrightarrow> len \<le> rb_limit m \<and> bl = len"
    by (rule request_body_limit_proceeds)
  let ?req = "from_parts (request_parts req) (limited_wrap_new (limited_of (req_body req) bl))"
  have "data_len (body_read (limited_body L) k (req_body ?req)) \<le> bl" for k
    using law by (simp add: limited_body_read limited_law_def)
  moreover have "request_parts ?req = request_parts req"
    by (simp add: request_parts_def)
  ultimately show ?thesis
    using bl by (intro exI [of _ ?req]) (auto intro: le_trans)
qed

text \<open>A \<open>Limited\<close> over scripted bodies for the witnesses: the frame that exceeds the rest is an error.\<close>

fun limited_script_poll ::
  "(nat \<times> (string, 't, string) frame_result poll list, (string, 't, string) frame_result) poll_fn" where
  "limited_script_poll (n, ps) =
     (case script_poll ps of
        (Ready (Some (Inr (DataFrame d))), ps') \<Rightarrow>
          if length d > n then (Ready (Some (Inl ''length limit exceeded'')), (0, ps'))
          else (Ready (Some (Inr (DataFrame d))), (n - length d, ps'))
      | (p, ps') \<Rightarrow> (p, (n, ps')))"

definition limited_script ::
  "(nat \<times> (string, 't, string) frame_result poll list, string, 't, string) body_api" where
  "limited_script = \<lparr>body_poll_frame = limited_script_poll, body_is_end_stream = (\<lambda>(n, ps). ps = []),
     body_size_hint = (\<lambda>_. size_hint_default)\<rparr>"

lemma limited_script_read:
  fixes ps :: "(string, 't, string) frame_result poll list"
  shows "data_len (body_read limited_script k (n, ps)) \<le> n"
proof (induction k arbitrary: n ps)
  case (Suc k)
  have "data_len (body_read limited_script k (m, qs)) \<le> n" if "m \<le> n"
    for m and qs :: "(string, 't, string) frame_result poll list"
    using Suc.IH [of m qs] that by (rule le_trans)
  moreover have "data_len (body_read limited_script k (n - l, qs)) + l \<le> n" if "l \<le> n"
    for l and qs :: "(string, 't, string) frame_result poll list"
    using Suc.IH [of "n - l" qs] that by simp
  ultimately show ?case
    by (cases ps)
      (auto simp: limited_script_def add.commute split: poll.split option.split sum.split frame.split)
qed simp

lemma limited_law_script: "limited_law (\<lambda>b n. (n, b)) limited_script"
  by (simp add: limited_law_def limited_script_read)

definition limit_example_request ::
  "((string \<times> string) list, unit, unit, (string, unit, string) frame_result poll list) request" where
  "limit_example_request = \<lparr>req_method = ''POST'', req_uri = (), req_version = ''HTTP/1.1'',
     req_headers = [(''content-length'', ''3'')], req_extensions = (),
     req_body = [Ready (Some (Inr (DataFrame ''abc''))), Ready (Some (Inr (DataFrame ''de'')))]\<rparr>"

lemma body_limit_enforced_witness:
  "\<exists>req'. (\<lambda>s r. (s, r)) () req' = ((), req') \<and> request_parts req' = request_parts limit_example_request \<and>
     (\<forall>k. data_len (body_read (limited_body (limited_script :: (_, _, unit, _) body_api)) k (req_body req')) \<le> 3)"
proof -
  let ?l = "\<lambda>b n. (n, b)"
  let ?m = "\<lparr>rb_inner = (), rb_limit = 5\<rparr>"
  let ?req' = "from_parts (request_parts limit_example_request)
    (limited_wrap_new (?l (req_body limit_example_request) 3))"
  have cl: "content_length_of (list_http ()) (req_headers limit_example_request) = Some 3"
    by (simp add: limit_example_request_def content_length_of_def list_http_simps
        parse_usize_eval visible_ascii_def)
  have call: "request_body_limit_call (list_http ()) ?l (\<lambda>s r. (s, r)) ?m limit_example_request =
      (?m, FutFuture ?req')"
    by (simp add: request_body_limit_call_def cl Let_def)
  obtain req' where req': "(\<lambda>s r. (s, r)) (rb_inner ?m) req' = (rb_inner ?m, ?req')"
    "request_parts req' = request_parts limit_example_request"
    "\<forall>len k. content_length_of (list_http ()) (req_headers limit_example_request) = Some len \<longrightarrow>
       data_len (body_read (limited_body limited_script) k (req_body req')) \<le> len"
    using body_limit_enforced [OF limited_law_script call] by blast
  then have "\<forall>k. data_len (body_read (limited_body limited_script) k (req_body req')) \<le> 3"
    using req'(3) cl by blast
  with req'(2) show ?thesis by (intro exI [of _ req']) simp
qed

text \<open>
  A request whose \<open>Content-Length\<close> parses and exceeds the limit never reaches the inner
  service: its state is unchanged, and the future is ready at the first poll with status 413, the
  text content type and the body \<open>length limit exceeded\<close>.
\<close>

lemma oversized_request_rejected:
  assumes H: "header_map H" and m: "rb_limit m < len"
    and len: "content_length_of H (req_headers req) = Some len"
  shows "\<exists>res. (let (m', fut) = request_body_limit_call H limited_of inner_call m req
      in m' = m \<and> run_future (limit_future_poll H full_of poll) 1 fut = Some (Inr res)) \<and>
    res_status res = 413 \<and> res_body res = BodyPayloadTooLarge (full_of BODY) \<and>
    hm_get_all H (res_headers res) ''content-type'' = [''text/plain; charset=utf-8'']"
proof -
  have "hm_get_all H (hm_insert H h n v) n = [v]" for h n v
    by (simp add: header_map.get_all_insert [OF H])
  with m len show ?thesis
    by (simp add: request_body_limit_call_def limit_future_poll_def create_error_response_def
        response_new_def limit_body_payload_too_large_def)
qed

text \<open>The future of a request that was let through answers when the inner future does.\<close>

lemma limit_future_run:
  "run_future (limit_future_poll H full_of poll) n (FutFuture f) =
     map_option (map_result (map_response limit_body_new)) (run_future poll n f)"
  by (induction n arbitrary: f) (auto simp: limit_future_poll_def split: prod.split poll.split)

end
