(* ===== verification/Set_Header.thy ===== *)
theory Set_Header
  imports Service
begin

text \<open>
  \<open>set_header/\<close>: setting headers on requests and responses.  The insertion modes with
  \<open>InsertHeaderMode::apply\<close>, the layers and services for one header and for a list of headers, and
  the response futures.  A \<open>MakeHeaderValue\<close> is its state with the function that makes a value
  from the message; messages are accessed through the \<open>Headers\<close> trait.
\<close>

section \<open>Making and inserting values\<close>

type_synonym ('m, 't, 'v) make_header_value = "'m \<Rightarrow> 't \<Rightarrow> 'v option \<times> 'm"

definition make_fn :: "('t \<Rightarrow> 'v option) \<Rightarrow> 't \<Rightarrow> 'v option \<times> ('t \<Rightarrow> 'v option)" where
  "make_fn f t = (f t, f)"

definition make_constant :: "'v \<Rightarrow> 't \<Rightarrow> 'v option \<times> 'v" where
  "make_constant v t = (Some v, v)"

definition make_optional :: "'v option \<Rightarrow> 't \<Rightarrow> 'v option \<times> 'v option" where
  "make_optional ov t = (ov, ov)"

datatype insert_header_mode = Override | Append | IfNotPresent

record ('t, 'h) headers_api =
  get_headers :: "'t \<Rightarrow> 'h"
  set_headers :: "'h \<Rightarrow> 't \<Rightarrow> 't"

definition request_headers_api :: "(('h, 'u, 'x, 'b) request, 'h) headers_api" where
  "request_headers_api = \<lparr>get_headers = req_headers, set_headers = (\<lambda>h r. r\<lparr>req_headers := h\<rparr>)\<rparr>"

definition response_headers_api :: "(('h, 'x, 'b) response, 'h) headers_api" where
  "response_headers_api = \<lparr>get_headers = res_headers, set_headers = (\<lambda>h r. r\<lparr>res_headers := h\<rparr>)\<rparr>"

definition insert_header_apply ::
  "('h, 'v, 'x) http_api \<Rightarrow> ('t, 'h) headers_api \<Rightarrow> ('m, 't, 'v) make_header_value \<Rightarrow>
     insert_header_mode \<Rightarrow> string \<Rightarrow> 't \<Rightarrow> 'm \<Rightarrow> 't \<times> 'm" where
  "insert_header_apply H T mk mode name target gen =
     (case mode of
        Override \<Rightarrow>
          (case mk gen target of
             (Some v, gen') \<Rightarrow> (set_headers T (hm_insert H (get_headers T target) name v) target, gen')
           | (None, gen') \<Rightarrow> (target, gen'))
      | IfNotPresent \<Rightarrow>
          (if \<not> hm_contains H (get_headers T target) name then
             (case mk gen target of
                (Some v, gen') \<Rightarrow> (set_headers T (hm_insert H (get_headers T target) name v) target, gen')
              | (None, gen') \<Rightarrow> (target, gen'))
           else (target, gen))
      | Append \<Rightarrow>
          (case mk gen target of
             (Some v, gen') \<Rightarrow> (set_headers T (hm_append H (get_headers T target) name v) target, gen')
           | (None, gen') \<Rightarrow> (target, gen')))"

section \<open>Lists of headers\<close>

record 'm header_metadata =
  hd_header_name :: string
  hd_make :: 'm

definition header_metadata_new :: "string \<Rightarrow> 'm \<Rightarrow> 'm header_metadata" where
  "header_metadata_new n m = \<lparr>hd_header_name = n, hd_make = m\<rparr>"

definition header_metadata_from :: "string \<times> 'm \<Rightarrow> 'm header_metadata" where
  "header_metadata_from p = (case p of (n, m) \<Rightarrow> header_metadata_new n m)"

record 'm header_insertion_config =
  hc_header_name :: string
  hc_make :: 'm
  hc_mode :: insert_header_mode

definition build_config :: "'m header_metadata \<Rightarrow> insert_header_mode \<Rightarrow> 'm header_insertion_config" where
  "build_config d mode = \<lparr>hc_header_name = hd_header_name d, hc_make = hd_make d, hc_mode = mode\<rparr>"

text \<open>The loop \<open>for header in headers \{ header.mode.apply(..) \}\<close> of the services and futures.\<close>

fun apply_configs ::
  "('h, 'v, 'x) http_api \<Rightarrow> ('t, 'h) headers_api \<Rightarrow> ('m, 't, 'v) make_header_value \<Rightarrow>
     'm header_insertion_config list \<Rightarrow> 't \<Rightarrow> 't \<times> 'm header_insertion_config list" where
  "apply_configs H T mk [] t = (t, [])"
| "apply_configs H T mk (c # cs) t =
     (case insert_header_apply H T mk (hc_mode c) (hc_header_name c) t (hc_make c) of
        (t', m) \<Rightarrow> (case apply_configs H T mk cs t' of (t'', cs') \<Rightarrow> (t'', c\<lparr>hc_make := m\<rparr> # cs')))"

section \<open>Setting one request header\<close>

record 'm set_request_header_layer =
  sql_header_name :: string
  sql_make :: 'm
  sql_mode :: insert_header_mode

definition set_request_header_layer_new :: "string \<Rightarrow> 'm \<Rightarrow> insert_header_mode \<Rightarrow> 'm set_request_header_layer" where
  "set_request_header_layer_new n m mode = \<lparr>sql_header_name = n, sql_make = m, sql_mode = mode\<rparr>"

definition set_request_header_layer_overriding :: "string \<Rightarrow> 'm \<Rightarrow> 'm set_request_header_layer" where
  "set_request_header_layer_overriding n m = set_request_header_layer_new n m Override"

definition set_request_header_layer_appending :: "string \<Rightarrow> 'm \<Rightarrow> 'm set_request_header_layer" where
  "set_request_header_layer_appending n m = set_request_header_layer_new n m Append"

definition set_request_header_layer_if_not_present :: "string \<Rightarrow> 'm \<Rightarrow> 'm set_request_header_layer" where
  "set_request_header_layer_if_not_present n m = set_request_header_layer_new n m IfNotPresent"

record ('s, 'm) set_request_header =
  sq_inner :: 's
  sq_header_name :: string
  sq_make :: 'm
  sq_mode :: insert_header_mode

definition set_request_header_layer_apply :: "'m set_request_header_layer \<Rightarrow> 's \<Rightarrow> ('s, 'm) set_request_header" where
  "set_request_header_layer_apply l s = \<lparr>sq_inner = s, sq_header_name = sql_header_name l,
     sq_make = sql_make l, sq_mode = sql_mode l\<rparr>"

definition set_request_header_new ::
  "'s \<Rightarrow> string \<Rightarrow> 'm \<Rightarrow> insert_header_mode \<Rightarrow> ('s, 'm) set_request_header" where
  "set_request_header_new s n m mode = \<lparr>sq_inner = s, sq_header_name = n, sq_make = m, sq_mode = mode\<rparr>"

definition set_request_header_overriding :: "'s \<Rightarrow> string \<Rightarrow> 'm \<Rightarrow> ('s, 'm) set_request_header" where
  "set_request_header_overriding s n m = set_request_header_new s n m Override"

definition set_request_header_appending :: "'s \<Rightarrow> string \<Rightarrow> 'm \<Rightarrow> ('s, 'm) set_request_header" where
  "set_request_header_appending s n m = set_request_header_new s n m Append"

definition set_request_header_if_not_present :: "'s \<Rightarrow> string \<Rightarrow> 'm \<Rightarrow> ('s, 'm) set_request_header" where
  "set_request_header_if_not_present s n m = set_request_header_new s n m IfNotPresent"

definition set_request_header_call ::
  "('h, 'v, 'x) http_api \<Rightarrow> ('m, ('h, 'u, 'x, 'b) request, 'v) make_header_value \<Rightarrow>
     ('s, ('h, 'u, 'x, 'b) request, 'f) service_fn \<Rightarrow>
     (('s, 'm) set_request_header, ('h, 'u, 'x, 'b) request, 'f) service_fn" where
  "set_request_header_call H mk inner_call c req =
     (case insert_header_apply H request_headers_api mk (sq_mode c) (sq_header_name c) req (sq_make c) of
        (req', gen') \<Rightarrow>
          (case inner_call (sq_inner c) req' of
             (s, f) \<Rightarrow> (c\<lparr>sq_inner := s, sq_make := gen'\<rparr>, f)))"

section \<open>Setting several request headers\<close>

record 'm set_multiple_request_headers_layer =
  mql_headers :: "'m header_insertion_config list"

definition set_multiple_request_headers_layer_new ::
  "'m header_insertion_config list \<Rightarrow> 'm set_multiple_request_headers_layer" where
  "set_multiple_request_headers_layer_new cs = \<lparr>mql_headers = cs\<rparr>"

definition set_multiple_request_headers_layer_overriding ::
  "'m header_metadata list \<Rightarrow> 'm set_multiple_request_headers_layer" where
  "set_multiple_request_headers_layer_overriding ds =
     set_multiple_request_headers_layer_new (map (\<lambda>d. build_config d Override) ds)"

definition set_multiple_request_headers_layer_appending ::
  "'m header_metadata list \<Rightarrow> 'm set_multiple_request_headers_layer" where
  "set_multiple_request_headers_layer_appending ds =
     set_multiple_request_headers_layer_new (map (\<lambda>d. build_config d Append) ds)"

definition set_multiple_request_headers_layer_if_not_present ::
  "'m header_metadata list \<Rightarrow> 'm set_multiple_request_headers_layer" where
  "set_multiple_request_headers_layer_if_not_present ds =
     set_multiple_request_headers_layer_new (map (\<lambda>d. build_config d IfNotPresent) ds)"

record ('s, 'm) set_multiple_request_header =
  mq_inner :: 's
  mq_headers :: "'m header_insertion_config list"

definition set_multiple_request_headers_layer_apply ::
  "'m set_multiple_request_headers_layer \<Rightarrow> 's \<Rightarrow> ('s, 'm) set_multiple_request_header" where
  "set_multiple_request_headers_layer_apply l s = \<lparr>mq_inner = s, mq_headers = mql_headers l\<rparr>"

definition set_multiple_request_header_new ::
  "'s \<Rightarrow> 'm header_insertion_config list \<Rightarrow> ('s, 'm) set_multiple_request_header" where
  "set_multiple_request_header_new s cs = \<lparr>mq_inner = s, mq_headers = cs\<rparr>"

definition set_multiple_request_header_overriding ::
  "'s \<Rightarrow> 'm header_metadata list \<Rightarrow> ('s, 'm) set_multiple_request_header" where
  "set_multiple_request_header_overriding s ds =
     set_multiple_request_header_new s (map (\<lambda>d. build_config d Override) ds)"

definition set_multiple_request_header_appending ::
  "'s \<Rightarrow> 'm header_metadata list \<Rightarrow> ('s, 'm) set_multiple_request_header" where
  "set_multiple_request_header_appending s ds =
     set_multiple_request_header_new s (map (\<lambda>d. build_config d Append) ds)"

definition set_multiple_request_header_if_not_present ::
  "'s \<Rightarrow> 'm header_metadata list \<Rightarrow> ('s, 'm) set_multiple_request_header" where
  "set_multiple_request_header_if_not_present s ds =
     set_multiple_request_header_new s (map (\<lambda>d. build_config d IfNotPresent) ds)"

definition set_multiple_request_header_call ::
  "('h, 'v, 'x) http_api \<Rightarrow> ('m, ('h, 'u, 'x, 'b) request, 'v) make_header_value \<Rightarrow>
     ('s, ('h, 'u, 'x, 'b) request, 'f) service_fn \<Rightarrow>
     (('s, 'm) set_multiple_request_header, ('h, 'u, 'x, 'b) request, 'f) service_fn" where
  "set_multiple_request_header_call H mk inner_call c req =
     (case apply_configs H request_headers_api mk (mq_headers c) req of
        (req', cs) \<Rightarrow>
          (case inner_call (mq_inner c) req' of
             (s, f) \<Rightarrow> (c\<lparr>mq_inner := s, mq_headers := cs\<rparr>, f)))"

section \<open>Setting one response header\<close>

record 'm set_response_header_layer =
  srl_header_name :: string
  srl_make :: 'm
  srl_mode :: insert_header_mode

definition set_response_header_layer_new :: "string \<Rightarrow> 'm \<Rightarrow> insert_header_mode \<Rightarrow> 'm set_response_header_layer" where
  "set_response_header_layer_new n m mode = \<lparr>srl_header_name = n, srl_make = m, srl_mode = mode\<rparr>"

definition set_response_header_layer_overriding :: "string \<Rightarrow> 'm \<Rightarrow> 'm set_response_header_layer" where
  "set_response_header_layer_overriding n m = set_response_header_layer_new n m Override"

definition set_response_header_layer_appending :: "string \<Rightarrow> 'm \<Rightarrow> 'm set_response_header_layer" where
  "set_response_header_layer_appending n m = set_response_header_layer_new n m Append"

definition set_response_header_layer_if_not_present :: "string \<Rightarrow> 'm \<Rightarrow> 'm set_response_header_layer" where
  "set_response_header_layer_if_not_present n m = set_response_header_layer_new n m IfNotPresent"

record ('s, 'm) set_response_header =
  sr_inner :: 's
  sr_header_name :: string
  sr_make :: 'm
  sr_mode :: insert_header_mode

definition set_response_header_layer_apply :: "'m set_response_header_layer \<Rightarrow> 's \<Rightarrow> ('s, 'm) set_response_header" where
  "set_response_header_layer_apply l s = \<lparr>sr_inner = s, sr_header_name = srl_header_name l,
     sr_make = srl_make l, sr_mode = srl_mode l\<rparr>"

definition set_response_header_new ::
  "'s \<Rightarrow> string \<Rightarrow> 'm \<Rightarrow> insert_header_mode \<Rightarrow> ('s, 'm) set_response_header" where
  "set_response_header_new s n m mode = \<lparr>sr_inner = s, sr_header_name = n, sr_make = m, sr_mode = mode\<rparr>"

definition set_response_header_overriding :: "'s \<Rightarrow> string \<Rightarrow> 'm \<Rightarrow> ('s, 'm) set_response_header" where
  "set_response_header_overriding s n m = set_response_header_new s n m Override"

definition set_response_header_appending :: "'s \<Rightarrow> string \<Rightarrow> 'm \<Rightarrow> ('s, 'm) set_response_header" where
  "set_response_header_appending s n m = set_response_header_new s n m Append"

definition set_response_header_if_not_present :: "'s \<Rightarrow> string \<Rightarrow> 'm \<Rightarrow> ('s, 'm) set_response_header" where
  "set_response_header_if_not_present s n m = set_response_header_new s n m IfNotPresent"

record ('f, 'm) set_response_header_future =
  sf_future :: 'f
  sf_header_name :: string
  sf_make :: 'm
  sf_mode :: insert_header_mode

definition set_response_header_call ::
  "('s, 'q, 'f) service_fn \<Rightarrow>
     (('s, 'm) set_response_header, 'q, ('f, 'm) set_response_header_future) service_fn" where
  "set_response_header_call inner_call c req =
     (case inner_call (sr_inner c) req of
        (s, f) \<Rightarrow> (c\<lparr>sr_inner := s\<rparr>, \<lparr>sf_future = f, sf_header_name = sr_header_name c,
          sf_make = sr_make c, sf_mode = sr_mode c\<rparr>))"

definition set_response_header_poll ::
  "('h, 'v, 'x) http_api \<Rightarrow> ('m, ('h, 'x, 'b) response, 'v) make_header_value \<Rightarrow>
     ('f, 'e + ('h, 'x, 'b) response) poll_fn \<Rightarrow>
     (('f, 'm) set_response_header_future, 'e + ('h, 'x, 'b) response) poll_fn" where
  "set_response_header_poll H mk poll w =
     (case poll (sf_future w) of
        (Pending, f) \<Rightarrow> (Pending, w\<lparr>sf_future := f\<rparr>)
      | (Ready (Inl e), f) \<Rightarrow> (Ready (Inl e), w\<lparr>sf_future := f\<rparr>)
      | (Ready (Inr res), f) \<Rightarrow>
          (case insert_header_apply H response_headers_api mk (sf_mode w) (sf_header_name w) res (sf_make w) of
             (res', gen') \<Rightarrow> (Ready (Inr res'), w\<lparr>sf_future := f, sf_make := gen'\<rparr>)))"

section \<open>Setting several response headers\<close>

record 'm set_multiple_response_headers_layer =
  mrl_headers :: "'m header_insertion_config list"

definition set_multiple_response_headers_layer_new ::
  "'m header_insertion_config list \<Rightarrow> 'm set_multiple_response_headers_layer" where
  "set_multiple_response_headers_layer_new cs = \<lparr>mrl_headers = cs\<rparr>"

definition set_multiple_response_headers_layer_overriding ::
  "'m header_metadata list \<Rightarrow> 'm set_multiple_response_headers_layer" where
  "set_multiple_response_headers_layer_overriding ds =
     set_multiple_response_headers_layer_new (map (\<lambda>d. build_config d Override) ds)"

definition set_multiple_response_headers_layer_appending ::
  "'m header_metadata list \<Rightarrow> 'm set_multiple_response_headers_layer" where
  "set_multiple_response_headers_layer_appending ds =
     set_multiple_response_headers_layer_new (map (\<lambda>d. build_config d Append) ds)"

definition set_multiple_response_headers_layer_if_not_present ::
  "'m header_metadata list \<Rightarrow> 'm set_multiple_response_headers_layer" where
  "set_multiple_response_headers_layer_if_not_present ds =
     set_multiple_response_headers_layer_new (map (\<lambda>d. build_config d IfNotPresent) ds)"

record ('s, 'm) set_multiple_response_header =
  mr_inner :: 's
  mr_headers :: "'m header_insertion_config list"

definition set_multiple_response_headers_layer_apply ::
  "'m set_multiple_response_headers_layer \<Rightarrow> 's \<Rightarrow> ('s, 'm) set_multiple_response_header" where
  "set_multiple_response_headers_layer_apply l s = \<lparr>mr_inner = s, mr_headers = mrl_headers l\<rparr>"

definition set_multiple_response_header_new ::
  "'s \<Rightarrow> 'm header_insertion_config list \<Rightarrow> ('s, 'm) set_multiple_response_header" where
  "set_multiple_response_header_new s cs = \<lparr>mr_inner = s, mr_headers = cs\<rparr>"

definition set_multiple_response_header_overriding ::
  "'s \<Rightarrow> 'm header_metadata list \<Rightarrow> ('s, 'm) set_multiple_response_header" where
  "set_multiple_response_header_overriding s ds =
     set_multiple_response_header_new s (map (\<lambda>d. build_config d Override) ds)"

definition set_multiple_response_header_appending ::
  "'s \<Rightarrow> 'm header_metadata list \<Rightarrow> ('s, 'm) set_multiple_response_header" where
  "set_multiple_response_header_appending s ds =
     set_multiple_response_header_new s (map (\<lambda>d. build_config d Append) ds)"

definition set_multiple_response_header_if_not_present ::
  "'s \<Rightarrow> 'm header_metadata list \<Rightarrow> ('s, 'm) set_multiple_response_header" where
  "set_multiple_response_header_if_not_present s ds =
     set_multiple_response_header_new s (map (\<lambda>d. build_config d IfNotPresent) ds)"

record ('f, 'm) set_multiple_response_future =
  mf_future :: 'f
  mf_headers :: "'m header_insertion_config list"

definition set_multiple_response_header_call ::
  "('s, 'q, 'f) service_fn \<Rightarrow>
     (('s, 'm) set_multiple_response_header, 'q, ('f, 'm) set_multiple_response_future) service_fn" where
  "set_multiple_response_header_call inner_call c req =
     (case inner_call (mr_inner c) req of
        (s, f) \<Rightarrow> (c\<lparr>mr_inner := s\<rparr>, \<lparr>mf_future = f, mf_headers = mr_headers c\<rparr>))"

definition set_multiple_response_header_poll ::
  "('h, 'v, 'x) http_api \<Rightarrow> ('m, ('h, 'x, 'b) response, 'v) make_header_value \<Rightarrow>
     ('f, 'e + ('h, 'x, 'b) response) poll_fn \<Rightarrow>
     (('f, 'm) set_multiple_response_future, 'e + ('h, 'x, 'b) response) poll_fn" where
  "set_multiple_response_header_poll H mk poll w =
     (case poll (mf_future w) of
        (Pending, f) \<Rightarrow> (Pending, w\<lparr>mf_future := f\<rparr>)
      | (Ready (Inl e), f) \<Rightarrow> (Ready (Inl e), w\<lparr>mf_future := f\<rparr>)
      | (Ready (Inr res), f) \<Rightarrow>
          (case apply_configs H response_headers_api mk (mf_headers w) res of
             (res', cs) \<Rightarrow> (Ready (Inr res'), w\<lparr>mf_future := f, mf_headers := cs\<rparr>)))"


section \<open>What the modes do\<close>

lemma fst_apply_configs_Cons [simp]:
  "fst (apply_configs H T mk (c # cs) t) = fst (apply_configs H T mk cs
     (fst (insert_header_apply H T mk (hc_mode c) (hc_header_name c) t (hc_make c))))"
  by (simp split: prod.split)

declare apply_configs.simps(2) [simp del]

locale headers_trait =
  fixes T :: "('t, 'h) headers_api"
  assumes get_set: "get_headers T (set_headers T h t) = h"
    and set_set: "set_headers T h (set_headers T g t) = set_headers T h t"
    and set_get: "set_headers T (get_headers T t) t = t"
begin

text \<open>Only the headers of the message change.\<close>

lemma apply_only_headers:
  "\<exists>h. fst (insert_header_apply H T mk mode n t m) = set_headers T h t"
proof -
  have "\<exists>h. t = set_headers T h t"
    by (rule exI [of _ "get_headers T t"]) (simp add: set_get)
  then show ?thesis
    by (auto simp: insert_header_apply_def split: insert_header_mode.split prod.split option.split)
qed

lemma apply_configs_only_headers: "\<exists>h. fst (apply_configs H T mk cs t) = set_headers T h t"
proof (induction cs arbitrary: t)
  case Nil
  show ?case by (auto intro: exI [of _ "get_headers T t"] simp: set_get)
next
  case (Cons c cs)
  obtain h where
    "fst (insert_header_apply H T mk (hc_mode c) (hc_header_name c) t (hc_make c)) = set_headers T h t"
    using apply_only_headers [of H mk "hc_mode c" "hc_header_name c" t "hc_make c"] by blast
  moreover obtain g where
    "fst (apply_configs H T mk cs (set_headers T h t)) = set_headers T g (set_headers T h t)"
    using Cons.IH by blast
  ultimately show ?case by (auto simp: set_set)
qed

lemma apply_get_all:
  assumes H: "header_map H"
  shows "hm_get_all H (get_headers T (fst (insert_header_apply H T mk mode n t m))) k =
    (let old = hm_get_all H (get_headers T t) k in
     if k \<noteq> n then old
     else case fst (mk m t) of
         None \<Rightarrow> old
       | Some v \<Rightarrow>
          (case mode of Override \<Rightarrow> [v] | Append \<Rightarrow> old @ [v]
           | IfNotPresent \<Rightarrow> if old = [] then [v] else old))"
  by (auto simp: insert_header_apply_def get_set header_map.get_all_insert [OF H]
      header_map.get_all_append [OF H] header_map.contains_iff [OF H] Let_def
      split: insert_header_mode.split prod.split option.split)

text \<open>\<open>IfNotPresent\<close> keeps whatever was there, whichever header is set.\<close>

lemma apply_if_not_present_keeps:
  assumes H: "header_map H" and "hm_get_all H (get_headers T t) k \<noteq> []"
  shows "hm_get_all H (get_headers T (fst (insert_header_apply H T mk IfNotPresent n t m))) k =
    hm_get_all H (get_headers T t) k"
  using assms(2) by (auto simp: apply_get_all [OF H] Let_def split: option.split)

lemma apply_configs_if_not_present_keeps:
  assumes H: "header_map H"
  shows "\<forall>c \<in> set cs. hc_mode c = IfNotPresent \<Longrightarrow> hm_get_all H (get_headers T t) k \<noteq> [] \<Longrightarrow>
    hm_get_all H (get_headers T (fst (apply_configs H T mk cs t))) k = hm_get_all H (get_headers T t) k"
  by (induction cs arbitrary: t) (simp_all add: apply_if_not_present_keeps [OF H])

text \<open>A header no configuration names is left alone.\<close>

lemma apply_configs_other:
  assumes H: "header_map H"
  shows "\<forall>c \<in> set cs. hc_header_name c \<noteq> k \<Longrightarrow>
    hm_get_all H (get_headers T (fst (apply_configs H T mk cs t))) k = hm_get_all H (get_headers T t) k"
  by (induction cs arbitrary: t) (auto simp: apply_get_all [OF H])

end

interpretation request_hdrs: headers_trait request_headers_api
  by unfold_locales (auto simp: request_headers_api_def)

interpretation response_hdrs: headers_trait response_headers_api
  by unfold_locales (auto simp: response_headers_api_def)

lemma request_headers_api_simps [simp]:
  "get_headers request_headers_api r = req_headers r"
  "set_headers request_headers_api h r = r\<lparr>req_headers := h\<rparr>"
  by (simp_all add: request_headers_api_def)

lemma response_headers_api_simps [simp]:
  "get_headers response_headers_api r = res_headers r"
  "set_headers response_headers_api h r = r\<lparr>res_headers := h\<rparr>"
  by (simp_all add: response_headers_api_def)

section \<open>The response futures as adaptors\<close>

definition set_response_header_out ::
  "('h, 'v, 'x) http_api \<Rightarrow> ('m, ('h, 'x, 'b) response, 'v) make_header_value \<Rightarrow>
     ('f, 'm) set_response_header_future \<Rightarrow> 'e + ('h, 'x, 'b) response \<Rightarrow> 'e + ('h, 'x, 'b) response" where
  "set_response_header_out H mk w = map_result (\<lambda>res.
     fst (insert_header_apply H response_headers_api mk (sf_mode w) (sf_header_name w) res (sf_make w)))"

definition set_multiple_response_header_out ::
  "('h, 'v, 'x) http_api \<Rightarrow> ('m, ('h, 'x, 'b) response, 'v) make_header_value \<Rightarrow>
     ('f, 'm) set_multiple_response_future \<Rightarrow> 'e + ('h, 'x, 'b) response \<Rightarrow> 'e + ('h, 'x, 'b) response" where
  "set_multiple_response_header_out H mk w = map_result (\<lambda>res.
     fst (apply_configs H response_headers_api mk (mf_headers w) res))"

interpretation set_response_header:
  response_adaptor poll "set_response_header_poll H mk poll" sf_future "set_response_header_out H mk"
  for H mk poll
  by unfold_locales
    (auto simp: set_response_header_poll_def set_response_header_out_def
      split: prod.split poll.splits sum.splits)

interpretation set_multiple_response_header:
  response_adaptor poll "set_multiple_response_header_poll H mk poll" mf_future
    "set_multiple_response_header_out H mk"
  for H mk poll
  by unfold_locales
    (auto simp: set_multiple_response_header_poll_def set_multiple_response_header_out_def
      split: prod.split poll.splits sum.splits)

text \<open>
  What the inner service of \<open>SetRequestHeader\<close> sees: the request with the header replaced
  (\<open>overriding\<close>), added to (\<open>appending\<close>) or, only when it was missing, inserted
  (\<open>if_not_present\<close>), unchanged when the maker returns \<open>None\<close>, and nothing but that header changed.
\<close>

theorem set_request_header_modes:
  assumes H: "header_map H"
    and call: "set_request_header_call H mk inner_call c req = (c', f)"
  shows "\<exists>req'. inner_call (sq_inner c) req' = (sq_inner c', f) \<and>
    (\<exists>h. req' = req\<lparr>req_headers := h\<rparr>) \<and>
    (\<forall>k. hm_get_all H (req_headers req') k =
      (let old = hm_get_all H (req_headers req) k in
       if k \<noteq> sq_header_name c then old
       else case fst (mk (sq_make c) req) of
           None \<Rightarrow> old
         | Some v \<Rightarrow> (case sq_mode c of Override \<Rightarrow> [v] | Append \<Rightarrow> old @ [v]
             | IfNotPresent \<Rightarrow> if old = [] then [v] else old)))"
proof -
  let ?req' = "fst (insert_header_apply H request_headers_api mk (sq_mode c) (sq_header_name c) req
    (sq_make c))"
  have "inner_call (sq_inner c) ?req' = (sq_inner c', f)"
    using call by (auto simp: set_request_header_call_def split: prod.splits)
  moreover have "\<exists>h. ?req' = req\<lparr>req_headers := h\<rparr>"
    using request_hdrs.apply_only_headers [of H mk "sq_mode c" "sq_header_name c" req "sq_make c"]
    by simp
  moreover note request_hdrs.apply_get_all
    [OF H, of mk "sq_mode c" "sq_header_name c" req "sq_make c", unfolded request_headers_api_simps]
  ultimately show ?thesis by blast
qed

definition shx_request :: "((string \<times> string) list, unit, unit, unit) request" where
  "shx_request = \<lparr>req_method = ''GET'', req_uri = (), req_version = ''HTTP/1.1'',
     req_headers = [(''accept'', ''a''), (''x-id'', ''1'')], req_extensions = (), req_body = ()\<rparr>"

lemma set_request_header_modes_witness:
  "\<exists>req'. ((), req') = ((), shx_request\<lparr>req_headers :=
        [(''accept'', ''a''), (''x-id'', ''1''), (''x-id'', ''2'')]\<rparr>) \<and>
     hm_get_all (list_http ()) (req_headers req') ''x-id'' = [''1'', ''2'']"
proof -
  have "set_request_header_call (list_http ()) make_constant (\<lambda>s r. (s, r))
      (set_request_header_appending () ''x-id'' ''2'') shx_request =
    (set_request_header_appending () ''x-id'' ''2'', shx_request\<lparr>req_headers :=
        [(''accept'', ''a''), (''x-id'', ''1''), (''x-id'', ''2'')]\<rparr>)"
    by code_simp
  from set_request_header_modes [OF header_map_list_http this]
  obtain req' where r: "((), req') = ((), shx_request\<lparr>req_headers :=
        [(''accept'', ''a''), (''x-id'', ''1''), (''x-id'', ''2'')]\<rparr>)"
    "hm_get_all (list_http ()) (req_headers req') ''x-id'' =
      hm_get_all (list_http ()) (req_headers shx_request) ''x-id'' @ [''2'']"
    by (auto simp: set_request_header_appending_def set_request_header_new_def make_constant_def)
  moreover have "hm_get_all (list_http ()) (req_headers shx_request) ''x-id'' = [''1'']"
    by code_simp
  ultimately show ?thesis by auto
qed

text \<open>
  A list of response headers is set in order: a \<open>SetMultipleResponseHeader\<close> future with the
  configurations \<open>c # cs\<close> returns, after the same number of polls, what the future with \<open>cs\<close>
  returns around a \<open>SetResponseHeader\<close> future with \<open>c\<close>.
\<close>

theorem set_multiple_is_nested_single:
  "run_future (set_multiple_response_header_poll H mk poll) n \<lparr>mf_future = f, mf_headers = c # cs\<rparr> =
   run_future (set_multiple_response_header_poll H mk (set_response_header_poll H mk poll)) n
     \<lparr>mf_future = \<lparr>sf_future = f, sf_header_name = hc_header_name c, sf_make = hc_make c,
        sf_mode = hc_mode c\<rparr>, mf_headers = cs\<rparr>"
  by (simp add: set_multiple_response_header.run_outer set_response_header.run_outer
      set_multiple_response_header_out_def set_response_header_out_def option.map_comp comp_def)

text \<open>
  \<open>if_not_present\<close> never touches what the inner service answered: in the response of a
  \<open>SetMultipleResponseHeader\<close> built with \<open>if_not_present\<close>, status, body and extensions are the inner
  ones, every header that was present keeps all its values, and so does every header not listed.
\<close>

theorem if_not_present_preserves_response:
  assumes H: "header_map H"
    and run: "run_future (set_multiple_response_header_poll H mk poll) n
      (snd (set_multiple_response_header_call inner_call
         (set_multiple_response_header_if_not_present s ds) req)) = Some (Inr res')"
  shows "\<exists>res. run_future poll n (snd (inner_call s req)) = Some (Inr res) \<and>
    res_status res' = res_status res \<and> res_body res' = res_body res \<and>
    res_extensions res' = res_extensions res \<and>
    (\<forall>k. hm_get_all H (res_headers res) k \<noteq> [] \<or> k \<notin> hd_header_name ` set ds \<longrightarrow>
       hm_get_all H (res_headers res') k = hm_get_all H (res_headers res) k)"
proof -
  let ?cs = "map (\<lambda>d. build_config d IfNotPresent) ds"
  obtain s' f where sf: "inner_call s req = (s', f)" by (rule prod.exhaust)
  have "map_option (set_multiple_response_header_out H mk \<lparr>mf_future = f, mf_headers = ?cs\<rparr>)
      (run_future poll n f) = Some (Inr res')"
    using run sf by (simp add: set_multiple_response_header_call_def
        set_multiple_response_header_if_not_present_def set_multiple_response_header_new_def
        set_multiple_response_header.run_outer)
  then obtain res where res: "run_future poll n f = Some (Inr res)"
    and res': "res' = fst (apply_configs H response_headers_api mk ?cs res)"
    by (auto simp: set_multiple_response_header_out_def elim: map_result.elims)
  have modes: "\<forall>c \<in> set ?cs. hc_mode c = IfNotPresent"
    and names: "k \<notin> hd_header_name ` set ds \<Longrightarrow> \<forall>c \<in> set ?cs. hc_header_name c \<noteq> k" for k
    by (auto simp: build_config_def)
  have kept: "hm_get_all H (res_headers res') k = hm_get_all H (res_headers res) k"
    if "hm_get_all H (res_headers res) k \<noteq> [] \<or> k \<notin> hd_header_name ` set ds" for k
    using that response_hdrs.apply_configs_if_not_present_keeps [OF H modes, of res k mk]
      response_hdrs.apply_configs_other [OF H names, of k mk res] res' by auto
  moreover obtain h where "res' = res\<lparr>res_headers := h\<rparr>"
    using response_hdrs.apply_configs_only_headers [of H mk ?cs res] res' by auto
  ultimately show ?thesis
    using res sf by auto
qed

definition shx_response :: "((string \<times> string) list, unit, string) response" where
  "shx_response = \<lparr>res_status = 200, res_version = ''HTTP/1.1'',
     res_headers = [(''etag'', ''e'')], res_extensions = (), res_body = ''body''\<rparr>"

lemma if_not_present_preserves_response_witness:
  "hm_get_all (list_http ()) [(''etag'', ''e''), (''server'', ''s'')] ''etag'' =
     hm_get_all (list_http ()) (res_headers shx_response) ''etag''"
proof -
  let ?ds = "[header_metadata_new ''etag'' ''f'', header_metadata_new ''server'' ''s'']"
  let ?res' = "shx_response\<lparr>res_headers := [(''etag'', ''e''), (''server'', ''s'')]\<rparr>"
  let ?inner = "\<lambda>s r. (s, (1 :: nat, Inr shx_response :: unit + _))"
  have run: "run_future (set_multiple_response_header_poll (list_http ()) make_constant ready_after) 2
      (snd (set_multiple_response_header_call ?inner
         (set_multiple_response_header_if_not_present () ?ds) shx_request)) = Some (Inr ?res')"
    by code_simp
  have inner: "run_future ready_after 2 (snd (?inner () shx_request)) = Some (Inr shx_response)"
    by code_simp
  have present: "hm_get_all (list_http ()) (res_headers shx_response) ''etag'' \<noteq> []"
    by code_simp
  from if_not_present_preserves_response [OF header_map_list_http run] inner present
  show ?thesis by auto
qed

end
