(* ===== verification/Timeout.thy ===== *)
theory Timeout
  imports Service "HOL-Library.Sublist"
begin

text \<open>
  \<open>timeout/\<close>: the response timeout, the per-frame body timeout and the body deadline with their
  layers, services and futures.  \<open>tokio::time::Sleep\<close> is an argument: \<open>sleep\<close> makes one from a
  duration and \<open>ps\<close> polls it.
\<close>

type_synonym duration = nat

section \<open>The response timeout\<close>

record timeout_layer =
  tl_timeout :: duration
  tl_status_code :: nat

definition timeout_layer_with_status_code :: "nat \<Rightarrow> duration \<Rightarrow> timeout_layer" where
  "timeout_layer_with_status_code code d = \<lparr>tl_timeout = d, tl_status_code = code\<rparr>"

definition timeout_layer_new :: "duration \<Rightarrow> timeout_layer" where
  "timeout_layer_new d = timeout_layer_with_status_code 408 d"

record 's timeout =
  tm_inner :: 's
  tm_timeout :: duration
  tm_status_code :: nat

definition timeout_with_status_code :: "'s \<Rightarrow> nat \<Rightarrow> duration \<Rightarrow> 's timeout" where
  "timeout_with_status_code s code d = \<lparr>tm_inner = s, tm_timeout = d, tm_status_code = code\<rparr>"

definition timeout_new :: "'s \<Rightarrow> duration \<Rightarrow> 's timeout" where
  "timeout_new s d = timeout_with_status_code s 408 d"

definition timeout_layer_apply :: "timeout_layer \<Rightarrow> 's \<Rightarrow> 's timeout" where
  "timeout_layer_apply l s = timeout_with_status_code s (tl_status_code l) (tl_timeout l)"

record ('f, 'z) timeout_future =
  tf_inner :: 'f
  tf_sleep :: 'z
  tf_status_code :: nat

definition timeout_call ::
  "(duration \<Rightarrow> 'z) \<Rightarrow> ('s, 'q, 'f) service_fn \<Rightarrow> ('s timeout, 'q, ('f, 'z) timeout_future) service_fn" where
  "timeout_call sleep inner_call c req =
     (let z = sleep (tm_timeout c)
      in case inner_call (tm_inner c) req of
           (s, f) \<Rightarrow> (c\<lparr>tm_inner := s\<rparr>,
             \<lparr>tf_inner = f, tf_sleep = z, tf_status_code = tm_status_code c\<rparr>))"

definition timeout_poll ::
  "('h, 'v, 'x) http_api \<Rightarrow> 'b \<Rightarrow> ('z, unit) poll_fn \<Rightarrow> ('f, 'e + ('h, 'x, 'b) response) poll_fn \<Rightarrow>
     (('f, 'z) timeout_future, 'e + ('h, 'x, 'b) response) poll_fn" where
  "timeout_poll H default_body ps poll w =
     (case ps (tf_sleep w) of
        (Ready _, z) \<Rightarrow>
          (Ready (Inr ((response_new H default_body)\<lparr>res_status := tf_status_code w\<rparr>)), w\<lparr>tf_sleep := z\<rparr>)
      | (Pending, z) \<Rightarrow>
          (case poll (tf_inner w) of (p, f) \<Rightarrow> (p, w\<lparr>tf_sleep := z, tf_inner := f\<rparr>)))"

text \<open>
  Claim C30. The race of \<open>Timeout\<close>, exactly: within \<open>n\<close> polls the future returns the inner result if
  the inner future is ready strictly before the timer, the response with the configured status and
  the default body if the timer is ready first or at the same poll, and nothing otherwise.  In
  particular it always returns once the timer has elapsed.
\<close>

theorem timeout_race:
  "run_future (timeout_poll H db ps poll) n w =
    (let expired = Some (Inr ((response_new H db)\<lparr>res_status := tf_status_code w\<rparr>)) in
     case first_ready ps n (tf_sleep w) of
       None \<Rightarrow> run_future poll n (tf_inner w)
     | Some i \<Rightarrow>
         (case first_ready poll n (tf_inner w) of
            None \<Rightarrow> expired
          | Some j \<Rightarrow> if j < i then run_future poll n (tf_inner w) else expired))"
proof (induction n arbitrary: w)
  case (Suc n)
  obtain p z where ps: "ps (tf_sleep w) = (p, z)" by (rule prod.exhaust)
  obtain q f where pf: "poll (tf_inner w) = (q, f)" by (rule prod.exhaust)
  show ?case
  proof (cases p)
    case (Ready u)
    with ps have "ps (tf_sleep w) = (Ready (), z)" by simp
    then have "timeout_poll H db ps poll w =
        (Ready (Inr ((response_new H db)\<lparr>res_status := tf_status_code w\<rparr>)), w\<lparr>tf_sleep := z\<rparr>)"
      by (simp add: timeout_poll_def)
    moreover have "first_ready ps (Suc n) (tf_sleep w) = Some 0"
      using ps Ready by simp
    ultimately show ?thesis
      by (simp add: Let_def split: option.split)
  next
    case Pending
    let ?w = "w\<lparr>tf_sleep := z, tf_inner := f\<rparr>"
    show ?thesis
    proof (cases q)
      case (Ready r)
      with ps pf Pending show ?thesis
        by (auto simp: timeout_poll_def Let_def split: option.split)
    next
      case q: Pending
      have "run_future (timeout_poll H db ps poll) (Suc n) w = run_future (timeout_poll H db ps poll) n ?w"
        using ps pf Pending q by (simp add: timeout_poll_def)
      also have "\<dots> = (let expired = Some (Inr ((response_new H db)\<lparr>res_status := tf_status_code w\<rparr>)) in
          case first_ready ps n z of
            None \<Rightarrow> run_future poll n f
          | Some i \<Rightarrow> (case first_ready poll n f of None \<Rightarrow> expired
              | Some j \<Rightarrow> if j < i then run_future poll n f else expired))"
        by (simp add: Suc.IH [of ?w] Let_def split: option.split)
      finally show ?thesis
        using ps pf Pending q by (simp add: Let_def split: option.split)
    qed
  qed
qed simp

section \<open>Errors of the timed bodies\<close>

datatype 'e timed_error = TimeoutError | BodyError 'e

definition timeout_error_display :: string where
  "timeout_error_display = ''data was not received within the designated timeout''"

text \<open>\<open>frame.transpose().map_err(Into::into).transpose()\<close>: the error is boxed.\<close>

definition box_frame_error :: "('d, 't, 'e) frame_result \<Rightarrow> ('d, 't, 'e timed_error) frame_result" where
  "box_frame_error r =
     (case r of None \<Rightarrow> None | Some (Inl e) \<Rightarrow> Some (Inl (BodyError e)) | Some (Inr f) \<Rightarrow> Some (Inr f))"

section \<open>The per-frame timeout\<close>

record ('z, 'b) timeout_body =
  tb_timeout :: duration
  tb_sleep :: "'z option"
  tb_body :: 'b

definition timeout_body_new :: "duration \<Rightarrow> 'b \<Rightarrow> ('z, 'b) timeout_body" where
  "timeout_body_new d b = \<lparr>tb_timeout = d, tb_sleep = None, tb_body = b\<rparr>"

definition timeout_body_poll_frame ::
  "(duration \<Rightarrow> 'z) \<Rightarrow> ('z, unit) poll_fn \<Rightarrow> ('b, 'd, 't, 'e) body_api \<Rightarrow>
     (('z, 'b) timeout_body, ('d, 't, 'e timed_error) frame_result) poll_fn" where
  "timeout_body_poll_frame sleep ps B w =
     (let z = (case tb_sleep w of Some z \<Rightarrow> z | None \<Rightarrow> sleep (tb_timeout w))
      in case ps z of
           (Ready _, z') \<Rightarrow> (Ready (Some (Inl TimeoutError)), w\<lparr>tb_sleep := Some z'\<rparr>)
         | (Pending, z') \<Rightarrow>
             (case body_poll_frame B (tb_body w) of
                (Pending, b) \<Rightarrow> (Pending, w\<lparr>tb_sleep := Some z', tb_body := b\<rparr>)
              | (Ready r, b) \<Rightarrow> (Ready (box_frame_error r), w\<lparr>tb_sleep := None, tb_body := b\<rparr>)))"

definition timeout_body_api ::
  "(duration \<Rightarrow> 'z) \<Rightarrow> ('z, unit) poll_fn \<Rightarrow> ('b, 'd, 't, 'e) body_api \<Rightarrow>
     (('z, 'b) timeout_body, 'd, 't, 'e timed_error) body_api" where
  "timeout_body_api sleep ps B = \<lparr>body_poll_frame = timeout_body_poll_frame sleep ps B,
     body_is_end_stream = (\<lambda>w. False), body_size_hint = (\<lambda>w. size_hint_default)\<rparr>"

section \<open>The deadline\<close>

record ('z, 'b) deadline_body =
  db_sleep :: 'z
  db_body :: 'b

definition deadline_body_new :: "(duration \<Rightarrow> 'z) \<Rightarrow> duration \<Rightarrow> 'b \<Rightarrow> ('z, 'b) deadline_body" where
  "deadline_body_new sleep d b = \<lparr>db_sleep = sleep d, db_body = b\<rparr>"

definition deadline_body_poll_frame ::
  "('z, unit) poll_fn \<Rightarrow> ('b, 'd, 't, 'e) body_api \<Rightarrow>
     (('z, 'b) deadline_body, ('d, 't, 'e timed_error) frame_result) poll_fn" where
  "deadline_body_poll_frame ps B w =
     (case ps (db_sleep w) of
        (Ready _, z) \<Rightarrow> (Ready (Some (Inl TimeoutError)), w\<lparr>db_sleep := z\<rparr>)
      | (Pending, z) \<Rightarrow>
          (case body_poll_frame B (db_body w) of
             (Pending, b) \<Rightarrow> (Pending, w\<lparr>db_sleep := z, db_body := b\<rparr>)
           | (Ready r, b) \<Rightarrow> (Ready (box_frame_error r), w\<lparr>db_sleep := z, db_body := b\<rparr>)))"

definition deadline_body_api ::
  "('z, unit) poll_fn \<Rightarrow> ('b, 'd, 't, 'e) body_api \<Rightarrow>
     (('z, 'b) deadline_body, 'd, 't, 'e timed_error) body_api" where
  "deadline_body_api ps B = \<lparr>body_poll_frame = deadline_body_poll_frame ps B,
     body_is_end_stream = (\<lambda>w. body_is_end_stream B (db_body w)),
     body_size_hint = (\<lambda>w. body_size_hint B (db_body w))\<rparr>"


section \<open>What a consumer reads through the timed bodies\<close>

text \<open>
  Both bodies either fail without touching the inner body or forward one of its polls; what is read
  through them is then a prefix of what the inner body yields.
\<close>

locale cutting_body =
  fixes W :: "('w, 'd, 't, 'e2) body_api"
    and B :: "('b, 'd, 't, 'e) body_api"
    and inner :: "'w \<Rightarrow> 'b"
  assumes cut_or_forward: "body_poll_frame B (inner w) = (p, b) \<Longrightarrow>
    (\<exists>e. fst (body_poll_frame W w) = Ready (Some (Inl e))) \<or>
    inner (snd (body_poll_frame W w)) = b \<and>
    (case p of Pending \<Rightarrow> fst (body_poll_frame W w) = Pending
     | Ready None \<Rightarrow> fst (body_poll_frame W w) = Ready None
     | Ready (Some (Inl e)) \<Rightarrow> \<exists>e'. fst (body_poll_frame W w) = Ready (Some (Inl e'))
     | Ready (Some (Inr f)) \<Rightarrow> fst (body_poll_frame W w) = Ready (Some (Inr f)))"
begin

lemma read_prefix: "prefix (body_read W n w) (body_read B n (inner w))"
proof (induction n arbitrary: w)
  case (Suc n)
  obtain p b where pb: "body_poll_frame B (inner w) = (p, b)" by (rule prod.exhaust)
  obtain q w' where qw: "body_poll_frame W w = (q, w')" by (rule prod.exhaust)
  show ?case
    using cut_or_forward [OF pb] Suc.IH [of w'] pb qw
    by (auto split: poll.splits option.splits sum.splits)
qed simp

end

lemma box_frame_error_simps [simp]:
  "box_frame_error None = None"
  "box_frame_error (Some (Inl e)) = Some (Inl (BodyError e))"
  "box_frame_error (Some (Inr f)) = Some (Inr f)"
  by (simp_all add: box_frame_error_def)

interpretation timeout_body: cutting_body "timeout_body_api sleep ps B" B tb_body for sleep ps B
  by unfold_locales
    (auto simp: timeout_body_api_def timeout_body_poll_frame_def Let_def box_frame_error_def
      split: poll.split prod.split option.splits sum.splits)

interpretation deadline_body: cutting_body "deadline_body_api ps B" B db_body for ps B
  by unfold_locales
    (auto simp: deadline_body_api_def deadline_body_poll_frame_def box_frame_error_def
      split: poll.split prod.split option.splits sum.splits)

interpretation timeout_contract: body_contract "timeout_body_api sleep ps B" for sleep ps B
  by unfold_locales (auto simp: timeout_body_api_def)

text \<open>
  The deadline cuts a body exactly at its timer: if the timer of a \<open>DeadlineBody\<close> is
  ready at its poll number \<open>i\<close>, any number of polls reads precisely what \<open>i\<close> polls of the inner body
  yield, and as long as the timer is not ready the body reads as the inner one.
\<close>

theorem deadline_body_cuts:
  "body_read (deadline_body_api ps B) n w =
     (case first_ready ps n (db_sleep w) of
        None \<Rightarrow> body_read B n (db_body w)
      | Some i \<Rightarrow> body_read B i (db_body w))"
proof (induction n arbitrary: w)
  case (Suc n)
  obtain p z where ps: "ps (db_sleep w) = (p, z)" by (rule prod.exhaust)
  obtain q b where pb: "body_poll_frame B (db_body w) = (q, b)" by (rule prod.exhaust)
  let ?w = "w\<lparr>db_sleep := z, db_body := b\<rparr>"
  have IH: "body_read (deadline_body_api ps B) n ?w =
      (case first_ready ps n z of None \<Rightarrow> body_read B n b | Some i \<Rightarrow> body_read B i b)"
    by (simp add: Suc.IH [of ?w] split: option.split)
  show ?case
  proof (cases p)
    case (Ready u)
    with ps show ?thesis by (simp add: deadline_body_api_def deadline_body_poll_frame_def)
  next
    case Pending
    have "body_poll_frame (deadline_body_api ps B) w =
        (case q of Pending \<Rightarrow> (Pending, ?w) | Ready r \<Rightarrow> (Ready (box_frame_error r), ?w))"
      using ps Pending pb
      by (simp add: deadline_body_api_def deadline_body_poll_frame_def split: poll.split)
    with IH ps Pending pb show ?thesis
      by (auto split: poll.splits option.splits sum.splits)
  qed
qed simp

section \<open>A timer that is slower than every frame\<close>

definition frames_within :: "nat \<Rightarrow> ('b, 'd, 't, 'e) body_api \<Rightarrow> bool" where
  "frames_within k B \<longleftrightarrow> (\<forall>b. run_future (body_poll_frame B) k b \<noteq> None)"

lemma timeout_body_read_running:
  assumes slow: "run_future ps k (sleep d) = None" and fast: "frames_within k B"
  shows "tb_timeout w = d \<Longrightarrow> run_future ps j (case tb_sleep w of None \<Rightarrow> sleep d | Some z \<Rightarrow> z) = None \<Longrightarrow>
    run_future (body_poll_frame B) j (tb_body w) \<noteq> None \<Longrightarrow>
    body_read (timeout_body_api sleep ps B) n w = body_read B n (tb_body w)"
proof (induction n arbitrary: w j)
  case (Suc n)
  let ?z = "case tb_sleep w of None \<Rightarrow> sleep d | Some z \<Rightarrow> z"
  obtain j' where j: "j = Suc j'" using Suc.prems(3) by (cases j) auto
  obtain z' where z: "ps ?z = (Pending, z')"
    using Suc.prems(2) j by (cases "ps ?z") (auto split: poll.splits)
  obtain q b where pb: "body_poll_frame B (tb_body w) = (q, b)" by (rule prod.exhaust)
  have zw: "(case tb_sleep w of None \<Rightarrow> sleep (tb_timeout w) | Some z \<Rightarrow> z) = ?z"
    using Suc.prems(1) by (simp split: option.split)
  have fresh: "run_future (body_poll_frame B) k b \<noteq> None"
    using fast by (simp add: frames_within_def)
  let ?p = "w\<lparr>tb_sleep := Some z', tb_body := b\<rparr>" and ?r = "w\<lparr>tb_sleep := None, tb_body := b\<rparr>"
  have poll: "body_poll_frame (timeout_body_api sleep ps B) w =
      (case q of Pending \<Rightarrow> (Pending, ?p) | Ready r \<Rightarrow> (Ready (box_frame_error r), ?r))"
    using z pb zw
    by (simp add: timeout_body_api_def timeout_body_poll_frame_def Let_def split: poll.split)
  show ?case
  proof (cases q)
    case Pending
    have "body_read (timeout_body_api sleep ps B) n ?p = body_read B n b"
      using Suc.IH [of ?p j'] Suc.prems j z pb Pending by simp
    with poll pb Pending show ?thesis by simp
  next
    case (Ready r)
    have "body_read (timeout_body_api sleep ps B) n ?r = body_read B n b"
      using Suc.IH [of ?r k] Suc.prems(1) slow fresh by simp
    with poll pb Ready show ?thesis by (auto split: option.split sum.split)
  qed
qed simp

text \<open>
  The timer of \<open>TimeoutBody\<close> starts anew for every frame: if the timer is not ready within
  \<open>k\<close> polls and every frame of the inner body comes within \<open>k\<close> polls, then no frame is ever cut off,
  however many frames there are and however long they take together.
\<close>

theorem timeout_body_resets_timer:
  assumes "run_future ps k (sleep d) = None" and "frames_within k B"
  shows "body_read (timeout_body_api sleep ps B) n (timeout_body_new d b) = body_read B n b"
  using timeout_body_read_running [of ps k sleep d B "timeout_body_new d b" k n] assms
  by (simp add: timeout_body_new_def frames_within_def)

text \<open>A body that answers every third poll with a frame, and a timer of four polls.\<close>

fun slow_poll :: "(nat \<times> nat, (nat, unit, unit) frame_result) poll_fn" where
  "slow_poll (i, c) = (if i \<ge> 2 then (Ready (Some (Inr (DataFrame c))), (0, c + 1)) else (Pending, (i + 1, c)))"

definition slow_body :: "(nat \<times> nat, nat, unit, unit) body_api" where
  "slow_body = \<lparr>body_poll_frame = slow_poll, body_is_end_stream = (\<lambda>_. False),
     body_size_hint = (\<lambda>_. size_hint_default)\<rparr>"

lemma timeout_body_resets_timer_witness:
  "body_read (timeout_body_api (\<lambda>d. (d, ())) ready_after slow_body) 9 (timeout_body_new 4 (0, 0)) =
     [DataFrame 0, DataFrame 1, DataFrame 2]"
proof -
  have slow: "run_future ready_after 3 (4, ()) = None" by code_simp
  have fast: "frames_within 3 slow_body"
    by (auto simp: frames_within_def slow_body_def eval_nat_numeral)
  have "body_read slow_body 9 (0, 0) = [DataFrame 0, DataFrame 1, DataFrame 2]"
    by code_simp
  with timeout_body_resets_timer [of ready_after 3 "\<lambda>d. (d, ())" 4 slow_body 9 "(0, 0)", OF slow fast]
  show ?thesis by simp
qed

section \<open>The services for request and response bodies\<close>

text \<open>The request services wrap the body and call on; the response services wrap it in their future.\<close>

record request_body_timeout_layer =
  qtl_timeout :: duration

definition request_body_timeout_layer_new :: "duration \<Rightarrow> request_body_timeout_layer" where
  "request_body_timeout_layer_new d = \<lparr>qtl_timeout = d\<rparr>"

record 's request_body_timeout =
  qt_inner :: 's
  qt_timeout :: duration

definition request_body_timeout_new :: "'s \<Rightarrow> duration \<Rightarrow> 's request_body_timeout" where
  "request_body_timeout_new s d = \<lparr>qt_inner = s, qt_timeout = d\<rparr>"

definition request_body_timeout_layer_apply :: "request_body_timeout_layer \<Rightarrow> 's \<Rightarrow> 's request_body_timeout" where
  "request_body_timeout_layer_apply l s = request_body_timeout_new s (qtl_timeout l)"

definition request_body_timeout_call ::
  "('s, ('h, 'u, 'x, ('z, 'b) timeout_body) request, 'f) service_fn \<Rightarrow>
     ('s request_body_timeout, ('h, 'u, 'x, 'b) request, 'f) service_fn" where
  "request_body_timeout_call inner_call c req =
     (let req' = from_parts (request_parts req) (timeout_body_new (qt_timeout c) (req_body req))
      in case inner_call (qt_inner c) req' of (s, f) \<Rightarrow> (c\<lparr>qt_inner := s\<rparr>, f))"

record response_body_timeout_layer =
  stl_timeout :: duration

definition response_body_timeout_layer_new :: "duration \<Rightarrow> response_body_timeout_layer" where
  "response_body_timeout_layer_new d = \<lparr>stl_timeout = d\<rparr>"

record 's response_body_timeout =
  st_inner :: 's
  st_timeout :: duration

definition response_body_timeout_new :: "'s \<Rightarrow> duration \<Rightarrow> 's response_body_timeout" where
  "response_body_timeout_new s d = \<lparr>st_inner = s, st_timeout = d\<rparr>"

definition response_body_timeout_layer_apply :: "response_body_timeout_layer \<Rightarrow> 's \<Rightarrow> 's response_body_timeout" where
  "response_body_timeout_layer_apply l s = response_body_timeout_new s (stl_timeout l)"

record 'f response_body_timeout_future =
  stf_inner :: 'f
  stf_timeout :: duration

definition response_body_timeout_call ::
  "('s, 'q, 'f) service_fn \<Rightarrow> ('s response_body_timeout, 'q, 'f response_body_timeout_future) service_fn" where
  "response_body_timeout_call inner_call c req =
     (case inner_call (st_inner c) req of
        (s, f) \<Rightarrow> (c\<lparr>st_inner := s\<rparr>, \<lparr>stf_inner = f, stf_timeout = st_timeout c\<rparr>))"

definition response_body_timeout_poll ::
  "('f, 'e + ('h, 'x, 'b) response) poll_fn \<Rightarrow>
     ('f response_body_timeout_future, 'e + ('h, 'x, ('z, 'b) timeout_body) response) poll_fn" where
  "response_body_timeout_poll poll w =
     (case poll (stf_inner w) of
        (Pending, f) \<Rightarrow> (Pending, w\<lparr>stf_inner := f\<rparr>)
      | (Ready (Inl e), f) \<Rightarrow> (Ready (Inl e), w\<lparr>stf_inner := f\<rparr>)
      | (Ready (Inr res), f) \<Rightarrow>
          (Ready (Inr (map_response (timeout_body_new (stf_timeout w)) res)), w\<lparr>stf_inner := f\<rparr>))"

interpretation response_body_timeout: response_adaptor poll "response_body_timeout_poll poll" stf_inner
    "\<lambda>w. map_result (map_response (timeout_body_new (stf_timeout w)))"
  for poll
  by unfold_locales (auto simp: response_body_timeout_poll_def split: prod.split poll.splits sum.splits)

record request_body_deadline_layer =
  qdl_timeout :: duration

definition request_body_deadline_layer_new :: "duration \<Rightarrow> request_body_deadline_layer" where
  "request_body_deadline_layer_new d = \<lparr>qdl_timeout = d\<rparr>"

record 's request_body_deadline =
  qd_inner :: 's
  qd_timeout :: duration

definition request_body_deadline_new :: "'s \<Rightarrow> duration \<Rightarrow> 's request_body_deadline" where
  "request_body_deadline_new s d = \<lparr>qd_inner = s, qd_timeout = d\<rparr>"

definition request_body_deadline_layer_apply :: "request_body_deadline_layer \<Rightarrow> 's \<Rightarrow> 's request_body_deadline" where
  "request_body_deadline_layer_apply l s = request_body_deadline_new s (qdl_timeout l)"

definition request_body_deadline_call ::
  "(duration \<Rightarrow> 'z) \<Rightarrow> ('s, ('h, 'u, 'x, ('z, 'b) deadline_body) request, 'f) service_fn \<Rightarrow>
     ('s request_body_deadline, ('h, 'u, 'x, 'b) request, 'f) service_fn" where
  "request_body_deadline_call sleep inner_call c req =
     (let req' = from_parts (request_parts req) (deadline_body_new sleep (qd_timeout c) (req_body req))
      in case inner_call (qd_inner c) req' of (s, f) \<Rightarrow> (c\<lparr>qd_inner := s\<rparr>, f))"

record response_body_deadline_layer =
  sdl_timeout :: duration

definition response_body_deadline_layer_new :: "duration \<Rightarrow> response_body_deadline_layer" where
  "response_body_deadline_layer_new d = \<lparr>sdl_timeout = d\<rparr>"

record 's response_body_deadline =
  sd_inner :: 's
  sd_timeout :: duration

definition response_body_deadline_new :: "'s \<Rightarrow> duration \<Rightarrow> 's response_body_deadline" where
  "response_body_deadline_new s d = \<lparr>sd_inner = s, sd_timeout = d\<rparr>"

definition response_body_deadline_layer_apply :: "response_body_deadline_layer \<Rightarrow> 's \<Rightarrow> 's response_body_deadline" where
  "response_body_deadline_layer_apply l s = response_body_deadline_new s (sdl_timeout l)"

record 'f response_body_deadline_future =
  sdf_inner :: 'f
  sdf_timeout :: duration

definition response_body_deadline_call ::
  "('s, 'q, 'f) service_fn \<Rightarrow> ('s response_body_deadline, 'q, 'f response_body_deadline_future) service_fn" where
  "response_body_deadline_call inner_call c req =
     (case inner_call (sd_inner c) req of
        (s, f) \<Rightarrow> (c\<lparr>sd_inner := s\<rparr>, \<lparr>sdf_inner = f, sdf_timeout = sd_timeout c\<rparr>))"

definition response_body_deadline_poll ::
  "(duration \<Rightarrow> 'z) \<Rightarrow> ('f, 'e + ('h, 'x, 'b) response) poll_fn \<Rightarrow>
     ('f response_body_deadline_future, 'e + ('h, 'x, ('z, 'b) deadline_body) response) poll_fn" where
  "response_body_deadline_poll sleep poll w =
     (case poll (sdf_inner w) of
        (Pending, f) \<Rightarrow> (Pending, w\<lparr>sdf_inner := f\<rparr>)
      | (Ready (Inl e), f) \<Rightarrow> (Ready (Inl e), w\<lparr>sdf_inner := f\<rparr>)
      | (Ready (Inr res), f) \<Rightarrow>
          (Ready (Inr (map_response (deadline_body_new sleep (sdf_timeout w)) res)), w\<lparr>sdf_inner := f\<rparr>))"

interpretation response_body_deadline: response_adaptor poll "response_body_deadline_poll sleep poll" sdf_inner
    "\<lambda>w. map_result (map_response (deadline_body_new sleep (sdf_timeout w)))"
  for sleep poll
  by unfold_locales (auto simp: response_body_deadline_poll_def split: prod.split poll.splits sum.splits)

text \<open>
  A response under \<open>ResponseBodyTimeout\<close> arrives when the inner one does and differs from
  it only in the body, and whatever a client reads of that body is an initial part of what the inner
  body yields in as many polls: a timeout cuts, it never changes, reorders or invents frames.
\<close>

theorem response_body_timeout_prefix:
  assumes run: "run_future (response_body_timeout_poll poll) n
      (snd (response_body_timeout_call inner_call c req)) = Some (Inr res')"
  shows "\<exists>res. run_future poll n (snd (inner_call (st_inner c) req)) = Some (Inr res) \<and>
    res_status res' = res_status res \<and> res_headers res' = res_headers res \<and>
    (\<forall>k. prefix (body_read (timeout_body_api sleep ps B) k (res_body res')) (body_read B k (res_body res)))"
proof -
  obtain s f where sf: "inner_call (st_inner c) req = (s, f)" by (rule prod.exhaust)
  obtain res where res: "run_future poll n f = Some (Inr res)"
    and res': "res' = map_response (timeout_body_new (st_timeout c)) res"
    using run sf
    by (auto simp: response_body_timeout_call_def response_body_timeout.run_outer map_result_eq_Inr)
  have "prefix (body_read (timeout_body_api sleep ps B) k (res_body res')) (body_read B k (res_body res))" for k
    using timeout_body.read_prefix [of sleep ps B k "res_body res'"] res'
    by (simp add: timeout_body_new_def)
  with res res' sf show ?thesis by auto
qed

lemma response_body_timeout_prefix_witness:
  "prefix (body_read (timeout_body_api (\<lambda>d. (d, ())) ready_after slow_body) 3 (timeout_body_new 1 (0, 0)))
     (body_read slow_body 3 (0, 0))"
proof -
  let ?res = "(response_new (list_http ()) (0 :: nat, 0 :: nat)) :: ((string \<times> string) list, unit, nat \<times> nat) response"
  let ?inner = "\<lambda>s (r :: unit). (s, (0 :: nat, Inr ?res :: unit + _))"
  let ?res' = "map_response (timeout_body_new 1) ?res ::
    ((string \<times> string) list, unit, (nat \<times> unit, nat \<times> nat) timeout_body) response"
  have inner: "run_future ready_after 1 (snd (?inner () ())) = Some (Inr ?res)" by simp
  have run: "run_future (response_body_timeout_poll ready_after) 1
      (snd (response_body_timeout_call ?inner (response_body_timeout_new () 1) ())) = Some (Inr ?res')"
    by (simp add: response_body_timeout_poll_def response_body_timeout_call_def
        response_body_timeout_new_def)
  from response_body_timeout_prefix [OF run, of "\<lambda>d. (d, ())" ready_after slow_body] inner
  show ?thesis
    by (auto simp: response_body_timeout_new_def response_new_def)
qed

end
