(* ===== verification/In_Flight.thy ===== *)
theory In_Flight
  imports Service
begin

text \<open>
  \<open>metrics/in_flight_requests.rs\<close>: the gauge of requests in flight.  The atomic counter is a 64-bit
  word that wraps; an \<open>IncrementGuard\<close> is a token that decrements the counter when it is dropped.
  Futures and bodies are created, polled and dropped by the executor and the client in any order:
  \<open>in_flight_step\<close> is that relation on the counter, the live futures and the live bodies of one
  service, and the theorems are about every state it reaches.
\<close>

section \<open>Counter and guard\<close>

type_synonym usize = "64 word"

definition counter_new :: usize where
  "counter_new = 0"

definition counter_get :: "usize \<Rightarrow> usize" where
  "counter_get c = c"

datatype increment_guard = IncrementGuard

definition counter_increment :: "usize \<Rightarrow> increment_guard \<times> usize" where
  "counter_increment c = (IncrementGuard, c + 1)"

definition increment_guard_drop :: "increment_guard \<Rightarrow> usize \<Rightarrow> usize" where
  "increment_guard_drop g c = c - 1"

definition drop_guard_opt :: "increment_guard option \<Rightarrow> usize \<Rightarrow> usize" where
  "drop_guard_opt o' c = (case o' of None \<Rightarrow> c | Some g \<Rightarrow> increment_guard_drop g c)"

section \<open>The service\<close>

text \<open>The shared counter is not a field here: layer, service and handles share one, the state of the world below.\<close>

record 's in_flight_requests =
  ir_inner :: 's

definition in_flight_layer_apply :: "'s \<Rightarrow> 's in_flight_requests" where
  "in_flight_layer_apply s = \<lparr>ir_inner = s\<rparr>"

definition in_flight_pair :: "'s \<Rightarrow> 's in_flight_requests \<times> usize" where
  "in_flight_pair s = (in_flight_layer_apply s, counter_new)"

record 'f in_flight_future =
  if_inner :: 'f
  if_guard :: "increment_guard option"

record 'b in_flight_body =
  ib_inner :: 'b
  ib_guard :: increment_guard

definition in_flight_call ::
  "('s, 'q, 'f) service_fn \<Rightarrow> usize \<Rightarrow> 's in_flight_requests \<Rightarrow> 'q \<Rightarrow>
     usize \<times> 's in_flight_requests \<times> 'f in_flight_future" where
  "in_flight_call inner_call count c req =
     (case counter_increment count of
        (guard, count') \<Rightarrow>
          (case inner_call (ir_inner c) req of
             (s, f) \<Rightarrow> (count', c\<lparr>ir_inner := s\<rparr>, \<lparr>if_inner = f, if_guard = Some guard\<rparr>)))"

text \<open>\<open>guard.take().unwrap()\<close> panics on a future polled again after a response.\<close>

definition in_flight_poll ::
  "('f, 'e + ('h, 'x, 'b) response) poll_fn \<Rightarrow>
     ('f in_flight_future, ('e + ('h, 'x, 'b in_flight_body) response) panics) poll_fn" where
  "in_flight_poll poll w =
     (case poll (if_inner w) of
        (Pending, f) \<Rightarrow> (Pending, w\<lparr>if_inner := f\<rparr>)
      | (Ready (Inl e), f) \<Rightarrow> (Ready (Inr (Inl e)), w\<lparr>if_inner := f\<rparr>)
      | (Ready (Inr res), f) \<Rightarrow>
          (case if_guard w of
             None \<Rightarrow> (Ready (Inl ''called `Option::unwrap()` on a `None` value''), w\<lparr>if_inner := f\<rparr>)
           | Some guard \<Rightarrow>
               (Ready (Inr (Inr (map_response (\<lambda>b. \<lparr>ib_inner = b, ib_guard = guard\<rparr>) res))),
                w\<lparr>if_inner := f, if_guard := None\<rparr>)))"

definition in_flight_body_api ::
  "('b, 'd, 't, 'e) body_api \<Rightarrow> ('b in_flight_body, 'd, 't, 'e) body_api" where
  "in_flight_body_api = body_methods ib_inner (\<lambda>b w. w\<lparr>ib_inner := b\<rparr>)"

interpretation in_flight_body: body_contract "in_flight_body_api script_body"
  unfolding in_flight_body_api_def by (rule body_methods_contract [OF script_body_contract])

text \<open>Dropping a future or a body drops its guard.\<close>

definition in_flight_future_drop :: "'f in_flight_future \<Rightarrow> usize \<Rightarrow> usize" where
  "in_flight_future_drop w c = drop_guard_opt (if_guard w) c"

definition in_flight_body_drop :: "'b in_flight_body \<Rightarrow> usize \<Rightarrow> usize" where
  "in_flight_body_drop w c = increment_guard_drop (ib_guard w) c"

text \<open>
  \<open>run_emitter\<close>: at each turn the number of owners of the counter is looked at first; the loop
  returns when the emitter is the only one, else it waits for the interval and emits the value the
  counter has then.  The list holds what it observes, turn by turn: the values emitted and whether
  the loop has returned.
\<close>

fun run_emitter :: "(nat \<times> usize) list \<Rightarrow> usize list \<times> bool" where
  "run_emitter [] = ([], False)"
| "run_emitter ((owners, count) # obs) =
     (if owners = 1 then ([], True)
      else (case run_emitter obs of (emitted, stopped) \<Rightarrow> (counter_get count # emitted, stopped)))"

section \<open>The world of one service\<close>

record ('s, 'f, 'b) world =
  wd_count :: usize
  wd_service :: "'s in_flight_requests"
  wd_futures :: "'f in_flight_future list"
  wd_bodies :: "'b in_flight_body list"

definition world_init :: "'s \<Rightarrow> ('s, 'f, 'b) world" where
  "world_init s = (case in_flight_pair s of (c, n) \<Rightarrow>
     \<lparr>wd_count = n, wd_service = c, wd_futures = [], wd_bodies = []\<rparr>)"

inductive in_flight_step ::
  "('s, 'q, 'f) service_fn \<Rightarrow> ('f, 'e + ('h, 'x, 'b) response) poll_fn \<Rightarrow> ('b, 'd, 't, 'i) body_api \<Rightarrow>
     ('s, 'f, 'b) world \<Rightarrow> ('s, 'f, 'b) world \<Rightarrow> bool"
  for inner_call poll B where
  do_call: "in_flight_call inner_call n c req = (n', c', fut) \<Longrightarrow>
    in_flight_step inner_call poll B \<lparr>wd_count = n, wd_service = c, wd_futures = fs, wd_bodies = bs\<rparr>
      \<lparr>wd_count = n', wd_service = c', wd_futures = fs @ [fut], wd_bodies = bs\<rparr>"
| do_poll_waits: "in_flight_poll poll f = (p, f') \<Longrightarrow> \<forall>res. p \<noteq> Ready (Inr (Inr res)) \<Longrightarrow>
    in_flight_step inner_call poll B \<lparr>wd_count = n, wd_service = c, wd_futures = fs @ f # gs, wd_bodies = bs\<rparr>
      \<lparr>wd_count = n, wd_service = c, wd_futures = fs @ f' # gs, wd_bodies = bs\<rparr>"
| do_poll_response: "in_flight_poll poll f = (Ready (Inr (Inr res)), f') \<Longrightarrow>
    in_flight_step inner_call poll B \<lparr>wd_count = n, wd_service = c, wd_futures = fs @ f # gs, wd_bodies = bs\<rparr>
      \<lparr>wd_count = n, wd_service = c, wd_futures = fs @ f' # gs, wd_bodies = bs @ [res_body res]\<rparr>"
| do_drop_future:
    "in_flight_step inner_call poll B \<lparr>wd_count = n, wd_service = c, wd_futures = fs @ f # gs, wd_bodies = bs\<rparr>
      \<lparr>wd_count = in_flight_future_drop f n, wd_service = c, wd_futures = fs @ gs, wd_bodies = bs\<rparr>"
| do_poll_body: "body_poll_frame (in_flight_body_api B) b = (p, b') \<Longrightarrow>
    in_flight_step inner_call poll B \<lparr>wd_count = n, wd_service = c, wd_futures = fs, wd_bodies = bs @ b # cs\<rparr>
      \<lparr>wd_count = n, wd_service = c, wd_futures = fs, wd_bodies = bs @ b' # cs\<rparr>"
| do_drop_body:
    "in_flight_step inner_call poll B \<lparr>wd_count = n, wd_service = c, wd_futures = fs, wd_bodies = bs @ b # cs\<rparr>
      \<lparr>wd_count = in_flight_body_drop b n, wd_service = c, wd_futures = fs, wd_bodies = bs @ cs\<rparr>"

inductive in_flight_reachable ::
  "('s, 'q, 'f) service_fn \<Rightarrow> ('f, 'e + ('h, 'x, 'b) response) poll_fn \<Rightarrow> ('b, 'd, 't, 'i) body_api \<Rightarrow>
     's \<Rightarrow> ('s, 'f, 'b) world \<Rightarrow> bool"
  for inner_call poll B s where
  start: "in_flight_reachable inner_call poll B s (world_init s)"
| step: "in_flight_reachable inner_call poll B s w \<Longrightarrow> in_flight_step inner_call poll B w w' \<Longrightarrow>
    in_flight_reachable inner_call poll B s w'"

inductive_cases in_flight_stepE: "in_flight_step inner_call poll B w w'"

section \<open>The abstract gauge\<close>

text \<open>A request is in flight while its future holds the guard or its response body lives.\<close>

definition in_flight :: "('s, 'f, 'b) world \<Rightarrow> nat" where
  "in_flight w = length (filter (\<lambda>f. if_guard f \<noteq> None) (wd_futures w)) + length (wd_bodies w)"

inductive gauge_step :: "nat \<Rightarrow> nat \<Rightarrow> bool" where
  request_arrives: "gauge_step n (Suc n)"
| request_ends: "gauge_step (Suc n) n"
| request_goes_on: "gauge_step n n"

lemma in_flight_poll_guard:
  assumes "in_flight_poll poll f = (p, f')"
  shows "(case p of Ready (Inr (Inr res)) \<Rightarrow> if_guard f \<noteq> None \<and> if_guard f' = None
    | _ \<Rightarrow> if_guard f' = if_guard f)"
  using assms
  by (auto simp: in_flight_poll_def split: prod.splits poll.splits sum.splits option.splits)

text \<open>Every step moves the counter as it moves the number of requests in flight.\<close>

lemma in_flight_step_counts:
  assumes "in_flight_step inner_call poll B w w'"
  shows "gauge_step (in_flight w) (in_flight w') \<and>
    wd_count w' - of_nat (in_flight w') = wd_count w - of_nat (in_flight w)"
  using assms
proof (cases rule: in_flight_step.cases)
  case do_call
  then show ?thesis
    by (auto simp: in_flight_def in_flight_call_def counter_increment_def
        split: prod.splits intro: gauge_step.intros)
next
  case (do_poll_waits f p f')
  then have "if_guard f' = if_guard f"
    using in_flight_poll_guard [OF do_poll_waits(3)] by (auto split: poll.splits sum.splits)
  with do_poll_waits show ?thesis by (auto simp: in_flight_def intro: gauge_step.intros)
next
  case (do_poll_response f res f')
  then have "if_guard f \<noteq> None" "if_guard f' = None"
    using in_flight_poll_guard [OF do_poll_response(3)] by auto
  with do_poll_response show ?thesis by (auto simp: in_flight_def intro: gauge_step.intros)
next
  case do_drop_future
  then show ?thesis
    by (auto simp: in_flight_def in_flight_future_drop_def drop_guard_opt_def increment_guard_drop_def
        split: option.split intro: gauge_step.intros)
next
  case do_poll_body
  then show ?thesis by (auto simp: in_flight_def intro: gauge_step.intros)
next
  case do_drop_body
  then show ?thesis
    by (auto simp: in_flight_def in_flight_body_drop_def increment_guard_drop_def
        intro: gauge_step.intros)
qed

text \<open>
  Claim C17. The gauge is exact: in every state reached by any interleaving of calls, polls and drops
  of futures and bodies, the counter is the number of requests whose future still holds its guard or
  whose response body is alive, modulo the width of \<open>usize\<close>; it is that number as long as fewer than
  \<open>2 ^ 64\<close> requests are in flight, and zero when every future and body has been dropped.
\<close>

theorem in_flight_count_exact:
  assumes "in_flight_reachable inner_call poll B s w"
  shows "counter_get (wd_count w) = of_nat (in_flight w) \<and>
    (in_flight w < 2 ^ 64 \<longrightarrow> unat (counter_get (wd_count w)) = in_flight w) \<and>
    (wd_futures w = [] \<and> wd_bodies w = [] \<longrightarrow> counter_get (wd_count w) = 0)"
proof -
  have "wd_count w - of_nat (in_flight w) = 0"
    using assms
  proof (induction rule: in_flight_reachable.induct)
    case start
    show ?case
      by (simp add: world_init_def in_flight_pair_def counter_new_def in_flight_def)
  next
    case (step w w')
    then show ?case using in_flight_step_counts by metis
  qed
  then have "wd_count w = of_nat (in_flight w)" by simp
  then have exact: "counter_get (wd_count w) = of_nat (in_flight w)"
    by (simp add: counter_get_def)
  moreover have "unat (counter_get (wd_count w)) = in_flight w" if "in_flight w < 2 ^ 64"
    using that unfolding exact by (simp add: unat_of_nat take_bit_nat_eq_self)
  moreover have "in_flight w = 0" if "wd_futures w = [] \<and> wd_bodies w = []"
    using that by (simp add: in_flight_def)
  ultimately show ?thesis by auto
qed

text \<open>A call, its response, and the drop of the future: the body still counts.\<close>

definition flight_inner :: "unit \<Rightarrow> unit \<Rightarrow> unit \<times> (nat \<times> (unit + (unit, unit, nat) response))" where
  "flight_inner s r = (s, (0, Inr \<lparr>res_status = 200, res_version = ''HTTP/1.1'', res_headers = (),
     res_extensions = (), res_body = 7\<rparr>))"

lemma flight_reachable_witness_state:
  fixes B :: "(nat, unit, unit, unit) body_api"
  shows "in_flight_reachable flight_inner ready_after B ()
    \<lparr>wd_count = 1, wd_service = \<lparr>ir_inner = ()\<rparr>, wd_futures = [],
       wd_bodies = [\<lparr>ib_inner = 7, ib_guard = IncrementGuard\<rparr>]\<rparr>"
proof -
  let ?R = "in_flight_reachable flight_inner ready_after B ()"
  let ?f = "snd (flight_inner () ())"
  let ?b = "\<lparr>ib_inner = 7, ib_guard = IncrementGuard\<rparr>"
  let ?c = "\<lparr>ir_inner = ()\<rparr>"
  have "?R \<lparr>wd_count = 0, wd_service = ?c, wd_futures = [], wd_bodies = []\<rparr>"
    using in_flight_reachable.start [of flight_inner ready_after B "()"]
    by (simp add: world_init_def in_flight_pair_def in_flight_layer_apply_def counter_new_def)
  then have "?R \<lparr>wd_count = 1, wd_service = ?c,
      wd_futures = [] @ [\<lparr>if_inner = ?f, if_guard = Some IncrementGuard\<rparr>], wd_bodies = []\<rparr>"
    by (rule in_flight_reachable.step)
      (rule in_flight_step.do_call [where req = "()"],
       simp add: in_flight_call_def counter_increment_def flight_inner_def)
  then have "?R \<lparr>wd_count = 1, wd_service = ?c,
      wd_futures = [] @ \<lparr>if_inner = ?f, if_guard = None\<rparr> # [], wd_bodies = [] @ [?b]\<rparr>"
  proof (rule in_flight_reachable.step)
    let ?res = "\<lparr>res_status = 200, res_version = ''HTTP/1.1'', res_headers = (),
       res_extensions = (), res_body = ?b\<rparr>"
    have "in_flight_poll ready_after \<lparr>if_inner = ?f, if_guard = Some IncrementGuard\<rparr> =
        (Ready (Inr (Inr ?res)), \<lparr>if_inner = ?f, if_guard = None\<rparr>)"
      by (simp add: in_flight_poll_def flight_inner_def map_response_def)
    from in_flight_step.do_poll_response [OF this, of flight_inner B 1 ?c "[]" "[]" "[]"]
    show "in_flight_step flight_inner ready_after B \<lparr>wd_count = 1, wd_service = ?c,
        wd_futures = [] @ [\<lparr>if_inner = ?f, if_guard = Some IncrementGuard\<rparr>], wd_bodies = []\<rparr>
      \<lparr>wd_count = 1, wd_service = ?c,
        wd_futures = [] @ \<lparr>if_inner = ?f, if_guard = None\<rparr> # [], wd_bodies = [] @ [?b]\<rparr>"
      by simp
  qed
  then have "?R \<lparr>wd_count = in_flight_future_drop \<lparr>if_inner = ?f, if_guard = None\<rparr> 1, wd_service = ?c,
      wd_futures = [] @ [], wd_bodies = [] @ [?b]\<rparr>"
    by (rule in_flight_reachable.step) (rule in_flight_step.do_drop_future)
  then show ?thesis
    by (simp add: in_flight_future_drop_def drop_guard_opt_def)
qed

lemma in_flight_count_exact_witness:
  "in_flight \<lparr>wd_count = 1, wd_service = \<lparr>ir_inner = ()\<rparr>, wd_futures = [],
       wd_bodies = [\<lparr>ib_inner = 7 :: nat, ib_guard = IncrementGuard\<rparr>]\<rparr> = 1 \<and> unat (counter_get 1) = (1 :: nat)"
  using in_flight_count_exact [OF flight_reachable_witness_state]
  by (simp add: in_flight_def)

text \<open>
  The counter refines the abstract gauge: a step of the service changes the number of
  requests in flight by one at most, a call adds one, the end of a response body or the drop of an
  unfinished future removes one, and the counter moves by the same amount.
\<close>

lemma in_flight_refines_gauge:
  assumes "in_flight_step inner_call poll B w w'"
  shows "gauge_step (in_flight w) (in_flight w') \<and>
    (wd_count w = of_nat (in_flight w) \<longrightarrow> wd_count w' = of_nat (in_flight w'))"
  using in_flight_step_counts [OF assms] by auto

end
