(* ===== verification/Catch_Panic.thy ===== *)
theory Catch_Panic
  imports Service
begin

text \<open>
  \<open>catch_panic.rs\<close>: panics of the inner service become responses.  A call or a poll that may panic
  has a result of type \<open>'p + 'a\<close> with \<open>Inl\<close> the payload of the panic: that is what
  \<open>catch_unwind\<close> returns.  A payload is a \<open>String\<close>, a \<open>&str\<close> or something else.  \<open>box_body\<close> and
  \<open>box_panic_body\<close> stand for boxing a body into \<open>http_body_util\<close>'s \<open>UnsyncBoxBody\<close>.
\<close>

datatype 'y panic_payload = PanicString string | PanicStr string | PanicOther 'y

record 't catch_panic_layer =
  cl_panic_handler :: 't

definition catch_panic_layer_custom :: "'t \<Rightarrow> 't catch_panic_layer" where
  "catch_panic_layer_custom h = \<lparr>cl_panic_handler = h\<rparr>"

datatype default_response_for_panic = DefaultResponseForPanic

definition catch_panic_layer_new :: "default_response_for_panic catch_panic_layer" where
  "catch_panic_layer_new = \<lparr>cl_panic_handler = DefaultResponseForPanic\<rparr>"

record ('s, 't) catch_panic =
  cp_inner :: 's
  cp_panic_handler :: 't

definition catch_panic_layer_apply :: "'t catch_panic_layer \<Rightarrow> 's \<Rightarrow> ('s, 't) catch_panic" where
  "catch_panic_layer_apply l s = \<lparr>cp_inner = s, cp_panic_handler = cl_panic_handler l\<rparr>"

definition catch_panic_new :: "'s \<Rightarrow> ('s, default_response_for_panic) catch_panic" where
  "catch_panic_new s = \<lparr>cp_inner = s, cp_panic_handler = DefaultResponseForPanic\<rparr>"

definition catch_panic_custom :: "'s \<Rightarrow> 't \<Rightarrow> ('s, 't) catch_panic" where
  "catch_panic_custom s h = \<lparr>cp_inner = s, cp_panic_handler = h\<rparr>"

datatype ('f, 't, 'p) panic_kind =
  Panicked "'p option" "'t option"
| Running 'f "'t option"

text \<open>The inner call may panic; its state afterwards is what the unwinding left.\<close>

definition catch_panic_call ::
  "('s \<Rightarrow> 'q \<Rightarrow> 's \<times> ('p + 'f)) \<Rightarrow>
     (('s, 't) catch_panic, 'q, ('f, 't, 'p) panic_kind) service_fn" where
  "catch_panic_call inner_call c req =
     (case inner_call (cp_inner c) req of
        (s, Inr future) \<Rightarrow> (c\<lparr>cp_inner := s\<rparr>, Running future (Some (cp_panic_handler c)))
      | (s, Inl panic_err) \<Rightarrow>
          (c\<lparr>cp_inner := s\<rparr>, Panicked (Some panic_err) (Some (cp_panic_handler c))))"

type_synonym ('t, 'p, 'h, 'x, 'c) panic_handler = "'t \<Rightarrow> 'p \<Rightarrow> ('h, 'x, 'c) response"

definition response_for_panic ::
  "('t, 'p, 'h, 'x, 'c) panic_handler \<Rightarrow> ('c \<Rightarrow> 'm) \<Rightarrow> 't \<Rightarrow> 'p \<Rightarrow>
     ('h, 'x, 'm unsync_box_body) response" where
  "response_for_panic handle box_panic_body h err =
     map_response (\<lambda>b. unsync_box_body_from_inner (box_panic_body b)) (handle h err)"

definition after_completion :: string where
  "after_completion = ''future polled after completion''"

text \<open>The result of a poll is \<open>Inl\<close> the message of the \<open>expect\<close> of a future polled after completion.\<close>

definition catch_panic_poll ::
  "('t, 'p, 'h, 'x, 'c) panic_handler \<Rightarrow> ('c \<Rightarrow> 'm) \<Rightarrow> ('b \<Rightarrow> 'm) \<Rightarrow>
     ('f, 'p + ('e + ('h, 'x, 'b) response)) poll_fn \<Rightarrow>
     (('f, 't, 'p) panic_kind, ('e + ('h, 'x, 'm unsync_box_body) response) panics) poll_fn" where
  "catch_panic_poll handle box_panic_body box_body poll k =
     (case k of
        Panicked err handler \<Rightarrow>
          (case handler of
             None \<Rightarrow> (Ready (Inl after_completion), Panicked err None)
           | Some h \<Rightarrow>
               (case err of
                  None \<Rightarrow> (Ready (Inl after_completion), Panicked None None)
                | Some p \<Rightarrow>
                    (Ready (Inr (Inr (response_for_panic handle box_panic_body h p))), Panicked None None)))
      | Running future handler \<Rightarrow>
          (case poll future of
             (Pending, f) \<Rightarrow> (Pending, Running f handler)
           | (Ready (Inr (Inr res)), f) \<Rightarrow>
               (Ready (Inr (Inr (map_response (\<lambda>b. unsync_box_body_from_inner (box_body b)) res))),
                Running f handler)
           | (Ready (Inr (Inl e)), f) \<Rightarrow> (Ready (Inr (Inl e)), Running f handler)
           | (Ready (Inl p), f) \<Rightarrow>
               (case handler of
                  None \<Rightarrow> (Ready (Inl after_completion), Running f None)
                | Some h \<Rightarrow>
                    (Ready (Inr (Inr (response_for_panic handle box_panic_body h p))), Running f None))))"

text \<open>The default handler: 500 with a text body, whatever the payload (which is only logged).\<close>

definition default_panic_response ::
  "('h, string, 'x) http_api \<Rightarrow> (string \<Rightarrow> 'g) \<Rightarrow>
     (default_response_for_panic, 'y panic_payload, 'h, 'x, 'g full) panic_handler" where
  "default_panic_response H full_of d err =
     (let res = (response_new H (full_new (full_of ''Service panicked'')))\<lparr>res_status := 500\<rparr>
      in res\<lparr>res_headers := hm_insert H (res_headers res) ''content-type'' ''text/plain; charset=utf-8''\<rparr>)"

section \<open>No panic gets out\<close>

text \<open>What the outcome of a poll of the inner future becomes: the handler's response for a panic.\<close>

definition panic_result ::
  "('t, 'p, 'h, 'x, 'c) panic_handler \<Rightarrow> ('c \<Rightarrow> 'm) \<Rightarrow> ('b \<Rightarrow> 'm) \<Rightarrow> 't \<Rightarrow>
     'p + ('e + ('h, 'x, 'b) response) \<Rightarrow> ('e + ('h, 'x, 'm unsync_box_body) response) panics" where
  "panic_result handle bp bb h r =
     (case r of
        Inl p \<Rightarrow> Inr (Inr (response_for_panic handle bp h p))
      | Inr q \<Rightarrow> Inr (map_result (map_response (\<lambda>b. unsync_box_body_from_inner (bb b))) q))"

lemma catch_panic_running:
  "run_future (catch_panic_poll handle bp bb poll) n (Running f (Some h)) =
     map_option (panic_result handle bp bb h) (run_future poll n f)"
  by (induction n arbitrary: f)
    (auto simp: catch_panic_poll_def panic_result_def split: prod.split poll.split sum.split)

text \<open>
  Claim C31. \<open>CatchPanic\<close> lets no panic through and loses no result: if the inner call panics, the
  future is ready at once with the handler's response; otherwise it is ready exactly when the inner
  future is, with the handler's response if that poll panicked and with the inner result, its body
  boxed, if it did not.  The \<open>expect\<close>s of the future are never reached.
\<close>

theorem catch_panic_total:
  "run_future (catch_panic_poll handle bp bb poll) (Suc n) (snd (catch_panic_call inner_call c req)) =
     (case snd (inner_call (cp_inner c) req) of
        Inl p \<Rightarrow> Some (Inr (Inr (response_for_panic handle bp (cp_panic_handler c) p)))
      | Inr f \<Rightarrow> map_option (panic_result handle bp bb (cp_panic_handler c)) (run_future poll (Suc n) f))"
proof -
  obtain s r where sr: "inner_call (cp_inner c) req = (s, r)" by (rule prod.exhaust)
  show ?thesis
  proof (cases r)
    case (Inl p)
    with sr show ?thesis by (simp add: catch_panic_call_def catch_panic_poll_def)
  next
    case (Inr f)
    then have "snd (catch_panic_call inner_call c req) = Running f (Some (cp_panic_handler c))"
      using sr by (simp add: catch_panic_call_def)
    then show ?thesis
      using sr Inr by (simp only: catch_panic_running snd_conv sum.case)
  qed
qed

text \<open>The default handler answers 500 with the text content type for every payload.\<close>

lemma default_panic_response_500:
  assumes "header_map H"
  shows "res_status (default_panic_response H full_of d p) = 500 \<and>
    hm_get_all H (res_headers (default_panic_response H full_of d p)) ''content-type'' =
      [''text/plain; charset=utf-8'']"
  by (simp add: default_panic_response_def header_map.get_all_insert [OF assms])

end
