(* ===== verification/Validate_Request.thy ===== *)
theory Validate_Request
  imports Service
begin

text \<open>
  \<open>validate_request.rs\<close> and \<open>auth/\<close>: requests are validated before they reach the inner service.
  The service and its future, the validators of \<open>Accept\<close>, of a required header, of basic and bearer
  credentials, the middleware that adds credentials, and asynchronous authorization.  Media types
  (\<open>mime\<close> crate), base64 and the constructors and comparison of \<open>http::HeaderValue\<close> are arguments.
\<close>

section \<open>Header values\<close>

text \<open>
  \<open>hv_parse\<close> is \<open>str::parse::<HeaderValue>\<close>, \<open>hv_try_from\<close> is \<open>HeaderValue::try_from(String)\<close>;
  comparison looks at the bytes only, not at the sensitive flag.
\<close>

record 'v header_value_api =
  hv_parse :: "string \<Rightarrow> 'v option"
  hv_try_from :: "string \<Rightarrow> 'v option"
  hv_eq :: "'v \<Rightarrow> 'v \<Rightarrow> bool"
  hv_bytes :: "'v \<Rightarrow> string"
  hv_set_sensitive :: "bool \<Rightarrow> 'v \<Rightarrow> 'v"
  hv_is_sensitive :: "'v \<Rightarrow> bool"

locale header_value =
  fixes V :: "'v header_value_api"
  assumes parse_bytes: "hv_parse V s = Some v \<Longrightarrow> hv_bytes V v = s"
    and try_from_bytes: "hv_try_from V s = Some v \<Longrightarrow> hv_bytes V v = s"
    and eq_bytes: "hv_eq V v w \<longleftrightarrow> hv_bytes V v = hv_bytes V w"
    and sensitive_bytes: "hv_bytes V (hv_set_sensitive V b v) = hv_bytes V v"
    and sensitive_set: "hv_is_sensitive V (hv_set_sensitive V b v) = b"
begin

lemma parse_eq_try_from:
  "hv_parse V s = Some v \<Longrightarrow> hv_try_from V t = Some w \<Longrightarrow> hv_eq V w v \<longleftrightarrow> t = s"
  by (simp add: eq_bytes parse_bytes try_from_bytes)

lemma eq_set_sensitive: "hv_eq V (hv_set_sensitive V b w) v \<longleftrightarrow> hv_eq V w v"
  by (simp add: eq_bytes sensitive_bytes)

end

record flagged_value =
  fv_bytes :: string
  fv_sensitive :: bool

definition flagged_api :: "flagged_value header_value_api" where
  "flagged_api = \<lparr>
     hv_parse = (\<lambda>s. if list_all visible_ascii s then Some \<lparr>fv_bytes = s, fv_sensitive = False\<rparr> else None),
     hv_try_from = (\<lambda>s. if list_all permitted_byte s then Some \<lparr>fv_bytes = s, fv_sensitive = False\<rparr> else None),
     hv_eq = (\<lambda>v w. fv_bytes v = fv_bytes w), hv_bytes = fv_bytes,
     hv_set_sensitive = (\<lambda>b v. v\<lparr>fv_sensitive := b\<rparr>), hv_is_sensitive = fv_sensitive\<rparr>"

lemma header_value_flagged: "header_value flagged_api"
  by unfold_locales (auto simp: flagged_api_def split: if_splits)

interpretation flagged: header_value flagged_api
  by (rule header_value_flagged)

section \<open>The validating service\<close>

text \<open>A validator may change the request and its own state; \<open>Inl\<close> is the response it refuses with.\<close>

type_synonym ('t, 'q, 'r) validator = "'t \<Rightarrow> 'q \<Rightarrow> ('r + unit) \<times> 'q \<times> 't"

definition validate_fn :: "('q \<Rightarrow> ('r + unit) \<times> 'q) \<Rightarrow> (unit, 'q, 'r) validator" where
  "validate_fn g t q = (case g q of (r, q') \<Rightarrow> (r, q', t))"

record 't validate_request_header_layer =
  vl_validate :: 't

definition validate_layer_custom :: "'t \<Rightarrow> 't validate_request_header_layer" where
  "validate_layer_custom t = \<lparr>vl_validate = t\<rparr>"

record ('s, 't) validate_request_header =
  vr_inner :: 's
  vr_validate :: 't

definition validate_custom :: "'s \<Rightarrow> 't \<Rightarrow> ('s, 't) validate_request_header" where
  "validate_custom s t = \<lparr>vr_inner = s, vr_validate = t\<rparr>"

definition validate_new :: "'s \<Rightarrow> 't \<Rightarrow> ('s, 't) validate_request_header" where
  "validate_new s t = validate_custom s t"

definition validate_layer_apply :: "'t validate_request_header_layer \<Rightarrow> 's \<Rightarrow> ('s, 't) validate_request_header" where
  "validate_layer_apply l s = validate_new s (vl_validate l)"

datatype ('f, 'r) validate_kind = ValidateFuture 'f | ValidateError "'r option"

definition validate_call ::
  "('t, 'q, 'r) validator \<Rightarrow> ('s, 'q, 'f) service_fn \<Rightarrow>
     (('s, 't) validate_request_header, 'q, ('f, 'r) validate_kind) service_fn" where
  "validate_call validate inner_call c req =
     (case validate (vr_validate c) req of
        (Inr _, req', t) \<Rightarrow>
          (case inner_call (vr_inner c) req' of
             (s, f) \<Rightarrow> (c\<lparr>vr_inner := s, vr_validate := t\<rparr>, ValidateFuture f))
      | (Inl res, req', t) \<Rightarrow> (c\<lparr>vr_validate := t\<rparr>, ValidateError (Some res)))"

definition validate_poll ::
  "('f, 'e + 'r) poll_fn \<Rightarrow> (('f, 'r) validate_kind, ('e + 'r) panics) poll_fn" where
  "validate_poll poll k =
     (case k of
        ValidateFuture f \<Rightarrow> (case poll f of (p, f') \<Rightarrow> (map_ready Inr p, ValidateFuture f'))
      | ValidateError None \<Rightarrow> (Ready (Inl ''future polled after completion''), ValidateError None)
      | ValidateError (Some res) \<Rightarrow> (Ready (Inr (Inr res)), ValidateError None))"

lemma validate_poll_future:
  "run_future (validate_poll poll) n (ValidateFuture f) = map_option Inr (run_future poll n f)"
  by (induction n arbitrary: f) (auto simp: validate_poll_def split: prod.split poll.split)

text \<open>
  The validator is a gate in front of the inner service: a refused request leaves the inner
  service untouched and is answered at the first poll with the validator's response; an accepted one
  reaches the inner service as the validator left it and the future returns exactly what the inner
  future does.
\<close>

theorem validate_is_gate:
  "(let (c', k) = validate_call validate inner_call c req in
     vr_validate c' = snd (snd (validate (vr_validate c) req)) \<and>
     (case fst (validate (vr_validate c) req) of
        Inl res \<Rightarrow> vr_inner c' = vr_inner c \<and>
          run_future (validate_poll poll) (Suc n) k = Some (Inr (Inr res))
      | Inr _ \<Rightarrow>
          (let (s, f) = inner_call (vr_inner c) (fst (snd (validate (vr_validate c) req)))
           in vr_inner c' = s \<and>
              run_future (validate_poll poll) n k = map_option Inr (run_future poll n f))))"
proof -
  obtain r req' t where v: "validate (vr_validate c) req = (r, req', t)" by (rule prod_cases3)
  obtain s f where i: "inner_call (vr_inner c) req' = (s, f)" by (rule prod.exhaust)
  show ?thesis
  proof (cases r)
    case (Inl res)
    with v show ?thesis by (simp add: validate_call_def validate_poll_def)
  next
    case (Inr u)
    with v i show ?thesis by (simp add: validate_call_def validate_poll_future del: run_future.simps)
  qed
qed

section \<open>The Accept validator\<close>

record 'i mime_api =
  mime_parse :: "string \<Rightarrow> 'i option"
  mime_iter :: "string \<Rightarrow> 'i option list"
  mime_type :: "'i \<Rightarrow> string"
  mime_subtype :: "'i \<Rightarrow> string"

record 'i accept_header =
  ah_header_value :: 'i

definition accept_header_new :: "'i mime_api \<Rightarrow> string \<Rightarrow> 'i accept_header panics" where
  "accept_header_new M s =
     (case mime_parse M s of
        None \<Rightarrow> Inl ''value is not a valid header value'' | Some i \<Rightarrow> Inr \<lparr>ah_header_value = i\<rparr>)"

definition validate_layer_accept :: "'i mime_api \<Rightarrow> string \<Rightarrow> 'i accept_header validate_request_header_layer panics" where
  "validate_layer_accept M s = map_result validate_layer_custom (accept_header_new M s)"

definition validate_accept :: "'i mime_api \<Rightarrow> 's \<Rightarrow> string \<Rightarrow> ('s, 'i accept_header) validate_request_header panics" where
  "validate_accept M svc s = map_result (validate_custom svc) (accept_header_new M s)"

definition mime_accepts :: "'i mime_api \<Rightarrow> 'i \<Rightarrow> 'i option \<Rightarrow> bool" where
  "mime_accepts M expected mim =
     (case mim of
        Some m \<Rightarrow>
          (if mime_type M m = mime_type M expected \<and> mime_subtype M m = mime_subtype M expected then True
           else if mime_subtype M m = ''*'' \<and> mime_type M m = mime_type M expected then True
           else if mime_type M m = ''*'' \<and> mime_subtype M m = ''*'' then True
           else False)
      | None \<Rightarrow> False)"

text \<open>\<open>reduce\<close> with \<open>||\<close>, \<open>false\<close> on an empty iterator.\<close>

fun reduce_or :: "bool list \<Rightarrow> bool" where
  "reduce_or [] = False"
| "reduce_or (b # bs) = foldl (\<lambda>acc m. acc \<or> m) b bs"

definition accept_validate ::
  "('h, 'v, 'x) http_api \<Rightarrow> 'i mime_api \<Rightarrow> 'rb \<Rightarrow>
     ('i accept_header, ('h, 'u, 'x, 'b) request, ('h, 'x, 'rb) response) validator" where
  "accept_validate H M default_body a req =
     (if \<not> hm_contains H (req_headers req) ''accept'' then (Inr (), req, a)
      else if list_ex (\<lambda>s. reduce_or (map (mime_accepts M (ah_header_value a)) (mime_iter M s)))
          (List.map_filter (to_str H) (hm_get_all H (req_headers req) ''accept'')) then (Inr (), req, a)
      else (Inl ((response_new H default_body)\<lparr>res_status := 406\<rparr>), req, a))"

lemma foldl_or: "foldl (\<lambda>acc m. acc \<or> m) b bs \<longleftrightarrow> b \<or> (\<exists>m \<in> set bs. m)"
  by (induction bs arbitrary: b) auto

lemma reduce_or_iff: "reduce_or bs \<longleftrightarrow> (\<exists>b \<in> set bs. b)"
  by (cases bs) (auto simp: foldl_or)

text \<open>The media range \<open>r\<close> of an \<open>Accept\<close> header includes the media type \<open>m\<close>.\<close>

definition media_range_includes :: "'i mime_api \<Rightarrow> 'i \<Rightarrow> 'i \<Rightarrow> bool" where
  "media_range_includes M r m \<longleftrightarrow>
     (mime_type M r = ''*'' \<and> mime_subtype M r = ''*'') \<or>
     (mime_type M r = mime_type M m \<and> (mime_subtype M r = ''*'' \<or> mime_subtype M r = mime_subtype M m))"

lemma mime_accepts_iff: "mime_accepts M m x \<longleftrightarrow> (\<exists>r. x = Some r \<and> media_range_includes M r m)"
  by (auto simp: mime_accepts_def media_range_includes_def split: option.split)

lemma accepts_any:
  "list_ex (\<lambda>s. reduce_or (map (mime_accepts M m) (mime_iter M s))) (List.map_filter (to_str H) vs) \<longleftrightarrow>
     (\<exists>v \<in> set vs. \<exists>s r. to_str H v = Some s \<and> Some r \<in> set (mime_iter M s) \<and>
        media_range_includes M r m)"
proof -
  have "reduce_or (map (mime_accepts M m) ms) \<longleftrightarrow> (\<exists>r. Some r \<in> set ms \<and> media_range_includes M r m)" for ms
    by (auto simp: reduce_or_iff mime_accepts_iff)
  then show ?thesis by (simp add: list_ex_map_filter)
qed

text \<open>
  The \<open>Accept\<close> validator lets a request through exactly when it has no \<open>Accept\<close> header or
  one of its readable \<open>Accept\<close> values lists a well-formed media range that includes the expected
  type; it refuses with 406 otherwise and never changes the request.
\<close>

theorem accept_validate_spec:
  assumes H: "header_map H"
  shows "fst (snd (accept_validate H M db a req)) = req \<and>
    (fst (accept_validate H M db a req) = Inr () \<longleftrightarrow>
      hm_get_all H (req_headers req) ''accept'' = [] \<or>
      (\<exists>v \<in> set (hm_get_all H (req_headers req) ''accept''). \<exists>s r.
         to_str H v = Some s \<and> Some r \<in> set (mime_iter M s) \<and>
         media_range_includes M r (ah_header_value a))) \<and>
    (\<forall>res. fst (accept_validate H M db a req) = Inl res \<longrightarrow> res_status res = 406)"
proof -
  let ?ok = "\<exists>v \<in> set (hm_get_all H (req_headers req) ''accept''). \<exists>s r.
         to_str H v = Some s \<and> Some r \<in> set (mime_iter M s) \<and>
         media_range_includes M r (ah_header_value a)"
  have "accept_validate H M db a req =
      (if hm_get_all H (req_headers req) ''accept'' = [] \<or> ?ok then (Inr (), req, a)
       else (Inl ((response_new H db)\<lparr>res_status := 406\<rparr>), req, a))"
    unfolding accept_validate_def accepts_any by (simp add: header_map.contains_iff [OF H])
  then show ?thesis by auto
qed

definition pair_mime :: "(string \<times> string) mime_api" where
  "pair_mime = \<lparr>mime_parse = split_once ''/'',
     mime_iter = (\<lambda>s. map (\<lambda>w. split_once ''/'' (trim w)) (split_on CHR '','' s)),
     mime_type = fst, mime_subtype = snd\<rparr>"

lemma accept_validate_spec_witness:
  "fst (accept_validate (list_http ()) pair_mime () \<lparr>ah_header_value = (''application'', ''json'')\<rparr>
     \<lparr>req_method = ''GET'', req_uri = (), req_version = ''HTTP/1.1'',
      req_headers = [(''accept'', ''text/html, application/*'')], req_extensions = (), req_body = ()\<rparr>) = Inr ()"
proof -
  let ?req = "\<lparr>req_method = ''GET'', req_uri = (), req_version = ''HTTP/1.1'',
      req_headers = [(''accept'', ''text/html, application/*'')], req_extensions = (), req_body = ()\<rparr>"
  let ?v = "''text/html, application/*''"
  have "?v \<in> set (hm_get_all (list_http ()) (req_headers ?req) ''accept'')" by code_simp
  moreover have "to_str (list_http ()) ?v = Some ?v" by code_simp
  moreover have "Some (''application'', ''*'') \<in> set (mime_iter pair_mime ?v)" by code_simp
  moreover have "media_range_includes pair_mime (''application'', ''*'') (''application'', ''json'')" by code_simp
  ultimately show ?thesis
    using accept_validate_spec [OF header_map_list_http, of _ pair_mime "()" "\<lparr>ah_header_value = (''application'', ''json'')\<rparr>" ?req]
    by auto
qed

section \<open>A required header value\<close>

record required_header_value =
  rh_expected_header_name :: string
  rh_expected_header_value :: string

definition required_header_value_new :: "string \<Rightarrow> string \<Rightarrow> required_header_value" where
  "required_header_value_new n v = \<lparr>rh_expected_header_name = n, rh_expected_header_value = v\<rparr>"

text \<open>\<open>parse_name\<close> is \<open>str::parse::<HeaderName>\<close>.\<close>

definition validate_layer_has_header_value ::
  "(string \<Rightarrow> 'ne + string) \<Rightarrow> string \<Rightarrow> string \<Rightarrow> 'ne + required_header_value validate_request_header_layer" where
  "validate_layer_has_header_value parse_name n v =
     (case parse_name n of
        Inl e \<Rightarrow> Inl e | Inr name \<Rightarrow> Inr (validate_layer_custom (required_header_value_new name v)))"

definition required_header_validate ::
  "('h, 'v, 'x) http_api \<Rightarrow> 'rb \<Rightarrow>
     (required_header_value, ('h, 'u, 'x, 'b) request, ('h, 'x, 'rb) response) validator" where
  "required_header_validate H default_body t req =
     (let request_header_value =
        Option.bind (hm_get H (req_headers req) (rh_expected_header_name t)) (to_str H)
      in if request_header_value \<noteq> Some (rh_expected_header_value t)
         then (Inl ((response_new H default_body)\<lparr>res_status := 403\<rparr>), req, t)
         else (Inr (), req, t))"

end
