(* ===== verification/Auth.thy ===== *)
theory Auth
  imports Validate_Request
begin

text \<open>
  \<open>auth/\<close>: basic and bearer credentials as validators (\<open>require_authorization.rs\<close>), the middleware
  that adds them to requests (\<open>add_authorization.rs\<close>), and authorization by a future
  (\<open>async_require_authorization.rs\<close>).  \<open>b64\<close> is the encoder of the \<open>base64\<close> crate.
\<close>

section \<open>Basic and bearer validators\<close>

record 'v bearer =
  be_header_value :: 'v

record 'v basic =
  ba_header_value :: 'v

definition bearer_new :: "'v header_value_api \<Rightarrow> string \<Rightarrow> 'v bearer panics" where
  "bearer_new V token =
     (case hv_parse V (''Bearer '' @ token) of
        None \<Rightarrow> Inl ''token is not a valid header value'' | Some v \<Rightarrow> Inr \<lparr>be_header_value = v\<rparr>)"

definition basic_new :: "'v header_value_api \<Rightarrow> (string \<Rightarrow> string) \<Rightarrow> string \<Rightarrow> string \<Rightarrow> 'v basic panics" where
  "basic_new V b64 username password =
     (let encoded = b64 (username @ '':'' @ password)
      in case hv_parse V (''Basic '' @ encoded) of
           None \<Rightarrow> Inl ''called `Result::unwrap()` on an `Err` value''
         | Some v \<Rightarrow> Inr \<lparr>ba_header_value = v\<rparr>)"

definition validate_basic ::
  "'v header_value_api \<Rightarrow> (string \<Rightarrow> string) \<Rightarrow> 's \<Rightarrow> string \<Rightarrow> string \<Rightarrow>
     ('s, 'v basic) validate_request_header panics" where
  "validate_basic V b64 s username password = map_result (validate_custom s) (basic_new V b64 username password)"

definition validate_layer_basic ::
  "'v header_value_api \<Rightarrow> (string \<Rightarrow> string) \<Rightarrow> string \<Rightarrow> string \<Rightarrow>
     'v basic validate_request_header_layer panics" where
  "validate_layer_basic V b64 username password =
     map_result validate_layer_custom (basic_new V b64 username password)"

definition validate_bearer ::
  "'v header_value_api \<Rightarrow> 's \<Rightarrow> string \<Rightarrow> ('s, 'v bearer) validate_request_header panics" where
  "validate_bearer V s token = map_result (validate_custom s) (bearer_new V token)"

definition validate_layer_bearer ::
  "'v header_value_api \<Rightarrow> string \<Rightarrow> 'v bearer validate_request_header_layer panics" where
  "validate_layer_bearer V token = map_result validate_layer_custom (bearer_new V token)"

definition bearer_validate ::
  "('h, 'v, 'x) http_api \<Rightarrow> 'v header_value_api \<Rightarrow> 'rb \<Rightarrow>
     ('v bearer, ('h, 'u, 'x, 'b) request, ('h, 'x, 'rb) response) validator" where
  "bearer_validate H V default_body t req =
     (let unauthorized = (Inl ((response_new H default_body)\<lparr>res_status := 401\<rparr>), req, t)
      in case hm_get H (req_headers req) ''authorization'' of
           Some actual \<Rightarrow> if hv_eq V actual (be_header_value t) then (Inr (), req, t) else unauthorized
         | None \<Rightarrow> unauthorized)"

text \<open>\<open>basic\<close> is the value parsed from the text \<open>Basic\<close>.\<close>

definition basic_validate ::
  "('h, 'v, 'x) http_api \<Rightarrow> 'v header_value_api \<Rightarrow> 'rb \<Rightarrow>
     ('v basic, ('h, 'u, 'x, 'b) request, ('h, 'x, 'rb) response) validator" where
  "basic_validate H V default_body t req =
     (let unauthorized =
        (let res = (response_new H default_body)\<lparr>res_status := 401\<rparr>
         in res\<lparr>res_headers := hm_insert H (res_headers res) ''www-authenticate'' (the (hv_parse V ''Basic''))\<rparr>)
      in case hm_get H (req_headers req) ''authorization'' of
           Some actual \<Rightarrow>
             if hv_eq V actual (ba_header_value t) then (Inr (), req, t) else (Inl unauthorized, req, t)
         | None \<Rightarrow> (Inl unauthorized, req, t))"

section \<open>Adding credentials\<close>

record 'v add_authorization_layer =
  aal_value :: 'v

definition add_authorization_layer_basic ::
  "'v header_value_api \<Rightarrow> (string \<Rightarrow> string) \<Rightarrow> string \<Rightarrow> string \<Rightarrow> 'v add_authorization_layer panics" where
  "add_authorization_layer_basic V b64 username password =
     (let encoded = b64 (username @ '':'' @ password)
      in case hv_try_from V (''Basic '' @ encoded) of
           None \<Rightarrow> Inl ''called `Result::unwrap()` on an `Err` value''
         | Some v \<Rightarrow> Inr \<lparr>aal_value = v\<rparr>)"

definition add_authorization_layer_bearer ::
  "'v header_value_api \<Rightarrow> string \<Rightarrow> 'v add_authorization_layer panics" where
  "add_authorization_layer_bearer V token =
     (case hv_try_from V (''Bearer '' @ token) of
        None \<Rightarrow> Inl ''token is not valid header'' | Some v \<Rightarrow> Inr \<lparr>aal_value = v\<rparr>)"

definition add_authorization_layer_as_sensitive ::
  "'v header_value_api \<Rightarrow> bool \<Rightarrow> 'v add_authorization_layer \<Rightarrow> 'v add_authorization_layer" where
  "add_authorization_layer_as_sensitive V b l = l\<lparr>aal_value := hv_set_sensitive V b (aal_value l)\<rparr>"

record ('s, 'v) add_authorization =
  aa_inner :: 's
  aa_value :: 'v

definition add_authorization_layer_apply :: "'v add_authorization_layer \<Rightarrow> 's \<Rightarrow> ('s, 'v) add_authorization" where
  "add_authorization_layer_apply l s = \<lparr>aa_inner = s, aa_value = aal_value l\<rparr>"

definition add_authorization_basic ::
  "'v header_value_api \<Rightarrow> (string \<Rightarrow> string) \<Rightarrow> 's \<Rightarrow> string \<Rightarrow> string \<Rightarrow> ('s, 'v) add_authorization panics" where
  "add_authorization_basic V b64 s username password =
     map_result (\<lambda>l. add_authorization_layer_apply l s) (add_authorization_layer_basic V b64 username password)"

definition add_authorization_bearer ::
  "'v header_value_api \<Rightarrow> 's \<Rightarrow> string \<Rightarrow> ('s, 'v) add_authorization panics" where
  "add_authorization_bearer V s token =
     map_result (\<lambda>l. add_authorization_layer_apply l s) (add_authorization_layer_bearer V token)"

definition add_authorization_as_sensitive ::
  "'v header_value_api \<Rightarrow> bool \<Rightarrow> ('s, 'v) add_authorization \<Rightarrow> ('s, 'v) add_authorization" where
  "add_authorization_as_sensitive V b c = c\<lparr>aa_value := hv_set_sensitive V b (aa_value c)\<rparr>"

definition add_authorization_call ::
  "('h, 'v, 'x) http_api \<Rightarrow> ('s, ('h, 'u, 'x, 'b) request, 'f) service_fn \<Rightarrow>
     (('s, 'v) add_authorization, ('h, 'u, 'x, 'b) request, 'f) service_fn" where
  "add_authorization_call H inner_call c req =
     (let req' = req\<lparr>req_headers := hm_insert H (req_headers req) ''authorization'' (aa_value c)\<rparr>
      in case inner_call (aa_inner c) req' of (s, f) \<Rightarrow> (c\<lparr>aa_inner := s\<rparr>, f))"

section \<open>What a client adds a server accepts\<close>

text \<open>
  Claim C33. Basic credentials round trip: a request that \<open>AddAuthorization::basic\<close> built from user and
  password sends (sensitive or not) is accepted by the basic validator for user \<open>u'\<close> and password
  \<open>p'\<close> exactly when \<open>user:password\<close> is the same text, and for users without a colon exactly when
  both user and password agree.  base64 encoding is injective.
\<close>

theorem basic_credentials_roundtrip:
  assumes H: "header_map H" and V: "header_value V" and b64: "inj b64"
    and client: "add_authorization_layer_basic V b64 u p = Inr l"
    and server: "basic_new V b64 u' p' = Inr t"
    and send: "add_authorization_call H (\<lambda>s r. (s, r))
      (add_authorization_layer_apply (add_authorization_layer_as_sensitive V b l) ()) req = (c', sent)"
  shows "(fst (basic_validate H V db t sent) = Inr () \<longleftrightarrow> u @ '':'' @ p = u' @ '':'' @ p') \<and>
    (CHR '':'' \<notin> set u \<and> CHR '':'' \<notin> set u' \<longrightarrow>
       (fst (basic_validate H V db t sent) = Inr () \<longleftrightarrow> u = u' \<and> p = p'))"
proof -
  have l: "hv_try_from V (''Basic '' @ b64 (u @ '':'' @ p)) = Some (aal_value l)"
    using client by (auto simp: add_authorization_layer_basic_def split: option.splits)
  have t: "hv_parse V (''Basic '' @ b64 (u' @ '':'' @ p')) = Some (ba_header_value t)"
    using server by (auto simp: basic_new_def split: option.splits)
  have "hm_get H (req_headers sent) ''authorization'' = Some (hv_set_sensitive V b (aal_value l))"
    using send by (auto simp: add_authorization_call_def add_authorization_layer_apply_def
        add_authorization_layer_as_sensitive_def header_map.get_insert [OF H])
  then have "fst (basic_validate H V db t sent) = Inr () \<longleftrightarrow>
      hv_eq V (hv_set_sensitive V b (aal_value l)) (ba_header_value t)"
    by (simp add: basic_validate_def Let_def)
  also have "\<dots> \<longleftrightarrow> b64 (u @ '':'' @ p) = b64 (u' @ '':'' @ p')"
    by (simp add: header_value.eq_set_sensitive [OF V] header_value.parse_eq_try_from [OF V t l])
  also have "\<dots> \<longleftrightarrow> u @ '':'' @ p = u' @ '':'' @ p'"
    by (rule inj_eq [OF b64])
  finally show ?thesis
    using colon_append_eq by blast
qed

lemma basic_credentials_roundtrip_witness:
  "fst (basic_validate (list_api (\<lambda>v. None) (\<lambda>b. None) ()) flagged_api ()
      \<lparr>ba_header_value = \<lparr>fv_bytes = ''Basic joe:pw'', fv_sensitive = False\<rparr>\<rparr>
      \<lparr>req_method = ''GET'', req_uri = (), req_version = ''HTTP/1.1'',
       req_headers = [(''authorization'', \<lparr>fv_bytes = ''Basic joe:pw'', fv_sensitive = True\<rparr>)],
       req_extensions = (), req_body = ()\<rparr>) = Inr ()"
proof -
  let ?H = "list_api (\<lambda>v. None) (\<lambda>b. None) () :: (_, flagged_value, unit) http_api"
  let ?l = "\<lparr>aal_value = \<lparr>fv_bytes = ''Basic joe:pw'', fv_sensitive = False\<rparr>\<rparr>"
  let ?t = "\<lparr>ba_header_value = \<lparr>fv_bytes = ''Basic joe:pw'', fv_sensitive = False\<rparr>\<rparr>"
  let ?req = "\<lparr>req_method = ''GET'', req_uri = (), req_version = ''HTTP/1.1'', req_headers = [],
    req_extensions = (), req_body = ()\<rparr>"
  let ?sent = "?req\<lparr>req_headers := [(''authorization'', \<lparr>fv_bytes = ''Basic joe:pw'', fv_sensitive = True\<rparr>)]\<rparr>"
  let ?c = "add_authorization_layer_apply (add_authorization_layer_as_sensitive flagged_api True ?l) ()"
  have client: "add_authorization_layer_basic flagged_api id ''joe'' ''pw'' = Inr ?l" by code_simp
  have server: "basic_new flagged_api id ''joe'' ''pw'' = Inr ?t" by code_simp
  have send: "add_authorization_call ?H (\<lambda>s r. (s, r)) ?c ?req = (?c, ?sent)" by code_simp
  from basic_credentials_roundtrip [OF header_map_list_api header_value_flagged inj_on_id client server send,
      of "()"]
  show ?thesis by simp
qed

section \<open>Authorization by a future\<close>

record 't async_require_authorization_layer =
  asl_auth :: 't

definition async_require_authorization_layer_new :: "'t \<Rightarrow> 't async_require_authorization_layer" where
  "async_require_authorization_layer_new t = \<lparr>asl_auth = t\<rparr>"

record ('s, 't) async_require_authorization =
  as_inner :: 's
  as_auth :: 't

definition async_require_authorization_new :: "'s \<Rightarrow> 't \<Rightarrow> ('s, 't) async_require_authorization" where
  "async_require_authorization_new s t = \<lparr>as_inner = s, as_auth = t\<rparr>"

definition async_require_authorization_layer_apply ::
  "'t async_require_authorization_layer \<Rightarrow> 's \<Rightarrow> ('s, 't) async_require_authorization" where
  "async_require_authorization_layer_apply l s = async_require_authorization_new s (asl_auth l)"

datatype ('a, 'f) auth_state = Authorize 'a | Authorized 'f

record ('a, 'f, 's) async_auth_future =
  af_state :: "('a, 'f) auth_state"
  af_service :: 's

text \<open>The service keeps the clone and the future gets the instance that was polled ready.\<close>

definition async_auth_call ::
  "('s \<Rightarrow> 's) \<Rightarrow> ('t \<Rightarrow> 'q \<Rightarrow> 't \<times> 'a) \<Rightarrow>
     (('s, 't) async_require_authorization, 'q, ('a, 'f, 's) async_auth_future) service_fn" where
  "async_auth_call clone authorize c req =
     (let inner = clone (as_inner c);
          (t, a) = authorize (as_auth c) req
      in (c\<lparr>as_inner := inner, as_auth := t\<rparr>, \<lparr>af_state = Authorize a, af_service = as_inner c\<rparr>))"

definition async_auth_poll ::
  "('a, 'r + 'q) poll_fn \<Rightarrow> ('s, 'q, 'f) service_fn \<Rightarrow> ('f, 'e + 'r) poll_fn \<Rightarrow>
     (('a, 'f, 's) async_auth_future, 'e + 'r) poll_fn" where
  "async_auth_poll pa inner_call poll w =
     (let authorized = (\<lambda>w fut.
        case poll fut of (p, fut') \<Rightarrow> (p, w\<lparr>af_state := Authorized fut'\<rparr>))
      in case af_state w of
           Authorize a \<Rightarrow>
             (case pa a of
                (Pending, a') \<Rightarrow> (Pending, w\<lparr>af_state := Authorize a'\<rparr>)
              | (Ready (Inr req), a') \<Rightarrow>
                  (case inner_call (af_service w) req of
                     (s, fut) \<Rightarrow> authorized (w\<lparr>af_service := s\<rparr>) fut)
              | (Ready (Inl res), a') \<Rightarrow> (Ready (Inr res), w\<lparr>af_state := Authorize a'\<rparr>))
         | Authorized fut \<Rightarrow> authorized w fut)"

lemma async_auth_authorized:
  "run_future (async_auth_poll pa inner_call poll) n \<lparr>af_state = Authorized f, af_service = s\<rparr> =
     run_future poll n f"
  by (induction n arbitrary: f) (auto simp: async_auth_poll_def split: prod.split poll.split)

text \<open>
  No request passes before it is authorized, and none is lost: within \<open>n\<close> polls the future
  returns nothing while the authorization is pending; if it is refused at its poll \<open>i\<close>, the response
  of the refusal and the inner service is not called; if it is granted at poll \<open>i\<close>, what the inner
  service's future for the authorized request returns in the \<open>n - i\<close> polls from that one on.
\<close>

theorem async_auth_sequence:
  "run_future (async_auth_poll pa inner_call poll) n \<lparr>af_state = Authorize a, af_service = s\<rparr> =
     (case (first_ready pa n a, run_future pa n a) of
        (Some i, Some (Inl res)) \<Rightarrow> Some (Inr res)
      | (Some i, Some (Inr req)) \<Rightarrow> run_future poll (n - i) (snd (inner_call s req))
      | _ \<Rightarrow> None)"
proof (induction n arbitrary: a)
  case (Suc n)
  obtain p a' where pa: "pa a = (p, a')" by (rule prod.exhaust)
  show ?case
  proof (cases p)
    case Pending
    with pa have "run_future (async_auth_poll pa inner_call poll) (Suc n) \<lparr>af_state = Authorize a, af_service = s\<rparr> =
        run_future (async_auth_poll pa inner_call poll) n \<lparr>af_state = Authorize a', af_service = s\<rparr>"
      by (simp add: async_auth_poll_def)
    with Suc pa Pending show ?thesis
      by (auto split: option.split sum.split)
  next
    case (Ready r)
    show ?thesis
    proof (cases r)
      case (Inl res)
      with pa Ready show ?thesis by (simp add: async_auth_poll_def)
    next
      case (Inr req)
      obtain s' f where sf: "inner_call s req = (s', f)" by (rule prod.exhaust)
      obtain q f' where qf: "poll f = (q, f')" by (rule prod.exhaust)
      have "async_auth_poll pa inner_call poll \<lparr>af_state = Authorize a, af_service = s\<rparr> =
          (q, \<lparr>af_state = Authorized f', af_service = s'\<rparr>)"
        using pa Ready Inr sf qf by (simp add: async_auth_poll_def)
      then have "run_future (async_auth_poll pa inner_call poll) (Suc n) \<lparr>af_state = Authorize a, af_service = s\<rparr> =
          run_future poll (Suc n) f"
        using qf async_auth_authorized [of pa inner_call poll n f' s'] by (simp split: poll.split)
      with pa Ready Inr sf show ?thesis by simp
    qed
  qed
qed simp

end
