(* ===== verification/Sensitive_Headers.thy ===== *)
theory Sensitive_Headers
  imports Validate_Request
begin

text \<open>
  \<open>sensitive_headers.rs\<close>: marking header values as sensitive on requests and responses.  Walking
  over the values of an occupied entry, \<open>headers.entry(name)\<close> with \<open>iter_mut\<close>, is the argument
  \<open>iter_mut\<close>; its law extends the header map in the locale \<open>header_entries\<close>.
\<close>

locale header_entries = header_map H for H :: "('h, 'v, 'x) http_api" +
  fixes iter_mut :: "'h \<Rightarrow> string \<Rightarrow> ('v \<Rightarrow> 'v) \<Rightarrow> 'h"
  assumes get_all_iter_mut: "hm_get_all H (iter_mut h n g) m =
    (if m = n then map g (hm_get_all H h n) else hm_get_all H h m)"

section \<open>Marking\<close>

definition mark_entry ::
  "'v header_value_api \<Rightarrow> ('h \<Rightarrow> string \<Rightarrow> ('v \<Rightarrow> 'v) \<Rightarrow> 'h) \<Rightarrow> string \<Rightarrow> 'h \<Rightarrow> 'h" where
  "mark_entry V iter_mut n h = iter_mut h n (hv_set_sensitive V True)"

text \<open>The loop over the shared list of names.\<close>

fun mark_sensitive ::
  "'v header_value_api \<Rightarrow> ('h \<Rightarrow> string \<Rightarrow> ('v \<Rightarrow> 'v) \<Rightarrow> 'h) \<Rightarrow> string list \<Rightarrow> 'h \<Rightarrow> 'h" where
  "mark_sensitive V iter_mut [] h = h"
| "mark_sensitive V iter_mut (n # ns) h = mark_sensitive V iter_mut ns (mark_entry V iter_mut n h)"

context header_entries
begin

lemma mark_sensitive_bytes:
  assumes V: "header_value V"
  shows "map (hv_bytes V) (hm_get_all H (mark_sensitive V iter_mut ns h) m) =
    map (hv_bytes V) (hm_get_all H h m)"
  by (induction ns arbitrary: h)
    (auto simp: mark_entry_def get_all_iter_mut header_value.sensitive_bytes [OF V])

lemma mark_sensitive_other:
  "m \<notin> set ns \<Longrightarrow> hm_get_all H (mark_sensitive V iter_mut ns h) m = hm_get_all H h m"
  by (induction ns arbitrary: h) (auto simp: mark_entry_def get_all_iter_mut)

lemma mark_sensitive_keeps:
  assumes V: "header_value V" and "\<forall>v \<in> set (hm_get_all H h m). hv_is_sensitive V v"
  shows "\<forall>v \<in> set (hm_get_all H (mark_sensitive V iter_mut ns h) m). hv_is_sensitive V v"
  using assms(2)
proof (induction ns arbitrary: h)
  case (Cons n ns)
  have "\<forall>v \<in> set (hm_get_all H (mark_entry V iter_mut n h) m). hv_is_sensitive V v"
    using Cons.prems by (auto simp: mark_entry_def get_all_iter_mut header_value.sensitive_set [OF V])
  from Cons.IH [OF this] show ?case by simp
qed simp

lemma mark_sensitive_marked:
  assumes V: "header_value V"
  shows "m \<in> set ns \<Longrightarrow> \<forall>v \<in> set (hm_get_all H (mark_sensitive V iter_mut ns h) m). hv_is_sensitive V v"
proof (induction ns arbitrary: h)
  case (Cons n ns)
  then show ?case
    using mark_sensitive_keeps [OF V, of "mark_entry V iter_mut n h" m ns]
    by (auto simp: mark_entry_def get_all_iter_mut header_value.sensitive_set [OF V])
qed simp

end

definition list_iter_mut :: "(string \<times> 'v) list \<Rightarrow> string \<Rightarrow> ('v \<Rightarrow> 'v) \<Rightarrow> (string \<times> 'v) list" where
  "list_iter_mut h n g = map (\<lambda>(k, v). (k, if k = n then g v else v)) h"

lemma header_entries_list: "header_entries (list_api ts fb e) list_iter_mut"
proof (intro header_entries.intro header_map_list_api header_entries_axioms.intro)
  fix h n g m
  show "hm_get_all (list_api ts fb e) (list_iter_mut h n g) m =
    (if m = n then map g (hm_get_all (list_api ts fb e) h n) else hm_get_all (list_api ts fb e) h m)"
    by (induction h) (auto simp: list_api_def list_iter_mut_def)
qed

interpretation list_entries: header_entries "list_api ts fb e" list_iter_mut for ts fb e
  by (rule header_entries_list)

section \<open>The request side\<close>

record set_sensitive_request_headers_layer =
  nql_headers :: "string list"

definition set_sensitive_request_headers_layer_from_shared ::
  "string list \<Rightarrow> set_sensitive_request_headers_layer" where
  "set_sensitive_request_headers_layer_from_shared ns = \<lparr>nql_headers = ns\<rparr>"

definition set_sensitive_request_headers_layer_new ::
  "string list \<Rightarrow> set_sensitive_request_headers_layer" where
  "set_sensitive_request_headers_layer_new ns = set_sensitive_request_headers_layer_from_shared ns"

record 's set_sensitive_request_headers =
  nq_inner :: 's
  nq_headers :: "string list"

definition set_sensitive_request_headers_layer_apply ::
  "set_sensitive_request_headers_layer \<Rightarrow> 's \<Rightarrow> 's set_sensitive_request_headers" where
  "set_sensitive_request_headers_layer_apply l s = \<lparr>nq_inner = s, nq_headers = nql_headers l\<rparr>"

definition set_sensitive_request_headers_from_shared ::
  "'s \<Rightarrow> string list \<Rightarrow> 's set_sensitive_request_headers" where
  "set_sensitive_request_headers_from_shared s ns = \<lparr>nq_inner = s, nq_headers = ns\<rparr>"

definition set_sensitive_request_headers_new :: "'s \<Rightarrow> string list \<Rightarrow> 's set_sensitive_request_headers" where
  "set_sensitive_request_headers_new s ns = set_sensitive_request_headers_from_shared s ns"

definition set_sensitive_request_headers_call ::
  "'v header_value_api \<Rightarrow> ('h \<Rightarrow> string \<Rightarrow> ('v \<Rightarrow> 'v) \<Rightarrow> 'h) \<Rightarrow>
     ('s, ('h, 'u, 'x, 'b) request, 'f) service_fn \<Rightarrow>
     ('s set_sensitive_request_headers, ('h, 'u, 'x, 'b) request, 'f) service_fn" where
  "set_sensitive_request_headers_call V iter_mut inner_call c req =
     (let req' = req\<lparr>req_headers := mark_sensitive V iter_mut (nq_headers c) (req_headers req)\<rparr>
      in case inner_call (nq_inner c) req' of (s, f) \<Rightarrow> (c\<lparr>nq_inner := s\<rparr>, f))"

section \<open>The response side\<close>

record set_sensitive_response_headers_layer =
  nrl_headers :: "string list"

definition set_sensitive_response_headers_layer_from_shared ::
  "string list \<Rightarrow> set_sensitive_response_headers_layer" where
  "set_sensitive_response_headers_layer_from_shared ns = \<lparr>nrl_headers = ns\<rparr>"

definition set_sensitive_response_headers_layer_new ::
  "string list \<Rightarrow> set_sensitive_response_headers_layer" where
  "set_sensitive_response_headers_layer_new ns = set_sensitive_response_headers_layer_from_shared ns"

record 's set_sensitive_response_headers =
  nr_inner :: 's
  nr_headers :: "string list"

definition set_sensitive_response_headers_layer_apply ::
  "set_sensitive_response_headers_layer \<Rightarrow> 's \<Rightarrow> 's set_sensitive_response_headers" where
  "set_sensitive_response_headers_layer_apply l s = \<lparr>nr_inner = s, nr_headers = nrl_headers l\<rparr>"

definition set_sensitive_response_headers_from_shared ::
  "'s \<Rightarrow> string list \<Rightarrow> 's set_sensitive_response_headers" where
  "set_sensitive_response_headers_from_shared s ns = \<lparr>nr_inner = s, nr_headers = ns\<rparr>"

definition set_sensitive_response_headers_new :: "'s \<Rightarrow> string list \<Rightarrow> 's set_sensitive_response_headers" where
  "set_sensitive_response_headers_new s ns = set_sensitive_response_headers_from_shared s ns"

record 'f set_sensitive_response_headers_future =
  nf_future :: 'f
  nf_headers :: "string list"

definition set_sensitive_response_headers_call ::
  "('s, 'q, 'f) service_fn \<Rightarrow>
     ('s set_sensitive_response_headers, 'q, 'f set_sensitive_response_headers_future) service_fn" where
  "set_sensitive_response_headers_call inner_call c req =
     (case inner_call (nr_inner c) req of
        (s, f) \<Rightarrow> (c\<lparr>nr_inner := s\<rparr>, \<lparr>nf_future = f, nf_headers = nr_headers c\<rparr>))"

definition set_sensitive_response_headers_poll ::
  "'v header_value_api \<Rightarrow> ('h \<Rightarrow> string \<Rightarrow> ('v \<Rightarrow> 'v) \<Rightarrow> 'h) \<Rightarrow>
     ('f, 'e + ('h, 'x, 'b) response) poll_fn \<Rightarrow>
     ('f set_sensitive_response_headers_future, 'e + ('h, 'x, 'b) response) poll_fn" where
  "set_sensitive_response_headers_poll V iter_mut poll w =
     (case poll (nf_future w) of
        (Pending, f) \<Rightarrow> (Pending, w\<lparr>nf_future := f\<rparr>)
      | (Ready (Inl e), f) \<Rightarrow> (Ready (Inl e), w\<lparr>nf_future := f\<rparr>)
      | (Ready (Inr res), f) \<Rightarrow>
          (Ready (Inr (res\<lparr>res_headers := mark_sensitive V iter_mut (nf_headers w) (res_headers res)\<rparr>)),
           w\<lparr>nf_future := f\<rparr>))"

interpretation set_sensitive_response:
  response_adaptor poll "set_sensitive_response_headers_poll V iter_mut poll" nf_future
    "\<lambda>w. map_result (\<lambda>res. res\<lparr>res_headers := mark_sensitive V iter_mut (nf_headers w) (res_headers res)\<rparr>)"
  for V iter_mut poll
  by unfold_locales
    (auto simp: set_sensitive_response_headers_poll_def split: prod.split poll.splits sum.splits)

section \<open>Both sides\<close>

record set_sensitive_headers_layer =
  nl_headers :: "string list"

definition set_sensitive_headers_layer_from_shared :: "string list \<Rightarrow> set_sensitive_headers_layer" where
  "set_sensitive_headers_layer_from_shared ns = \<lparr>nl_headers = ns\<rparr>"

definition set_sensitive_headers_layer_new :: "string list \<Rightarrow> set_sensitive_headers_layer" where
  "set_sensitive_headers_layer_new ns = set_sensitive_headers_layer_from_shared ns"

type_synonym 's set_sensitive_headers = "'s set_sensitive_response_headers set_sensitive_request_headers"

definition set_sensitive_headers_layer_apply ::
  "set_sensitive_headers_layer \<Rightarrow> 's \<Rightarrow> 's set_sensitive_headers" where
  "set_sensitive_headers_layer_apply l s =
     set_sensitive_request_headers_from_shared
       (set_sensitive_response_headers_from_shared s (nl_headers l)) (nl_headers l)"

text \<open>
  Under \<open>SetSensitiveHeadersLayer\<close> every value of a listed header is marked sensitive, in the
  request the inner service gets and in the response the client gets, while no value's bytes change
  and no header that is not listed is touched.
\<close>

theorem sensitive_both_ways:
  assumes E: "header_entries H iter_mut" and V: "header_value V"
    and run: "run_future (set_sensitive_response_headers_poll V iter_mut poll) n
      (snd (set_sensitive_request_headers_call V iter_mut (set_sensitive_response_headers_call inner_call)
         (set_sensitive_headers_layer_apply (set_sensitive_headers_layer_new ns) s) req)) = Some (Inr res')"
  shows "\<exists>req' res. run_future poll n (snd (inner_call s req')) = Some (Inr res) \<and>
    (\<forall>m. map (hv_bytes V) (hm_get_all H (req_headers req') m) = map (hv_bytes V) (hm_get_all H (req_headers req) m) \<and>
         map (hv_bytes V) (hm_get_all H (res_headers res') m) = map (hv_bytes V) (hm_get_all H (res_headers res) m) \<and>
         (if m \<in> set ns then
            (\<forall>v \<in> set (hm_get_all H (req_headers req') m). hv_is_sensitive V v) \<and>
            (\<forall>v \<in> set (hm_get_all H (res_headers res') m). hv_is_sensitive V v)
          else hm_get_all H (req_headers req') m = hm_get_all H (req_headers req) m \<and>
            hm_get_all H (res_headers res') m = hm_get_all H (res_headers res) m))"
proof -
  let ?req' = "req\<lparr>req_headers := mark_sensitive V iter_mut ns (req_headers req)\<rparr>"
  obtain s' f where sf: "inner_call s ?req' = (s', f)" by (rule prod.exhaust)
  have "run_future (set_sensitive_response_headers_poll V iter_mut poll) n \<lparr>nf_future = f, nf_headers = ns\<rparr> =
      Some (Inr res')"
    using run sf
    by (simp add: set_sensitive_request_headers_call_def set_sensitive_response_headers_call_def
        set_sensitive_headers_layer_apply_def set_sensitive_headers_layer_new_def
        set_sensitive_headers_layer_from_shared_def set_sensitive_request_headers_from_shared_def
        set_sensitive_response_headers_from_shared_def)
  then obtain res where res: "run_future poll n f = Some (Inr res)"
    and res': "res' = res\<lparr>res_headers := mark_sensitive V iter_mut ns (res_headers res)\<rparr>"
    by (auto simp: set_sensitive_response.run_outer map_result_eq_Inr)
  show ?thesis
    using sf res
    by (intro exI [of _ ?req'] exI [of _ res])
      (simp add: res' header_entries.mark_sensitive_bytes [OF E V]
        header_entries.mark_sensitive_marked [OF E V] header_entries.mark_sensitive_other [OF E])
qed

definition sens_request :: "((string \<times> flagged_value) list, unit, unit, unit) request" where
  "sens_request = \<lparr>req_method = ''GET'', req_uri = (), req_version = ''HTTP/1.1'',
     req_headers = [(''cookie'', \<lparr>fv_bytes = ''a'', fv_sensitive = False\<rparr>)],
     req_extensions = (), req_body = ()\<rparr>"

definition sens_response :: "((string \<times> flagged_value) list, unit, unit) response" where
  "sens_response = \<lparr>res_status = 200, res_version = ''HTTP/1.1'',
     res_headers = [(''cookie'', \<lparr>fv_bytes = ''b'', fv_sensitive = False\<rparr>)],
     res_extensions = (), res_body = ()\<rparr>"

lemma sensitive_both_ways_witness:
  "list_all (hv_is_sensitive flagged_api) (hm_get_all (list_api (\<lambda>v. None) (\<lambda>b. None) ())
     [(''cookie'', \<lparr>fv_bytes = ''b'', fv_sensitive = True\<rparr>)] ''cookie'')"
proof -
  let ?H = "list_api (\<lambda>v. None) (\<lambda>b. None) () :: (_, flagged_value, unit) http_api"
  let ?inner = "\<lambda>s (r :: ((string \<times> flagged_value) list, unit, unit, unit) request).
    (s, (0 :: nat, Inr sens_response :: unit + _))"
  let ?res' = "sens_response\<lparr>res_headers := [(''cookie'', \<lparr>fv_bytes = ''b'', fv_sensitive = True\<rparr>)]\<rparr>"
  have run: "run_future (set_sensitive_response_headers_poll flagged_api list_iter_mut ready_after) 1
      (snd (set_sensitive_request_headers_call flagged_api list_iter_mut
         (set_sensitive_response_headers_call ?inner)
         (set_sensitive_headers_layer_apply (set_sensitive_headers_layer_new [''cookie'']) ()) sens_request)) =
      Some (Inr ?res')"
    by code_simp
  from sensitive_both_ways [OF header_entries_list header_value_flagged run, of "\<lambda>v. None" "\<lambda>b. None" "()"]
  have "\<forall>v \<in> set (hm_get_all ?H (res_headers ?res') ''cookie''). hv_is_sensitive flagged_api v"
    by (elim exE conjE, drule_tac x = "''cookie''" in spec) simp
  then show ?thesis by (simp add: list_all_iff)
qed

end
