(* ===== verification/Message_Layers.thy ===== *)
theory Message_Layers
  imports Service
begin

text \<open>
  The middlewares that change one part of a message: \<open>map_request_body.rs\<close>, \<open>map_response_body.rs\<close>,
  \<open>add_extension.rs\<close>, \<open>set_status.rs\<close> and \<open>propagate_header.rs\<close>.  A body-mapping closure is its
  state with a function; \<open>ext_insert\<close> inserts a value of the layer's type into the extensions.
\<close>

section \<open>Mapping bodies\<close>

type_synonym ('k, 'b, 'c) body_fn = "'k \<Rightarrow> 'b \<Rightarrow> 'c \<times> 'k"

record 'k map_request_body_layer =
  mbl_f :: 'k

definition map_request_body_layer_new :: "'k \<Rightarrow> 'k map_request_body_layer" where
  "map_request_body_layer_new k = \<lparr>mbl_f = k\<rparr>"

record ('s, 'k) map_request_body =
  mb_inner :: 's
  mb_f :: 'k

definition map_request_body_new :: "'s \<Rightarrow> 'k \<Rightarrow> ('s, 'k) map_request_body" where
  "map_request_body_new s k = \<lparr>mb_inner = s, mb_f = k\<rparr>"

definition map_request_body_layer_apply :: "'k map_request_body_layer \<Rightarrow> 's \<Rightarrow> ('s, 'k) map_request_body" where
  "map_request_body_layer_apply l s = map_request_body_new s (mbl_f l)"

definition map_request_body_call ::
  "('k, 'b, 'c) body_fn \<Rightarrow> ('s, ('h, 'u, 'x, 'c) request, 'f) service_fn \<Rightarrow>
     (('s, 'k) map_request_body, ('h, 'u, 'x, 'b) request, 'f) service_fn" where
  "map_request_body_call g inner_call c req =
     (case g (mb_f c) (req_body req) of
        (body, k) \<Rightarrow>
          (case inner_call (mb_inner c) (from_parts (request_parts req) body) of
             (s, f) \<Rightarrow> (c\<lparr>mb_inner := s, mb_f := k\<rparr>, f)))"

record 'k map_response_body_layer =
  mrbl_f :: 'k

definition map_response_body_layer_new :: "'k \<Rightarrow> 'k map_response_body_layer" where
  "map_response_body_layer_new k = \<lparr>mrbl_f = k\<rparr>"

record ('s, 'k) map_response_body =
  mrb_inner :: 's
  mrb_f :: 'k

definition map_response_body_new :: "'s \<Rightarrow> 'k \<Rightarrow> ('s, 'k) map_response_body" where
  "map_response_body_new s k = \<lparr>mrb_inner = s, mrb_f = k\<rparr>"

definition map_response_body_layer_apply ::
  "'k map_response_body_layer \<Rightarrow> 's \<Rightarrow> ('s, 'k) map_response_body" where
  "map_response_body_layer_apply l s = map_response_body_new s (mrbl_f l)"

record ('f, 'k) map_response_body_future =
  mrf_inner :: 'f
  mrf_f :: 'k

definition map_response_body_call ::
  "('s, 'q, 'f) service_fn \<Rightarrow>
     (('s, 'k) map_response_body, 'q, ('f, 'k) map_response_body_future) service_fn" where
  "map_response_body_call inner_call c req =
     (case inner_call (mrb_inner c) req of
        (s, f) \<Rightarrow> (c\<lparr>mrb_inner := s\<rparr>, \<lparr>mrf_inner = f, mrf_f = mrb_f c\<rparr>))"

definition map_response_body_poll ::
  "('k, 'b, 'c) body_fn \<Rightarrow> ('f, 'e + ('h, 'x, 'b) response) poll_fn \<Rightarrow>
     (('f, 'k) map_response_body_future, 'e + ('h, 'x, 'c) response) poll_fn" where
  "map_response_body_poll g poll w =
     (case poll (mrf_inner w) of
        (Pending, f) \<Rightarrow> (Pending, w\<lparr>mrf_inner := f\<rparr>)
      | (Ready (Inl e), f) \<Rightarrow> (Ready (Inl e), w\<lparr>mrf_inner := f\<rparr>)
      | (Ready (Inr res), f) \<Rightarrow>
          (case g (mrf_f w) (res_body res) of
             (body, k) \<Rightarrow> (Ready (Inr (map_response (\<lambda>_. body) res)), w\<lparr>mrf_inner := f, mrf_f := k\<rparr>)))"

interpretation map_response_body: response_adaptor poll "map_response_body_poll g poll" mrf_inner
    "\<lambda>w. map_result (\<lambda>res. map_response (\<lambda>_. fst (g (mrf_f w) (res_body res))) res)"
  for g poll
  by unfold_locales (auto simp: map_response_body_poll_def split: prod.split poll.splits sum.splits)

section \<open>Adding an extension\<close>

record 'a add_extension_layer =
  ael_value :: 'a

definition add_extension_layer_new :: "'a \<Rightarrow> 'a add_extension_layer" where
  "add_extension_layer_new a = \<lparr>ael_value = a\<rparr>"

record ('s, 'a) add_extension =
  ae_inner :: 's
  ae_value :: 'a

definition add_extension_new :: "'s \<Rightarrow> 'a \<Rightarrow> ('s, 'a) add_extension" where
  "add_extension_new s a = \<lparr>ae_inner = s, ae_value = a\<rparr>"

definition add_extension_layer_apply :: "'a add_extension_layer \<Rightarrow> 's \<Rightarrow> ('s, 'a) add_extension" where
  "add_extension_layer_apply l s = \<lparr>ae_inner = s, ae_value = ael_value l\<rparr>"

definition add_extension_call ::
  "('a \<Rightarrow> 'x \<Rightarrow> 'x) \<Rightarrow> ('s, ('h, 'u, 'x, 'b) request, 'f) service_fn \<Rightarrow>
     (('s, 'a) add_extension, ('h, 'u, 'x, 'b) request, 'f) service_fn" where
  "add_extension_call ext_insert inner_call c req =
     (let req' = req\<lparr>req_extensions := ext_insert (ae_value c) (req_extensions req)\<rparr>
      in case inner_call (ae_inner c) req' of (s, f) \<Rightarrow> (c\<lparr>ae_inner := s\<rparr>, f))"

section \<open>Setting the status\<close>

record set_status_layer =
  ssl_status :: nat

definition set_status_layer_new :: "nat \<Rightarrow> set_status_layer" where
  "set_status_layer_new n = \<lparr>ssl_status = n\<rparr>"

record 's set_status =
  ss_inner :: 's
  ss_status :: nat

definition set_status_new :: "'s \<Rightarrow> nat \<Rightarrow> 's set_status" where
  "set_status_new s n = \<lparr>ss_inner = s, ss_status = n\<rparr>"

definition set_status_layer_apply :: "set_status_layer \<Rightarrow> 's \<Rightarrow> 's set_status" where
  "set_status_layer_apply l s = set_status_new s (ssl_status l)"

record 'f set_status_future =
  ssf_inner :: 'f
  ssf_status :: "nat option"

definition set_status_call :: "('s, 'q, 'f) service_fn \<Rightarrow> ('s set_status, 'q, 'f set_status_future) service_fn" where
  "set_status_call inner_call c req =
     (case inner_call (ss_inner c) req of
        (s, f) \<Rightarrow> (c\<lparr>ss_inner := s\<rparr>, \<lparr>ssf_inner = f, ssf_status = Some (ss_status c)\<rparr>))"

definition set_status_poll ::
  "('f, 'e + ('h, 'x, 'b) response) poll_fn \<Rightarrow>
     ('f set_status_future, ('e + ('h, 'x, 'b) response) panics) poll_fn" where
  "set_status_poll poll w =
     (case poll (ssf_inner w) of
        (Pending, f) \<Rightarrow> (Pending, w\<lparr>ssf_inner := f\<rparr>)
      | (Ready (Inl e), f) \<Rightarrow> (Ready (Inr (Inl e)), w\<lparr>ssf_inner := f\<rparr>)
      | (Ready (Inr res), f) \<Rightarrow>
          (case ssf_status w of
             None \<Rightarrow> (Ready (Inl ''future polled after completion''), w\<lparr>ssf_inner := f\<rparr>)
           | Some n \<Rightarrow> (Ready (Inr (Inr (res\<lparr>res_status := n\<rparr>))), w\<lparr>ssf_inner := f, ssf_status := None\<rparr>)))"

definition set_status_out ::
  "'f set_status_future \<Rightarrow> 'e + ('h, 'x, 'b) response \<Rightarrow> ('e + ('h, 'x, 'b) response) panics" where
  "set_status_out w r =
     (case r of
        Inl e \<Rightarrow> Inr (Inl e)
      | Inr res \<Rightarrow> (case ssf_status w of None \<Rightarrow> Inl ''future polled after completion''
          | Some n \<Rightarrow> Inr (Inr (res\<lparr>res_status := n\<rparr>))))"

interpretation set_status: response_adaptor poll "set_status_poll poll" ssf_inner set_status_out for poll
  by unfold_locales
    (auto simp: set_status_poll_def set_status_out_def split: prod.split poll.splits sum.splits option.splits)

section \<open>Propagating a header\<close>

record propagate_header_layer =
  phl_header :: string

definition propagate_header_layer_new :: "string \<Rightarrow> propagate_header_layer" where
  "propagate_header_layer_new n = \<lparr>phl_header = n\<rparr>"

record 's propagate_header =
  ph_inner :: 's
  ph_header :: string

definition propagate_header_new :: "'s \<Rightarrow> string \<Rightarrow> 's propagate_header" where
  "propagate_header_new s n = \<lparr>ph_inner = s, ph_header = n\<rparr>"

definition propagate_header_layer_apply :: "propagate_header_layer \<Rightarrow> 's \<Rightarrow> 's propagate_header" where
  "propagate_header_layer_apply l s = \<lparr>ph_inner = s, ph_header = phl_header l\<rparr>"

record ('f, 'v) propagate_header_future =
  phf_future :: 'f
  phf_header_and_value :: "(string \<times> 'v) option"

definition propagate_header_call ::
  "('h, 'v, 'x) http_api \<Rightarrow> ('s, ('h, 'u, 'x, 'b) request, 'f) service_fn \<Rightarrow>
     ('s propagate_header, ('h, 'u, 'x, 'b) request, ('f, 'v) propagate_header_future) service_fn" where
  "propagate_header_call H inner_call c req =
     (let val = hm_get H (req_headers req) (ph_header c)
      in case inner_call (ph_inner c) req of
           (s, f) \<Rightarrow> (c\<lparr>ph_inner := s\<rparr>,
             \<lparr>phf_future = f, phf_header_and_value = map_option (\<lambda>v. (ph_header c, v)) val\<rparr>))"

definition propagate_header_poll ::
  "('h, 'v, 'x) http_api \<Rightarrow> ('f, 'e + ('h, 'x, 'b) response) poll_fn \<Rightarrow>
     (('f, 'v) propagate_header_future, 'e + ('h, 'x, 'b) response) poll_fn" where
  "propagate_header_poll H poll w =
     (case poll (phf_future w) of
        (Pending, f) \<Rightarrow> (Pending, w\<lparr>phf_future := f\<rparr>)
      | (Ready (Inl e), f) \<Rightarrow> (Ready (Inl e), w\<lparr>phf_future := f\<rparr>)
      | (Ready (Inr res), f) \<Rightarrow>
          (case phf_header_and_value w of
             None \<Rightarrow> (Ready (Inr res), w\<lparr>phf_future := f\<rparr>)
           | Some (n, v) \<Rightarrow>
               (Ready (Inr (res\<lparr>res_headers := hm_insert H (res_headers res) n v\<rparr>)),
                w\<lparr>phf_future := f, phf_header_and_value := None\<rparr>)))"

definition propagate_header_out ::
  "('h, 'v, 'x) http_api \<Rightarrow> ('f, 'v) propagate_header_future \<Rightarrow>
     'e + ('h, 'x, 'b) response \<Rightarrow> 'e + ('h, 'x, 'b) response" where
  "propagate_header_out H w = map_result (\<lambda>res. case phf_header_and_value w of
     None \<Rightarrow> res | Some (n, v) \<Rightarrow> res\<lparr>res_headers := hm_insert H (res_headers res) n v\<rparr>)"

interpretation propagate_header:
  response_adaptor poll "propagate_header_poll H poll" phf_future "propagate_header_out H"
  for H poll
  by unfold_locales
    (auto simp: propagate_header_poll_def propagate_header_out_def
      split: prod.split poll.splits sum.splits option.splits)

section \<open>What the client sees\<close>

lemma set_status_out_eq:
  "set_status_out \<lparr>ssf_inner = f, ssf_status = Some n\<rparr> r =
     Inr (map_result (\<lambda>res. res\<lparr>res_status := n\<rparr>) r)"
  by (cases r) (auto simp: set_status_out_def)

text \<open>\<open>SetStatus\<close> answers when the inner service does, with its response and the configured status.\<close>

lemma set_status_run:
  "run_future (set_status_poll poll) n (snd (set_status_call inner_call c req)) =
     map_option (\<lambda>r. Inr (map_result (\<lambda>res. res\<lparr>res_status := ss_status c\<rparr>) r))
       (run_future poll n (snd (inner_call (ss_inner c) req)))"
  by (auto simp: set_status_call_def set_status.run_outer set_status_out_eq split: prod.split
      intro!: map_option_cong)

text \<open>
  \<open>PropagateHeader\<close> copies the first value of its header from the request to the response:
  the response then has exactly that value under the name, all its other headers are the inner ones,
  and a request without the header leaves the response as it was.
\<close>

lemma propagate_header_copies:
  assumes H: "header_map H"
    and run: "run_future (propagate_header_poll H poll) n (snd (propagate_header_call H inner_call c req)) =
      Some (Inr res')"
  shows "\<exists>res. run_future poll n (snd (inner_call (ph_inner c) req)) = Some (Inr res) \<and>
    res_status res' = res_status res \<and> res_body res' = res_body res \<and>
    (\<forall>m. hm_get_all H (res_headers res') m =
      (case hm_get H (req_headers req) (ph_header c) of
         Some v \<Rightarrow> if m = ph_header c then [v] else hm_get_all H (res_headers res) m
       | None \<Rightarrow> hm_get_all H (res_headers res) m))"
proof -
  obtain s f where sf: "inner_call (ph_inner c) req = (s, f)" by (rule prod.exhaust)
  let ?w = "\<lparr>phf_future = f, phf_header_and_value =
    map_option (\<lambda>v. (ph_header c, v)) (hm_get H (req_headers req) (ph_header c))\<rparr>"
  have "map_option (propagate_header_out H ?w) (run_future poll n f) = Some (Inr res')"
    using run sf by (simp add: propagate_header_call_def propagate_header.run_outer)
  then obtain res where "run_future poll n f = Some (Inr res)"
    and "res' = (case hm_get H (req_headers req) (ph_header c) of None \<Rightarrow> res
      | Some v \<Rightarrow> res\<lparr>res_headers := hm_insert H (res_headers res) (ph_header c) v\<rparr>)"
    by (cases "hm_get H (req_headers req) (ph_header c)")
      (auto simp: propagate_header_out_def map_result_eq_Inr)
  with sf show ?thesis
    by (auto simp: header_map.get_all_insert [OF H] split: option.split)
qed

end
