(* ===== verification/Request_Id.thy ===== *)
theory Request_Id
  imports Service
begin

text \<open>
  \<open>request_id.rs\<close>: setting and propagating request ids.  The id of a message is kept twice, in a
  header and as an extension of type \<open>RequestId\<close>; \<open>E\<close> is that slot of the extension map.  The maker
  is its state with a function; \<open>make_request_uuid\<close> takes its random source as an argument.
\<close>

record 'v request_id =
  rid_header_value :: 'v

definition request_id_new :: "'v \<Rightarrow> 'v request_id" where
  "request_id_new v = \<lparr>rid_header_value = v\<rparr>"

definition into_header_value :: "'v request_id \<Rightarrow> 'v" where
  "into_header_value i = rid_header_value i"

definition request_id_from :: "'v \<Rightarrow> 'v request_id" where
  "request_id_from v = request_id_new v"

definition X_REQUEST_ID :: string where
  "X_REQUEST_ID = ''x-request-id''"

record ('x, 'a) ext_slot =
  ext_get :: "'x \<Rightarrow> 'a option"
  ext_insert :: "'a \<Rightarrow> 'x \<Rightarrow> 'x"

locale extension_slot =
  fixes E :: "('x, 'a) ext_slot"
  assumes get_insert: "ext_get E (ext_insert E a x) = Some a"

definition option_slot :: "('a option, 'a) ext_slot" where
  "option_slot = \<lparr>ext_get = (\<lambda>x. x), ext_insert = (\<lambda>a x. Some a)\<rparr>"

lemma extension_slot_option: "extension_slot option_slot"
  by unfold_locales (simp add: option_slot_def)

interpretation option_slot: extension_slot option_slot
  by (rule extension_slot_option)

type_synonym ('m, 'q, 'v) make_request_id = "'m \<Rightarrow> 'q \<Rightarrow> 'v request_id option \<times> 'm"

text \<open>\<open>new_v4\<close> draws the text of a UUID, which always parses as a header value (\<open>unwrap\<close>).\<close>

definition make_request_uuid ::
  "('m \<Rightarrow> string \<times> 'm) \<Rightarrow> (string \<Rightarrow> 'v option) \<Rightarrow> 'm \<Rightarrow> 'q \<Rightarrow> ('v request_id option \<times> 'm) panics" where
  "make_request_uuid new_v4 parse m req =
     (case new_v4 m of
        (s, m') \<Rightarrow> (case parse s of
           None \<Rightarrow> Inl ''called `Result::unwrap()` on an `Err` value''
         | Some v \<Rightarrow> Inr (Some (request_id_new v), m')))"

section \<open>Setting\<close>

record 'm set_request_id_layer =
  sil_header_name :: string
  sil_make_request_id :: 'm

definition set_request_id_layer_new :: "string \<Rightarrow> 'm \<Rightarrow> 'm set_request_id_layer" where
  "set_request_id_layer_new n m = \<lparr>sil_header_name = n, sil_make_request_id = m\<rparr>"

definition set_request_id_layer_x_request_id :: "'m \<Rightarrow> 'm set_request_id_layer" where
  "set_request_id_layer_x_request_id m = set_request_id_layer_new X_REQUEST_ID m"

record ('s, 'm) set_request_id =
  si_inner :: 's
  si_header_name :: string
  si_make_request_id :: 'm

definition set_request_id_new :: "'s \<Rightarrow> string \<Rightarrow> 'm \<Rightarrow> ('s, 'm) set_request_id" where
  "set_request_id_new s n m = \<lparr>si_inner = s, si_header_name = n, si_make_request_id = m\<rparr>"

definition set_request_id_x_request_id :: "'s \<Rightarrow> 'm \<Rightarrow> ('s, 'm) set_request_id" where
  "set_request_id_x_request_id s m = set_request_id_new s X_REQUEST_ID m"

definition set_request_id_layer_apply :: "'m set_request_id_layer \<Rightarrow> 's \<Rightarrow> ('s, 'm) set_request_id" where
  "set_request_id_layer_apply l s = set_request_id_new s (sil_header_name l) (sil_make_request_id l)"

definition set_request_id_call ::
  "('h, 'v, 'x) http_api \<Rightarrow> ('x, 'v request_id) ext_slot \<Rightarrow>
     ('m, ('h, 'u, 'x, 'b) request, 'v) make_request_id \<Rightarrow>
     ('s, ('h, 'u, 'x, 'b) request, 'f) service_fn \<Rightarrow>
     (('s, 'm) set_request_id, ('h, 'u, 'x, 'b) request, 'f) service_fn" where
  "set_request_id_call H E mk inner_call c req =
     (let (req', m) =
        (case hm_get H (req_headers req) (si_header_name c) of
           Some v \<Rightarrow>
             (if ext_get E (req_extensions req) = None
              then (req\<lparr>req_extensions := ext_insert E (request_id_new v) (req_extensions req)\<rparr>,
                    si_make_request_id c)
              else (req, si_make_request_id c))
         | None \<Rightarrow>
             (case mk (si_make_request_id c) req of
                (Some i, m) \<Rightarrow>
                  (req\<lparr>req_extensions := ext_insert E i (req_extensions req),
                       req_headers := hm_insert H (req_headers req) (si_header_name c) (rid_header_value i)\<rparr>, m)
              | (None, m) \<Rightarrow> (req, m)))
      in case inner_call (si_inner c) req' of
           (s, f) \<Rightarrow> (c\<lparr>si_inner := s, si_make_request_id := m\<rparr>, f))"

section \<open>Propagating\<close>

record propagate_request_id_layer =
  pil_header_name :: string

definition propagate_request_id_layer_new :: "string \<Rightarrow> propagate_request_id_layer" where
  "propagate_request_id_layer_new n = \<lparr>pil_header_name = n\<rparr>"

definition propagate_request_id_layer_x_request_id :: propagate_request_id_layer where
  "propagate_request_id_layer_x_request_id = propagate_request_id_layer_new X_REQUEST_ID"

record 's propagate_request_id =
  pi_inner :: 's
  pi_header_name :: string

definition propagate_request_id_new :: "'s \<Rightarrow> string \<Rightarrow> 's propagate_request_id" where
  "propagate_request_id_new s n = \<lparr>pi_inner = s, pi_header_name = n\<rparr>"

definition propagate_request_id_x_request_id :: "'s \<Rightarrow> 's propagate_request_id" where
  "propagate_request_id_x_request_id s = propagate_request_id_new s X_REQUEST_ID"

definition propagate_request_id_layer_apply :: "propagate_request_id_layer \<Rightarrow> 's \<Rightarrow> 's propagate_request_id" where
  "propagate_request_id_layer_apply l s = propagate_request_id_new s (pil_header_name l)"

record ('f, 'v) propagate_request_id_future =
  pif_inner :: 'f
  pif_header_name :: string
  pif_request_id :: "'v request_id option"

definition propagate_request_id_call ::
  "('h, 'v, 'x) http_api \<Rightarrow> ('s, ('h, 'u, 'x, 'b) request, 'f) service_fn \<Rightarrow>
     ('s propagate_request_id, ('h, 'u, 'x, 'b) request, ('f, 'v) propagate_request_id_future) service_fn" where
  "propagate_request_id_call H inner_call c req =
     (let i = map_option request_id_new (hm_get H (req_headers req) (pi_header_name c))
      in case inner_call (pi_inner c) req of
           (s, f) \<Rightarrow> (c\<lparr>pi_inner := s\<rparr>,
             \<lparr>pif_inner = f, pif_header_name = pi_header_name c, pif_request_id = i\<rparr>))"

definition propagate_request_id_poll ::
  "('h, 'v, 'x) http_api \<Rightarrow> ('x, 'v request_id) ext_slot \<Rightarrow> ('f, 'e + ('h, 'x, 'b) response) poll_fn \<Rightarrow>
     (('f, 'v) propagate_request_id_future, 'e + ('h, 'x, 'b) response) poll_fn" where
  "propagate_request_id_poll H E poll w =
     (case poll (pif_inner w) of
        (Pending, f) \<Rightarrow> (Pending, w\<lparr>pif_inner := f\<rparr>)
      | (Ready (Inl e), f) \<Rightarrow> (Ready (Inl e), w\<lparr>pif_inner := f\<rparr>)
      | (Ready (Inr res), f) \<Rightarrow>
          (case hm_get H (res_headers res) (pif_header_name w) of
             Some v \<Rightarrow>
               (if ext_get E (res_extensions res) = None
                then (Ready (Inr (res\<lparr>res_extensions :=
                        ext_insert E (request_id_new v) (res_extensions res)\<rparr>)), w\<lparr>pif_inner := f\<rparr>)
                else (Ready (Inr res), w\<lparr>pif_inner := f\<rparr>))
           | None \<Rightarrow>
               (case pif_request_id w of
                  None \<Rightarrow> (Ready (Inr res), w\<lparr>pif_inner := f\<rparr>)
                | Some i \<Rightarrow>
                    (Ready (Inr (res\<lparr>res_headers :=
                         hm_insert H (res_headers res) (pif_header_name w) (rid_header_value i),
                       res_extensions := ext_insert E i (res_extensions res)\<rparr>)),
                     w\<lparr>pif_inner := f, pif_request_id := None\<rparr>))))"

definition propagated ::
  "('h, 'v, 'x) http_api \<Rightarrow> ('x, 'v request_id) ext_slot \<Rightarrow> string \<Rightarrow> 'v request_id option \<Rightarrow>
     ('h, 'x, 'b) response \<Rightarrow> ('h, 'x, 'b) response" where
  "propagated H E n i res =
     (case hm_get H (res_headers res) n of
        Some v \<Rightarrow> (if ext_get E (res_extensions res) = None
          then res\<lparr>res_extensions := ext_insert E (request_id_new v) (res_extensions res)\<rparr> else res)
      | None \<Rightarrow> (case i of None \<Rightarrow> res
          | Some i \<Rightarrow> res\<lparr>res_headers := hm_insert H (res_headers res) n (rid_header_value i),
              res_extensions := ext_insert E i (res_extensions res)\<rparr>))"

definition propagate_request_id_out ::
  "('h, 'v, 'x) http_api \<Rightarrow> ('x, 'v request_id) ext_slot \<Rightarrow> ('f, 'v) propagate_request_id_future \<Rightarrow>
     'e + ('h, 'x, 'b) response \<Rightarrow> 'e + ('h, 'x, 'b) response" where
  "propagate_request_id_out H E w = map_result (propagated H E (pif_header_name w) (pif_request_id w))"

lemma propagated_id:
  assumes H: "header_map H" and E: "extension_slot E"
  shows "hm_get H (res_headers (propagated H E n (map_option request_id_new rid) res)) n =
      (case hm_get H (res_headers res) n of Some v \<Rightarrow> Some v | None \<Rightarrow> rid)"
    and "ext_get E (res_extensions res) = None \<Longrightarrow>
      ext_get E (res_extensions (propagated H E n (map_option request_id_new rid) res)) =
      map_option request_id_new (hm_get H (res_headers (propagated H E n (map_option request_id_new rid) res)) n)"
  by (auto simp: propagated_def request_id_new_def extension_slot.get_insert [OF E]
      header_map.get_insert [OF H] split: option.split)

interpretation propagate_request_id:
  response_adaptor poll "propagate_request_id_poll H E poll" pif_inner "propagate_request_id_out H E"
  for H E poll
  by unfold_locales
    (auto simp: propagate_request_id_poll_def propagate_request_id_out_def propagated_def
      split: prod.split poll.splits sum.splits option.split)

section \<open>The id of a request reaches the response\<close>

lemma set_request_id_request:
  assumes H: "header_map H" and E: "extension_slot E"
    and call: "set_request_id_call H E mk inner_call c req = (c', f)"
  obtains req' where "inner_call (si_inner c) req' = (si_inner c', f)"
    "hm_get H (req_headers req') (si_header_name c) =
      (case hm_get H (req_headers req) (si_header_name c) of
         Some v \<Rightarrow> Some v
       | None \<Rightarrow> map_option rid_header_value (fst (mk (si_make_request_id c) req)))"
    "ext_get E (req_extensions req) = None \<Longrightarrow>
      ext_get E (req_extensions req') =
        map_option request_id_new (hm_get H (req_headers req') (si_header_name c))"
proof (cases "hm_get H (req_headers req) (si_header_name c)")
  case (Some v)
  let ?req' = "if ext_get E (req_extensions req) = None
    then req\<lparr>req_extensions := ext_insert E (request_id_new v) (req_extensions req)\<rparr> else req"
  show ?thesis
  proof (rule that [of ?req'])
    show "inner_call (si_inner c) ?req' = (si_inner c', f)"
      using call Some by (auto simp: set_request_id_call_def split: prod.splits if_splits)
  qed (use Some extension_slot.get_insert [OF E] in auto)
next
  case None
  obtain o' m where mk: "mk (si_make_request_id c) req = (o', m)" by (rule prod.exhaust)
  let ?req' = "case o' of None \<Rightarrow> req
    | Some i \<Rightarrow> req\<lparr>req_extensions := ext_insert E i (req_extensions req),
       req_headers := hm_insert H (req_headers req) (si_header_name c) (rid_header_value i)\<rparr>"
  show ?thesis
  proof (rule that [of ?req'])
    show "inner_call (si_inner c) ?req' = (si_inner c', f)"
      using call None mk by (auto simp: set_request_id_call_def split: prod.splits option.splits)
  qed (use None mk extension_slot.get_insert [OF E] header_map.get_insert [OF H] in
      \<open>auto simp: request_id_new_def split: option.split\<close>)
qed

text \<open>
  Claim C35. The request id comes back: with \<open>SetRequestId\<close> around \<open>PropagateRequestId\<close> on the same
  header, the id is the one the request came with or else the one the maker gives; the response has
  it as its header unless the inner service set that header itself, and a response whose extension was
  not set gets the extension that equals its header.
\<close>

theorem request_id_roundtrip:
  assumes H: "header_map H" and E: "extension_slot E"
    and call: "set_request_id_call H E mk (propagate_request_id_call H inner_call)
      (set_request_id_new (propagate_request_id_new s n) n m) req = (c', w)"
    and run: "run_future (propagate_request_id_poll H E poll) k w = Some (Inr res')"
    and rid: "rid = (case hm_get H (req_headers req) n of
        Some v \<Rightarrow> Some v | None \<Rightarrow> map_option rid_header_value (fst (mk m req)))"
  shows "\<exists>req' res. run_future poll k (snd (inner_call s req')) = Some (Inr res) \<and>
    hm_get H (req_headers req') n = rid \<and>
    hm_get H (res_headers res') n = (case hm_get H (res_headers res) n of Some v \<Rightarrow> Some v | None \<Rightarrow> rid) \<and>
    (ext_get E (res_extensions res) = None \<longrightarrow>
      ext_get E (res_extensions res') = map_option request_id_new (hm_get H (res_headers res') n))"
proof -
  let ?c = "set_request_id_new (propagate_request_id_new s n) n m"
  have c: "si_inner ?c = propagate_request_id_new s n" "si_header_name ?c = n" "si_make_request_id ?c = m"
    by (simp_all add: set_request_id_new_def)
  obtain req' where inner: "propagate_request_id_call H inner_call (si_inner ?c) req' = (si_inner c', w)"
    and hdr: "hm_get H (req_headers req') (si_header_name ?c) =
      (case hm_get H (req_headers req) (si_header_name ?c) of Some v \<Rightarrow> Some v
       | None \<Rightarrow> map_option rid_header_value (fst (mk (si_make_request_id ?c) req)))"
    by (rule set_request_id_request [OF H E call])
  have req': "propagate_request_id_call H inner_call (propagate_request_id_new s n) req' = (si_inner c', w)"
    "hm_get H (req_headers req') n = rid"
    using inner hdr unfolding c rid by simp_all
  obtain s' f where sf: "inner_call s req' = (s', f)" by (rule prod.exhaust)
  have w: "w = \<lparr>pif_inner = f, pif_header_name = n, pif_request_id = map_option request_id_new rid\<rparr>"
    using req' sf by (auto simp: propagate_request_id_call_def propagate_request_id_new_def)
  have "map_option (map_result (propagated H E n (map_option request_id_new rid))) (run_future poll k f) =
      Some (Inr res')"
    using run by (simp add: w propagate_request_id.run_outer propagate_request_id_out_def)
  then obtain res where "run_future poll k f = Some (Inr res)"
    and "res' = propagated H E n (map_option request_id_new rid) res"
    by (auto simp: map_result_eq_Inr)
  with sf req'(2) propagated_id(1) [OF H E, of n rid res] propagated_id(2) [OF H E, of res n rid]
  show ?thesis by (intro exI [of _ req'] exI [of _ res]) simp
qed

definition rid_request :: "((string \<times> string) list, unit, string request_id option, unit) request" where
  "rid_request = \<lparr>req_method = ''GET'', req_uri = (), req_version = ''HTTP/1.1'',
     req_headers = [], req_extensions = None, req_body = ()\<rparr>"

definition rid_make :: "nat \<Rightarrow> ((string \<times> string) list, unit, string request_id option, unit) request \<Rightarrow>
    string request_id option \<times> nat" where
  "rid_make m r = (Some (request_id_new (replicate m CHR ''7'')), m + 1)"

definition rid_inner :: "unit \<Rightarrow> ((string \<times> string) list, unit, string request_id option, unit) request \<Rightarrow>
    unit \<times> nat \<times> (unit + ((string \<times> string) list, string request_id option, unit) response)" where
  "rid_inner s r = (s, (0, Inr (response_new (list_http None) ())))"

lemma request_id_roundtrip_witness:
  "hm_get (list_http (None :: string request_id option)) [(''x-request-id'', ''77'')] ''x-request-id'' = Some ''77''"
proof -
  let ?H = "list_http (None :: string request_id option)"
  let ?c = "set_request_id_new (propagate_request_id_new () X_REQUEST_ID) X_REQUEST_ID (2 :: nat)"
  let ?r = "set_request_id_call ?H option_slot rid_make (propagate_request_id_call ?H rid_inner) ?c rid_request"
  let ?id = "request_id_new ''77''"
  let ?w = "\<lparr>pif_inner = (0, Inr (response_new ?H ())), pif_header_name = X_REQUEST_ID, pif_request_id = Some ?id\<rparr>"
  let ?c' = "set_request_id_new (propagate_request_id_new () X_REQUEST_ID) X_REQUEST_ID 3"
  let ?res' = "(response_new ?H ())\<lparr>res_headers := [(X_REQUEST_ID, ''77'')], res_extensions := Some ?id\<rparr>"
  have call: "?r = (?c', ?w)" by code_simp
  have run: "run_future (propagate_request_id_poll ?H option_slot ready_after) 1 ?w = Some (Inr ?res' :: unit + _)"
    by code_simp
  have rid: "Some ''77'' = (case hm_get ?H (req_headers rid_request) X_REQUEST_ID of Some v \<Rightarrow> Some v
      | None \<Rightarrow> map_option rid_header_value (fst (rid_make 2 rid_request)))"
    by code_simp
  have inner: "run_future ready_after 1 (snd (rid_inner () q)) = Some (Inr (response_new ?H ()))" for q
    by (simp add: rid_inner_def)
  have "hm_get ?H (res_headers ((response_new ?H ()) :: ((string \<times> string) list, string request_id option, unit) response)) X_REQUEST_ID = None"
    by code_simp
  with request_id_roundtrip [OF header_map_list_http extension_slot_option call run rid] inner
  show ?thesis by (auto simp: X_REQUEST_ID_def)
qed

end
