(* ===== verification/Classify.thy ===== *)
theory Classify
  imports Service
begin

unbundle bit_operations_syntax

text \<open>
  \<open>classify/\<close>: classifiers decide whether a response, or the end of its stream, is a failure.  The
  traits are records of their functions.  Error values are shown by the argument \<open>display\<close>; the
  percent-decoding of \<open>grpc-message\<close> is the argument \<open>decode\<close>.  gRPC codes, their bit mask in a
  32-bit word, and the three classifiers of the crate.
\<close>

section \<open>The traits\<close>

datatype ('fc, 'ce) classified_response = ClassReady "'fc + unit" | RequiresEos 'ce

record ('c, 'r, 'err, 'fc, 'ce) classify_response_api =
  cr_classify_response :: "'c \<Rightarrow> 'r \<Rightarrow> ('fc, 'ce) classified_response"
  cr_classify_error :: "'c \<Rightarrow> 'err \<Rightarrow> 'fc"

record ('ce, 't, 'err, 'fc) classify_eos_api =
  ce_classify_eos :: "'ce \<Rightarrow> 't option \<Rightarrow> 'fc + unit"
  ce_classify_error :: "'ce \<Rightarrow> 'err \<Rightarrow> 'fc"

type_synonym ('m, 'q, 'c) make_classifier = "'m \<Rightarrow> 'q \<Rightarrow> 'c"

record 'c shared_classifier =
  sc_classifier :: 'c

definition shared_classifier_new :: "'c \<Rightarrow> 'c shared_classifier" where
  "shared_classifier_new c = \<lparr>sc_classifier = c\<rparr>"

definition shared_make_classifier :: "('c shared_classifier, 'q, 'c) make_classifier" where
  "shared_make_classifier m req = sc_classifier m"

section \<open>Mapping the failure class\<close>

record ('c, 'fc, 'nc) map_failure_class =
  mfc_inner :: 'c
  mfc_f :: "'fc \<Rightarrow> 'nc"

definition map_failure_class_new :: "'c \<Rightarrow> ('fc \<Rightarrow> 'nc) \<Rightarrow> ('c, 'fc, 'nc) map_failure_class" where
  "map_failure_class_new c g = \<lparr>mfc_inner = c, mfc_f = g\<rparr>"

fun map_err :: "('e \<Rightarrow> 'd) \<Rightarrow> 'e + 'a \<Rightarrow> 'd + 'a" where
  "map_err g (Inl e) = Inl (g e)"
| "map_err g (Inr a) = Inr a"

definition map_failure_class_response ::
  "('c, 'r, 'err, 'fc, 'ce) classify_response_api \<Rightarrow>
     (('c, 'fc, 'nc) map_failure_class, 'r, 'err, 'nc, ('ce, 'fc, 'nc) map_failure_class) classify_response_api" where
  "map_failure_class_response C =
     \<lparr>cr_classify_response = (\<lambda>m res.
        case cr_classify_response C (mfc_inner m) res of
          ClassReady r \<Rightarrow> ClassReady (map_err (mfc_f m) r)
        | RequiresEos eos \<Rightarrow> RequiresEos (map_failure_class_new eos (mfc_f m))),
      cr_classify_error = (\<lambda>m err. mfc_f m (cr_classify_error C (mfc_inner m) err))\<rparr>"

definition map_failure_class_eos ::
  "('ce, 't, 'err, 'fc) classify_eos_api \<Rightarrow>
     (('ce, 'fc, 'nc) map_failure_class, 't, 'err, 'nc) classify_eos_api" where
  "map_failure_class_eos C =
     \<lparr>ce_classify_eos = (\<lambda>m trailers. map_err (mfc_f m) (ce_classify_eos C (mfc_inner m) trailers)),
      ce_classify_error = (\<lambda>m err. mfc_f m (ce_classify_error C (mfc_inner m) err))\<rparr>"

section \<open>Server errors and status ranges\<close>

datatype status_failure_class = StatusCodeFailure nat | ErrorFailure string

definition server_errors_classify ::
  "(string \<Rightarrow> string) \<Rightarrow> (unit, ('h, 'x, 'b) response, string, status_failure_class, 'ce) classify_response_api" where
  "server_errors_classify display =
     \<lparr>cr_classify_response = (\<lambda>_ res.
        if 500 \<le> res_status res \<and> res_status res \<le> 599
        then ClassReady (Inl (StatusCodeFailure (res_status res))) else ClassReady (Inr ())),
      cr_classify_error = (\<lambda>_ err. ErrorFailure (display err))\<rparr>"

definition server_errors_make_classifier :: "unit shared_classifier" where
  "server_errors_make_classifier = shared_classifier_new ()"

record status_in_range =
  sr_start :: nat
  sr_end :: nat

text \<open>\<open>StatusCode::from_u16\<close> accepts 100 to 999.\<close>

definition valid_status :: "nat \<Rightarrow> bool" where
  "valid_status n = (100 \<le> n \<and> n \<le> 999)"

definition status_in_range_new :: "nat \<Rightarrow> nat \<Rightarrow> status_in_range panics" where
  "status_in_range_new a b =
     (if \<not> valid_status a then Inl ''range start isn't a valid status code''
      else if \<not> valid_status b then Inl ''range end isn't a valid status code''
      else Inr \<lparr>sr_start = a, sr_end = b\<rparr>)"

definition status_in_range_client_and_server_errors :: "status_in_range panics" where
  "status_in_range_client_and_server_errors = status_in_range_new 400 599"

definition status_in_range_into_make_classifier :: "status_in_range \<Rightarrow> status_in_range shared_classifier" where
  "status_in_range_into_make_classifier r = shared_classifier_new r"

definition status_in_range_classify ::
  "(string \<Rightarrow> string) \<Rightarrow>
     (status_in_range, ('h, 'x, 'b) response, string, status_failure_class, 'ce) classify_response_api" where
  "status_in_range_classify display =
     \<lparr>cr_classify_response = (\<lambda>r res.
        if sr_start r \<le> res_status res \<and> res_status res \<le> sr_end r
        then ClassReady (Inl (StatusCodeFailure (res_status res))) else ClassReady (Inr ())),
      cr_classify_error = (\<lambda>_ err. ErrorFailure (display err))\<rparr>"

section \<open>gRPC codes\<close>

datatype grpc_code =
  GrpcOk
| GrpcCancelled
| GrpcUnknown
| GrpcInvalidArgument
| GrpcDeadlineExceeded
| GrpcNotFound
| GrpcAlreadyExists
| GrpcPermissionDenied
| GrpcResourceExhausted
| GrpcFailedPrecondition
| GrpcAborted
| GrpcOutOfRange
| GrpcUnimplemented
| GrpcInternal
| GrpcUnavailable
| GrpcDataLoss
| GrpcUnauthenticated

type_synonym bitmask = "32 word"

definition into_bitmask :: "grpc_code \<Rightarrow> bitmask" where
  "into_bitmask c = (case c of
     GrpcOk \<Rightarrow> 1
   | GrpcCancelled \<Rightarrow> 2
   | GrpcUnknown \<Rightarrow> 4
   | GrpcInvalidArgument \<Rightarrow> 8
   | GrpcDeadlineExceeded \<Rightarrow> 16
   | GrpcNotFound \<Rightarrow> 32
   | GrpcAlreadyExists \<Rightarrow> 64
   | GrpcPermissionDenied \<Rightarrow> 128
   | GrpcResourceExhausted \<Rightarrow> 256
   | GrpcFailedPrecondition \<Rightarrow> 512
   | GrpcAborted \<Rightarrow> 1024
   | GrpcOutOfRange \<Rightarrow> 2048
   | GrpcUnimplemented \<Rightarrow> 4096
   | GrpcInternal \<Rightarrow> 8192
   | GrpcUnavailable \<Rightarrow> 16384
   | GrpcDataLoss \<Rightarrow> 32768
   | GrpcUnauthenticated \<Rightarrow> 65536)"

definition bitmask_from :: "grpc_code \<Rightarrow> bitmask" where
  "bitmask_from c = (case c of
     GrpcOk \<Rightarrow> 1
   | GrpcCancelled \<Rightarrow> 2
   | GrpcUnknown \<Rightarrow> 4
   | GrpcInvalidArgument \<Rightarrow> 8
   | GrpcDeadlineExceeded \<Rightarrow> 16
   | GrpcNotFound \<Rightarrow> 32
   | GrpcAlreadyExists \<Rightarrow> 64
   | GrpcPermissionDenied \<Rightarrow> 128
   | GrpcResourceExhausted \<Rightarrow> 256
   | GrpcFailedPrecondition \<Rightarrow> 512
   | GrpcAborted \<Rightarrow> 1024
   | GrpcOutOfRange \<Rightarrow> 2048
   | GrpcUnimplemented \<Rightarrow> 4096
   | GrpcInternal \<Rightarrow> 8192
   | GrpcUnavailable \<Rightarrow> 16384
   | GrpcDataLoss \<Rightarrow> 32768
   | GrpcUnauthenticated \<Rightarrow> 65536)"

definition bitmask_contains :: "bitmask \<Rightarrow> bitmask \<Rightarrow> bool" where
  "bitmask_contains a b = (a AND b = b)"

definition grpc_from_i32 :: "int \<Rightarrow> grpc_code option" where
  "grpc_from_i32 code =
     (if code = 0 then Some GrpcOk
      else if code = 1 then Some GrpcCancelled
      else if code = 2 then Some GrpcUnknown
      else if code = 3 then Some GrpcInvalidArgument
      else if code = 4 then Some GrpcDeadlineExceeded
      else if code = 5 then Some GrpcNotFound
      else if code = 6 then Some GrpcAlreadyExists
      else if code = 7 then Some GrpcPermissionDenied
      else if code = 8 then Some GrpcResourceExhausted
      else if code = 9 then Some GrpcFailedPrecondition
      else if code = 10 then Some GrpcAborted
      else if code = 11 then Some GrpcOutOfRange
      else if code = 12 then Some GrpcUnimplemented
      else if code = 13 then Some GrpcInternal
      else if code = 14 then Some GrpcUnavailable
      else if code = 15 then Some GrpcDataLoss
      else if code = 16 then Some GrpcUnauthenticated
      else None)"

text \<open>The public conversion gives \<open>Unknown\<close> for other numbers.\<close>

definition grpc_code_from :: "int \<Rightarrow> grpc_code" where
  "grpc_code_from code =
     (if code = 0 then GrpcOk
      else if code = 1 then GrpcCancelled
      else if code = 2 then GrpcUnknown
      else if code = 3 then GrpcInvalidArgument
      else if code = 4 then GrpcDeadlineExceeded
      else if code = 5 then GrpcNotFound
      else if code = 6 then GrpcAlreadyExists
      else if code = 7 then GrpcPermissionDenied
      else if code = 8 then GrpcResourceExhausted
      else if code = 9 then GrpcFailedPrecondition
      else if code = 10 then GrpcAborted
      else if code = 11 then GrpcOutOfRange
      else if code = 12 then GrpcUnimplemented
      else if code = 13 then GrpcInternal
      else if code = 14 then GrpcUnavailable
      else if code = 15 then GrpcDataLoss
      else if code = 16 then GrpcUnauthenticated
      else GrpcUnknown)"

definition grpc_code_number :: "grpc_code \<Rightarrow> int" where
  "grpc_code_number c = (case c of
     GrpcOk \<Rightarrow> 0
   | GrpcCancelled \<Rightarrow> 1
   | GrpcUnknown \<Rightarrow> 2
   | GrpcInvalidArgument \<Rightarrow> 3
   | GrpcDeadlineExceeded \<Rightarrow> 4
   | GrpcNotFound \<Rightarrow> 5
   | GrpcAlreadyExists \<Rightarrow> 6
   | GrpcPermissionDenied \<Rightarrow> 7
   | GrpcResourceExhausted \<Rightarrow> 8
   | GrpcFailedPrecondition \<Rightarrow> 9
   | GrpcAborted \<Rightarrow> 10
   | GrpcOutOfRange \<Rightarrow> 11
   | GrpcUnimplemented \<Rightarrow> 12
   | GrpcInternal \<Rightarrow> 13
   | GrpcUnavailable \<Rightarrow> 14
   | GrpcDataLoss \<Rightarrow> 15
   | GrpcUnauthenticated \<Rightarrow> 16)"

lemma grpc_from_number [simp]: "grpc_from_i32 (grpc_code_number c) = Some c"
  by (cases c) (simp_all add: grpc_from_i32_def grpc_code_number_def)

lemma grpc_from_i32_Some: "grpc_from_i32 n = Some c \<Longrightarrow> n = grpc_code_number c"
  by (auto simp: grpc_from_i32_def grpc_code_number_def split: if_splits)

lemma bitmask_from_eq [simp]: "bitmask_from c = into_bitmask c"
  by (cases c) (simp_all add: bitmask_from_def into_bitmask_def)

text \<open>A mask is the set of its codes; the mask of a code is its bit.\<close>

lemma into_bitmask_bit: "into_bitmask c = push_bit (nat (grpc_code_number c)) 1"
  by (cases c) (simp_all add: into_bitmask_def grpc_code_number_def push_bit_eq_mult)

lemma grpc_code_number_range: "0 \<le> grpc_code_number c \<and> grpc_code_number c \<le> 16"
  by (cases c) (simp_all add: grpc_code_number_def)

lemma grpc_code_number_inj: "grpc_code_number c = grpc_code_number d \<longleftrightarrow> c = d"
  by (metis grpc_from_number option.inject)

lemma bit_into_bitmask: "bit (into_bitmask c) k \<longleftrightarrow> k = nat (grpc_code_number c)"
proof -
  have "nat (grpc_code_number c) < 32"
    using grpc_code_number_range [of c] by (simp add: nat_less_iff)
  then show ?thesis
    unfolding into_bitmask_bit
    by (auto simp: bit_push_bit_iff bit_1_iff simp del: push_bit_of_1)
qed

lemma bitmask_contains_bit:
  "bitmask_contains m (into_bitmask c) \<longleftrightarrow> bit m (nat (grpc_code_number c))"
proof -
  have "nat (grpc_code_number c) < 32"
    using grpc_code_number_range [of c] by (simp add: nat_less_iff)
  then show ?thesis
    using bit_eq_iff [of "m AND into_bitmask c" "into_bitmask c"]
    by (auto simp: bitmask_contains_def bit_and_iff bit_into_bitmask)
qed

section \<open>Classifying gRPC responses\<close>

record grpc_errors_as_failures =
  ge_success_codes :: bitmask

definition grpc_errors_new :: grpc_errors_as_failures where
  "grpc_errors_new = \<lparr>ge_success_codes = into_bitmask GrpcOk\<rparr>"

definition grpc_errors_default :: grpc_errors_as_failures where
  "grpc_errors_default = grpc_errors_new"

definition grpc_errors_with_success :: "grpc_errors_as_failures \<Rightarrow> grpc_code \<Rightarrow> grpc_errors_as_failures" where
  "grpc_errors_with_success g c = g\<lparr>ge_success_codes := ge_success_codes g OR into_bitmask c\<rparr>"

definition grpc_make_classifier :: "grpc_errors_as_failures shared_classifier" where
  "grpc_make_classifier = shared_classifier_new grpc_errors_new"

record grpc_status =
  gs_code :: "grpc_code option"
  gs_code_raw :: int
  gs_message :: "string option"

datatype parsed_grpc_status =
  GrpcSuccess | GrpcNonSuccess grpc_status | GrpcStatusHeaderMissing | HeaderNotGrpcCode

datatype grpc_failure_class = GrpcStatusFailure grpc_status | GrpcErrorFailure string

record grpc_eos_errors_as_failures =
  geo_success_codes :: bitmask

text \<open>\<open>str::parse::<i32>\<close>: an optional sign, digits, an error outside the range of the type.\<close>

definition parse_i32 :: "string \<Rightarrow> int option" where
  "parse_i32 s =
     (let (neg, ds) = (case s of
          [] \<Rightarrow> (False, [])
        | c # cs \<Rightarrow> if c = CHR ''-'' then (True, cs) else if c = CHR ''+'' then (False, cs) else (False, s));
          n = int (digits_val ds)
      in if ds = [] \<or> \<not> list_all is_digit ds then None
         else if neg then (if n \<le> 2147483648 then Some (- n) else None)
         else if n \<le> 2147483647 then Some n else None)"

definition classify_grpc_metadata ::
  "('h, 'v, 'x) http_api \<Rightarrow> ('v \<Rightarrow> string) \<Rightarrow> 'h \<Rightarrow> bitmask \<Rightarrow> parsed_grpc_status" where
  "classify_grpc_metadata H decode headers success_codes =
     (case hm_get H headers ''grpc-status'' of
        None \<Rightarrow> GrpcStatusHeaderMissing
      | Some code_header \<Rightarrow>
          (case Option.bind (to_str H code_header) parse_i32 of
             None \<Rightarrow> HeaderNotGrpcCode
           | Some code_value \<Rightarrow>
               (let code = grpc_from_i32 code_value;
                    success = (case code of
                      Some c \<Rightarrow> bitmask_contains success_codes (bitmask_from c) | None \<Rightarrow> False)
                in if success then GrpcSuccess
                   else GrpcNonSuccess \<lparr>gs_code = code, gs_code_raw = code_value,
                     gs_message = map_option decode (hm_get H headers ''grpc-message'')\<rparr>)))"

definition grpc_classify_response ::
  "('h, 'v, 'x) http_api \<Rightarrow> ('v \<Rightarrow> string) \<Rightarrow> (string \<Rightarrow> string) \<Rightarrow>
     (grpc_errors_as_failures, ('h, 'x, 'b) response, string, grpc_failure_class,
      grpc_eos_errors_as_failures) classify_response_api" where
  "grpc_classify_response H decode display =
     \<lparr>cr_classify_response = (\<lambda>g res.
        case classify_grpc_metadata H decode (res_headers res) (ge_success_codes g) of
          GrpcSuccess \<Rightarrow> ClassReady (Inr ())
        | HeaderNotGrpcCode \<Rightarrow> ClassReady (Inr ())
        | GrpcNonSuccess status \<Rightarrow> ClassReady (Inl (GrpcStatusFailure status))
        | GrpcStatusHeaderMissing \<Rightarrow> RequiresEos \<lparr>geo_success_codes = ge_success_codes g\<rparr>),
      cr_classify_error = (\<lambda>_ err. GrpcErrorFailure (display err))\<rparr>"

definition grpc_classify_eos ::
  "('h, 'v, 'x) http_api \<Rightarrow> ('v \<Rightarrow> string) \<Rightarrow> (string \<Rightarrow> string) \<Rightarrow>
     (grpc_eos_errors_as_failures, 'h, string, grpc_failure_class) classify_eos_api" where
  "grpc_classify_eos H decode display =
     \<lparr>ce_classify_eos = (\<lambda>g trailers.
        case trailers of
          Some t \<Rightarrow>
            (case classify_grpc_metadata H decode t (geo_success_codes g) of
               GrpcSuccess \<Rightarrow> Inr ()
             | GrpcStatusHeaderMissing \<Rightarrow> Inr ()
             | HeaderNotGrpcCode \<Rightarrow> Inr ()
             | GrpcNonSuccess status \<Rightarrow> Inl (GrpcStatusFailure status))
        | None \<Rightarrow> Inr ()),
      ce_classify_error = (\<lambda>_ err. GrpcErrorFailure (display err))\<rparr>"

section \<open>The classifier as a set of codes\<close>

text \<open>What a classifier promises: the set of codes it takes for success.\<close>

definition success_set :: "bitmask \<Rightarrow> grpc_code set" where
  "success_set m = {c. bitmask_contains m (into_bitmask c)}"

lemma success_set_ok: "success_set (into_bitmask GrpcOk) = {GrpcOk}"
proof -
  have "bitmask_contains (into_bitmask GrpcOk) (into_bitmask c) \<longleftrightarrow> c = GrpcOk" for c
    by (cases c) (simp_all add: bitmask_contains_def into_bitmask_def)
  then show ?thesis by (auto simp: success_set_def)
qed

lemma success_set_or: "success_set (m OR into_bitmask c) = insert c (success_set m)"
proof -
  have "nat (grpc_code_number d) = nat (grpc_code_number c) \<longleftrightarrow> d = c" for d
    using grpc_code_number_range [of c] grpc_code_number_range [of d] grpc_code_number_inj [of d c]
    by auto
  then show ?thesis
    by (auto simp: success_set_def bitmask_contains_bit bit_or_iff bit_into_bitmask)
qed

lemma success_set_foldl:
  "success_set (ge_success_codes (foldl grpc_errors_with_success g cs)) =
     success_set (ge_success_codes g) \<union> set cs"
  by (induction cs arbitrary: g) (auto simp: grpc_errors_with_success_def success_set_or)

text \<open>
  Claim C40. The gRPC classifier with the success codes \<open>cs\<close> implements the set \<open>insert GrpcOk cs\<close>: a
  response is a failure exactly when its \<open>grpc-status\<close> is a readable number that is not the number
  of a code in the set, a success when it is one or is unreadable, and it is left to the trailers when
  there is no \<open>grpc-status\<close>; the trailers are judged by the same set.
\<close>

theorem grpc_classifier_refines_set:
  assumes g: "g = foldl grpc_errors_with_success grpc_errors_new cs"
    and n: "n = Option.bind (hm_get H (res_headers res) ''grpc-status'')
      (\<lambda>v. Option.bind (to_str H v) parse_i32)"
  shows "case cr_classify_response (grpc_classify_response H decode display) g res of
      RequiresEos eos \<Rightarrow> hm_get H (res_headers res) ''grpc-status'' = None \<and>
        success_set (geo_success_codes eos) = insert GrpcOk (set cs)
    | ClassReady (Inr _) \<Rightarrow> hm_get H (res_headers res) ''grpc-status'' \<noteq> None \<and>
        (n = None \<or> n \<in> Some ` grpc_code_number ` insert GrpcOk (set cs))
    | ClassReady (Inl (GrpcStatusFailure status)) \<Rightarrow> n = Some (gs_code_raw status) \<and>
        gs_code_raw status \<notin> grpc_code_number ` insert GrpcOk (set cs)
    | ClassReady (Inl (GrpcErrorFailure e)) \<Rightarrow> False"
proof -
  have set: "success_set (ge_success_codes g) = insert GrpcOk (set cs)"
    by (simp add: g success_set_foldl grpc_errors_new_def success_set_ok)
  have contains: "bitmask_contains (ge_success_codes g) (into_bitmask c) \<longleftrightarrow> c \<in> insert GrpcOk (set cs)" for c
    using set by (auto simp: success_set_def)
  have number: "grpc_from_i32 k = Some c \<longleftrightarrow> k = grpc_code_number c" for k c
    using grpc_from_i32_Some by auto
  show ?thesis
  proof (cases "hm_get H (res_headers res) ''grpc-status''")
    case None
    with set show ?thesis
      by (simp add: grpc_classify_response_def classify_grpc_metadata_def)
  next
    case (Some v)
    show ?thesis
    proof (cases "Option.bind (to_str H v) parse_i32")
      case None
      with Some n show ?thesis
        by (simp add: grpc_classify_response_def classify_grpc_metadata_def)
    next
      case parsed: (Some k)
      show ?thesis
      proof (cases "k \<in> grpc_code_number ` insert GrpcOk (set cs)")
        case True
        then obtain c where "k = grpc_code_number c" "c \<in> insert GrpcOk (set cs)" by auto
        with Some parsed n contains [of c] show ?thesis
          by (auto simp: grpc_classify_response_def classify_grpc_metadata_def)
      next
        case False
        then have "(case grpc_from_i32 k of Some c \<Rightarrow> bitmask_contains (ge_success_codes g) (bitmask_from c)
            | None \<Rightarrow> False) = False"
          using contains number by (auto split: option.split)
        with Some parsed n False show ?thesis
          by (simp add: grpc_classify_response_def classify_grpc_metadata_def Let_def)
      qed
    qed
  qed
qed

definition grpc_example_response :: "((string \<times> string) list, unit, unit) response" where
  "grpc_example_response = \<lparr>res_status = 200, res_version = ''HTTP/2.0'',
     res_headers = [(''grpc-status'', ''5'')], res_extensions = (), res_body = ()\<rparr>"

lemma grpc_classifier_refines_set_witness:
  "cr_classify_response (grpc_classify_response (list_http ()) id id)
     (grpc_errors_with_success grpc_errors_new GrpcUnknown) grpc_example_response =
     ClassReady (Inl (GrpcStatusFailure \<lparr>gs_code = Some GrpcNotFound, gs_code_raw = 5, gs_message = None\<rparr>)) \<and>
   5 \<notin> grpc_code_number ` {GrpcOk, GrpcUnknown}"
proof -
  have c: "cr_classify_response (grpc_classify_response (list_http ()) id id)
     (grpc_errors_with_success grpc_errors_new GrpcUnknown) grpc_example_response =
     ClassReady (Inl (GrpcStatusFailure \<lparr>gs_code = Some GrpcNotFound, gs_code_raw = 5, gs_message = None\<rparr>))"
    by code_simp
  have g: "grpc_errors_with_success grpc_errors_new GrpcUnknown =
      foldl grpc_errors_with_success grpc_errors_new [GrpcUnknown]"
    by simp
  show ?thesis
    using grpc_classifier_refines_set [OF g refl, of "list_http ()" grpc_example_response id id] c
    by simp
qed

end
