(* ===== verification/Trace.thy ===== *)
theory Trace
  imports Classify
begin

text \<open>
  \<open>trace/\<close>: the tracing middleware.  Its callbacks are values of the user's types; calling one is an
  event in the list a call or poll returns, in the order of the calls, with the latency it is given.
  The clock is an argument: \<open>now\<close> is what \<open>Instant::now\<close> returns during that call or poll, and an
  elapsed time is the (saturating) difference.  Spans are values passed along; entering one has no
  effect here.
\<close>

type_synonym instant = nat

datatype ('q, 'r, 'd, 't, 'fc) trace_event =
  EvRequest 'q
| EvResponse 'r nat
| EvBodyChunk 'd nat
| EvEos "'t option" nat
| EvFailure 'fc nat

section \<open>Levels and default callbacks\<close>

datatype level = LvlError | LvlWarn | LvlInfo | LvlDebug | LvlTrace

datatype latency_unit = Seconds | Millis | Micros | Nanos

definition DEFAULT_MESSAGE_LEVEL :: level where
  "DEFAULT_MESSAGE_LEVEL = LvlDebug"

definition DEFAULT_ERROR_LEVEL :: level where
  "DEFAULT_ERROR_LEVEL = LvlError"

record default_make_span =
  dms_level :: level
  dms_include_headers :: bool

definition default_make_span_new :: default_make_span where
  "default_make_span_new = \<lparr>dms_level = DEFAULT_MESSAGE_LEVEL, dms_include_headers = False\<rparr>"

record default_on_request =
  doq_level :: level

definition default_on_request_new :: default_on_request where
  "default_on_request_new = \<lparr>doq_level = DEFAULT_MESSAGE_LEVEL\<rparr>"

record default_on_response =
  dor_level :: level
  dor_latency_unit :: latency_unit
  dor_include_headers :: bool

definition default_on_response_new :: default_on_response where
  "default_on_response_new = \<lparr>dor_level = DEFAULT_MESSAGE_LEVEL, dor_latency_unit = Millis,
     dor_include_headers = False\<rparr>"

record default_on_body_chunk =
  dob_priv :: unit

definition default_on_body_chunk_new :: default_on_body_chunk where
  "default_on_body_chunk_new = \<lparr>dob_priv = ()\<rparr>"

record default_on_eos =
  doe_level :: level
  doe_latency_unit :: latency_unit

definition default_on_eos_new :: default_on_eos where
  "default_on_eos_new = \<lparr>doe_level = DEFAULT_MESSAGE_LEVEL, doe_latency_unit = Millis\<rparr>"

record default_on_failure =
  dof_level :: level
  dof_latency_unit :: latency_unit

definition default_on_failure_new :: default_on_failure where
  "default_on_failure_new = \<lparr>dof_level = DEFAULT_ERROR_LEVEL, dof_latency_unit = Millis\<rparr>"

text \<open>The status field that \<open>DefaultOnResponse\<close> and \<open>DefaultOnEos\<close> log.\<close>

definition grpc_status_field :: "parsed_grpc_status \<Rightarrow> int option" where
  "grpc_status_field p =
     (case p of
        GrpcSuccess \<Rightarrow> Some 0
      | HeaderNotGrpcCode \<Rightarrow> Some 0
      | GrpcNonSuccess status \<Rightarrow> Some (gs_code_raw status)
      | GrpcStatusHeaderMissing \<Rightarrow> None)"

definition on_response_status ::
  "('h, string, 'x) http_api \<Rightarrow> (string \<Rightarrow> string) \<Rightarrow> ('h, 'x, 'b) response \<Rightarrow> int option" where
  "on_response_status H decode res =
     (let is_grpc = (case hm_get H (res_headers res) ''content-type'' of
          None \<Rightarrow> False | Some v \<Rightarrow> starts_with v ''application/grpc'')
      in if is_grpc
         then grpc_status_field (classify_grpc_metadata H decode (res_headers res) (into_bitmask GrpcOk))
         else Some (int (res_status res)))"

definition on_eos_status ::
  "('h, string, 'x) http_api \<Rightarrow> (string \<Rightarrow> string) \<Rightarrow> 'h option \<Rightarrow> int option" where
  "on_eos_status H decode trailers =
     Option.bind trailers
       (\<lambda>t. grpc_status_field (classify_grpc_metadata H decode t (into_bitmask GrpcOk)))"

section \<open>Layer and service\<close>

record ('m, 'ms, 'oq, 'or, 'ob, 'oe, 'of) trace_layer =
  trl_make_classifier :: 'm
  trl_make_span :: 'ms
  trl_on_request :: 'oq
  trl_on_response :: 'or
  trl_on_body_chunk :: 'ob
  trl_on_eos :: 'oe
  trl_on_failure :: 'of

record ('s, 'm, 'ms, 'oq, 'or, 'ob, 'oe, 'of) trace =
  tr_inner :: 's
  tr_make_classifier :: 'm
  tr_make_span :: 'ms
  tr_on_request :: 'oq
  tr_on_response :: 'or
  tr_on_body_chunk :: 'ob
  tr_on_eos :: 'oe
  tr_on_failure :: 'of

type_synonym 'm default_trace_layer =
  "('m, default_make_span, default_on_request, default_on_response, default_on_body_chunk,
    default_on_eos, default_on_failure) trace_layer"

type_synonym ('s, 'm) default_trace =
  "('s, 'm, default_make_span, default_on_request, default_on_response, default_on_body_chunk,
    default_on_eos, default_on_failure) trace"

definition trace_layer_new :: "'m \<Rightarrow> 'm default_trace_layer" where
  "trace_layer_new m = \<lparr>trl_make_classifier = m, trl_make_span = default_make_span_new,
     trl_on_request = default_on_request_new, trl_on_response = default_on_response_new,
     trl_on_body_chunk = default_on_body_chunk_new, trl_on_eos = default_on_eos_new,
     trl_on_failure = default_on_failure_new\<rparr>"

definition trace_layer_new_for_http :: "unit shared_classifier default_trace_layer" where
  "trace_layer_new_for_http = trace_layer_new (shared_classifier_new ())"

definition trace_layer_new_for_grpc :: "grpc_errors_as_failures shared_classifier default_trace_layer" where
  "trace_layer_new_for_grpc = trace_layer_new (shared_classifier_new grpc_errors_default)"

definition trace_new :: "'s \<Rightarrow> 'm \<Rightarrow> ('s, 'm) default_trace" where
  "trace_new s m = \<lparr>tr_inner = s, tr_make_classifier = m, tr_make_span = default_make_span_new,
     tr_on_request = default_on_request_new, tr_on_response = default_on_response_new,
     tr_on_body_chunk = default_on_body_chunk_new, tr_on_eos = default_on_eos_new,
     tr_on_failure = default_on_failure_new\<rparr>"

definition trace_new_for_http :: "'s \<Rightarrow> ('s, unit shared_classifier) default_trace" where
  "trace_new_for_http s = trace_new s (shared_classifier_new ())"

definition trace_new_for_grpc :: "'s \<Rightarrow> ('s, grpc_errors_as_failures shared_classifier) default_trace" where
  "trace_new_for_grpc s = trace_new s (shared_classifier_new grpc_errors_default)"

definition trace_layer_apply ::
  "('m, 'ms, 'oq, 'or, 'ob, 'oe, 'of) trace_layer \<Rightarrow> 's \<Rightarrow> ('s, 'm, 'ms, 'oq, 'or, 'ob, 'oe, 'of) trace" where
  "trace_layer_apply l s = \<lparr>tr_inner = s, tr_make_classifier = trl_make_classifier l,
     tr_make_span = trl_make_span l, tr_on_request = trl_on_request l,
     tr_on_response = trl_on_response l, tr_on_body_chunk = trl_on_body_chunk l,
     tr_on_eos = trl_on_eos l, tr_on_failure = trl_on_failure l\<rparr>"

text \<open>The setters of the builder: one callback is replaced, possibly at another type.\<close>

definition trace_layer_set_make_span ::
  "'new \<Rightarrow> ('m, 'ms, 'oq, 'or, 'ob, 'oe, 'of) trace_layer \<Rightarrow>
     ('m, 'new, 'oq, 'or, 'ob, 'oe, 'of) trace_layer" where
  "trace_layer_set_make_span new t =
     \<lparr>trl_make_classifier = trl_make_classifier t, trl_make_span = new,
     trl_on_request = trl_on_request t, trl_on_response = trl_on_response t,
     trl_on_body_chunk = trl_on_body_chunk t, trl_on_eos = trl_on_eos t,
     trl_on_failure = trl_on_failure t\<rparr>"

definition trace_layer_set_on_request ::
  "'new \<Rightarrow> ('m, 'ms, 'oq, 'or, 'ob, 'oe, 'of) trace_layer \<Rightarrow>
     ('m, 'ms, 'new, 'or, 'ob, 'oe, 'of) trace_layer" where
  "trace_layer_set_on_request new t =
     \<lparr>trl_make_classifier = trl_make_classifier t, trl_make_span = trl_make_span t,
     trl_on_request = new, trl_on_response = trl_on_response t,
     trl_on_body_chunk = trl_on_body_chunk t, trl_on_eos = trl_on_eos t,
     trl_on_failure = trl_on_failure t\<rparr>"

definition trace_layer_set_on_response ::
  "'new \<Rightarrow> ('m, 'ms, 'oq, 'or, 'ob, 'oe, 'of) trace_layer \<Rightarrow>
     ('m, 'ms, 'oq, 'new, 'ob, 'oe, 'of) trace_layer" where
  "trace_layer_set_on_response new t =
     \<lparr>trl_make_classifier = trl_make_classifier t, trl_make_span = trl_make_span t,
     trl_on_request = trl_on_request t, trl_on_response = new,
     trl_on_body_chunk = trl_on_body_chunk t, trl_on_eos = trl_on_eos t,
     trl_on_failure = trl_on_failure t\<rparr>"

definition trace_layer_set_on_body_chunk ::
  "'new \<Rightarrow> ('m, 'ms, 'oq, 'or, 'ob, 'oe, 'of) trace_layer \<Rightarrow>
     ('m, 'ms, 'oq, 'or, 'new, 'oe, 'of) trace_layer" where
  "trace_layer_set_on_body_chunk new t =
     \<lparr>trl_make_classifier = trl_make_classifier t, trl_make_span = trl_make_span t,
     trl_on_request = trl_on_request t, trl_on_response = trl_on_response t,
     trl_on_body_chunk = new, trl_on_eos = trl_on_eos t,
     trl_on_failure = trl_on_failure t\<rparr>"

definition trace_layer_set_on_eos ::
  "'new \<Rightarrow> ('m, 'ms, 'oq, 'or, 'ob, 'oe, 'of) trace_layer \<Rightarrow>
     ('m, 'ms, 'oq, 'or, 'ob, 'new, 'of) trace_layer" where
  "trace_layer_set_on_eos new t =
     \<lparr>trl_make_classifier = trl_make_classifier t, trl_make_span = trl_make_span t,
     trl_on_request = trl_on_request t, trl_on_response = trl_on_response t,
     trl_on_body_chunk = trl_on_body_chunk t, trl_on_eos = new,
     trl_on_failure = trl_on_failure t\<rparr>"

definition trace_layer_set_on_failure ::
  "'new \<Rightarrow> ('m, 'ms, 'oq, 'or, 'ob, 'oe, 'of) trace_layer \<Rightarrow>
     ('m, 'ms, 'oq, 'or, 'ob, 'oe, 'new) trace_layer" where
  "trace_layer_set_on_failure new t =
     \<lparr>trl_make_classifier = trl_make_classifier t, trl_make_span = trl_make_span t,
     trl_on_request = trl_on_request t, trl_on_response = trl_on_response t,
     trl_on_body_chunk = trl_on_body_chunk t, trl_on_eos = trl_on_eos t,
     trl_on_failure = new\<rparr>"

definition trace_set_make_span ::
  "'new \<Rightarrow> ('s, 'm, 'ms, 'oq, 'or, 'ob, 'oe, 'of) trace \<Rightarrow>
     ('s, 'm, 'new, 'oq, 'or, 'ob, 'oe, 'of) trace" where
  "trace_set_make_span new t =
     \<lparr>tr_inner = tr_inner t, tr_make_classifier = tr_make_classifier t,
     tr_make_span = new, tr_on_request = tr_on_request t,
     tr_on_response = tr_on_response t, tr_on_body_chunk = tr_on_body_chunk t,
     tr_on_eos = tr_on_eos t, tr_on_failure = tr_on_failure t\<rparr>"

definition trace_set_on_request ::
  "'new \<Rightarrow> ('s, 'm, 'ms, 'oq, 'or, 'ob, 'oe, 'of) trace \<Rightarrow>
     ('s, 'm, 'ms, 'new, 'or, 'ob, 'oe, 'of) trace" where
  "trace_set_on_request new t =
     \<lparr>tr_inner = tr_inner t, tr_make_classifier = tr_make_classifier t,
     tr_make_span = tr_make_span t, tr_on_request = new, tr_on_response = tr_on_response t,
     tr_on_body_chunk = tr_on_body_chunk t, tr_on_eos = tr_on_eos t,
     tr_on_failure = tr_on_failure t\<rparr>"

definition trace_set_on_response ::
  "'new \<Rightarrow> ('s, 'm, 'ms, 'oq, 'or, 'ob, 'oe, 'of) trace \<Rightarrow>
     ('s, 'm, 'ms, 'oq, 'new, 'ob, 'oe, 'of) trace" where
  "trace_set_on_response new t =
     \<lparr>tr_inner = tr_inner t, tr_make_classifier = tr_make_classifier t,
     tr_make_span = tr_make_span t, tr_on_request = tr_on_request t, tr_on_response = new,
     tr_on_body_chunk = tr_on_body_chunk t, tr_on_eos = tr_on_eos t,
     tr_on_failure = tr_on_failure t\<rparr>"

definition trace_set_on_body_chunk ::
  "'new \<Rightarrow> ('s, 'm, 'ms, 'oq, 'or, 'ob, 'oe, 'of) trace \<Rightarrow>
     ('s, 'm, 'ms, 'oq, 'or, 'new, 'oe, 'of) trace" where
  "trace_set_on_body_chunk new t =
     \<lparr>tr_inner = tr_inner t, tr_make_classifier = tr_make_classifier t,
     tr_make_span = tr_make_span t, tr_on_request = tr_on_request t,
     tr_on_response = tr_on_response t, tr_on_body_chunk = new, tr_on_eos = tr_on_eos t,
     tr_on_failure = tr_on_failure t\<rparr>"

definition trace_set_on_eos ::
  "'new \<Rightarrow> ('s, 'm, 'ms, 'oq, 'or, 'ob, 'oe, 'of) trace \<Rightarrow>
     ('s, 'm, 'ms, 'oq, 'or, 'ob, 'new, 'of) trace" where
  "trace_set_on_eos new t =
     \<lparr>tr_inner = tr_inner t, tr_make_classifier = tr_make_classifier t,
     tr_make_span = tr_make_span t, tr_on_request = tr_on_request t,
     tr_on_response = tr_on_response t, tr_on_body_chunk = tr_on_body_chunk t,
     tr_on_eos = new, tr_on_failure = tr_on_failure t\<rparr>"

definition trace_set_on_failure ::
  "'new \<Rightarrow> ('s, 'm, 'ms, 'oq, 'or, 'ob, 'oe, 'of) trace \<Rightarrow>
     ('s, 'm, 'ms, 'oq, 'or, 'ob, 'oe, 'new) trace" where
  "trace_set_on_failure new t =
     \<lparr>tr_inner = tr_inner t, tr_make_classifier = tr_make_classifier t,
     tr_make_span = tr_make_span t, tr_on_request = tr_on_request t,
     tr_on_response = tr_on_response t, tr_on_body_chunk = tr_on_body_chunk t,
     tr_on_eos = tr_on_eos t, tr_on_failure = new\<rparr>"

section \<open>The call\<close>

record ('f, 'c, 'or, 'ob, 'oe, 'of, 'sp) trace_future =
  trf_inner :: 'f
  trf_span :: 'sp
  trf_classifier :: "'c option"
  trf_on_response :: "'or option"
  trf_on_body_chunk :: "'ob option"
  trf_on_eos :: "'oe option"
  trf_on_failure :: "'of option"
  trf_start :: instant

definition trace_call ::
  "('ms \<Rightarrow> 'q \<Rightarrow> 'sp \<times> 'ms) \<Rightarrow> ('m, 'q, 'c) make_classifier \<Rightarrow> ('s, 'q, 'f) service_fn \<Rightarrow> instant \<Rightarrow>
     ('s, 'm, 'ms, 'oq, 'or, 'ob, 'oe, 'of) trace \<Rightarrow> 'q \<Rightarrow>
     ('s, 'm, 'ms, 'oq, 'or, 'ob, 'oe, 'of) trace \<times> ('f, 'c, 'or, 'ob, 'oe, 'of, 'sp) trace_future \<times>
     ('q, 'r, 'd, 't, 'fc) trace_event list" where
  "trace_call make_span make_classifier inner_call now c req =
     (let start = now;
          (span, ms) = make_span (tr_make_span c) req;
          classifier = make_classifier (tr_make_classifier c) req;
          events = [EvRequest req]
      in case inner_call (tr_inner c) req of
           (s, future) \<Rightarrow> (c\<lparr>tr_inner := s, tr_make_span := ms\<rparr>,
             \<lparr>trf_inner = future, trf_span = span, trf_classifier = Some classifier,
              trf_on_response = Some (tr_on_response c), trf_on_body_chunk = Some (tr_on_body_chunk c),
              trf_on_eos = Some (tr_on_eos c), trf_on_failure = Some (tr_on_failure c),
              trf_start = start\<rparr>, events))"

section \<open>The response body\<close>

record ('b, 'ce, 'ob, 'oe, 'of, 'sp) trace_body =
  tbo_inner :: 'b
  tbo_classify_eos :: "'ce option"
  tbo_on_eos :: "('oe \<times> instant) option"
  tbo_on_body_chunk :: 'ob
  tbo_on_failure :: "'of option"
  tbo_start :: instant
  tbo_span :: 'sp

text \<open>
  \<open>classify_eos.take().zip(on_failure.take())\<close> takes both; the failure callback is called when the
  classification of the end of the stream is a failure.
\<close>

definition take_failure ::
  "('ce \<Rightarrow> 'fc option) \<Rightarrow> nat \<Rightarrow> ('b, 'ce, 'ob, 'oe, 'of, 'sp) trace_body \<Rightarrow>
     ('b, 'ce, 'ob, 'oe, 'of, 'sp) trace_body \<times> ('q, 'r, 'd, 't, 'fc) trace_event list" where
  "take_failure failure latency w =
     (w\<lparr>tbo_classify_eos := None, tbo_on_failure := None\<rparr>,
      (case (tbo_classify_eos w, tbo_on_failure w) of
         (Some c, Some _) \<Rightarrow> (case failure c of Some fc \<Rightarrow> [EvFailure fc latency] | None \<Rightarrow> [])
       | _ \<Rightarrow> []))"

definition eos_failure ::
  "('ce, 't, 'err, 'fc) classify_eos_api \<Rightarrow> 't option \<Rightarrow> 'ce \<Rightarrow> 'fc option" where
  "eos_failure C trailers c = (case ce_classify_eos C c trailers of Inl fc \<Rightarrow> Some fc | Inr _ \<Rightarrow> None)"

definition take_on_eos ::
  "'t option \<Rightarrow> instant \<Rightarrow> ('b, 'ce, 'ob, 'oe, 'of, 'sp) trace_body \<Rightarrow>
     ('b, 'ce, 'ob, 'oe, 'of, 'sp) trace_body \<times> ('q, 'r, 'd, 't, 'fc) trace_event list" where
  "take_on_eos trailers now w =
     (w\<lparr>tbo_on_eos := None\<rparr>,
      (case tbo_on_eos w of Some (_, stream_start) \<Rightarrow> [EvEos trailers (now - stream_start)] | None \<Rightarrow> []))"

text \<open>The end of the stream: classify it, then call \<open>on_eos\<close>.\<close>

definition end_of_stream ::
  "('ce, 't, 'err, 'fc) classify_eos_api \<Rightarrow> 't option \<Rightarrow> nat \<Rightarrow> instant \<Rightarrow>
     ('b, 'ce, 'ob, 'oe, 'of, 'sp) trace_body \<Rightarrow>
     ('b, 'ce, 'ob, 'oe, 'of, 'sp) trace_body \<times> ('q, 'r, 'd, 't, 'fc) trace_event list" where
  "end_of_stream C trailers latency now w =
     (let (w1, ev1) = take_failure (eos_failure C trailers) latency w;
          (w2, ev2) = take_on_eos trailers now w1
      in (w2, ev1 @ ev2))"

definition trace_body_poll_frame ::
  "('ce, 't, 'err, 'fc) classify_eos_api \<Rightarrow> ('b, 'd, 't, 'err) body_api \<Rightarrow> instant \<Rightarrow>
     ('b, 'ce, 'ob, 'oe, 'of, 'sp) trace_body \<Rightarrow>
     (('d, 't, 'err) frame_result poll \<times> ('b, 'ce, 'ob, 'oe, 'of, 'sp) trace_body) \<times>
     ('q, 'r, 'd, 't, 'fc) trace_event list" where
  "trace_body_poll_frame C B now w =
     (case body_poll_frame B (tbo_inner w) of
        (Pending, b) \<Rightarrow> ((Pending, w\<lparr>tbo_inner := b\<rparr>), [])
      | (Ready result, b) \<Rightarrow>
          (let latency = now - tbo_start w;
               w1 = w\<lparr>tbo_inner := b, tbo_start := now\<rparr>
           in case result of
                Some (Inr frame) \<Rightarrow>
                  (let (w2, ev2) = (case frame of
                         DataFrame chunk \<Rightarrow> (w1, [EvBodyChunk chunk latency])
                       | TrailersFrame trailers \<Rightarrow> end_of_stream C (Some trailers) latency now w1);
                       (w3, ev3) = (if body_is_end_stream B (tbo_inner w2)
                         then end_of_stream C None latency now w2 else (w2, []))
                   in ((Ready (Some (Inr frame)), w3), ev2 @ ev3))
              | Some (Inl err) \<Rightarrow>
                  (let (w2, ev2) = take_failure (\<lambda>c. Some (ce_classify_error C c err)) latency w1
                   in ((Ready (Some (Inl err)), w2), ev2))
              | None \<Rightarrow>
                  (let (w2, ev2) = end_of_stream C None latency now w1
                   in ((Ready None, w2), ev2))))"

definition trace_body_is_end_stream ::
  "('b, 'd, 't, 'err) body_api \<Rightarrow> ('b, 'ce, 'ob, 'oe, 'of, 'sp) trace_body \<Rightarrow> bool" where
  "trace_body_is_end_stream B w = body_is_end_stream B (tbo_inner w)"

definition trace_body_size_hint ::
  "('b, 'd, 't, 'err) body_api \<Rightarrow> ('b, 'ce, 'ob, 'oe, 'of, 'sp) trace_body \<Rightarrow> size_hint" where
  "trace_body_size_hint B w = body_size_hint B (tbo_inner w)"

section \<open>The response future\<close>

text \<open>\<open>Inl\<close> is the panic of an \<open>unwrap\<close> in a future polled after it was ready.\<close>

definition trace_future_poll ::
  "('c, ('h, 'x, 'b) response, 'err, 'fc, 'ce) classify_response_api \<Rightarrow>
     ('f, 'err + ('h, 'x, 'b) response) poll_fn \<Rightarrow> instant \<Rightarrow>
     ('f, 'c, 'or, 'ob, 'oe, 'of, 'sp) trace_future \<Rightarrow>
     (('err + ('h, 'x, ('b, 'ce, 'ob, 'oe, 'of, 'sp) trace_body) response) panics poll \<times>
      ('f, 'c, 'or, 'ob, 'oe, 'of, 'sp) trace_future) \<times>
     ('q, ('h, 'x, 'b) response, 'd, 't, 'fc) trace_event list" where
  "trace_future_poll C poll now w =
     (case poll (trf_inner w) of
        (Pending, f) \<Rightarrow> ((Pending, w\<lparr>trf_inner := f\<rparr>), [])
      | (Ready result, f) \<Rightarrow>
          (let latency = now - trf_start w;
               w1 = w\<lparr>trf_inner := f, trf_classifier := None, trf_on_eos := None,
                 trf_on_body_chunk := None, trf_on_failure := None\<rparr>;
               unwrap = ''called `Option::unwrap()` on a `None` value''
           in case (trf_classifier w, trf_on_body_chunk w, trf_on_failure w) of
                (Some classifier, Some on_body_chunk, Some on_failure) \<Rightarrow>
                  (case result of
                     Inr res \<Rightarrow>
                       (case trf_on_response w of
                          None \<Rightarrow> ((Ready (Inl unwrap), w1), [])
                        | Some _ \<Rightarrow>
                            (let body = (\<lambda>eos. map_response (\<lambda>b. \<lparr>tbo_inner = b, tbo_classify_eos = eos,
                                   tbo_on_eos = map_option (\<lambda>h. (h, now)) (trf_on_eos w),
                                   tbo_on_body_chunk = on_body_chunk, tbo_on_failure = Some on_failure,
                                   tbo_start = trf_start w, tbo_span = trf_span w\<rparr>) res);
                                 w2 = w1\<lparr>trf_on_response := None\<rparr>
                             in case cr_classify_response C classifier res of
                                  ClassReady (Inl fc) \<Rightarrow>
                                    ((Ready (Inr (Inr (body None))), w2), [EvResponse res latency, EvFailure fc latency])
                                | ClassReady (Inr _) \<Rightarrow>
                                    ((Ready (Inr (Inr (body None))), w2), [EvResponse res latency])
                                | RequiresEos eos \<Rightarrow>
                                    ((Ready (Inr (Inr (body (Some eos)))), w2), [EvResponse res latency])))
                   | Inl err \<Rightarrow>
                       ((Ready (Inr (Inl err)), w1), [EvFailure (cr_classify_error C classifier err) latency]))
              | _ \<Rightarrow> ((Ready (Inl unwrap), w1), [])))"

section \<open>The body is transparent and reports once\<close>

fun is_eos :: "('q, 'r, 'd, 't, 'fc) trace_event \<Rightarrow> bool" where
  "is_eos (EvEos t n) = True"
| "is_eos _ = False"

fun is_failure :: "('q, 'r, 'd, 't, 'fc) trace_event \<Rightarrow> bool" where
  "is_failure (EvFailure fc n) = True"
| "is_failure _ = False"

fun chunks :: "('q, 'r, 'd, 't, 'fc) trace_event list \<Rightarrow> 'd list" where
  "chunks [] = []"
| "chunks (EvBodyChunk d n # evs) = d # chunks evs"
| "chunks (_ # evs) = chunks evs"

fun data_frames :: "('d, 't, 'err) frame_result poll list \<Rightarrow> 'd list" where
  "data_frames [] = []"
| "data_frames (Ready (Some (Inr (DataFrame d))) # ps) = d # data_frames ps"
| "data_frames (_ # ps) = data_frames ps"

definition eos_count :: "('q, 'r, 'd, 't, 'fc) trace_event list \<Rightarrow> nat" where
  "eos_count evs = length (filter is_eos evs)"

definition failure_count :: "('q, 'r, 'd, 't, 'fc) trace_event list \<Rightarrow> nat" where
  "failure_count evs = length (filter is_failure evs)"

lemma count_simps [simp]:
  "eos_count [] = 0" "failure_count [] = 0"
  "eos_count (e # evs) = (if is_eos e then Suc (eos_count evs) else eos_count evs)"
  "failure_count (e # evs) = (if is_failure e then Suc (failure_count evs) else failure_count evs)"
  "eos_count (xs @ ys) = eos_count xs + eos_count ys"
  "failure_count (xs @ ys) = failure_count xs + failure_count ys"
  by (simp_all add: eos_count_def failure_count_def)

lemma chunks_append [simp]: "chunks (xs @ ys) = chunks xs @ chunks ys"
  by (induction xs rule: chunks.induct) auto

text \<open>A consumer that polls at the given times: the poll results, the body afterwards, the events.\<close>

fun trace_body_run ::
  "('ce, 't, 'err, 'fc) classify_eos_api \<Rightarrow> ('b, 'd, 't, 'err) body_api \<Rightarrow> instant list \<Rightarrow>
     ('b, 'ce, 'ob, 'oe, 'of, 'sp) trace_body \<Rightarrow>
     ('d, 't, 'err) frame_result poll list \<times> ('b, 'ce, 'ob, 'oe, 'of, 'sp) trace_body \<times>
     ('q, 'r, 'd, 't, 'fc) trace_event list" where
  "trace_body_run C B [] w = ([], w, [])"
| "trace_body_run C B (now # ts) w =
     (case trace_body_poll_frame C B now w of
        ((p, w1), ev) \<Rightarrow> (case trace_body_run C B ts w1 of (ps, w2, evs) \<Rightarrow> (p # ps, w2, ev @ evs)))"

fun body_polls :: "('b, 'd, 't, 'e) body_api \<Rightarrow> nat \<Rightarrow> 'b \<Rightarrow> ('d, 't, 'e) frame_result poll list" where
  "body_polls B 0 b = []"
| "body_polls B (Suc n) b = (case body_poll_frame B b of (p, b') \<Rightarrow> p # body_polls B n b')"

text \<open>How many more times each callback can be called.\<close>

definition eos_left :: "('b, 'ce, 'ob, 'oe, 'of, 'sp) trace_body \<Rightarrow> nat" where
  "eos_left w = (if tbo_on_eos w = None then 0 else 1)"

definition failures_left :: "('b, 'ce, 'ob, 'oe, 'of, 'sp) trace_body \<Rightarrow> nat" where
  "failures_left w = (if tbo_classify_eos w = None \<or> tbo_on_failure w = None then 0 else 1)"

lemma take_failure_counts:
  "take_failure g l w = (w', ev) \<Longrightarrow>
     eos_count ev = 0 \<and> chunks ev = [] \<and> eos_left w' = eos_left w \<and> tbo_on_eos w' = tbo_on_eos w \<and>
     failure_count ev + failures_left w' \<le> failures_left w \<and> tbo_inner w' = tbo_inner w"
  by (auto simp: take_failure_def eos_left_def failures_left_def split: option.splits)

lemma take_on_eos_counts:
  "take_on_eos t now w = (w', ev) \<Longrightarrow>
     eos_count ev + eos_left w' = eos_left w \<and> chunks ev = [] \<and> tbo_on_eos w' = None \<and>
     failure_count ev = 0 \<and> failures_left w' = failures_left w \<and> tbo_inner w' = tbo_inner w"
  by (auto simp: take_on_eos_def eos_left_def failures_left_def split: option.splits)

lemma end_of_stream_counts:
  fixes ev :: "('q, 'r, 'd, 't, 'fc) trace_event list"
  assumes "end_of_stream C t l now w = (w', ev)"
  shows "eos_count ev + eos_left w' = eos_left w \<and> chunks ev = [] \<and> tbo_on_eos w' = None \<and>
     failure_count ev + failures_left w' \<le> failures_left w \<and> tbo_inner w' = tbo_inner w"
proof -
  obtain w1 and ev1 :: "('q, 'r, 'd, 't, 'fc) trace_event list" where 1: "take_failure (eos_failure C t) l w = (w1, ev1)" by (rule prod.exhaust)
  obtain w2 and ev2 :: "('q, 'r, 'd, 't, 'fc) trace_event list" where 2: "take_on_eos t now w1 = (w2, ev2)" by (rule prod.exhaust)
  have "w' = w2" "ev = ev1 @ ev2" using assms 1 2 by (auto simp: end_of_stream_def)
  then show ?thesis
    using take_failure_counts [OF 1] take_on_eos_counts [OF 2] by simp
qed

definition poll_reports ::
  "('b, 'ce, 'ob, 'oe, 'of, 'sp) trace_body \<Rightarrow> ('d, 't, 'err) frame_result poll \<Rightarrow>
     ('b, 'ce, 'ob, 'oe, 'of, 'sp) trace_body \<Rightarrow> ('q, 'r, 'd, 't, 'fc) trace_event list \<Rightarrow> bool" where
  "poll_reports w p w' ev \<longleftrightarrow>
     eos_count ev + eos_left w' = eos_left w \<and>
     failure_count ev + failures_left w' \<le> failures_left w \<and>
     chunks ev = data_frames [p] \<and> (p = Ready None \<longrightarrow> tbo_on_eos w' = None)"

lemma left_upd [simp]:
  "eos_left (w\<lparr>tbo_inner := b\<rparr>) = eos_left w" "failures_left (w\<lparr>tbo_inner := b\<rparr>) = failures_left w"
  "eos_left (w\<lparr>tbo_inner := b, tbo_start := n\<rparr>) = eos_left w"
  "failures_left (w\<lparr>tbo_inner := b, tbo_start := n\<rparr>) = failures_left w"
  by (simp_all add: eos_left_def failures_left_def)

lemma trace_body_poll_step:
  fixes ev :: "('q, 'r, 'd, 't, 'fc) trace_event list"
  assumes "body_poll_frame B (tbo_inner w) = (p, b)"
    and poll: "trace_body_poll_frame C B now w = ((q, w'), ev)"
  shows "q = p \<and> tbo_inner w' = b \<and> poll_reports w p w' ev"
proof (cases p)
  case Pending
  with assms show ?thesis
    by (auto simp: trace_body_poll_frame_def poll_reports_def)
next
  case (Ready r)
  let ?l = "now - tbo_start w"
  let ?w1 = "w\<lparr>tbo_inner := b, tbo_start := now\<rparr>"
  show ?thesis
  proof (cases r)
    case None
    obtain w2 and ev2 :: "('q, 'r, 'd, 't, 'fc) trace_event list"
        where e: "end_of_stream C None ?l now ?w1 = (w2, ev2)" by (rule prod.exhaust)
    with assms Ready None have "q = p" "w' = w2" "ev = ev2"
      by (auto simp: trace_body_poll_frame_def Let_def)
    with end_of_stream_counts [OF e] Ready None show ?thesis by (simp add: poll_reports_def)
  next
    case (Some s)
    show ?thesis
    proof (cases s)
      case (Inl err)
      obtain w2 and ev2 :: "('q, 'r, 'd, 't, 'fc) trace_event list"
        where e: "take_failure (\<lambda>c. Some (ce_classify_error C c err)) ?l ?w1 = (w2, ev2)"
        by (rule prod.exhaust)
      with assms Ready Some Inl have "q = p" "w' = w2" "ev = ev2"
        by (auto simp: trace_body_poll_frame_def Let_def)
      with take_failure_counts [OF e] Ready Some Inl show ?thesis by (simp add: poll_reports_def)
    next
      case (Inr frame)
      obtain w2 and ev2 :: "('q, 'r, 'd, 't, 'fc) trace_event list"
        where e: "(case frame of DataFrame chunk \<Rightarrow> (?w1, [EvBodyChunk chunk ?l])
          | TrailersFrame t \<Rightarrow> end_of_stream C (Some t) ?l now ?w1) = (w2, ev2)"
        by (rule prod.exhaust)
      have two: "eos_count ev2 + eos_left w2 = eos_left w"
        "failure_count ev2 + failures_left w2 \<le> failures_left w"
        "chunks ev2 = data_frames [p]" "tbo_inner w2 = b"
        using e end_of_stream_counts [of C _ ?l now ?w1 w2 ev2] Ready Some Inr
        by (auto split: frame.splits)
      obtain w3 and ev3 :: "('q, 'r, 'd, 't, 'fc) trace_event list"
        where e3: "(if body_is_end_stream B (tbo_inner w2)
          then end_of_stream C None ?l now w2 else (w2, [])) = (w3, ev3)"
        by (rule prod.exhaust)
      have three: "eos_count ev3 + eos_left w3 = eos_left w2"
        "failure_count ev3 + failures_left w3 \<le> failures_left w2" "chunks ev3 = []" "tbo_inner w3 = b"
        using e3 end_of_stream_counts [of C None ?l now w2 w3 ev3] two by (auto split: if_splits)
      have "q = p" "w' = w3" "ev = ev2 @ ev3"
        using assms Ready Some Inr e e3 by (auto simp: trace_body_poll_frame_def Let_def)
      with two three Ready Some show ?thesis by (simp add: poll_reports_def)
    qed
  qed
qed

lemma eos_left_None: "tbo_on_eos w = None \<longleftrightarrow> eos_left w = 0"
  by (simp add: eos_left_def)

lemma data_frames_Cons: "data_frames (p # ps) = data_frames [p] @ data_frames ps"
  by (cases "p # ps" rule: data_frames.cases) auto

text \<open>Once the end was reported it is never reported again.\<close>

lemma trace_body_run_counts:
  fixes evs :: "('q, 'r, 'd, 't, 'fc) trace_event list"
  shows "trace_body_run C B ts w = (ps, w', evs) \<Longrightarrow>
    ps = body_polls B (length ts) (tbo_inner w) \<and> eos_count evs + eos_left w' = eos_left w \<and>
    failure_count evs + failures_left w' \<le> failures_left w \<and> chunks evs = data_frames ps \<and>
    (Ready None \<in> set ps \<longrightarrow> eos_left w' = 0)"
proof (induction ts arbitrary: w w' ps evs)
  case (Cons now ts)
  obtain p b where pb: "body_poll_frame B (tbo_inner w) = (p, b)" by (rule prod.exhaust)
  obtain q w1 and ev1 :: "('q, 'r, 'd, 't, 'fc) trace_event list"
    where poll: "trace_body_poll_frame C B now w = ((q, w1), ev1)"
    by (metis prod.exhaust)
  obtain ps1 w2 and evs1 :: "('q, 'r, 'd, 't, 'fc) trace_event list"
    where run: "trace_body_run C B ts w1 = (ps1, w2, evs1)"
    by (rule prod_cases3)
  have eq: "ps = q # ps1" "w' = w2" "evs = ev1 @ evs1"
    using Cons.prems poll run by auto
  have step: "q = p" "tbo_inner w1 = b" "poll_reports w p w1 ev1"
    using trace_body_poll_step [OF pb poll] by auto
  note ih = Cons.IH [OF run]
  have "Ready None \<in> set ps \<longrightarrow> eos_left w2 = 0"
    using step ih eq by (auto simp: poll_reports_def eos_left_None)
  moreover have "chunks evs = data_frames ps"
    using step ih eq data_frames_Cons [of p ps1] by (simp add: poll_reports_def)
  ultimately show ?case
    using step ih eq pb by (auto simp: poll_reports_def)
qed simp

text \<open>
  Claim C36. The traced body is transparent and reports once: whenever and however often it is polled,
  the poll results are those of the inner body, \<open>on_body_chunk\<close> is called once per data frame in
  order, the failure callback at most once, and \<open>on_eos\<close> at most once, exactly once when a fresh body
  is read to its end.
\<close>

theorem trace_body_reports_once:
  fixes evs :: "('q, 'r, 'd, 't, 'fc) trace_event list"
  assumes run: "trace_body_run C B ts w = (ps, w', evs)"
  shows "ps = body_polls B (length ts) (tbo_inner w) \<and> chunks evs = data_frames ps \<and>
    eos_count evs \<le> 1 \<and> failure_count evs \<le> 1 \<and>
    (tbo_on_eos w \<noteq> None \<and> Ready None \<in> set ps \<longrightarrow> eos_count evs = 1)"
  using trace_body_run_counts [OF run]
  by (auto simp: eos_left_def failures_left_def split: if_splits)

definition trace_example_body ::
  "((string, unit, string) frame_result poll list, unit, unit, unit, unit, unit) trace_body" where
  "trace_example_body = \<lparr>tbo_inner = [Ready (Some (Inr (DataFrame ''ab''))), Pending], tbo_classify_eos = Some (),
     tbo_on_eos = Some ((), 1), tbo_on_body_chunk = (), tbo_on_failure = Some (), tbo_start = 2, tbo_span = ()\<rparr>"

definition trace_example_eos :: "(unit, unit, string, string) classify_eos_api" where
  "trace_example_eos = \<lparr>ce_classify_eos = (\<lambda>_ _. Inl ''bad''), ce_classify_error = (\<lambda>_ e. e)\<rparr>"

lemma trace_body_reports_once_witness:
  "(case trace_body_run trace_example_eos script_body [5, 6, 9] trace_example_body of
      (ps, w', evs) \<Rightarrow> ps = [Ready (Some (Inr (DataFrame ''ab''))), Pending, Ready None] \<and>
        evs = [EvBodyChunk ''ab'' 3, EvFailure ''bad'' 4, EvEos None 8] \<and>
        eos_count (evs :: (unit, unit, string, unit, string) trace_event list) = 1)"
proof -
  let ?evs = "[EvBodyChunk ''ab'' 3, EvFailure ''bad'' 4, EvEos None 8] ::
    (unit, unit, string, unit, string) trace_event list"
  have run: "trace_body_run trace_example_eos script_body [5, 6, 9] trace_example_body =
      ([Ready (Some (Inr (DataFrame ''ab''))), Pending, Ready None],
       trace_example_body\<lparr>tbo_inner := [], tbo_classify_eos := None, tbo_on_eos := None,
         tbo_on_failure := None, tbo_start := 9\<rparr>, ?evs)"
    by code_simp
  have "tbo_on_eos trace_example_body \<noteq> None" by (simp add: trace_example_body_def)
  with trace_body_reports_once [OF run] have "eos_count ?evs = 1" by simp
  with run show ?thesis by simp
qed

text \<open>
  The traced future reports its response: polled until the inner future is ready, it calls
  \<open>on_response\<close> exactly once for a response, then the failure callback if the response is classified
  as a failure at once, and only the failure callback for an error of the service; the result is the
  inner one, the body wrapped with a fresh \<open>on_eos\<close> and with the classifier of the end of the stream
  exactly when the classification needs it.
\<close>

lemma trace_future_reports_response:
  assumes w: "trf_classifier w = Some c" "trf_on_body_chunk w = Some ob" "trf_on_failure w = Some fh"
      "trf_on_response w = Some r" "trf_on_eos w = Some oe"
    and inner: "poll (trf_inner w) = (Ready result, f)"
  shows "case (trace_future_poll C poll now w :: _ \<times> ('q, ('h, 'x, 'b) response, 'd, 't, 'fc) trace_event list)
      of ((p, w'), evs) \<Rightarrow>
    (case result of
       Inl err \<Rightarrow> p = Ready (Inr (Inl err)) \<and> evs = [EvFailure (cr_classify_error C c err) (now - trf_start w)]
     | Inr res \<Rightarrow>
        (\<exists>res'. p = Ready (Inr (Inr res')) \<and> res_status res' = res_status res \<and>
          res_headers res' = res_headers res \<and> tbo_inner (res_body res') = res_body res \<and>
          tbo_on_eos (res_body res') = Some (oe, now) \<and>
          (case cr_classify_response C c res of
             RequiresEos eos \<Rightarrow> tbo_classify_eos (res_body res') = Some eos \<and>
               evs = [EvResponse res (now - trf_start w)]
           | ClassReady (Inr _) \<Rightarrow> tbo_classify_eos (res_body res') = None \<and>
               evs = [EvResponse res (now - trf_start w)]
           | ClassReady (Inl fc) \<Rightarrow> tbo_classify_eos (res_body res') = None \<and>
               evs = [EvResponse res (now - trf_start w), EvFailure fc (now - trf_start w)])))"
proof (cases result)
  case (Inl err)
  with w inner show ?thesis by (simp add: trace_future_poll_def Let_def)
next
  case (Inr res)
  show ?thesis
  proof (cases "cr_classify_response C c res")
    case (ClassReady x)
    with w inner Inr show ?thesis
      by (cases x) (simp_all add: trace_future_poll_def Let_def)
  next
    case (RequiresEos eos)
    with w inner Inr show ?thesis by (simp add: trace_future_poll_def Let_def)
  qed
qed

text \<open>
  The latency of the first chunk counts from the call, not from the response: a response that is ready at
  \<open>t\<close> and whose body has its first chunk at \<open>u\<close> reports \<open>u\<close> less the start of the request.
\<close>

lemma first_chunk_latency_from_call:
  fixes B :: "('b, 'd, 't, 'e) body_api"
  assumes w: "trf_classifier w = Some c" "trf_on_body_chunk w = Some ob" "trf_on_failure w = Some fh"
      "trf_on_response w = Some r"
    and inner: "poll (trf_inner w) = (Ready (Inr res), f)"
    and chunk: "body_poll_frame B (res_body res) = (Ready (Some (Inr (DataFrame d))), b)"
    and first: "fst (fst (trace_future_poll C poll t w)) = Ready (Inr (Inr res'))"
  shows "EvBodyChunk d (u - trf_start w) \<in> set (snd (trace_body_poll_frame K B u (res_body res')))"
proof -
  have "tbo_inner (res_body res') = res_body res \<and> tbo_start (res_body res') = trf_start w"
    using w inner first
    by (auto simp: trace_future_poll_def Let_def split: classified_response.splits sum.splits)
  with chunk show ?thesis by (simp add: trace_body_poll_frame_def Let_def split: prod.split)
qed

end
