(* ===== verification/Trace_Callbacks.thy ===== *)
theory Trace_Callbacks
  imports Trace
begin

text \<open>
  The default callbacks of \<open>trace/\<close> (\<open>make_span.rs\<close>, \<open>on_request.rs\<close>, \<open>on_response.rs\<close>, \<open>on_eos.rs\<close>,
  \<open>on_failure.rs\<close>, \<open>on_body_chunk.rs\<close>) and the latency they print.  A span or an event of the
  \<open>tracing\<close> crate is a value: its level, its fields with their text, and for an event the parent span
  and the message.  A field whose value is \<open>None\<close> is not recorded.  Durations are in nanoseconds.  The
  text of a floating point number and the debug text of a header map are arguments.
\<close>

section \<open>Latency\<close>

record latency =
  lat_unit :: latency_unit
  lat_duration :: nat

definition micro_sign :: string where
  "micro_sign = [char_of (0xCE :: nat), char_of (0xBC :: nat)]"

definition latency_display :: "(nat \<Rightarrow> string) \<Rightarrow> latency \<Rightarrow> string" where
  "latency_display secs_f64 l =
     (case lat_unit l of
        Seconds \<Rightarrow> secs_f64 (lat_duration l) @ '' s''
      | Millis \<Rightarrow> show_nat (lat_duration l div 10 ^ 6) @ '' ms''
      | Micros \<Rightarrow> show_nat (lat_duration l div 10 ^ 3) @ '' '' @ micro_sign @ ''s''
      | Nanos \<Rightarrow> show_nat (lat_duration l) @ '' ns'')"

section \<open>Spans and events\<close>

record span =
  sp_level :: level
  sp_name :: string
  sp_fields :: "(string \<times> string) list"

record 'sp log_event =
  le_parent :: 'sp
  le_level :: level
  le_fields :: "(string \<times> string) list"
  le_message :: string

text \<open>The macro needs a constant level, so it dispatches on the value.\<close>

definition event_dynamic_lvl :: "'sp \<Rightarrow> level \<Rightarrow> (string \<times> string) list \<Rightarrow> string \<Rightarrow> 'sp log_event" where
  "event_dynamic_lvl parent lvl fs message =
     (let event = (\<lambda>l. \<lparr>le_parent = parent, le_level = l, le_fields = fs, le_message = message\<rparr>)
      in (case lvl of
            LvlError \<Rightarrow> event LvlError
          | LvlWarn \<Rightarrow> event LvlWarn
          | LvlInfo \<Rightarrow> event LvlInfo
          | LvlDebug \<Rightarrow> event LvlDebug
          | LvlTrace \<Rightarrow> event LvlTrace))"

definition field_opt :: "string \<Rightarrow> string option \<Rightarrow> (string \<times> string) list" where
  "field_opt name v = (case v of Some t \<Rightarrow> [(name, t)] | None \<Rightarrow> [])"

definition show_int :: "int \<Rightarrow> string" where
  "show_int i = (if i < 0 then CHR ''-'' # show_nat (nat (- i)) else show_nat (nat i))"

section \<open>The callbacks\<close>

definition default_make_span_level :: "default_make_span \<Rightarrow> level \<Rightarrow> default_make_span" where
  "default_make_span_level m l = m\<lparr>dms_level := l\<rparr>"

definition default_make_span_include_headers :: "default_make_span \<Rightarrow> bool \<Rightarrow> default_make_span" where
  "default_make_span_include_headers m include = m\<lparr>dms_include_headers := include\<rparr>"

definition make_span ::
  "'u uri_api \<Rightarrow> ('h \<Rightarrow> string) \<Rightarrow> default_make_span \<Rightarrow> ('h, 'u, 'x, 'b) request \<Rightarrow> span" where
  "make_span U debug_headers m req =
     (let mk = (\<lambda>l. if dms_include_headers m
            then \<lparr>sp_level = l, sp_name = ''request'', sp_fields =
               [(''method'', req_method req), (''uri'', uri_to_string U (req_uri req)),
                (''version'', req_version req), (''headers'', debug_headers (req_headers req))]\<rparr>
            else \<lparr>sp_level = l, sp_name = ''request'', sp_fields =
               [(''method'', req_method req), (''uri'', uri_to_string U (req_uri req)),
                (''version'', req_version req)]\<rparr>)
      in (case dms_level m of
            LvlError \<Rightarrow> mk LvlError
          | LvlWarn \<Rightarrow> mk LvlWarn
          | LvlInfo \<Rightarrow> mk LvlInfo
          | LvlDebug \<Rightarrow> mk LvlDebug
          | LvlTrace \<Rightarrow> mk LvlTrace))"

definition default_on_request_level :: "default_on_request \<Rightarrow> level \<Rightarrow> default_on_request" where
  "default_on_request_level c l = c\<lparr>doq_level := l\<rparr>"

definition on_request :: "default_on_request \<Rightarrow> ('h, 'u, 'x, 'b) request \<Rightarrow> 'sp \<Rightarrow> 'sp log_event" where
  "on_request c req parent = event_dynamic_lvl parent (doq_level c) [] ''started processing request''"

definition default_on_response_level :: "default_on_response \<Rightarrow> level \<Rightarrow> default_on_response" where
  "default_on_response_level c l = c\<lparr>dor_level := l\<rparr>"

definition default_on_response_latency_unit :: "default_on_response \<Rightarrow> latency_unit \<Rightarrow> default_on_response" where
  "default_on_response_latency_unit c u = c\<lparr>dor_latency_unit := u\<rparr>"

definition default_on_response_include_headers :: "default_on_response \<Rightarrow> bool \<Rightarrow> default_on_response" where
  "default_on_response_include_headers c include = c\<lparr>dor_include_headers := include\<rparr>"

definition on_response ::
  "('h, string, 'x) http_api \<Rightarrow> (string \<Rightarrow> string) \<Rightarrow> (nat \<Rightarrow> string) \<Rightarrow> ('h \<Rightarrow> string) \<Rightarrow>
     default_on_response \<Rightarrow> ('h, 'x, 'b) response \<Rightarrow> nat \<Rightarrow> 'sp \<Rightarrow> 'sp log_event" where
  "on_response H decode secs_f64 debug_headers c res duration parent =
     (let l = \<lparr>lat_unit = dor_latency_unit c, lat_duration = duration\<rparr>;
          response_headers = (if dor_include_headers c then Some (debug_headers (res_headers res)) else None)
      in event_dynamic_lvl parent (dor_level c)
           ([(''latency'', latency_display secs_f64 l)]
            @ field_opt ''status'' (map_option show_int (on_response_status H decode res))
            @ field_opt ''response_headers'' response_headers)
           ''finished processing request'')"

definition default_on_eos_level :: "default_on_eos \<Rightarrow> level \<Rightarrow> default_on_eos" where
  "default_on_eos_level c l = c\<lparr>doe_level := l\<rparr>"

definition default_on_eos_latency_unit :: "default_on_eos \<Rightarrow> latency_unit \<Rightarrow> default_on_eos" where
  "default_on_eos_latency_unit c u = c\<lparr>doe_latency_unit := u\<rparr>"

definition on_eos ::
  "('h, string, 'x) http_api \<Rightarrow> (string \<Rightarrow> string) \<Rightarrow> (nat \<Rightarrow> string) \<Rightarrow>
     default_on_eos \<Rightarrow> 'h option \<Rightarrow> nat \<Rightarrow> 'sp \<Rightarrow> 'sp log_event" where
  "on_eos H decode secs_f64 c trailers duration parent =
     (let stream_duration = \<lparr>lat_unit = doe_latency_unit c, lat_duration = duration\<rparr>
      in event_dynamic_lvl parent (doe_level c)
           ([(''stream_duration'', latency_display secs_f64 stream_duration)]
            @ field_opt ''status'' (map_option show_int (on_eos_status H decode trailers)))
           ''end of stream'')"

definition default_on_failure_level :: "default_on_failure \<Rightarrow> level \<Rightarrow> default_on_failure" where
  "default_on_failure_level c l = c\<lparr>dof_level := l\<rparr>"

definition default_on_failure_latency_unit :: "default_on_failure \<Rightarrow> latency_unit \<Rightarrow> default_on_failure" where
  "default_on_failure_latency_unit c u = c\<lparr>dof_latency_unit := u\<rparr>"

definition on_failure ::
  "(nat \<Rightarrow> string) \<Rightarrow> ('fc \<Rightarrow> string) \<Rightarrow> default_on_failure \<Rightarrow> 'fc \<Rightarrow> nat \<Rightarrow> 'sp \<Rightarrow> 'sp log_event" where
  "on_failure secs_f64 display c failure_classification duration parent =
     (let l = \<lparr>lat_unit = dof_latency_unit c, lat_duration = duration\<rparr>
      in event_dynamic_lvl parent (dof_level c)
           [(''classification'', display failure_classification), (''latency'', latency_display secs_f64 l)]
           ''response failed'')"

text \<open>What the default callbacks log for the events of the middleware, in their order.\<close>

fun default_log ::
  "('h, string, 'x) http_api \<Rightarrow> (string \<Rightarrow> string) \<Rightarrow> (nat \<Rightarrow> string) \<Rightarrow> ('h \<Rightarrow> string) \<Rightarrow> ('fc \<Rightarrow> string) \<Rightarrow>
     ('s, 'm) default_trace \<Rightarrow> 'sp \<Rightarrow>
     (('h, 'u, 'x, 'b) request, ('h, 'x, 'c) response, 'd, 'h, 'fc) trace_event \<Rightarrow> 'sp log_event list" where
  "default_log H decode secs dbg disp t sp (EvRequest q) = [on_request (tr_on_request t) q sp]"
| "default_log H decode secs dbg disp t sp (EvResponse r l) = [on_response H decode secs dbg (tr_on_response t) r l sp]"
| "default_log H decode secs dbg disp t sp (EvBodyChunk d l) = []"
| "default_log H decode secs dbg disp t sp (EvEos tr l) = [on_eos H decode secs (tr_on_eos t) tr l sp]"
| "default_log H decode secs dbg disp t sp (EvFailure c l) = [on_failure secs disp (tr_on_failure t) c l sp]"

section \<open>What is logged\<close>

lemma event_dynamic_lvl_fields [simp]:
  "le_level (event_dynamic_lvl p l fs m) = l" "le_parent (event_dynamic_lvl p l fs m) = p"
  "le_fields (event_dynamic_lvl p l fs m) = fs" "le_message (event_dynamic_lvl p l fs m) = m"
  by (cases l; simp add: event_dynamic_lvl_def)+

lemma make_span_level: "sp_level (make_span U dbg m q) = dms_level m"
  by (cases "dms_level m") (simp_all add: make_span_def)

text \<open>Headers are only shown when the callback was told to include them.\<close>

lemma make_span_headers: "(''headers'', v) \<in> set (sp_fields (make_span U dbg m q)) \<longleftrightarrow>
    dms_include_headers m \<and> v = dbg (req_headers q)"
  by (cases "dms_level m") (auto simp: make_span_def)

lemma on_response_headers: "(''response_headers'', v) \<in> set (le_fields (on_response H dec secs dbg c r l sp)) \<longleftrightarrow>
    dor_include_headers c \<and> v = dbg (res_headers r)"
  by (auto simp: on_response_def field_opt_def Let_def split: option.splits)

text \<open>Every event but a body chunk is logged once, at the level of its callback, in the span of the request.\<close>

lemma default_log_level:
  "ev \<in> set (default_log H dec secs dbg disp t sp e) \<Longrightarrow> le_parent ev = sp \<and>
     le_level ev = (case e of EvRequest _ \<Rightarrow> doq_level (tr_on_request t) | EvResponse _ _ \<Rightarrow> dor_level (tr_on_response t)
       | EvEos _ _ \<Rightarrow> doe_level (tr_on_eos t) | EvFailure _ _ \<Rightarrow> dof_level (tr_on_failure t)
       | EvBodyChunk _ _ \<Rightarrow> le_level ev)"
  by (cases e) (auto simp: on_request_def on_response_def on_eos_def on_failure_def Let_def)

text \<open>The printed number of a unit is the duration rounded down to that unit.\<close>

lemma latency_display_millis:
  "latency_display secs \<lparr>lat_unit = Millis, lat_duration = d\<rparr> = show_nat n @ '' ms'' \<longleftrightarrow>
     n * 10 ^ 6 \<le> d \<and> d < (n + 1) * 10 ^ 6"
proof -
  have "d div 10 ^ 6 = n \<longleftrightarrow> n * 10 ^ 6 \<le> d \<and> d < (n + 1) * 10 ^ 6" by auto
  then show ?thesis by (simp only: latency_display_def latency.simps latency_unit.case append_same_eq show_nat_inject)
qed

end
