(* ===== verification/On_Early_Drop.thy ===== *)
theory On_Early_Drop
  imports Service
begin

text \<open>
  \<open>on_early_drop/\<close>: callbacks that fire when a response future is dropped before it is ready or a
  response body before its end.  A guard holds its callback until the work is completed; dropping a
  future or a body drops its guard, and the result of dropping is the list of callbacks that run.
\<close>

section \<open>The guard\<close>

record 'k early_drop_guard =
  eg_callback :: "'k option"

definition early_drop_guard_new :: "'k \<Rightarrow> 'k early_drop_guard" where
  "early_drop_guard_new k = \<lparr>eg_callback = Some k\<rparr>"

definition guard_completed :: "'k early_drop_guard \<Rightarrow> 'k early_drop_guard" where
  "guard_completed g = g\<lparr>eg_callback := None\<rparr>"

definition guard_drop :: "'k early_drop_guard \<Rightarrow> 'k list" where
  "guard_drop g = (case eg_callback g of Some k \<Rightarrow> [k] | None \<Rightarrow> [])"

definition guard_drop_opt :: "'k early_drop_guard option \<Rightarrow> 'k list" where
  "guard_drop_opt og = (case og of Some g \<Rightarrow> guard_drop g | None \<Rightarrow> [])"

section \<open>The traits\<close>

datatype noop_drop_callback = NoopDropCallback

type_synonym ('m, 'q, 'k) on_future_drop = "'m \<Rightarrow> 'q \<Rightarrow> 'k \<times> 'm"

definition on_future_drop_fn :: "('q \<Rightarrow> 'k) \<Rightarrow> 'q \<Rightarrow> 'k \<times> ('q \<Rightarrow> 'k)" where
  "on_future_drop_fn g req = (g req, g)"

definition on_future_drop_unit :: "(unit, 'q, noop_drop_callback) on_future_drop" where
  "on_future_drop_unit m req = (NoopDropCallback, m)"

text \<open>The parts of a response are the response without its body.\<close>

record ('m, 'q, 'i, 'r, 'k) on_body_drop =
  make_at_call :: "'m \<Rightarrow> 'q \<Rightarrow> 'i \<times> 'm"
  make_at_response :: "'m \<Rightarrow> 'i \<Rightarrow> 'r \<Rightarrow> 'k \<times> 'm"

definition on_body_drop_unit :: "(unit, 'q, unit, 'r, noop_drop_callback) on_body_drop" where
  "on_body_drop_unit = \<lparr>make_at_call = (\<lambda>m req. ((), m)),
     make_at_response = (\<lambda>m i parts. (NoopDropCallback, m))\<rparr>"

definition on_body_drop_fn :: "('q \<Rightarrow> 'r \<Rightarrow> 'k, 'q, 'r \<Rightarrow> 'k, 'r, 'k) on_body_drop" where
  "on_body_drop_fn = \<lparr>make_at_call = (\<lambda>g req. (g req, g)),
     make_at_response = (\<lambda>g i parts. (i parts, g))\<rparr>"

section \<open>The body\<close>

record ('b, 'k) early_drop_body =
  eb_inner :: 'b
  eb_guard :: "'k early_drop_guard"

definition early_drop_body_new ::
  "('b, 'd, 't, 'e) body_api \<Rightarrow> 'b \<Rightarrow> 'k \<Rightarrow> ('b, 'k) early_drop_body" where
  "early_drop_body_new B b k =
     (let guard = early_drop_guard_new k
      in \<lparr>eb_inner = b, eb_guard = (if body_is_end_stream B b then guard_completed guard else guard)\<rparr>)"

definition early_drop_body_poll_frame ::
  "('b, 'd, 't, 'e) body_api \<Rightarrow> (('b, 'k) early_drop_body, ('d, 't, 'e) frame_result) poll_fn" where
  "early_drop_body_poll_frame B w =
     (case body_poll_frame B (eb_inner w) of
        (Pending, b) \<Rightarrow> (Pending, w\<lparr>eb_inner := b\<rparr>)
      | (Ready result, b) \<Rightarrow>
          (let g0 = eb_guard w;
               g1 = (case result of
                 None \<Rightarrow> guard_completed g0 | Some (Inl _) \<Rightarrow> guard_completed g0 | Some (Inr _) \<Rightarrow> g0);
               g2 = (if (case result of Some (Inr _) \<Rightarrow> True | _ \<Rightarrow> False) \<and> body_is_end_stream B b
                 then guard_completed g1 else g1)
           in (Ready result, w\<lparr>eb_inner := b, eb_guard := g2\<rparr>)))"

definition early_drop_body_api ::
  "('b, 'd, 't, 'e) body_api \<Rightarrow> (('b, 'k) early_drop_body, 'd, 't, 'e) body_api" where
  "early_drop_body_api B = \<lparr>body_poll_frame = early_drop_body_poll_frame B,
     body_is_end_stream = (\<lambda>w. body_is_end_stream B (eb_inner w)),
     body_size_hint = (\<lambda>w. body_size_hint B (eb_inner w))\<rparr>"

definition early_drop_body_drop :: "('b, 'k) early_drop_body \<Rightarrow> 'k list" where
  "early_drop_body_drop w = guard_drop (eb_guard w)"

lemma early_drop_body_contract: "body_contract B \<Longrightarrow> body_contract (early_drop_body_api B)"
  by (auto simp: body_contract_def early_drop_body_api_def early_drop_body_poll_frame_def
      split: prod.split poll.split)

interpretation early_drop_scripted: body_contract "early_drop_body_api script_body"
  by (rule early_drop_body_contract [OF script_body_contract])

section \<open>The future\<close>

record ('f, 'fk, 'i, 'm) early_drop_future =
  ef_inner :: 'f
  ef_future_guard :: "'fk early_drop_guard option"
  ef_intermediate :: "'i option"
  ef_on_body_drop :: "'m option"

definition early_drop_future_new :: "'f \<Rightarrow> 'fk \<Rightarrow> 'm \<Rightarrow> 'i \<Rightarrow> ('f, 'fk, 'i, 'm) early_drop_future" where
  "early_drop_future_new f k m i = \<lparr>ef_inner = f, ef_future_guard = Some (early_drop_guard_new k),
     ef_intermediate = Some i, ef_on_body_drop = Some m\<rparr>"

definition early_drop_future_poll ::
  "('b, 'd, 't, 'i2) body_api \<Rightarrow> ('m, 'q, 'i, ('h, 'x, unit) response, 'bk) on_body_drop \<Rightarrow>
     ('f, 'e + ('h, 'x, 'b) response) poll_fn \<Rightarrow>
     (('f, 'fk, 'i, 'm) early_drop_future, ('e + ('h, 'x, ('b, 'bk) early_drop_body) response) panics) poll_fn" where
  "early_drop_future_poll B D poll w =
     (case poll (ef_inner w) of
        (Pending, f) \<Rightarrow> (Pending, w\<lparr>ef_inner := f\<rparr>)
      | (Ready result, f) \<Rightarrow>
          (let w1 = w\<lparr>ef_inner := f, ef_future_guard := None\<rparr>
           in case result of
                Inr res \<Rightarrow>
                  (case ef_intermediate w of
                     None \<Rightarrow> (Ready (Inl ''intermediate already consumed; OnEarlyDropFuture polled after Ready''), w1)
                   | Some i \<Rightarrow>
                       (case ef_on_body_drop w of
                          None \<Rightarrow> (Ready (Inl ''on_body_drop already consumed; OnEarlyDropFuture polled after Ready''),
                            w1\<lparr>ef_intermediate := None\<rparr>)
                        | Some hook \<Rightarrow>
                            (let (callback, _) = make_at_response D hook i (map_response (\<lambda>_. ()) res)
                             in (Ready (Inr (Inr (map_response (\<lambda>b. early_drop_body_new B b callback) res))),
                                 w1\<lparr>ef_intermediate := None, ef_on_body_drop := None\<rparr>))))
              | Inl err \<Rightarrow> (Ready (Inr (Inl err)), w1)))"

definition early_drop_future_drop :: "('f, 'fk, 'i, 'm) early_drop_future \<Rightarrow> 'fk list" where
  "early_drop_future_drop w = guard_drop_opt (ef_future_guard w)"

section \<open>Layer and service\<close>

record ('fm, 'bm) early_drop_layer =
  el_on_future_drop :: 'fm
  el_on_body_drop :: 'bm

definition early_drop_layer_builder :: "(unit, unit) early_drop_layer" where
  "early_drop_layer_builder = \<lparr>el_on_future_drop = (), el_on_body_drop = ()\<rparr>"

definition early_drop_layer_new :: "'m \<Rightarrow> ('m, 'm) early_drop_layer" where
  "early_drop_layer_new m = \<lparr>el_on_future_drop = m, el_on_body_drop = m\<rparr>"

definition early_drop_layer_on_future_drop :: "'n \<Rightarrow> ('fm, 'bm) early_drop_layer \<Rightarrow> ('n, 'bm) early_drop_layer" where
  "early_drop_layer_on_future_drop m l = \<lparr>el_on_future_drop = m, el_on_body_drop = el_on_body_drop l\<rparr>"

definition early_drop_layer_on_body_drop :: "'n \<Rightarrow> ('fm, 'bm) early_drop_layer \<Rightarrow> ('fm, 'n) early_drop_layer" where
  "early_drop_layer_on_body_drop m l = \<lparr>el_on_future_drop = el_on_future_drop l, el_on_body_drop = m\<rparr>"

record ('s, 'fm, 'bm) early_drop_service =
  es_inner :: 's
  es_on_future_drop :: 'fm
  es_on_body_drop :: 'bm

definition early_drop_service_new :: "'s \<Rightarrow> 'fm \<Rightarrow> 'bm \<Rightarrow> ('s, 'fm, 'bm) early_drop_service" where
  "early_drop_service_new s fm bm = \<lparr>es_inner = s, es_on_future_drop = fm, es_on_body_drop = bm\<rparr>"

definition early_drop_layer_apply :: "('fm, 'bm) early_drop_layer \<Rightarrow> 's \<Rightarrow> ('s, 'fm, 'bm) early_drop_service" where
  "early_drop_layer_apply l s = early_drop_service_new s (el_on_future_drop l) (el_on_body_drop l)"

definition early_drop_call ::
  "('fm, 'q, 'fk) on_future_drop \<Rightarrow> ('bm, 'q, 'i, 'r, 'bk) on_body_drop \<Rightarrow> ('s, 'q, 'f) service_fn \<Rightarrow>
     (('s, 'fm, 'bm) early_drop_service, 'q, ('f, 'fk, 'i, 'bm) early_drop_future) service_fn" where
  "early_drop_call mk D inner_call c req =
     (let (future_callback, fm) = mk (es_on_future_drop c) req;
          (intermediate, bm) = make_at_call D (es_on_body_drop c) req
      in case inner_call (es_inner c) req of
           (s, f) \<Rightarrow> (c\<lparr>es_inner := s, es_on_future_drop := fm, es_on_body_drop := bm\<rparr>,
             early_drop_future_new f future_callback bm intermediate))"

section \<open>Early drops as failures\<close>

datatype dropped_failure = FutureDropped | BodyDropped nat

record 'of early_drops_as_failures =
  ea_on_failure :: 'of

definition early_drops_as_failures_new :: "'of \<Rightarrow> 'of early_drops_as_failures" where
  "early_drops_as_failures_new h = \<lparr>ea_on_failure = h\<rparr>"

record ('of, 'sp) future_drop_failure_callback =
  fd_start :: nat
  fd_on_failure :: 'of
  fd_span :: 'sp

record ('of, 'sp) pre_response_body_drop_callback =
  pd_start :: nat
  pd_on_failure :: 'of
  pd_span :: 'sp

record ('of, 'sp) body_drop_failure_callback =
  bd_start :: nat
  bd_on_failure :: 'of
  bd_span :: 'sp
  bd_status :: nat

text \<open>Running a callback is the call of its failure handler with the class and the latency.\<close>

definition future_drop_on_drop ::
  "nat \<Rightarrow> ('of, 'sp) future_drop_failure_callback \<Rightarrow> 'of \<times> dropped_failure \<times> nat \<times> 'sp" where
  "future_drop_on_drop now k = (fd_on_failure k, FutureDropped, now - fd_start k, fd_span k)"

definition body_drop_on_drop ::
  "nat \<Rightarrow> ('of, 'sp) body_drop_failure_callback \<Rightarrow> 'of \<times> dropped_failure \<times> nat \<times> 'sp" where
  "body_drop_on_drop now k = (bd_on_failure k, BodyDropped (bd_status k), now - bd_start k, bd_span k)"

definition failures_on_future_drop ::
  "nat \<Rightarrow> 'sp \<Rightarrow> ('of early_drops_as_failures, 'q, ('of, 'sp) future_drop_failure_callback) on_future_drop" where
  "failures_on_future_drop now span m req =
     (\<lparr>fd_start = now, fd_on_failure = ea_on_failure m, fd_span = span\<rparr>, m)"

definition failures_on_body_drop ::
  "nat \<Rightarrow> 'sp \<Rightarrow> ('of early_drops_as_failures, 'q, ('of, 'sp) pre_response_body_drop_callback,
     ('h, 'x, unit) response, ('of, 'sp) body_drop_failure_callback) on_body_drop" where
  "failures_on_body_drop now span =
     \<lparr>make_at_call = (\<lambda>m req. (\<lparr>pd_start = now, pd_on_failure = ea_on_failure m, pd_span = span\<rparr>, m)),
      make_at_response = (\<lambda>m i parts. (\<lparr>bd_start = pd_start i, bd_on_failure = pd_on_failure i,
        bd_span = pd_span i, bd_status = res_status parts\<rparr>, m))\<rparr>"

section \<open>When the callbacks fire\<close>

text \<open>A future polled until it is ready, at most \<open>n\<close> times, and then dropped.\<close>

fun poll_then_drop :: "('w, 'o) poll_fn \<Rightarrow> ('w \<Rightarrow> 'k list) \<Rightarrow> nat \<Rightarrow> 'w \<Rightarrow> 'k list" where
  "poll_then_drop poll dr 0 w = dr w"
| "poll_then_drop poll dr (Suc n) w =
     (case poll w of (Ready _, w') \<Rightarrow> dr w' | (Pending, w') \<Rightarrow> poll_then_drop poll dr n w')"

lemma early_drop_future_ready:
  assumes "poll f = (Ready r, f')"
  obtains q w where "early_drop_future_poll B D poll (early_drop_future_new f k m i) = (Ready q, w)"
    "ef_future_guard w = None"
proof (cases r)
  case (Inl e)
  with assms that show ?thesis
    by (auto simp: early_drop_future_poll_def early_drop_future_new_def Let_def)
next
  case (Inr res)
  obtain cb m' where "make_at_response D m i (map_response (\<lambda>_. ()) res) = (cb, m')"
    by (rule prod.exhaust)
  with assms that Inr show ?thesis
    by (auto simp: early_drop_future_poll_def early_drop_future_new_def Let_def)
qed

lemma early_drop_future_run:
  "poll_then_drop (early_drop_future_poll B D poll) early_drop_future_drop n
      (early_drop_future_new f k m i) = (if run_future poll n f = None then [k] else [])"
proof (induction n arbitrary: f)
  case 0
  then show ?case
    by (simp add: early_drop_future_new_def early_drop_future_drop_def guard_drop_opt_def
        guard_drop_def early_drop_guard_new_def)
next
  case (Suc n)
  obtain p f' where pf: "poll f = (p, f')" by (rule prod.exhaust)
  show ?case
  proof (cases p)
    case Pending
    with pf have "early_drop_future_poll B D poll (early_drop_future_new f k m i) =
        (Pending, early_drop_future_new f' k m i)"
      by (simp add: early_drop_future_poll_def early_drop_future_new_def)
    with Suc pf Pending show ?thesis by simp
  next
    case (Ready r)
    obtain q w where q: "early_drop_future_poll B D poll (early_drop_future_new f k m i) = (Ready q, w)"
      and g: "ef_future_guard w = None"
      using early_drop_future_ready [of poll f r f' B D k m i] pf Ready by blast
    with pf Ready show ?thesis
      by (simp add: early_drop_future_drop_def guard_drop_opt_def)
  qed
qed

text \<open>
  The future callback fires exactly on an early drop: the future of a call that is polled
  until it is ready, but at most \<open>n\<close> times, and then dropped runs the callback made for its request
  once if the inner future was not ready within \<open>n\<close> polls, and not at all if it was.
\<close>

theorem future_callback_fires_iff_early:
  "poll_then_drop (early_drop_future_poll B D poll) early_drop_future_drop n
      (snd (early_drop_call mk D inner_call c req)) =
     (if run_future poll n (snd (inner_call (es_inner c) req)) = None
      then [fst (mk (es_on_future_drop c) req)] else [])"
  by (simp add: early_drop_call_def early_drop_future_run split: prod.split)

text \<open>The end of a body is seen when it says so at first or after a frame, or answers \<open>None\<close> or an error.\<close>

fun end_seen :: "('b, 'd, 't, 'e) body_api \<Rightarrow> nat \<Rightarrow> 'b \<Rightarrow> bool" where
  "end_seen B 0 b = False"
| "end_seen B (Suc n) b =
     (case body_poll_frame B b of
        (Pending, b') \<Rightarrow> end_seen B n b'
      | (Ready (Some (Inr f)), b') \<Rightarrow> body_is_end_stream B b' \<or> end_seen B n b'
      | (Ready _, b') \<Rightarrow> True)"

fun body_after :: "('w, 'd, 't, 'e) body_api \<Rightarrow> nat \<Rightarrow> 'w \<Rightarrow> 'w" where
  "body_after B 0 w = w"
| "body_after B (Suc n) w = body_after B n (snd (body_poll_frame B w))"

lemma early_drop_body_completed:
  "eg_callback (eb_guard w) = None \<Longrightarrow>
     eg_callback (eb_guard (body_after (early_drop_body_api B) n w)) = None"
proof (induction n arbitrary: w)
  case (Suc n)
  have "eg_callback (eb_guard (snd (early_drop_body_poll_frame B w))) = None"
    using Suc.prems
    by (auto simp: early_drop_body_poll_frame_def guard_completed_def Let_def
        split: prod.split poll.split option.split sum.split)
  from Suc.IH [OF this] show ?case by (simp add: early_drop_body_api_def)
qed simp

lemma early_drop_body_guard:
  "eg_callback (eb_guard w) = Some k \<Longrightarrow>
     eg_callback (eb_guard (body_after (early_drop_body_api B) n w)) =
       (if end_seen B n (eb_inner w) then None else Some k)"
proof (induction n arbitrary: w)
  case (Suc n)
  obtain p b where pb: "body_poll_frame B (eb_inner w) = (p, b)" by (rule prod.exhaust)
  let ?w = "snd (early_drop_body_poll_frame B w)"
  have after: "body_after (early_drop_body_api B) (Suc n) w = body_after (early_drop_body_api B) n ?w"
    by (simp add: early_drop_body_api_def)
  have inner: "eb_inner ?w = b"
    using pb by (simp add: early_drop_body_poll_frame_def Let_def split: poll.split)
  let ?over = "case p of Pending \<Rightarrow> False | Ready (Some (Inr f)) \<Rightarrow> body_is_end_stream B b | Ready _ \<Rightarrow> True"
  have guard: "eg_callback (eb_guard ?w) = (if ?over then None else Some k)"
    using pb Suc.prems
    by (auto simp: early_drop_body_poll_frame_def guard_completed_def Let_def
        split: poll.split option.split sum.split)
  have seen: "end_seen B (Suc n) (eb_inner w) = (?over \<or> end_seen B n b)"
    if "p = Pending \<or> (\<exists>f. p = Ready (Some (Inr f)))"
    using pb that by auto
  show ?case
  proof (cases ?over)
    case True
    with guard have "eg_callback (eb_guard ?w) = None" by simp
    from early_drop_body_completed [OF this, of B n] have
      "eg_callback (eb_guard (body_after (early_drop_body_api B) (Suc n) w)) = None"
      unfolding after .
    moreover have "end_seen B (Suc n) (eb_inner w)"
      using True pb by (auto split: poll.splits option.splits sum.splits)
    ultimately show ?thesis by simp
  next
    case False
    with guard have "eg_callback (eb_guard ?w) = Some k" by simp
    from Suc.IH [OF this] have "eg_callback (eb_guard (body_after (early_drop_body_api B) (Suc n) w)) =
        (if end_seen B n b then None else Some k)"
      unfolding after inner .
    moreover have "end_seen B (Suc n) (eb_inner w) = end_seen B n b"
      using False pb by (auto split: poll.splits option.splits sum.splits)
    ultimately show ?thesis by simp
  qed
qed simp

text \<open>
  Claim C38. The body callback fires exactly on an early drop: a response body that is polled \<open>n\<close>
  times and then dropped runs its callback once unless its end was seen, that is unless the inner body
  said it was at its end when it was wrapped or after a frame, or answered \<open>None\<close> or an error.
\<close>

theorem body_callback_fires_iff_early:
  "early_drop_body_drop (body_after (early_drop_body_api B) n (early_drop_body_new B b k)) =
     (if body_is_end_stream B b \<or> end_seen B n b then [] else [k])"
proof (cases "body_is_end_stream B b")
  case True
  then have "eg_callback (eb_guard (early_drop_body_new B b k)) = None"
    by (simp add: early_drop_body_new_def guard_completed_def)
  from early_drop_body_completed [OF this, of B n] True show ?thesis
    by (simp add: early_drop_body_drop_def guard_drop_def)
next
  case False
  then have "eg_callback (eb_guard (early_drop_body_new B b k)) = Some k"
    and "eb_inner (early_drop_body_new B b k) = b"
    by (simp_all add: early_drop_body_new_def early_drop_guard_new_def)
  with early_drop_body_guard [of "early_drop_body_new B b k" k B n] False show ?thesis
    by (simp add: early_drop_body_drop_def guard_drop_def)
qed

end
