(* ===== verification/Compression_Utils.thy ===== *)
theory Compression_Utils
  imports Content_Encoding Body
begin

text \<open>
  \<open>compression_utils.rs\<close>: what compression and decompression share.  \<open>AcceptEncoding\<close> is the
  record \<open>supported\<close> of \<open>Content_Encoding\<close>.  \<open>BodyIntoStream\<close> reads the data frames of a body as
  a stream and keeps the first other frame for later; \<open>StreamErrorIntoIoError\<close> replaces an error of
  that stream by a sentinel code and keeps it; \<open>WrapBody\<close> reads a codec over that stream and gives
  its output as data frames, then the frames that the codec left.

  The codecs (\<open>async_compression\<close>), \<open>StreamReader\<close> and \<open>poll_read_buf\<close> (\<open>tokio_util\<close>) are not
  part of the repository.  They are a parameter: the record \<open>codec_api\<close>, which reads bytes through
  the poll function of the stream it is built on.  What is relied on is the locale \<open>codec\<close>: a codec
  that reads a stream to its end gives the bytes of its transformation and then zero bytes, and it
  reports the error of its reader with the state in which the reader gave it.
\<close>

section \<open>AcceptEncoding and CompressionLevel\<close>

definition accept_encoding_default :: supported where
  "accept_encoding_default = \<lparr>sup_gzip = True, sup_deflate = True, sup_br = True, sup_zstd = True\<rparr>"

definition set_gzip :: "supported \<Rightarrow> bool \<Rightarrow> supported" where
  "set_gzip a enable = a\<lparr>sup_gzip := enable\<rparr>"

definition set_deflate :: "supported \<Rightarrow> bool \<Rightarrow> supported" where
  "set_deflate a enable = a\<lparr>sup_deflate := enable\<rparr>"

definition set_br :: "supported \<Rightarrow> bool \<Rightarrow> supported" where
  "set_br a enable = a\<lparr>sup_br := enable\<rparr>"

definition set_zstd :: "supported \<Rightarrow> bool \<Rightarrow> supported" where
  "set_zstd a enable = a\<lparr>sup_zstd := enable\<rparr>"

fun accept_value :: "bool \<Rightarrow> bool \<Rightarrow> bool \<Rightarrow> bool \<Rightarrow> string option" where
  "accept_value True True True False = Some ''gzip,deflate,br''"
| "accept_value True True False False = Some ''gzip,deflate''"
| "accept_value True False True False = Some ''gzip,br''"
| "accept_value True False False False = Some ''gzip''"
| "accept_value False True True False = Some ''deflate,br''"
| "accept_value False True False False = Some ''deflate''"
| "accept_value False False True False = Some ''br''"
| "accept_value True True True True = Some ''zstd,gzip,deflate,br''"
| "accept_value True True False True = Some ''zstd,gzip,deflate''"
| "accept_value True False True True = Some ''zstd,gzip,br''"
| "accept_value True False False True = Some ''zstd,gzip''"
| "accept_value False True True True = Some ''zstd,deflate,br''"
| "accept_value False True False True = Some ''zstd,deflate''"
| "accept_value False False True True = Some ''zstd,br''"
| "accept_value False False False True = Some ''zstd''"
| "accept_value False False False False = None"

definition to_header_value :: "supported \<Rightarrow> string option" where
  "to_header_value a = accept_value (sup_gzip a) (sup_deflate a) (sup_br a) (sup_zstd a)"

datatype compression_level = Fastest | Best | Default | Precise int

datatype async_level = AsyncFastest | AsyncBest | AsyncDefault | AsyncPrecise int

fun into_async_compression :: "compression_level \<Rightarrow> async_level" where
  "into_async_compression Fastest = AsyncFastest"
| "into_async_compression Best = AsyncBest"
| "into_async_compression Default = AsyncDefault"
| "into_async_compression (Precise quality) = AsyncPrecise quality"

text \<open>
  The header value lists exactly the enabled codings, so negotiation with it offers those alone.
\<close>

definition accept_names :: "supported \<Rightarrow> string list" where
  "accept_names a = (if sup_zstd a then [''zstd''] else []) @ (if sup_gzip a then [''gzip''] else [])
     @ (if sup_deflate a then [''deflate''] else []) @ (if sup_br a then [''br''] else [])"

lemma to_header_value_names:
  "to_header_value a = (if accept_names a = [] then None else Some (join_with '','' (accept_names a)))"
  by (cases "sup_gzip a"; cases "sup_deflate a"; cases "sup_br a"; cases "sup_zstd a")
    (simp_all add: to_header_value_def accept_names_def)

lemma to_header_value_visible: "to_header_value a = Some v \<Longrightarrow> list_all visible_ascii v"
  by (cases "sup_gzip a"; cases "sup_deflate a"; cases "sup_br a"; cases "sup_zstd a")
    (auto simp: to_header_value_def visible_ascii_def byte_def)

lemma accept_name_of: "w \<in> set (accept_names a) \<Longrightarrow> \<exists>e. w = enc_to_str e \<and> e \<noteq> Identity \<and> is_supported a e"
  by (auto simp: accept_names_def split: if_splits
      intro: exI [of _ Zstd] exI [of _ Gzip] exI [of _ Deflate] exI [of _ Brotli])

lemma split_accept_value: "to_header_value a = Some v \<Longrightarrow> split_on CHR '','' v = accept_names a"
proof -
  assume "to_header_value a = Some v"
  then have v: "v = join_with '','' (accept_names a)" and "accept_names a \<noteq> []"
    by (auto simp: to_header_value_names split: if_splits)
  moreover have "\<forall>w \<in> set (accept_names a). CHR '','' \<notin> set w"
    by (auto simp: accept_names_def)
  ultimately show ?thesis by (simp add: split_on_join)
qed

lemma name_item: "encoding_item se (enc_to_str e) =
    (if is_supported se e then Some (e, qvalue_one) else None)"
  by (cases e) (simp_all add: encoding_item_def item_qvalue_def encoding_parse_def string_defs)

lemma name_not_wildcard: "wildcard_item (enc_to_str e) = None"
  by (cases e) (simp_all add: wildcard_item_def string_defs)

lemma find_map_None: "(\<And>x. x \<in> set xs \<Longrightarrow> g x = None) \<Longrightarrow> find_map g xs = None"
  by (induction xs) auto

context header_text
begin

lemma accept_items_value:
  assumes "hm_get_all H h ''accept-encoding'' = [v]" "to_header_value a = Some v"
  shows "accept_items H h = accept_names a"
  using assms to_str_visible [OF to_header_value_visible]
  by (simp add: accept_items_def split_accept_value)

text \<open>
  Negotiation of a server with the value that a client sends for its own codings: never a refusal,
  and always a coding of the client.
\<close>

lemma from_headers_of_client:
  assumes sent: "hm_get_all H h ''accept-encoding'' = (case to_header_value a of None \<Rightarrow> [] | Some v \<Rightarrow> [v])"
  shows "\<exists>e. from_headers H h se = Some e \<and> is_supported a e"
proof (cases "to_header_value a")
  case None
  with sent from_headers_no_header show ?thesis by simp
next
  case (Some v)
  with sent have items: "accept_items H h = accept_names a" by (simp add: accept_items_value)
  have wild: "wildcard_qvalue H h = None"
    unfolding wildcard_qvalue_def items
    by (rule find_map_None) (auto dest!: accept_name_of simp: name_not_wildcard)
  have ones: "e \<noteq> Identity \<and> is_supported a e" if "(e, q) \<in> set (encodings H h se)" for e q
    using that by (auto simp: encodings_def items set_map_filter_iff name_item split: if_splits
        dest!: accept_name_of)
  show ?thesis
  proof (cases "from_headers H h se")
    case None
    with wild ones show ?thesis by (auto simp: from_headers_candidates split: option.splits if_splits)
  next
    case (Some e)
    show ?thesis
    proof (cases "preferred_encoding (encodings H h se)")
      case None
      with Some wild show ?thesis
        by (auto simp: from_headers_candidates candidates_def split: if_splits)
    next
      case pref: (Some e')
      with Some wild have "e' = e" by (simp add: from_headers_candidates candidates_def)
      with preferred_encoding_Some [OF pref] ones Some show ?thesis by (auto simp: best_of_def)
    qed
  qed
qed

end

section \<open>BodyIntoStream\<close>

record ('b, 'd, 't) body_into_stream =
  bis_body :: 'b
  bis_yielded_all_data :: bool
  bis_non_data_frame :: "('d, 't) frame option"

definition body_into_stream_new :: "'b \<Rightarrow> ('b, 'd, 't) body_into_stream" where
  "body_into_stream_new b =
     \<lparr>bis_body = b, bis_yielded_all_data = False, bis_non_data_frame = None\<rparr>"

text \<open>
  The loop of \<open>poll_next\<close> comes round at most once: after a frame that is not data, or the end of
  the body, its first test is true and it answers \<open>None\<close>.
\<close>

definition bis_poll_next ::
  "('b, 'd, 't, 'e) body_api \<Rightarrow> (('b, 'd, 't) body_into_stream, ('e + 'd) option) poll_fn" where
  "bis_poll_next B s =
     (if bis_yielded_all_data s then (Ready None, s)
      else (case body_poll_frame B (bis_body s) of
              (Pending, b) \<Rightarrow> (Pending, s\<lparr>bis_body := b\<rparr>)
            | (Ready (Some (Inr (DataFrame d))), b) \<Rightarrow> (Ready (Some (Inr d)), s\<lparr>bis_body := b\<rparr>)
            | (Ready (Some (Inr (TrailersFrame t))), b) \<Rightarrow>
                (Ready None, s\<lparr>bis_body := b, bis_yielded_all_data := True,
                   bis_non_data_frame := Some (TrailersFrame t)\<rparr>)
            | (Ready (Some (Inl e)), b) \<Rightarrow> (Ready (Some (Inl e)), s\<lparr>bis_body := b\<rparr>)
            | (Ready None, b) \<Rightarrow> (Ready None, s\<lparr>bis_body := b, bis_yielded_all_data := True\<rparr>)))"

definition bis_poll_frame ::
  "('b, 'd, 't, 'e) body_api \<Rightarrow> (('b, 'd, 't) body_into_stream, ('d, 't, 'e) frame_result) poll_fn" where
  "bis_poll_frame B s =
     (case bis_poll_next B s of
        (Pending, s1) \<Rightarrow> (Pending, s1)
      | (Ready (Some r), s1) \<Rightarrow> (Ready (Some (map_result DataFrame r)), s1)
      | (Ready None, s1) \<Rightarrow>
          (case bis_non_data_frame s1 of
             Some f \<Rightarrow> (Ready (Some (Inr f)), s1\<lparr>bis_non_data_frame := None\<rparr>)
           | None \<Rightarrow> (case body_poll_frame B (bis_body s1) of (p, b) \<Rightarrow> (p, s1\<lparr>bis_body := b\<rparr>))))"

definition bis_body_api ::
  "('b, 'd, 't, 'e) body_api \<Rightarrow> (('b, 'd, 't) body_into_stream, 'd, 't, 'e) body_api" where
  "bis_body_api B = \<lparr>body_poll_frame = bis_poll_frame B, body_is_end_stream = (\<lambda>s. False),
     body_size_hint = (\<lambda>s. body_size_hint B (bis_body s))\<rparr>"

section \<open>StreamErrorIntoIoError\<close>

text \<open>
  \<open>io::Error\<close> of the standard library: from an operating system code, or any other (its message).
\<close>

datatype io_error = RawOs int | IoOther string

fun raw_os_error :: "io_error \<Rightarrow> int option" where
  "raw_os_error (RawOs c) = Some c"
| "raw_os_error (IoOther m) = None"

definition SENTINEL_ERROR_CODE :: int where
  "SENTINEL_ERROR_CODE = - 837459418"

record ('s, 'e) stream_error_into_io =
  sei_inner :: 's
  sei_error :: "'e option"
  sei_read_some_data :: bool

definition stream_error_into_io_new :: "'s \<Rightarrow> ('s, 'e) stream_error_into_io" where
  "stream_error_into_io_new s = \<lparr>sei_inner = s, sei_error = None, sei_read_some_data = False\<rparr>"

definition sei_poll_next ::
  "('s, ('e + 'd) option) poll_fn \<Rightarrow> (('s, 'e) stream_error_into_io, (io_error + 'd) option) poll_fn" where
  "sei_poll_next poll s =
     (case poll (sei_inner s) of
        (Pending, i) \<Rightarrow> (Pending, s\<lparr>sei_inner := i\<rparr>)
      | (Ready None, i) \<Rightarrow> (Ready None, s\<lparr>sei_inner := i\<rparr>)
      | (Ready (Some (Inr d)), i) \<Rightarrow>
          (Ready (Some (Inr d)), s\<lparr>sei_inner := i, sei_read_some_data := True\<rparr>)
      | (Ready (Some (Inl e)), i) \<Rightarrow>
          (Ready (Some (Inl (RawOs SENTINEL_ERROR_CODE))), s\<lparr>sei_inner := i, sei_error := Some e\<rparr>))"

section \<open>Codecs\<close>

text \<open>
  A codec over a stream of type \<open>'s\<close>: \<open>DecorateAsyncRead::apply\<close> on a \<open>StreamReader\<close> of the
  stream, the stream inside (\<open>get_pin_mut\<close> twice), and \<open>poll_read_buf\<close>, which gives the bytes it
  has put in the buffer, none at the end.
\<close>

record ('m, 's, 'd) codec_api =
  codec_new :: "'s \<Rightarrow> compression_level \<Rightarrow> 'm"
  codec_stream :: "'m \<Rightarrow> 's"
  codec_set_stream :: "'s \<Rightarrow> 'm \<Rightarrow> 'm"
  codec_poll_read :: "('s, (io_error + 'd) option) poll_fn \<Rightarrow> ('m, io_error + string) poll_fn"

text \<open>
  A stream read to its end, and a reader read until it gives zero bytes, without an error: the
  chunks and the state in which the end was reported.
\<close>

inductive stream_reads :: "('s, ('e + 'd) option) poll_fn \<Rightarrow> 's \<Rightarrow> 'd list \<Rightarrow> 's \<Rightarrow> bool" for poll where
  stream_end: "poll s = (Ready None, s') \<Longrightarrow> stream_reads poll s [] s'"
| stream_pending: "poll s = (Pending, s1) \<Longrightarrow> stream_reads poll s1 ds s' \<Longrightarrow> stream_reads poll s ds s'"
| stream_chunk: "poll s = (Ready (Some (Inr d)), s1) \<Longrightarrow> stream_reads poll s1 ds s' \<Longrightarrow>
    stream_reads poll s (d # ds) s'"

inductive codec_reads :: "('m, io_error + string) poll_fn \<Rightarrow> 'm \<Rightarrow> string list \<Rightarrow> 'm \<Rightarrow> bool" for poll where
  codec_end: "poll m = (Ready (Inr []), m') \<Longrightarrow> codec_reads poll m [] m'"
| codec_pending: "poll m = (Pending, m1) \<Longrightarrow> codec_reads poll m1 cs m' \<Longrightarrow> codec_reads poll m cs m'"
| codec_chunk: "poll m = (Ready (Inr c), m1) \<Longrightarrow> c \<noteq> [] \<Longrightarrow> codec_reads poll m1 cs m' \<Longrightarrow>
    codec_reads poll m (c # cs) m'"

text \<open>
  What a codec leaves of a stream that ends in state \<open>s'\<close> carries no bytes: it has read the stream
  to its end, or what remains are empty chunks.
\<close>

definition stream_spent :: "('s, ('e + string) option) poll_fn \<Rightarrow> 's \<Rightarrow> 's \<Rightarrow> bool" where
  "stream_spent poll s s' \<longleftrightarrow> s = s' \<or> (\<exists>es. stream_reads poll s es s' \<and> concat es = [])"

locale codec =
  fixes C :: "('m, 's, string) codec_api"
    and code :: "string \<Rightarrow> string option"
  assumes stream_set: "codec_stream C (codec_set_stream C s m) = s"
    and read_all: "stream_reads next s ds s' \<Longrightarrow> code (concat ds) = Some out \<Longrightarrow>
      \<exists>cs m. codec_reads (codec_poll_read C next) (codec_new C s q) cs m \<and>
        concat cs = out \<and> stream_spent next (codec_stream C m) s'"
    and reader_error: "codec_poll_read C next m = (Ready (Inl (RawOs SENTINEL_ERROR_CODE)), m') \<Longrightarrow>
      \<exists>s. next s = (Ready (Some (Inl (RawOs SENTINEL_ERROR_CODE))), codec_stream C m')"

section \<open>WrapBody\<close>

text \<open>
  The \<open>BoxError\<close>s of \<open>poll_frame\<close>.  Its \<open>unreachable!()\<close> is kept as the error \<open>Panicked\<close>.
\<close>

datatype 'e box_error = BodyError 'e | IoError io_error | Message string | Panicked

record 'm wrap_body =
  wb_read :: 'm
  wb_buf :: string
  wb_read_all_data :: bool

type_synonym ('b, 'd, 't, 'e) body_stream = "(('b, 'd, 't) body_into_stream, 'e) stream_error_into_io"

definition body_stream_new :: "'b \<Rightarrow> ('b, 'd, 't, 'e) body_stream" where
  "body_stream_new b = stream_error_into_io_new (body_into_stream_new b)"

definition wrap_body_new ::
  "('m, ('b, 'd, 't, 'e) body_stream, 'd) codec_api \<Rightarrow> 'b \<Rightarrow> compression_level \<Rightarrow> 'm wrap_body" where
  "wrap_body_new C b quality =
     \<lparr>wb_read = codec_new C (body_stream_new b) quality, wb_buf = [], wb_read_all_data = False\<rparr>"

text \<open>The frames behind the codec: trailers pass, data must be empty.\<close>

definition rest_poll_frame ::
  "('m, ('b, string, 't, 'e) body_stream, string) codec_api \<Rightarrow> ('b, string, 't, 'e) body_api \<Rightarrow>
     ('m wrap_body, (string, 't, 'e box_error) frame_result) poll_fn" where
  "rest_poll_frame C B w =
     (let s = codec_stream C (wb_read w) in
      (case bis_poll_frame B (sei_inner s) of (p, i) \<Rightarrow>
        ((case p of
            Pending \<Rightarrow> Pending
          | Ready (Some (Inr (TrailersFrame t))) \<Rightarrow> Ready (Some (Inr (TrailersFrame t)))
          | Ready (Some (Inr (DataFrame d))) \<Rightarrow>
              (if d \<noteq> [] then Ready (Some (Inl (Message
                   ''there are extra bytes after body has been decompressed'')))
               else Ready (Some (Inr (DataFrame d))))
          | Ready (Some (Inl e)) \<Rightarrow> Ready (Some (Inl (BodyError e)))
          | Ready None \<Rightarrow> Ready None),
         w\<lparr>wb_read := codec_set_stream C (s\<lparr>sei_inner := i\<rparr>) (wb_read w)\<rparr>)))"

definition wrap_body_poll_frame ::
  "('m, ('b, string, 't, 'e) body_stream, string) codec_api \<Rightarrow> ('b, string, 't, 'e) body_api \<Rightarrow>
     ('m wrap_body, (string, 't, 'e box_error) frame_result) poll_fn" where
  "wrap_body_poll_frame C B w =
     (if wb_read_all_data w then rest_poll_frame C B w
      else (case codec_poll_read C (sei_poll_next (bis_poll_next B)) (wb_read w) of
              (Pending, m) \<Rightarrow> (Pending, w\<lparr>wb_read := m\<rparr>)
            | (Ready (Inr bytes), m) \<Rightarrow>
                (if bytes = [] then rest_poll_frame C B (w\<lparr>wb_read := m, wb_read_all_data := True\<rparr>)
                 else (Ready (Some (Inr (DataFrame (wb_buf w @ bytes)))),
                       w\<lparr>wb_read := m, wb_buf := []\<rparr>))
            | (Ready (Inl err), m) \<Rightarrow>
                (let s = codec_stream C m;
                     w' = w\<lparr>wb_read := codec_set_stream C (s\<lparr>sei_error := None\<rparr>) m\<rparr>
                 in (case sei_error s of
                       Some e \<Rightarrow> (Ready (Some (Inl (BodyError e))), w')
                     | None \<Rightarrow>
                         (if raw_os_error err = Some SENTINEL_ERROR_CODE
                          then (Ready (Some (Inl Panicked)), w')
                          else if sei_read_some_data s then (Ready (Some (Inl (IoError err))), w')
                          else rest_poll_frame C B w')))))"

definition wrap_body_api ::
  "('m, ('b, string, 't, 'e) body_stream, string) codec_api \<Rightarrow> ('b, string, 't, 'e) body_api \<Rightarrow>
     ('m wrap_body, string, 't, 'e box_error) body_api" where
  "wrap_body_api C B = \<lparr>body_poll_frame = wrap_body_poll_frame C B,
     body_is_end_stream = (\<lambda>w. False), body_size_hint = (\<lambda>w. size_hint_default)\<rparr>"

section \<open>BodyIntoStream is transparent\<close>

lemma bis_poll_frame_end:
  "bis_poll_next B s = (Ready None, s1) \<Longrightarrow> bis_poll_frame B s = bis_poll_frame B s1"
proof -
  assume a: "bis_poll_next B s = (Ready None, s1)"
  then have "bis_yielded_all_data s1"
    by (auto simp: bis_poll_next_def
        split: if_splits prod.splits poll.splits option.splits sum.splits frame.splits)
  then have "bis_poll_next B s1 = (Ready None, s1)" by (simp add: bis_poll_next_def)
  with a show ?thesis by (simp add: bis_poll_frame_def)
qed

lemma reads_bis_behind:
  assumes "reads B b fs" "bis_body s = b" "bis_yielded_all_data s" "bis_non_data_frame s = None"
  shows "reads (bis_body_api B) s fs"
  by (rule reads_simulation [where B = B and P = "\<lambda>f. True" and
        R = "\<lambda>b s. bis_body s = b \<and> bis_yielded_all_data s \<and> bis_non_data_frame s = None"])
    (use assms in \<open>auto simp: bis_body_api_def bis_poll_frame_def bis_poll_next_def list_all_iff\<close>)

text \<open>
  The stream of a body that reads as a message gives the data of the message, and what is left reads
  as its trailers.
\<close>

lemma stream_of_body:
  assumes "reads B b (message_frames ds t)"
    and "bis_body (sei_inner s) = b" "\<not> bis_yielded_all_data (sei_inner s)"
      "bis_non_data_frame (sei_inner s) = None" "sei_error s = None"
  shows "\<exists>s'. stream_reads (sei_poll_next (bis_poll_next B)) s ds s' \<and>
    reads (bis_body_api B) (sei_inner s') (message_frames [] t)"
  using assms
proof (induction b "message_frames ds t" arbitrary: ds s rule: reads.induct)
  case (reads_end b b')
  let ?s' = "s\<lparr>sei_inner := (sei_inner s)\<lparr>bis_body := b', bis_yielded_all_data := True\<rparr>\<rparr>"
  from reads_end.hyps(3) [symmetric] have "ds = []" "t = None" by (simp_all add: message_frames_Nil)
  moreover from reads_end have "stream_reads (sei_poll_next (bis_poll_next B)) s [] ?s'"
    by (intro stream_end) (simp add: sei_poll_next_def bis_poll_next_def)
  moreover from reads_end have "reads (bis_body_api B) (sei_inner ?s') []"
    by (intro reads_bis_behind [of _ b'] ended_reads) auto
  ultimately show ?case by (intro exI [of _ ?s']) simp
next
  case (reads_pending b b')
  let ?s1 = "s\<lparr>sei_inner := (sei_inner s)\<lparr>bis_body := b'\<rparr>\<rparr>"
  from reads_pending have "sei_poll_next (bis_poll_next B) s = (Pending, ?s1)"
    by (simp add: sei_poll_next_def bis_poll_next_def)
  with reads_pending.hyps(3) [of ds ?s1] reads_pending.prems show ?case
    by (auto intro: stream_pending)
next
  case (reads_frame b f b' fs)
  show ?case
  proof (cases f)
    case (DataFrame d)
    with reads_frame.hyps(4) obtain ds' where ds: "ds = d # ds'" "fs = message_frames ds' t"
      by (metis message_frames_Data)
    let ?s1 = "s\<lparr>sei_inner := (sei_inner s)\<lparr>bis_body := b'\<rparr>, sei_read_some_data := True\<rparr>"
    from reads_frame DataFrame have "sei_poll_next (bis_poll_next B) s = (Ready (Some (Inr d)), ?s1)"
      by (simp add: sei_poll_next_def bis_poll_next_def)
    with reads_frame.hyps(3) [of ds' ?s1] reads_frame.prems ds show ?thesis
      by (auto intro: stream_chunk)
  next
    case (TrailersFrame x)
    with reads_frame.hyps(4) have ds: "ds = []" "t = Some x" "fs = []"
      by (metis message_frames_Trailers)+
    let ?i = "(sei_inner s)\<lparr>bis_body := b', bis_yielded_all_data := True,
      bis_non_data_frame := Some (TrailersFrame x)\<rparr>"
    from reads_frame TrailersFrame have "stream_reads (sei_poll_next (bis_poll_next B)) s []
        (s\<lparr>sei_inner := ?i\<rparr>)"
      by (intro stream_end) (simp add: sei_poll_next_def bis_poll_next_def)
    moreover have "bis_poll_frame B ?i = (Ready (Some (Inr (TrailersFrame x))), ?i\<lparr>bis_non_data_frame := None\<rparr>)"
      by (simp add: bis_poll_frame_def bis_poll_next_def)
    moreover from reads_frame.hyps(2) ds(3) have "reads (bis_body_api B) (?i\<lparr>bis_non_data_frame := None\<rparr>) []"
      by (intro reads_bis_behind) auto
    ultimately show ?thesis using ds
      by (auto simp: bis_body_api_def intro!: exI [of _ "s\<lparr>sei_inner := ?i\<rparr>"] reads.reads_frame)
  qed
qed

lemma reads_stream:
  assumes "stream_reads (sei_poll_next (bis_poll_next B)) s ds s'"
    and "reads (bis_body_api B) (sei_inner s') fs"
  shows "reads (bis_body_api B) (sei_inner s) (map DataFrame ds @ fs)"
  using assms
proof (induction s ds s' rule: stream_reads.induct)
  case (stream_end s s')
  then have "bis_poll_next B (sei_inner s) = (Ready None, sei_inner s')"
    by (auto simp: sei_poll_next_def split: prod.splits poll.splits option.splits sum.splits)
  then have "body_poll_frame (bis_body_api B) (sei_inner s) = body_poll_frame (bis_body_api B) (sei_inner s')"
    by (simp add: bis_body_api_def bis_poll_frame_end)
  with stream_end.prems show ?case by (simp add: reads_same_poll)
next
  case (stream_pending s s1 ds s')
  then have "bis_poll_next B (sei_inner s) = (Pending, sei_inner s1)"
    by (auto simp: sei_poll_next_def split: prod.splits poll.splits option.splits sum.splits)
  then have "body_poll_frame (bis_body_api B) (sei_inner s) = (Pending, sei_inner s1)"
    by (simp add: bis_body_api_def bis_poll_frame_def)
  then show ?case by (rule reads_pending) (rule stream_pending.IH [OF stream_pending.prems])
next
  case (stream_chunk s d s1 ds s')
  then have "bis_poll_next B (sei_inner s) = (Ready (Some (Inr d)), sei_inner s1)"
    by (auto simp: sei_poll_next_def split: prod.splits poll.splits option.splits sum.splits)
  then have "body_poll_frame (bis_body_api B) (sei_inner s) = (Ready (Some (Inr (DataFrame d))), sei_inner s1)"
    by (simp add: bis_body_api_def bis_poll_frame_def)
  then show ?case using stream_chunk.IH [OF stream_chunk.prems] by (auto intro: reads_frame)
qed

text \<open>As a \<open>Body\<close> of its own, a fresh \<open>BodyIntoStream\<close> reads as the body it holds.\<close>

lemma reads_bis:
  assumes "reads B b (message_frames ds t)"
  shows "reads (bis_body_api B) (body_into_stream_new b) (message_frames ds t)"
proof -
  obtain s' :: "('a, 'b, 'c, 'd) body_stream" where
    s: "stream_reads (sei_poll_next (bis_poll_next B)) (body_stream_new b) ds s'"
      "reads (bis_body_api B) (sei_inner s') (message_frames [] t)"
    using stream_of_body [OF assms, of "body_stream_new b"]
    by (auto simp: body_stream_new_def stream_error_into_io_new_def body_into_stream_new_def)
  from reads_stream [OF s] show ?thesis
    by (simp add: message_frames_def body_stream_new_def stream_error_into_io_new_def)
qed

section \<open>WrapBody gives the output of the codec and then the trailers\<close>

definition no_bytes :: "(string, 't) frame list \<Rightarrow> bool" where
  "no_bytes fs = list_all (\<lambda>f. case f of DataFrame d \<Rightarrow> d = [] | TrailersFrame t \<Rightarrow> True) fs"

lemma no_bytes_message: "no_bytes (message_frames ds t) \<longleftrightarrow> concat ds = []"
  by (induction ds) (auto simp: no_bytes_def split: frame.splits option.splits,
      cases t, auto)

definition behind :: "('m, ('b, string, 't, 'e) body_stream, string) codec_api \<Rightarrow>
    ('b, string, 't) body_into_stream \<Rightarrow> 'm wrap_body \<Rightarrow> bool" where
  "behind C i w \<longleftrightarrow> sei_inner (codec_stream C (wb_read w)) = i \<and> wb_read_all_data w"

lemma reads_behind:
  assumes set: "\<And>s m. codec_stream C (codec_set_stream C s m) = s"
    and "reads (bis_body_api B) i fs" "behind C i w" "no_bytes fs"
  shows "reads (wrap_body_api C B) w fs"
  by (rule reads_simulation [where B = "bis_body_api B" and R = "behind C" and
        P = "\<lambda>f. case f of DataFrame d \<Rightarrow> d = [] | TrailersFrame t \<Rightarrow> True"])
    (use assms(2-4) in \<open>auto simp: bis_body_api_def wrap_body_api_def wrap_body_poll_frame_def
      rest_poll_frame_def behind_def no_bytes_def Let_def set split: frame.splits\<close>)

lemma reads_codec:
  fixes C :: "('m, ('b, string, 't, 'e) body_stream, string) codec_api"
  assumes set: "\<And>s m. codec_stream C (codec_set_stream C s m) = s"
  assumes "codec_reads (codec_poll_read C (sei_poll_next (bis_poll_next B))) m cs m'"
    and rest: "reads (bis_body_api B) (sei_inner (codec_stream C m')) fs" "no_bytes fs"
  shows "wb_read w = m \<Longrightarrow> \<not> wb_read_all_data w \<Longrightarrow> wb_buf w = [] \<Longrightarrow>
    reads (wrap_body_api C B) w (map DataFrame cs @ fs)"
  using assms(2) rest(1)
proof (induction m cs m' arbitrary: w rule: codec_reads.induct)
  case (codec_end m m')
  let ?w = "w\<lparr>wb_read := m', wb_read_all_data := True\<rparr>"
  have "reads (wrap_body_api C B) ?w fs"
    by (rule reads_behind [OF set codec_end.prems(4)]) (simp_all add: behind_def rest)
  moreover have "body_poll_frame (wrap_body_api C B) w = body_poll_frame (wrap_body_api C B) ?w"
    using codec_end by (simp add: wrap_body_api_def wrap_body_poll_frame_def)
  ultimately show ?case by (simp add: reads_same_poll)
next
  case (codec_pending m m1 cs m')
  have "reads (wrap_body_api C B) (w\<lparr>wb_read := m1\<rparr>) (map DataFrame cs @ fs)"
    by (rule codec_pending.IH) (simp_all add: codec_pending.prems)
  moreover from codec_pending
  have "body_poll_frame (wrap_body_api C B) w = (Pending, w\<lparr>wb_read := m1\<rparr>)"
    by (simp add: wrap_body_api_def wrap_body_poll_frame_def)
  ultimately show ?case by (rule reads.reads_pending [rotated])
next
  case (codec_chunk m c m1 cs m')
  have "reads (wrap_body_api C B) (w\<lparr>wb_read := m1\<rparr>) (map DataFrame cs @ fs)"
    by (rule codec_chunk.IH) (simp_all add: codec_chunk.prems)
  moreover have "body_poll_frame (wrap_body_api C B) w = (Ready (Some (Inr (DataFrame c))), w\<lparr>wb_read := m1\<rparr>)"
    using codec_chunk by (simp add: wrap_body_api_def wrap_body_poll_frame_def)
  ultimately show ?case by (simp add: reads.reads_frame)
qed

text \<open>
  A wrapped body that reads as data and trailers reads, over a codec, as the codec's output and the
  same trailers.
\<close>

theorem reads_wrap_body:
  fixes C :: "('m, ('b, string, 't, 'e) body_stream, string) codec_api"
  assumes codec: "codec C code" and body: "reads B b (message_frames ds t)"
    and coded: "code (concat ds) = Some out"
  shows "\<exists>es. reads (wrap_body_api C B) (wrap_body_new C b q) (message_frames es t) \<and> concat es = out"
proof -
  let ?next = "sei_poll_next (bis_poll_next B) :: (('b, string, 't, 'e) body_stream, _) poll_fn"
  obtain s' where s': "stream_reads ?next (body_stream_new b) ds s'"
      "reads (bis_body_api B) (sei_inner s') (message_frames [] t)"
    using stream_of_body [OF body, of "body_stream_new b"]
    by (auto simp: body_stream_new_def stream_error_into_io_new_def body_into_stream_new_def)
  from codec.read_all [OF codec s'(1) coded, of q] obtain cs m where
    m: "codec_reads (codec_poll_read C ?next) (codec_new C (body_stream_new b) q) cs m"
      "concat cs = out" "stream_spent ?next (codec_stream C m) s'"
    by blast
  obtain es where es: "concat es = []" "reads (bis_body_api B) (sei_inner (codec_stream C m)) (message_frames es t)"
  proof (cases "codec_stream C m = s'")
    case True
    with s' that [of "[]"] show ?thesis by simp
  next
    case False
    with m(3) obtain es where es: "stream_reads ?next (codec_stream C m) es s'" "concat es = []"
      by (auto simp: stream_spent_def)
    with reads_stream [OF es(1) s'(2)] that [of es] show ?thesis by (simp add: message_frames_def)
  qed
  have "reads (wrap_body_api C B) (wrap_body_new C b q) (map DataFrame cs @ message_frames es t)"
    by (rule reads_codec [OF codec.stream_set [OF codec] m(1) es(2)])
      (simp_all add: wrap_body_new_def no_bytes_message es(1))
  with m(2) es(1) show ?thesis
    by (intro exI [of _ "cs @ es"]) (simp add: message_frames_def)
qed

text \<open>
  An error that the codec took from the body is given out as the body's own error; the
  \<open>unreachable!()\<close> is not reached.
\<close>

lemma sei_sentinel:
  "sei_poll_next poll s = (Ready (Some (Inl (RawOs SENTINEL_ERROR_CODE))), s') \<Longrightarrow>
     \<exists>e. sei_error s' = Some e \<and> fst (poll (sei_inner s)) = Ready (Some (Inl e))"
  by (auto simp: sei_poll_next_def split: prod.splits poll.splits option.splits sum.splits)

lemma wrap_body_never_panics:
  fixes C :: "('m, ('b, string, 't, 'e) body_stream, string) codec_api"
  assumes "codec C code"
  shows "fst (wrap_body_poll_frame C B w) \<noteq> Ready (Some (Inl Panicked))"
proof -
  have rest: "fst (rest_poll_frame C B v) \<noteq> Ready (Some (Inl Panicked))" for v
    by (auto simp: rest_poll_frame_def Let_def split: prod.splits poll.splits option.splits sum.splits frame.splits)
  have "sei_error (codec_stream C m) \<noteq> None"
    if "codec_poll_read C (sei_poll_next (bis_poll_next B)) (wb_read w) = (Ready (Inl err), m)"
      "raw_os_error err = Some SENTINEL_ERROR_CODE" for err m
  proof -
    from that have "err = RawOs SENTINEL_ERROR_CODE" by (cases err) auto
    with that codec.reader_error [OF assms] obtain s where
      "sei_poll_next (bis_poll_next B) s = (Ready (Some (Inl (RawOs SENTINEL_ERROR_CODE))), codec_stream C m)"
      by blast
    from sei_sentinel [OF this] show ?thesis by auto
  qed
  with rest show ?thesis
    by (auto simp: wrap_body_poll_frame_def Let_def split: prod.splits poll.splits option.splits sum.splits)
qed

section \<open>A reference codec: a function of bytes, chunk by chunk\<close>

text \<open>
  It gives each chunk as it comes; an empty chunk makes it yield, since zero bytes mean the end.
\<close>

definition byte_codec_read ::
  "(char \<Rightarrow> char) \<Rightarrow> ('s, (io_error + string) option) poll_fn \<Rightarrow> ('s, io_error + string) poll_fn" where
  "byte_codec_read g next s =
     (case next s of
        (Pending, s') \<Rightarrow> (Pending, s')
      | (Ready None, s') \<Rightarrow> (Ready (Inr []), s')
      | (Ready (Some (Inr d)), s') \<Rightarrow> (if d = [] then Pending else Ready (Inr (map g d)), s')
      | (Ready (Some (Inl e)), s') \<Rightarrow> (Ready (Inl e), s'))"

definition byte_codec :: "(char \<Rightarrow> char) \<Rightarrow> ('s, 's, string) codec_api" where
  "byte_codec g = \<lparr>codec_new = (\<lambda>s q. s), codec_stream = (\<lambda>m. m), codec_set_stream = (\<lambda>s m. s),
     codec_poll_read = byte_codec_read g\<rparr>"

lemma byte_codec_reads:
  "stream_reads next s ds s' \<Longrightarrow>
     codec_reads (byte_codec_read g next) s (map (map g) (filter (\<lambda>d. d \<noteq> []) ds)) s'"
proof (induction rule: stream_reads.induct)
  case (stream_end s s')
  then show ?case by (auto simp: byte_codec_read_def intro: codec_end)
next
  case (stream_pending s s1 ds s')
  then show ?case by (auto simp: byte_codec_read_def intro: codec_pending)
next
  case (stream_chunk s d s1 ds s')
  then show ?case
    by (cases "d = []") (auto simp: byte_codec_read_def intro: codec_pending codec_chunk)
qed

lemma codec_byte_codec: "codec (byte_codec g) (\<lambda>d. Some (map g d))"
proof
  fix "next" :: "('s, (io_error + string) option) poll_fn" and s s' ds out q
  assume "stream_reads next s ds s'" "Some (map g (concat ds)) = Some out"
  moreover have "concat (map (map g) (filter (\<lambda>d. d \<noteq> []) ds)) = map g (concat ds)"
    by (induction ds) auto
  ultimately show "\<exists>cs m. codec_reads (codec_poll_read (byte_codec g) next) (codec_new (byte_codec g) s q) cs m \<and>
      concat cs = out \<and> stream_spent next (codec_stream (byte_codec g) m) s'"
    using byte_codec_reads [of "next" s ds s' g]
    by (intro exI [of _ "map (map g) (filter (\<lambda>d. d \<noteq> []) ds)"] exI [of _ s'])
      (simp add: byte_codec_def stream_spent_def)
qed (auto simp: byte_codec_def byte_codec_read_def split: prod.splits poll.splits option.splits
    sum.splits if_splits)

interpretation bytes: codec "byte_codec g" "\<lambda>d. Some (map g d)" for g
  by (rule codec_byte_codec)

end
