(* ===== verification/Compression.thy ===== *)
theory Compression
  imports Compression_Utils Service
begin

text \<open>
  \<open>compression/\<close>: the predicates that decide whether a response is compressed, the response
  future that rewrites the response, and the body that carries one of four encoders or the inner
  body.  The coding is chosen from the request by \<open>from_headers\<close> of \<open>Content_Encoding\<close>; the bodies
  are the wrapped bodies of \<open>Compression_Utils\<close>.  The encoders of \<open>async_compression\<close> are a
  parameter, one \<open>async_encoder\<close> per coding.  All \<open>compression-*\<close> features are on, so
  the arm of the match that only another set of features reaches is left out.
\<close>

section \<open>Predicates\<close>

type_synonym ('h, 'x, 'b) predicate = "('h, 'x, 'b) response \<Rightarrow> bool"

definition fn_predicate :: "(nat \<Rightarrow> string \<Rightarrow> 'h \<Rightarrow> 'x \<Rightarrow> bool) \<Rightarrow> ('h, 'x, 'b) predicate" where
  "fn_predicate g r = g (res_status r) (res_version r) (res_headers r) (res_extensions r)"

definition option_predicate :: "('h, 'x, 'b) predicate option \<Rightarrow> ('h, 'x, 'b) predicate" where
  "option_predicate p r = (case p of Some inner \<Rightarrow> inner r | None \<Rightarrow> True)"

definition and_predicate ::
  "('h, 'x, 'b) predicate \<Rightarrow> ('h, 'x, 'b) predicate \<Rightarrow> ('h, 'x, 'b) predicate" where
  "and_predicate lhs rhs r = (lhs r \<and> rhs r)"

definition hint_exact :: "size_hint \<Rightarrow> nat option" where
  "hint_exact h = (if sh_upper h = Some (sh_lower h) then sh_upper h else None)"

definition DEFAULT_MIN_SIZE :: nat where
  "DEFAULT_MIN_SIZE = 32"

definition content_size ::
  "('h, 'v, 'x) http_api \<Rightarrow> ('b, 'd, 't, 'e) body_api \<Rightarrow> ('h, 'x, 'b) response \<Rightarrow> nat option" where
  "content_size H B r =
     (case hint_exact (body_size_hint B (res_body r)) of
        Some n \<Rightarrow> Some n
      | None \<Rightarrow> Option.bind (Option.bind (hm_get H (res_headers r) ''content-length'') (to_str H)) parse_usize)"

definition size_above ::
  "('h, 'v, 'x) http_api \<Rightarrow> ('b, 'd, 't, 'e) body_api \<Rightarrow> nat \<Rightarrow> ('h, 'x, 'b) predicate" where
  "size_above H B min_size_bytes r =
     (case content_size H B r of Some n \<Rightarrow> n \<ge> min_size_bytes | None \<Rightarrow> True)"

datatype shared_str = Static string | Shared string

fun as_str :: "shared_str \<Rightarrow> string" where
  "as_str (Static s) = s"
| "as_str (Shared s) = s"

record not_for_content_type =
  nf_content_type :: shared_str
  nf_exception :: "shared_str option"

definition not_for_grpc :: not_for_content_type where
  "not_for_grpc = \<lparr>nf_content_type = Static ''application/grpc'',
     nf_exception = Some (Static ''application/grpc-web'')\<rparr>"

definition not_for_images :: not_for_content_type where
  "not_for_images = \<lparr>nf_content_type = Static ''image/'',
     nf_exception = Some (Static ''image/svg+xml'')\<rparr>"

definition not_for_const_new :: "string \<Rightarrow> not_for_content_type" where
  "not_for_const_new s = \<lparr>nf_content_type = Static s, nf_exception = None\<rparr>"

definition not_for_new :: "string \<Rightarrow> not_for_content_type" where
  "not_for_new s = \<lparr>nf_content_type = Shared s, nf_exception = None\<rparr>"

definition not_for_sse :: not_for_content_type where
  "not_for_sse = not_for_const_new ''text/event-stream''"

definition content_type :: "('h, 'v, 'x) http_api \<Rightarrow> ('h, 'x, 'b) response \<Rightarrow> string" where
  "content_type H r =
     (case Option.bind (hm_get H (res_headers r) ''content-type'') (to_str H) of
        Some s \<Rightarrow> s | None \<Rightarrow> [])"

definition not_for ::
  "('h, 'v, 'x) http_api \<Rightarrow> not_for_content_type \<Rightarrow> ('h, 'x, 'b) predicate" where
  "not_for H n r =
     (let cty = content_type H r in
      if (case nf_exception n of Some except \<Rightarrow> starts_with cty (as_str except) | None \<Rightarrow> False)
      then True
      else \<not> starts_with cty (as_str (nf_content_type n)))"

definition default_predicate ::
  "('h, 'v, 'x) http_api \<Rightarrow> ('b, 'd, 't, 'e) body_api \<Rightarrow> ('h, 'x, 'b) predicate" where
  "default_predicate H B =
     and_predicate
       (and_predicate
         (and_predicate (size_above H B DEFAULT_MIN_SIZE) (not_for H not_for_grpc))
         (not_for H not_for_images))
       (not_for H not_for_sse)"

section \<open>Encoders\<close>

text \<open>
  \<open>with_quality\<close> of an encoder of \<open>async_compression\<close>, with the window log of
  \<open>with_quality_and_params\<close> if that is the constructor called.
\<close>

record ('m, 's, 'd) async_encoder =
  ae_with_quality :: "'s \<Rightarrow> async_level \<Rightarrow> int option \<Rightarrow> 'm"
  ae_stream :: "'m \<Rightarrow> 's"
  ae_set_stream :: "'s \<Rightarrow> 'm \<Rightarrow> 'm"
  ae_poll_read :: "('s, (io_error + 'd) option) poll_fn \<Rightarrow> ('m, io_error + string) poll_fn"

definition brotli_level :: "compression_level \<Rightarrow> async_level" where
  "brotli_level quality =
     (case quality of Default \<Rightarrow> AsyncPrecise 4 | other \<Rightarrow> into_async_compression other)"

definition needs_window_limit :: "compression_level \<Rightarrow> bool" where
  "needs_window_limit quality = (case quality of Best \<Rightarrow> True | Precise level \<Rightarrow> level \<ge> 17 | _ \<Rightarrow> False)"

definition encoder_with ::
  "('m, 's, 'd) async_encoder \<Rightarrow> ('s \<Rightarrow> compression_level \<Rightarrow> 'm) \<Rightarrow> ('m, 's, 'd) codec_api" where
  "encoder_with A apply_fn = \<lparr>codec_new = apply_fn, codec_stream = ae_stream A,
     codec_set_stream = ae_set_stream A, codec_poll_read = ae_poll_read A\<rparr>"

definition gzip_encoder :: "('m, 's, 'd) async_encoder \<Rightarrow> ('m, 's, 'd) codec_api" where
  "gzip_encoder A =
     encoder_with A (\<lambda>input quality. ae_with_quality A input (into_async_compression quality) None)"

definition zlib_encoder :: "('m, 's, 'd) async_encoder \<Rightarrow> ('m, 's, 'd) codec_api" where
  "zlib_encoder A =
     encoder_with A (\<lambda>input quality. ae_with_quality A input (into_async_compression quality) None)"

definition brotli_encoder :: "('m, 's, 'd) async_encoder \<Rightarrow> ('m, 's, 'd) codec_api" where
  "brotli_encoder A =
     encoder_with A (\<lambda>input quality. ae_with_quality A input (brotli_level quality) None)"

definition zstd_encoder :: "('m, 's, 'd) async_encoder \<Rightarrow> ('m, 's, 'd) codec_api" where
  "zstd_encoder A =
     encoder_with A (\<lambda>input quality.
       if needs_window_limit quality
       then ae_with_quality A input (into_async_compression quality) (Some 23)
       else ae_with_quality A input (into_async_compression quality) None)"

record ('m, 's, 'd) encoders =
  enc_gzip :: "('m, 's, 'd) async_encoder"
  enc_deflate :: "('m, 's, 'd) async_encoder"
  enc_br :: "('m, 's, 'd) async_encoder"
  enc_zstd :: "('m, 's, 'd) async_encoder"

text \<open>The four codecs of a body; those of the compression middleware are the encoders.\<close>

record ('m, 's, 'd) codecs =
  co_gzip :: "('m, 's, 'd) codec_api"
  co_deflate :: "('m, 's, 'd) codec_api"
  co_br :: "('m, 's, 'd) codec_api"
  co_zstd :: "('m, 's, 'd) codec_api"

definition encoder_codecs :: "('m, 's, 'd) encoders \<Rightarrow> ('m, 's, 'd) codecs" where
  "encoder_codecs E = \<lparr>co_gzip = gzip_encoder (enc_gzip E), co_deflate = zlib_encoder (enc_deflate E),
     co_br = brotli_encoder (enc_br E), co_zstd = zstd_encoder (enc_zstd E)\<rparr>"

section \<open>The body\<close>

text \<open>
  \<open>BodyInner\<close>, for compression and for decompression: the codecs differ, the variants do not.
  \<open>coded_body\<close> is the \<open>Body\<close> of both, given the codec of each variant.
\<close>

datatype ('b, 'm) body_inner =
  GzipBody "'m wrap_body" | DeflateBody "'m wrap_body" | BrotliBody "'m wrap_body"
| ZstdBody "'m wrap_body" | IdentityBody 'b

record ('b, 'm) compression_body = cb_inner :: "('b, 'm) body_inner"

definition compression_body_new :: "('b, 'm) body_inner \<Rightarrow> ('b, 'm) compression_body" where
  "compression_body_new i = \<lparr>cb_inner = i\<rparr>"

definition compression_body_default :: "'b \<Rightarrow> ('b, 'm) compression_body" where
  "compression_body_default b = \<lparr>cb_inner = IdentityBody b\<rparr>"

type_synonym ('b, 't, 'e, 'm) stream_codecs = "('m, ('b, string, 't, 'e) body_stream, string) codecs"

text \<open>The inner body, through the codec, the reader and the stream around it.\<close>

definition wrapped_body ::
  "('m, ('b, string, 't, 'e) body_stream, string) codec_api \<Rightarrow> 'm wrap_body \<Rightarrow> 'b" where
  "wrapped_body C w = bis_body (sei_inner (codec_stream C (wb_read w)))"

fun compression_get_ref :: "('b, 't, 'e, 'm) stream_codecs \<Rightarrow> ('b, 'm) body_inner \<Rightarrow> 'b" where
  "compression_get_ref K (GzipBody w) = wrapped_body (co_gzip K) w"
| "compression_get_ref K (DeflateBody w) = wrapped_body (co_deflate K) w"
| "compression_get_ref K (BrotliBody w) = wrapped_body (co_br K) w"
| "compression_get_ref K (ZstdBody w) = wrapped_body (co_zstd K) w"
| "compression_get_ref K (IdentityBody b) = b"

fun box_frame_result :: "('d, 't, 'e) frame_result \<Rightarrow> ('d, 't, 'e box_error) frame_result" where
  "box_frame_result (Some (Inr f)) = Some (Inr f)"
| "box_frame_result (Some (Inl e)) = Some (Inl (BodyError e))"
| "box_frame_result None = None"

fun compression_poll_frame ::
  "('b, 't, 'e, 'm) stream_codecs \<Rightarrow> ('b, string, 't, 'e) body_api \<Rightarrow>
     (('b, 'm) body_inner, (string, 't, 'e box_error) frame_result) poll_fn" where
  "compression_poll_frame K B (GzipBody w) =
     (case wrap_body_poll_frame (co_gzip K) B w of (p, w') \<Rightarrow> (p, GzipBody w'))"
| "compression_poll_frame K B (DeflateBody w) =
     (case wrap_body_poll_frame (co_deflate K) B w of (p, w') \<Rightarrow> (p, DeflateBody w'))"
| "compression_poll_frame K B (BrotliBody w) =
     (case wrap_body_poll_frame (co_br K) B w of (p, w') \<Rightarrow> (p, BrotliBody w'))"
| "compression_poll_frame K B (ZstdBody w) =
     (case wrap_body_poll_frame (co_zstd K) B w of (p, w') \<Rightarrow> (p, ZstdBody w'))"
| "compression_poll_frame K B (IdentityBody b) =
     (case body_poll_frame B b of (p, b') \<Rightarrow> (map_ready box_frame_result p, IdentityBody b'))"

definition compression_body_api ::
  "('b, 't, 'e, 'm) stream_codecs \<Rightarrow> ('b, string, 't, 'e) body_api \<Rightarrow>
     (('b, 'm) compression_body, string, 't, 'e box_error) body_api" where
  "compression_body_api K B =
     \<lparr>body_poll_frame = (\<lambda>c. case compression_poll_frame K B (cb_inner c) of (p, i) \<Rightarrow> (p, c\<lparr>cb_inner := i\<rparr>)),
      body_is_end_stream = (\<lambda>c. case cb_inner c of IdentityBody b \<Rightarrow> body_is_end_stream B b | _ \<Rightarrow> False),
      body_size_hint = (\<lambda>c. case cb_inner c of IdentityBody b \<Rightarrow> body_size_hint B b | _ \<Rightarrow> size_hint_default)\<rparr>"

section \<open>The response future\<close>

text \<open>
  The \<open>while\<close> loop over the suffixes of the haystack.
\<close>

function contains_ignore_ascii_case :: "string \<Rightarrow> string \<Rightarrow> bool" where
  "contains_ignore_ascii_case haystack needle =
     (if length needle \<le> length haystack
      then (if eq_ignore_ascii_case (take (length needle) haystack) needle then True
            else contains_ignore_ascii_case (drop 1 haystack) needle)
      else False)"
  by pat_completeness auto

termination contains_ignore_ascii_case
proof (relation "measure (\<lambda>(haystack, needle). length haystack)")
  fix haystack needle :: string
  assume "length needle \<le> length haystack" "\<not> eq_ignore_ascii_case (take (length needle) haystack) needle"
  then show "((drop 1 haystack, needle), (haystack, needle)) \<in> measure (\<lambda>(haystack, needle). length haystack)"
    by (cases haystack) auto
qed simp

declare contains_ignore_ascii_case.simps [simp del]

record ('f, 'p) compression_future =
  cf_inner :: 'f
  cf_encoding :: "encoding option"
  cf_predicate :: 'p
  cf_quality :: compression_level

text \<open>\<open>Vary\<close> gains \<open>accept-encoding\<close> unless one of its values has it.\<close>

definition vary_accept_encoding :: "('h, string, 'x) http_api \<Rightarrow> 'h \<Rightarrow> 'h" where
  "vary_accept_encoding H h =
     (if \<not> list_ex (\<lambda>v. contains_ignore_ascii_case v ''accept-encoding'') (hm_get_all H h ''vary'')
      then hm_append H h ''vary'' ''accept-encoding'' else h)"

definition should_compress ::
  "('h, string, 'x) http_api \<Rightarrow> ('h, 'x, 'b) predicate \<Rightarrow> ('h, 'x, 'b) response \<Rightarrow> bool" where
  "should_compress H predicate r =
     (\<not> hm_contains H (res_headers r) ''content-encoding'' \<and>
      \<not> hm_contains H (res_headers r) ''content-range'' \<and> predicate r)"

definition compressed_headers :: "('h, string, 'x) http_api \<Rightarrow> encoding \<Rightarrow> 'h \<Rightarrow> 'h" where
  "compressed_headers H e h =
     (let h1 = snd (hm_remove H h ''accept-ranges'');
          h2 = snd (hm_remove H h1 ''content-length'')
      in hm_insert H h2 ''content-encoding'' (enc_to_str e))"

definition with_headers_body ::
  "('h, 'x, 'b) response \<Rightarrow> 'h \<Rightarrow> 'c \<Rightarrow> ('h, 'x, 'c) response" where
  "with_headers_body r h c = map_response (\<lambda>b. c) (r\<lparr>res_headers := h\<rparr>)"

definition compress_response ::
  "('h, string, 'x) http_api \<Rightarrow> ('b, 't, 'e, 'm) stream_codecs \<Rightarrow> encoding option \<Rightarrow>
     ('h, 'x, 'b) predicate \<Rightarrow> compression_level \<Rightarrow> ('h, 'x, 'b) response \<Rightarrow>
     ('h, 'x, ('b, 'm) compression_body) response" where
  "compress_response H K encoding predicate quality r =
     (case encoding of
        None \<Rightarrow>
          (let r1 = r\<lparr>res_status := 406\<rparr>
           in with_headers_body r1 (vary_accept_encoding H (res_headers r1))
                (compression_body_new (IdentityBody (res_body r))))
      | Some enc \<Rightarrow>
          (let should = should_compress H predicate r;
               h = (if should then vary_accept_encoding H (res_headers r) else res_headers r);
               coded = (\<lambda>i. with_headers_body r (compressed_headers H enc h) (compression_body_new i))
           in if \<not> should \<or> enc = Identity
              then with_headers_body r h (compression_body_new (IdentityBody (res_body r)))
              else (case enc of
                      Gzip \<Rightarrow> coded (GzipBody (wrap_body_new (co_gzip K) (res_body r) quality))
                    | Deflate \<Rightarrow> coded (DeflateBody (wrap_body_new (co_deflate K) (res_body r) quality))
                    | Brotli \<Rightarrow> coded (BrotliBody (wrap_body_new (co_br K) (res_body r) quality))
                    | _ \<Rightarrow> coded (ZstdBody (wrap_body_new (co_zstd K) (res_body r) quality)))))"

definition compression_future_poll ::
  "('h, string, 'x) http_api \<Rightarrow> ('b, 't, 'e, 'm) stream_codecs \<Rightarrow>
     ('f, 'er + ('h, 'x, 'b) response) poll_fn \<Rightarrow>
     (('f, ('h, 'x, 'b) predicate) compression_future,
      'er + ('h, 'x, ('b, 'm) compression_body) response) poll_fn" where
  "compression_future_poll H K poll w =
     (case poll (cf_inner w) of
        (p, f) \<Rightarrow>
          (map_ready (map_result (compress_response H K (cf_encoding w) (cf_predicate w) (cf_quality w))) p,
           w\<lparr>cf_inner := f\<rparr>))"

section \<open>The service\<close>

record ('s, 'p) compression =
  cs_inner :: 's
  cs_accept :: supported
  cs_predicate :: 'p
  cs_quality :: compression_level

record 'p compression_layer =
  cl_accept :: supported
  cl_predicate :: 'p
  cl_quality :: compression_level

definition compression_new ::
  "('h, string, 'x) http_api \<Rightarrow> ('b, 'd, 't, 'e) body_api \<Rightarrow> 's \<Rightarrow>
     ('s, ('h, 'x, 'b) predicate) compression" where
  "compression_new H B service = \<lparr>cs_inner = service, cs_accept = accept_encoding_default,
     cs_predicate = default_predicate H B, cs_quality = Default\<rparr>"

definition compression_layer_new ::
  "('h, string, 'x) http_api \<Rightarrow> ('b, 'd, 't, 'e) body_api \<Rightarrow> ('h, 'x, 'b) predicate compression_layer" where
  "compression_layer_new H B = \<lparr>cl_accept = accept_encoding_default,
     cl_predicate = default_predicate H B, cl_quality = Default\<rparr>"

definition compression_layer_layer :: "'p compression_layer \<Rightarrow> 's \<Rightarrow> ('s, 'p) compression" where
  "compression_layer_layer l inner = \<lparr>cs_inner = inner, cs_accept = cl_accept l,
     cs_predicate = cl_predicate l, cs_quality = cl_quality l\<rparr>"

definition compression_gzip :: "('s, 'p) compression \<Rightarrow> bool \<Rightarrow> ('s, 'p) compression" where
  "compression_gzip c enable = c\<lparr>cs_accept := set_gzip (cs_accept c) enable\<rparr>"

definition compression_deflate :: "('s, 'p) compression \<Rightarrow> bool \<Rightarrow> ('s, 'p) compression" where
  "compression_deflate c enable = c\<lparr>cs_accept := set_deflate (cs_accept c) enable\<rparr>"

definition compression_br :: "('s, 'p) compression \<Rightarrow> bool \<Rightarrow> ('s, 'p) compression" where
  "compression_br c enable = c\<lparr>cs_accept := set_br (cs_accept c) enable\<rparr>"

definition compression_zstd :: "('s, 'p) compression \<Rightarrow> bool \<Rightarrow> ('s, 'p) compression" where
  "compression_zstd c enable = c\<lparr>cs_accept := set_zstd (cs_accept c) enable\<rparr>"

definition compression_no_gzip :: "('s, 'p) compression \<Rightarrow> ('s, 'p) compression" where
  "compression_no_gzip c = c\<lparr>cs_accept := set_gzip (cs_accept c) False\<rparr>"

definition compression_no_deflate :: "('s, 'p) compression \<Rightarrow> ('s, 'p) compression" where
  "compression_no_deflate c = c\<lparr>cs_accept := set_deflate (cs_accept c) False\<rparr>"

definition compression_no_br :: "('s, 'p) compression \<Rightarrow> ('s, 'p) compression" where
  "compression_no_br c = c\<lparr>cs_accept := set_br (cs_accept c) False\<rparr>"

definition compression_no_zstd :: "('s, 'p) compression \<Rightarrow> ('s, 'p) compression" where
  "compression_no_zstd c = c\<lparr>cs_accept := set_zstd (cs_accept c) False\<rparr>"

definition compression_quality :: "('s, 'p) compression \<Rightarrow> compression_level \<Rightarrow> ('s, 'p) compression" where
  "compression_quality c level = c\<lparr>cs_quality := level\<rparr>"

definition compression_layer_gzip :: "'p compression_layer \<Rightarrow> bool \<Rightarrow> 'p compression_layer" where
  "compression_layer_gzip c enable = c\<lparr>cl_accept := set_gzip (cl_accept c) enable\<rparr>"

definition compression_layer_deflate :: "'p compression_layer \<Rightarrow> bool \<Rightarrow> 'p compression_layer" where
  "compression_layer_deflate c enable = c\<lparr>cl_accept := set_deflate (cl_accept c) enable\<rparr>"

definition compression_layer_br :: "'p compression_layer \<Rightarrow> bool \<Rightarrow> 'p compression_layer" where
  "compression_layer_br c enable = c\<lparr>cl_accept := set_br (cl_accept c) enable\<rparr>"

definition compression_layer_zstd :: "'p compression_layer \<Rightarrow> bool \<Rightarrow> 'p compression_layer" where
  "compression_layer_zstd c enable = c\<lparr>cl_accept := set_zstd (cl_accept c) enable\<rparr>"

definition compression_layer_no_gzip :: "'p compression_layer \<Rightarrow> 'p compression_layer" where
  "compression_layer_no_gzip c = c\<lparr>cl_accept := set_gzip (cl_accept c) False\<rparr>"

definition compression_layer_no_deflate :: "'p compression_layer \<Rightarrow> 'p compression_layer" where
  "compression_layer_no_deflate c = c\<lparr>cl_accept := set_deflate (cl_accept c) False\<rparr>"

definition compression_layer_no_br :: "'p compression_layer \<Rightarrow> 'p compression_layer" where
  "compression_layer_no_br c = c\<lparr>cl_accept := set_br (cl_accept c) False\<rparr>"

definition compression_layer_no_zstd :: "'p compression_layer \<Rightarrow> 'p compression_layer" where
  "compression_layer_no_zstd c = c\<lparr>cl_accept := set_zstd (cl_accept c) False\<rparr>"

definition compression_layer_quality :: "'p compression_layer \<Rightarrow> compression_level \<Rightarrow> 'p compression_layer" where
  "compression_layer_quality c level = c\<lparr>cl_quality := level\<rparr>"

definition compression_compress_when :: "('s, 'p) compression \<Rightarrow> 'q \<Rightarrow> ('s, 'q) compression" where
  "compression_compress_when c predicate = \<lparr>cs_inner = cs_inner c, cs_accept = cs_accept c,
     cs_predicate = predicate, cs_quality = cs_quality c\<rparr>"

definition compression_layer_compress_when :: "'p compression_layer \<Rightarrow> 'q \<Rightarrow> 'q compression_layer" where
  "compression_layer_compress_when l predicate = \<lparr>cl_accept = cl_accept l,
     cl_predicate = predicate, cl_quality = cl_quality l\<rparr>"

definition compression_call ::
  "('h, string, 'x) http_api \<Rightarrow> ('s, ('h, 'u, 'x, 'q) request, 'f) service_fn \<Rightarrow>
     (('s, 'p) compression, ('h, 'u, 'x, 'q) request, ('f, 'p) compression_future) service_fn" where
  "compression_call H call c req =
     (let encoding = from_headers H (req_headers req) (cs_accept c);
          (s, f) = call (cs_inner c) req
      in (c\<lparr>cs_inner := s\<rparr>,
          \<lparr>cf_inner = f, cf_encoding = encoding, cf_predicate = cs_predicate c, cf_quality = cs_quality c\<rparr>))"

section \<open>What compression does to a response\<close>

lemma contains_ignore_ascii_case_iff:
  "contains_ignore_ascii_case haystack needle \<longleftrightarrow>
     (\<exists>p m s. haystack = p @ m @ s \<and> eq_ignore_ascii_case m needle)"
proof (induction haystack needle rule: contains_ignore_ascii_case.induct)
  case (1 haystack needle)
  have len: "length m = length needle" if "eq_ignore_ascii_case m needle" for m
    using that unfolding eq_ignore_ascii_case_def by (metis length_map)
  show ?case
  proof
    assume "contains_ignore_ascii_case haystack needle"
    then consider "eq_ignore_ascii_case (take (length needle) haystack) needle"
      | "length needle \<le> length haystack" "\<not> eq_ignore_ascii_case (take (length needle) haystack) needle"
        "contains_ignore_ascii_case (drop 1 haystack) needle"
      by (subst (asm) contains_ignore_ascii_case.simps) (auto split: if_splits)
    then show "\<exists>p m s. haystack = p @ m @ s \<and> eq_ignore_ascii_case m needle"
    proof cases
      case 1
      then show ?thesis
        by (intro exI [of _ "[]"] exI [of _ "take (length needle) haystack"]
            exI [of _ "drop (length needle) haystack"]) simp
    next
      case 2
      with "1.IH" obtain p m s where "drop 1 haystack = p @ m @ s" "eq_ignore_ascii_case m needle"
        by blast
      then have "haystack = (take 1 haystack @ p) @ m @ s" by (metis append.assoc append_take_drop_id)
      with \<open>eq_ignore_ascii_case m needle\<close> show ?thesis by blast
    qed
  next
    assume "\<exists>p m s. haystack = p @ m @ s \<and> eq_ignore_ascii_case m needle"
    then obtain p m s where h: "haystack = p @ m @ s" and m: "eq_ignore_ascii_case m needle" by blast
    have le: "length needle \<le> length haystack" using len [OF m] h by simp
    show "contains_ignore_ascii_case haystack needle"
    proof (cases "eq_ignore_ascii_case (take (length needle) haystack) needle")
      case True
      with le show ?thesis by (simp add: contains_ignore_ascii_case.simps)
    next
      case False
      with h m len [OF m] obtain c p' where "p = c # p'" by (cases p) auto
      with h m have "\<exists>p m s. drop 1 haystack = p @ m @ s \<and> eq_ignore_ascii_case m needle" by auto
      with "1.IH" le False show ?thesis by (subst contains_ignore_ascii_case.simps) simp
    qed
  qed
qed

text \<open>The coding of a body, and the coding that a response is to have.\<close>

fun body_coding :: "('b, 'm) body_inner \<Rightarrow> encoding" where
  "body_coding (GzipBody w) = Gzip"
| "body_coding (DeflateBody w) = Deflate"
| "body_coding (BrotliBody w) = Brotli"
| "body_coding (ZstdBody w) = Zstd"
| "body_coding (IdentityBody b) = Identity"

definition response_coding ::
  "('h, string, 'x) http_api \<Rightarrow> encoding option \<Rightarrow> ('h, 'x, 'b) predicate \<Rightarrow>
     ('h, 'x, 'b) response \<Rightarrow> encoding" where
  "response_coding H encoding predicate r =
     (case encoding of
        Some e \<Rightarrow> if should_compress H predicate r then e else Identity
      | None \<Rightarrow> Identity)"

interpretation compress_adaptor: response_adaptor poll "compression_future_poll H K poll" cf_inner
    "\<lambda>w. map_result (compress_response H K (cf_encoding w) (cf_predicate w) (cf_quality w))"
  for poll H K
  by unfold_locales (simp_all add: compression_future_poll_def)

lemma with_headers_body_simps [simp]:
  "res_status (with_headers_body r h c) = res_status r"
  "res_version (with_headers_body r h c) = res_version r"
  "res_extensions (with_headers_body r h c) = res_extensions r"
  "res_headers (with_headers_body r h c) = h" "res_body (with_headers_body r h c) = c"
  by (simp_all add: with_headers_body_def)

definition adds_vary ::
  "('h, string, 'x) http_api \<Rightarrow> encoding option \<Rightarrow> ('h, 'x, 'b) predicate \<Rightarrow> ('h, 'x, 'b) response \<Rightarrow> bool" where
  "adds_vary H encoding predicate r \<longleftrightarrow> encoding = None \<or> should_compress H predicate r"

definition vary_values ::
  "('h, string, 'x) http_api \<Rightarrow> encoding option \<Rightarrow> ('h, 'x, 'b) predicate \<Rightarrow> ('h, 'x, 'b) response \<Rightarrow> string list" where
  "vary_values H encoding predicate r =
     (let vs = hm_get_all H (res_headers r) ''vary'' in
      if adds_vary H encoding predicate r \<and>
         \<not> list_ex (\<lambda>v. contains_ignore_ascii_case v ''accept-encoding'') vs
      then vs @ [''accept-encoding''] else vs)"

definition compressed_headers_of ::
  "('h, string, 'x) http_api \<Rightarrow> encoding option \<Rightarrow> ('h, 'x, 'b) predicate \<Rightarrow> ('h, 'x, 'b) response \<Rightarrow>
     string \<Rightarrow> string list" where
  "compressed_headers_of H encoding predicate r n =
     (let e = response_coding H encoding predicate r in
      if n = ''vary'' then vary_values H encoding predicate r
      else if e \<noteq> Identity \<and> n = ''content-encoding'' then [enc_to_str e]
      else if e \<noteq> Identity \<and> n \<in> {''content-length'', ''accept-ranges''} then []
      else hm_get_all H (res_headers r) n)"

lemma compress_response_parts:
  "res_status (compress_response H K encoding p q r) = (if encoding = None then 406 else res_status r)"
  "res_version (compress_response H K encoding p q r) = res_version r"
  "res_extensions (compress_response H K encoding p q r) = res_extensions r"
  "res_headers (compress_response H K encoding p q r) =
     (let e = response_coding H encoding p r;
          h = (if adds_vary H encoding p r then vary_accept_encoding H (res_headers r) else res_headers r)
      in if e = Identity then h else compressed_headers H e h)"
  "body_coding (cb_inner (res_body (compress_response H K encoding p q r))) =
     response_coding H encoding p r"
  by (auto simp: compress_response_def response_coding_def adds_vary_def Let_def compression_body_new_def
      split: option.split encoding.split)

context header_text
begin

lemma get_all_vary_accept_encoding:
  "hm_get_all H (vary_accept_encoding H h) n =
     (if n = ''vary'' \<and> \<not> list_ex (\<lambda>v. contains_ignore_ascii_case v ''accept-encoding'') (hm_get_all H h ''vary'')
      then hm_get_all H h n @ [''accept-encoding''] else hm_get_all H h n)"
  by (simp add: vary_accept_encoding_def get_all_append)

lemma get_all_compressed_headers:
  "hm_get_all H (compressed_headers H e h) n =
     (if n = ''content-encoding'' then [enc_to_str e]
      else if n \<in> {''content-length'', ''accept-ranges''} then [] else hm_get_all H h n)"
  by (simp add: compressed_headers_def laws)

lemma get_all_compress_response:
  "hm_get_all H (res_headers (compress_response H K encoding p q r)) n =
     compressed_headers_of H encoding p r n"
  by (auto simp: compress_response_parts compressed_headers_of_def vary_values_def Let_def
      get_all_vary_accept_encoding get_all_compressed_headers)

end

text \<open>
  Claim C18.  The response of the compression middleware, for whatever the inner service answers:
  its body has the chosen coding exactly when the response has no content coding and no range yet
  and the predicate admits it; \<open>Content-Encoding\<close> then names that coding, and the length and range
  headers that no longer hold are gone; 406 is answered exactly when no coding was acceptable;
  \<open>Vary\<close> names \<open>accept-encoding\<close> whenever the request had an influence; nothing else changes.
\<close>

theorem compression_response:
  assumes "header_text H" and run: "run_future poll n (cf_inner w) = Some (Inr r)"
  shows "\<exists>r'. run_future (compression_future_poll H K poll) n w = Some (Inr r') \<and>
    body_coding (cb_inner (res_body r')) = response_coding H (cf_encoding w) (cf_predicate w) r \<and>
    res_status r' = (if cf_encoding w = None then 406 else res_status r) \<and>
    res_version r' = res_version r \<and> res_extensions r' = res_extensions r \<and>
    hm_get_all H (res_headers r') = compressed_headers_of H (cf_encoding w) (cf_predicate w) r"
proof -
  have h: "hm_get_all H (res_headers (compress_response H K e p q r)) = compressed_headers_of H e p r"
    for e p q
    by (rule ext) (rule header_text.get_all_compress_response [OF assms(1)])
  from compress_adaptor.run_outer_Some [OF run, of H K] show ?thesis
    by (simp add: h compress_response_parts(1-3,5))
qed

text \<open>An encoder of the reference codec, for the witnesses.\<close>

definition byte_encoder :: "(char \<Rightarrow> char) \<Rightarrow> ('s, 's, string) async_encoder" where
  "byte_encoder g = \<lparr>ae_with_quality = (\<lambda>s l p. s), ae_stream = (\<lambda>m. m), ae_set_stream = (\<lambda>s m. s),
     ae_poll_read = byte_codec_read g\<rparr>"

definition byte_encoders :: "(char \<Rightarrow> char) \<Rightarrow> ('s, 's, string) codecs" where
  "byte_encoders g = encoder_codecs \<lparr>enc_gzip = byte_encoder g, enc_deflate = byte_encoder g,
     enc_br = byte_encoder g, enc_zstd = byte_encoder g\<rparr>"

theorem compression_response_witness:
  "\<exists>r'. run_future (compression_future_poll (list_http ())
        (byte_encoders (\<lambda>c. c) :: (unit, unit, unit, (unit, string, unit, unit) body_stream) stream_codecs)
        ready_after) 3
      \<lparr>cf_inner = (2, Inr \<lparr>res_status = 200, res_version = [],
          res_headers = [(''content-length'', ''40''), (''vary'', ''Accept-Encoding'')],
          res_extensions = (), res_body = ()\<rparr>),
       cf_encoding = Some Gzip, cf_predicate = (\<lambda>r. True), cf_quality = Default\<rparr> = Some (Inr r' :: unit + _) \<and>
    body_coding (cb_inner (res_body r')) = Gzip \<and>
    hm_get_all (list_http ()) (res_headers r') ''content-encoding'' = [''gzip''] \<and>
    hm_get_all (list_http ()) (res_headers r') ''content-length'' = [] \<and>
    hm_get_all (list_http ()) (res_headers r') ''vary'' = [''Accept-Encoding'']"
proof -
  let ?r = "\<lparr>res_status = 200, res_version = [],
     res_headers = [(''content-length'', ''40''), (''vary'', ''Accept-Encoding'')],
     res_extensions = (), res_body = ()\<rparr> :: ((string \<times> string) list, unit, unit) response"
  let ?w = "\<lparr>cf_inner = (2, Inr ?r :: unit + _), cf_encoding = Some Gzip,
     cf_predicate = (\<lambda>r. True), cf_quality = Default\<rparr>"
  have run: "run_future ready_after 3 (cf_inner ?w) = Some (Inr ?r)"
    by (simp add: numeral_3_eq_3 numeral_2_eq_2)
  have c: "response_coding (list_http ()) (Some Gzip) (\<lambda>r. True) ?r = Gzip"
    by (simp add: response_coding_def should_compress_def list_http_simps)
  have v: "vary_values (list_http ()) (Some Gzip) (\<lambda>r. True) ?r = [''Accept-Encoding'']"
    by code_simp
  from compression_response [OF header_text_list_http run, where K = "byte_encoders (\<lambda>c. c)"]
  show ?thesis by (auto simp: compressed_headers_of_def c v)
qed

section \<open>What the compressed body reads as\<close>

definition codecs_code :: "('m, 's, string) codecs \<Rightarrow> (encoding \<Rightarrow> string \<Rightarrow> string option) \<Rightarrow> bool" where
  "codecs_code K code \<longleftrightarrow> codec (co_gzip K) (code Gzip) \<and> codec (co_deflate K) (code Deflate) \<and>
     codec (co_br K) (code Brotli) \<and> codec (co_zstd K) (code Zstd)"

lemma byte_encoder_with: "encoder_with (byte_encoder g) (\<lambda>s q. s) = byte_codec g"
  by (simp add: encoder_with_def byte_encoder_def byte_codec_def)

lemma byte_encoder_quality: "ae_with_quality (byte_encoder g) s l p = s"
  by (simp add: byte_encoder_def)

lemma byte_encoders_code: "codecs_code (byte_encoders g) (\<lambda>e d. Some (map g d))"
  by (simp add: codecs_code_def byte_encoders_def encoder_codecs_def gzip_encoder_def
      zlib_encoder_def brotli_encoder_def zstd_encoder_def byte_encoder_quality byte_encoder_with
      codec_byte_codec cong: if_cong)

lemmas compression_body_defs = compression_body_api_def wrap_body_api_def

lemma reads_compression_variant:
  "reads (wrap_body_api (co_gzip K) B) w fs \<Longrightarrow> reads (compression_body_api K B) \<lparr>cb_inner = GzipBody w\<rparr> fs"
  "reads (wrap_body_api (co_deflate K) B) w fs \<Longrightarrow> reads (compression_body_api K B) \<lparr>cb_inner = DeflateBody w\<rparr> fs"
  "reads (wrap_body_api (co_br K) B) w fs \<Longrightarrow> reads (compression_body_api K B) \<lparr>cb_inner = BrotliBody w\<rparr> fs"
  "reads (wrap_body_api (co_zstd K) B) w fs \<Longrightarrow> reads (compression_body_api K B) \<lparr>cb_inner = ZstdBody w\<rparr> fs"
  "reads B b fs \<Longrightarrow> reads (compression_body_api K B) \<lparr>cb_inner = IdentityBody b\<rparr> fs"
  subgoal by (erule reads_simulation [where R = "\<lambda>w c. c = \<lparr>cb_inner = GzipBody w\<rparr>" and P = "\<lambda>f. True", rotated -3])
    (auto simp: compression_body_defs list_all_iff)
  subgoal by (erule reads_simulation [where R = "\<lambda>w c. c = \<lparr>cb_inner = DeflateBody w\<rparr>" and P = "\<lambda>f. True", rotated -3])
    (auto simp: compression_body_defs list_all_iff)
  subgoal by (erule reads_simulation [where R = "\<lambda>w c. c = \<lparr>cb_inner = BrotliBody w\<rparr>" and P = "\<lambda>f. True", rotated -3])
    (auto simp: compression_body_defs list_all_iff)
  subgoal by (erule reads_simulation [where R = "\<lambda>w c. c = \<lparr>cb_inner = ZstdBody w\<rparr>" and P = "\<lambda>f. True", rotated -3])
    (auto simp: compression_body_defs list_all_iff)
  subgoal by (erule reads_simulation [where R = "\<lambda>b c. c = \<lparr>cb_inner = IdentityBody b\<rparr>" and P = "\<lambda>f. True", rotated -3])
    (auto simp: compression_body_defs list_all_iff)
  done

lemma reads_compress_response:
  assumes codes: "codecs_code K code" and body: "reads B (res_body r) (message_frames ds t)"
    and total: "\<And>e. code e (concat ds) \<noteq> None"
  shows "\<exists>es. reads (compression_body_api K B) (res_body (compress_response H K encoding p q r)) (message_frames es t) \<and>
    (if response_coding H encoding p r = Identity then concat es = concat ds
     else code (response_coding H encoding p r) (concat ds) = Some (concat es))"
proof (cases "response_coding H encoding p r = Identity")
  case True
  then have "res_body (compress_response H K encoding p q r) = \<lparr>cb_inner = IdentityBody (res_body r)\<rparr>"
    by (auto simp: compress_response_def response_coding_def Let_def compression_body_new_def
        split: option.splits encoding.splits if_splits)
  with True reads_compression_variant(5) [OF body] show ?thesis by auto
next
  case False
  then have e: "encoding = Some (response_coding H encoding p r)" "should_compress H p r"
    by (auto simp: response_coding_def split: option.splits if_splits)
  obtain out where out: "code (response_coding H encoding p r) (concat ds) = Some out"
    using total by blast
  note wrapped = reads_wrap_body [OF _ body, of _ "code (response_coding H encoding p r)" out q, OF _ out]
  show ?thesis
    using codes e out wrapped [of "co_gzip K"] wrapped [of "co_deflate K"] wrapped [of "co_br K"]
      wrapped [of "co_zstd K"] False
    by (cases "response_coding H encoding p r")
      (auto simp: compress_response_def codecs_code_def compression_body_new_def Let_def
        intro: reads_compression_variant)
qed

end
