(* ===== verification/Decompression.thy ===== *)
theory Decompression
  imports Compression
begin

text \<open>
  \<open>decompression/\<close>: the client side, which asks for the codings it can decode and decodes the
  response, and \<open>decompression/request/\<close>, the server side, which decodes the request body or
  answers 415.  The decoders of \<open>async_compression\<close> are a parameter.  Its last part composes
  decompression with compression: the client gets back what the service behind the server sent.
  All \<open>decompression-*\<close> features are on.
\<close>

section \<open>Decoders and the body\<close>

text \<open>\<open>new\<close> of a decoder, and whether \<open>multiple_members(true)\<close> is then set.\<close>

record ('m, 's, 'd) async_decoder =
  ad_new :: "'s \<Rightarrow> bool \<Rightarrow> 'm"
  ad_stream :: "'m \<Rightarrow> 's"
  ad_set_stream :: "'s \<Rightarrow> 'm \<Rightarrow> 'm"
  ad_poll_read :: "('s, (io_error + 'd) option) poll_fn \<Rightarrow> ('m, io_error + string) poll_fn"

definition decoder_with ::
  "('m, 's, 'd) async_decoder \<Rightarrow> ('s \<Rightarrow> compression_level \<Rightarrow> 'm) \<Rightarrow> ('m, 's, 'd) codec_api" where
  "decoder_with A apply_fn = \<lparr>codec_new = apply_fn, codec_stream = ad_stream A,
     codec_set_stream = ad_set_stream A, codec_poll_read = ad_poll_read A\<rparr>"

definition gzip_decoder :: "('m, 's, 'd) async_decoder \<Rightarrow> ('m, 's, 'd) codec_api" where
  "gzip_decoder A = decoder_with A (\<lambda>input quality. ad_new A input False)"

definition zlib_decoder :: "('m, 's, 'd) async_decoder \<Rightarrow> ('m, 's, 'd) codec_api" where
  "zlib_decoder A = decoder_with A (\<lambda>input quality. ad_new A input False)"

definition brotli_decoder :: "('m, 's, 'd) async_decoder \<Rightarrow> ('m, 's, 'd) codec_api" where
  "brotli_decoder A = decoder_with A (\<lambda>input quality. ad_new A input False)"

definition zstd_decoder :: "('m, 's, 'd) async_decoder \<Rightarrow> ('m, 's, 'd) codec_api" where
  "zstd_decoder A = decoder_with A (\<lambda>input quality. ad_new A input True)"

record ('m, 's, 'd) decoders =
  dec_gzip :: "('m, 's, 'd) async_decoder"
  dec_deflate :: "('m, 's, 'd) async_decoder"
  dec_br :: "('m, 's, 'd) async_decoder"
  dec_zstd :: "('m, 's, 'd) async_decoder"

definition decoder_codecs :: "('m, 's, 'd) decoders \<Rightarrow> ('m, 's, 'd) codecs" where
  "decoder_codecs D = \<lparr>co_gzip = gzip_decoder (dec_gzip D), co_deflate = zlib_decoder (dec_deflate D),
     co_br = brotli_decoder (dec_br D), co_zstd = zstd_decoder (dec_zstd D)\<rparr>"

record ('b, 'm) decompression_body = db_inner :: "('b, 'm) body_inner"

definition decompression_body_new :: "('b, 'm) body_inner \<Rightarrow> ('b, 'm) decompression_body" where
  "decompression_body_new i = \<lparr>db_inner = i\<rparr>"

definition decompression_body_default :: "'b \<Rightarrow> ('b, 'm) decompression_body" where
  "decompression_body_default b = \<lparr>db_inner = IdentityBody b\<rparr>"

fun decompression_get_ref :: "('b, 't, 'e, 'm) stream_codecs \<Rightarrow> ('b, 'm) body_inner \<Rightarrow> 'b" where
  "decompression_get_ref K (GzipBody w) = wrapped_body (co_gzip K) w"
| "decompression_get_ref K (DeflateBody w) = wrapped_body (co_deflate K) w"
| "decompression_get_ref K (BrotliBody w) = wrapped_body (co_br K) w"
| "decompression_get_ref K (ZstdBody w) = wrapped_body (co_zstd K) w"
| "decompression_get_ref K (IdentityBody b) = b"

fun decompression_poll_frame ::
  "('b, 't, 'e, 'm) stream_codecs \<Rightarrow> ('b, string, 't, 'e) body_api \<Rightarrow>
     (('b, 'm) body_inner, (string, 't, 'e box_error) frame_result) poll_fn" where
  "decompression_poll_frame K B (GzipBody w) =
     (case wrap_body_poll_frame (co_gzip K) B w of (p, w') \<Rightarrow> (p, GzipBody w'))"
| "decompression_poll_frame K B (DeflateBody w) =
     (case wrap_body_poll_frame (co_deflate K) B w of (p, w') \<Rightarrow> (p, DeflateBody w'))"
| "decompression_poll_frame K B (BrotliBody w) =
     (case wrap_body_poll_frame (co_br K) B w of (p, w') \<Rightarrow> (p, BrotliBody w'))"
| "decompression_poll_frame K B (ZstdBody w) =
     (case wrap_body_poll_frame (co_zstd K) B w of (p, w') \<Rightarrow> (p, ZstdBody w'))"
| "decompression_poll_frame K B (IdentityBody b) =
     (case body_poll_frame B b of (p, b') \<Rightarrow> (map_ready box_frame_result p, IdentityBody b'))"

definition decompression_body_api ::
  "('b, 't, 'e, 'm) stream_codecs \<Rightarrow> ('b, string, 't, 'e) body_api \<Rightarrow>
     (('b, 'm) decompression_body, string, 't, 'e box_error) body_api" where
  "decompression_body_api K B =
     \<lparr>body_poll_frame = (\<lambda>c. case decompression_poll_frame K B (db_inner c) of (p, i) \<Rightarrow> (p, c\<lparr>db_inner := i\<rparr>)),
      body_is_end_stream = (\<lambda>c. False),
      body_size_hint = (\<lambda>c. case db_inner c of IdentityBody b \<Rightarrow> body_size_hint B b | _ \<Rightarrow> size_hint_default)\<rparr>"

text \<open>
  The arms of the match on the bytes of \<open>Content-Encoding\<close>: the decoding body, if the value is
  the name of an enabled coding.
\<close>

definition decode_body ::
  "('b, 't, 'e, 'm) stream_codecs \<Rightarrow> supported \<Rightarrow> string \<Rightarrow> 'b \<Rightarrow> ('b, 'm) body_inner option" where
  "decode_body K accept v body =
     (if v = ''gzip'' \<and> sup_gzip accept then Some (GzipBody (wrap_body_new (co_gzip K) body Default))
      else if v = ''deflate'' \<and> sup_deflate accept then Some (DeflateBody (wrap_body_new (co_deflate K) body Default))
      else if v = ''br'' \<and> sup_br accept then Some (BrotliBody (wrap_body_new (co_br K) body Default))
      else if v = ''zstd'' \<and> sup_zstd accept then Some (ZstdBody (wrap_body_new (co_zstd K) body Default))
      else None)"

definition decoded_headers :: "('h, 'v, 'x) http_api \<Rightarrow> 'h \<Rightarrow> 'h" where
  "decoded_headers H h = snd (hm_remove H (snd (hm_remove H h ''content-encoding'')) ''content-length'')"

section \<open>Decompression of responses\<close>

record ('s) decompression =
  ds_inner :: 's
  ds_accept :: supported

record decompression_layer = dl_accept :: supported

definition decompression_new :: "'s \<Rightarrow> 's decompression" where
  "decompression_new service = \<lparr>ds_inner = service, ds_accept = accept_encoding_default\<rparr>"

definition decompression_layer_new :: decompression_layer where
  "decompression_layer_new = \<lparr>dl_accept = accept_encoding_default\<rparr>"

definition decompression_layer_layer :: "decompression_layer \<Rightarrow> 's \<Rightarrow> 's decompression" where
  "decompression_layer_layer l service = \<lparr>ds_inner = service, ds_accept = dl_accept l\<rparr>"

definition decompression_gzip :: "'s decompression \<Rightarrow> bool \<Rightarrow> 's decompression" where
  "decompression_gzip c enable = c\<lparr>ds_accept := set_gzip (ds_accept c) enable\<rparr>"

definition decompression_deflate :: "'s decompression \<Rightarrow> bool \<Rightarrow> 's decompression" where
  "decompression_deflate c enable = c\<lparr>ds_accept := set_deflate (ds_accept c) enable\<rparr>"

definition decompression_br :: "'s decompression \<Rightarrow> bool \<Rightarrow> 's decompression" where
  "decompression_br c enable = c\<lparr>ds_accept := set_br (ds_accept c) enable\<rparr>"

definition decompression_zstd :: "'s decompression \<Rightarrow> bool \<Rightarrow> 's decompression" where
  "decompression_zstd c enable = c\<lparr>ds_accept := set_zstd (ds_accept c) enable\<rparr>"

definition decompression_no_gzip :: "'s decompression \<Rightarrow> 's decompression" where
  "decompression_no_gzip c = c\<lparr>ds_accept := set_gzip (ds_accept c) False\<rparr>"

definition decompression_no_deflate :: "'s decompression \<Rightarrow> 's decompression" where
  "decompression_no_deflate c = c\<lparr>ds_accept := set_deflate (ds_accept c) False\<rparr>"

definition decompression_no_br :: "'s decompression \<Rightarrow> 's decompression" where
  "decompression_no_br c = c\<lparr>ds_accept := set_br (ds_accept c) False\<rparr>"

definition decompression_no_zstd :: "'s decompression \<Rightarrow> 's decompression" where
  "decompression_no_zstd c = c\<lparr>ds_accept := set_zstd (ds_accept c) False\<rparr>"

definition decompression_layer_gzip :: "decompression_layer \<Rightarrow> bool \<Rightarrow> decompression_layer" where
  "decompression_layer_gzip c enable = c\<lparr>dl_accept := set_gzip (dl_accept c) enable\<rparr>"

definition decompression_layer_deflate :: "decompression_layer \<Rightarrow> bool \<Rightarrow> decompression_layer" where
  "decompression_layer_deflate c enable = c\<lparr>dl_accept := set_deflate (dl_accept c) enable\<rparr>"

definition decompression_layer_br :: "decompression_layer \<Rightarrow> bool \<Rightarrow> decompression_layer" where
  "decompression_layer_br c enable = c\<lparr>dl_accept := set_br (dl_accept c) enable\<rparr>"

definition decompression_layer_zstd :: "decompression_layer \<Rightarrow> bool \<Rightarrow> decompression_layer" where
  "decompression_layer_zstd c enable = c\<lparr>dl_accept := set_zstd (dl_accept c) enable\<rparr>"

definition decompression_layer_no_gzip :: "decompression_layer \<Rightarrow> decompression_layer" where
  "decompression_layer_no_gzip c = c\<lparr>dl_accept := set_gzip (dl_accept c) False\<rparr>"

definition decompression_layer_no_deflate :: "decompression_layer \<Rightarrow> decompression_layer" where
  "decompression_layer_no_deflate c = c\<lparr>dl_accept := set_deflate (dl_accept c) False\<rparr>"

definition decompression_layer_no_br :: "decompression_layer \<Rightarrow> decompression_layer" where
  "decompression_layer_no_br c = c\<lparr>dl_accept := set_br (dl_accept c) False\<rparr>"

definition decompression_layer_no_zstd :: "decompression_layer \<Rightarrow> decompression_layer" where
  "decompression_layer_no_zstd c = c\<lparr>dl_accept := set_zstd (dl_accept c) False\<rparr>"

record 'f decompression_future =
  df_inner :: 'f
  df_accept :: supported

definition insert_accept_encoding :: "('h, string, 'x) http_api \<Rightarrow> supported \<Rightarrow> 'h \<Rightarrow> 'h" where
  "insert_accept_encoding H a h =
     (if \<not> hm_contains H h ''accept-encoding''
      then (case to_header_value a of Some accept \<Rightarrow> hm_insert H h ''accept-encoding'' accept | None \<Rightarrow> h)
      else h)"

definition decompression_call ::
  "('h, string, 'x) http_api \<Rightarrow> ('s, ('h, 'u, 'x, 'q) request, 'f) service_fn \<Rightarrow>
     ('s decompression, ('h, 'u, 'x, 'q) request, 'f decompression_future) service_fn" where
  "decompression_call H call c req =
     (let req' = req\<lparr>req_headers := insert_accept_encoding H (ds_accept c) (req_headers req)\<rparr>;
          (s, f) = call (ds_inner c) req'
      in (c\<lparr>ds_inner := s\<rparr>, \<lparr>df_inner = f, df_accept = ds_accept c\<rparr>))"

definition decompress_response ::
  "('h, string, 'x) http_api \<Rightarrow> ('b, 't, 'e, 'm) stream_codecs \<Rightarrow> supported \<Rightarrow>
     ('h, 'x, 'b) response \<Rightarrow> ('h, 'x, ('b, 'm) decompression_body) response" where
  "decompress_response H K accept r =
     (let identity = with_headers_body r (res_headers r) (decompression_body_new (IdentityBody (res_body r)))
      in (case hm_get H (res_headers r) ''content-encoding'' of
            None \<Rightarrow> identity
          | Some v \<Rightarrow>
              (case decode_body K accept v (res_body r) of
                 None \<Rightarrow> identity
               | Some i \<Rightarrow> with_headers_body r (decoded_headers H (res_headers r)) (decompression_body_new i))))"

definition decompression_future_poll ::
  "('h, string, 'x) http_api \<Rightarrow> ('b, 't, 'e, 'm) stream_codecs \<Rightarrow>
     ('f, 'er + ('h, 'x, 'b) response) poll_fn \<Rightarrow>
     ('f decompression_future, 'er + ('h, 'x, ('b, 'm) decompression_body) response) poll_fn" where
  "decompression_future_poll H K poll w =
     (case poll (df_inner w) of
        (p, f) \<Rightarrow> (map_ready (map_result (decompress_response H K (df_accept w))) p, w\<lparr>df_inner := f\<rparr>))"

interpretation decompress_adaptor: response_adaptor poll "decompression_future_poll H K poll" df_inner
    "\<lambda>w. map_result (decompress_response H K (df_accept w))"
  for poll H K
  by unfold_locales (simp_all add: decompression_future_poll_def)

section \<open>Decompression of requests\<close>

record 's request_decompression =
  rd_inner :: 's
  rd_accept :: supported
  rd_pass_through_unaccepted :: bool

record request_decompression_layer =
  rdl_accept :: supported
  rdl_pass_through_unaccepted :: bool

definition request_decompression_new :: "'s \<Rightarrow> 's request_decompression" where
  "request_decompression_new service = \<lparr>rd_inner = service, rd_accept = accept_encoding_default,
     rd_pass_through_unaccepted = False\<rparr>"

definition request_decompression_layer_new :: request_decompression_layer where
  "request_decompression_layer_new = \<lparr>rdl_accept = accept_encoding_default,
     rdl_pass_through_unaccepted = False\<rparr>"

definition request_decompression_layer_layer ::
  "request_decompression_layer \<Rightarrow> 's \<Rightarrow> 's request_decompression" where
  "request_decompression_layer_layer l service = \<lparr>rd_inner = service, rd_accept = rdl_accept l,
     rd_pass_through_unaccepted = rdl_pass_through_unaccepted l\<rparr>"

definition request_decompression_gzip :: "'s request_decompression \<Rightarrow> bool \<Rightarrow> 's request_decompression" where
  "request_decompression_gzip c enable = c\<lparr>rd_accept := set_gzip (rd_accept c) enable\<rparr>"

definition request_decompression_deflate :: "'s request_decompression \<Rightarrow> bool \<Rightarrow> 's request_decompression" where
  "request_decompression_deflate c enable = c\<lparr>rd_accept := set_deflate (rd_accept c) enable\<rparr>"

definition request_decompression_br :: "'s request_decompression \<Rightarrow> bool \<Rightarrow> 's request_decompression" where
  "request_decompression_br c enable = c\<lparr>rd_accept := set_br (rd_accept c) enable\<rparr>"

definition request_decompression_zstd :: "'s request_decompression \<Rightarrow> bool \<Rightarrow> 's request_decompression" where
  "request_decompression_zstd c enable = c\<lparr>rd_accept := set_zstd (rd_accept c) enable\<rparr>"

definition request_decompression_no_gzip :: "'s request_decompression \<Rightarrow> 's request_decompression" where
  "request_decompression_no_gzip c = c\<lparr>rd_accept := set_gzip (rd_accept c) False\<rparr>"

definition request_decompression_no_deflate :: "'s request_decompression \<Rightarrow> 's request_decompression" where
  "request_decompression_no_deflate c = c\<lparr>rd_accept := set_deflate (rd_accept c) False\<rparr>"

definition request_decompression_no_br :: "'s request_decompression \<Rightarrow> 's request_decompression" where
  "request_decompression_no_br c = c\<lparr>rd_accept := set_br (rd_accept c) False\<rparr>"

definition request_decompression_no_zstd :: "'s request_decompression \<Rightarrow> 's request_decompression" where
  "request_decompression_no_zstd c = c\<lparr>rd_accept := set_zstd (rd_accept c) False\<rparr>"

definition request_decompression_layer_gzip :: "request_decompression_layer \<Rightarrow> bool \<Rightarrow> request_decompression_layer" where
  "request_decompression_layer_gzip c enable = c\<lparr>rdl_accept := set_gzip (rdl_accept c) enable\<rparr>"

definition request_decompression_layer_deflate :: "request_decompression_layer \<Rightarrow> bool \<Rightarrow> request_decompression_layer" where
  "request_decompression_layer_deflate c enable = c\<lparr>rdl_accept := set_deflate (rdl_accept c) enable\<rparr>"

definition request_decompression_layer_br :: "request_decompression_layer \<Rightarrow> bool \<Rightarrow> request_decompression_layer" where
  "request_decompression_layer_br c enable = c\<lparr>rdl_accept := set_br (rdl_accept c) enable\<rparr>"

definition request_decompression_layer_zstd :: "request_decompression_layer \<Rightarrow> bool \<Rightarrow> request_decompression_layer" where
  "request_decompression_layer_zstd c enable = c\<lparr>rdl_accept := set_zstd (rdl_accept c) enable\<rparr>"

definition request_decompression_layer_no_gzip :: "request_decompression_layer \<Rightarrow> request_decompression_layer" where
  "request_decompression_layer_no_gzip c = c\<lparr>rdl_accept := set_gzip (rdl_accept c) False\<rparr>"

definition request_decompression_layer_no_deflate :: "request_decompression_layer \<Rightarrow> request_decompression_layer" where
  "request_decompression_layer_no_deflate c = c\<lparr>rdl_accept := set_deflate (rdl_accept c) False\<rparr>"

definition request_decompression_layer_no_br :: "request_decompression_layer \<Rightarrow> request_decompression_layer" where
  "request_decompression_layer_no_br c = c\<lparr>rdl_accept := set_br (rdl_accept c) False\<rparr>"

definition request_decompression_layer_no_zstd :: "request_decompression_layer \<Rightarrow> request_decompression_layer" where
  "request_decompression_layer_no_zstd c = c\<lparr>rdl_accept := set_zstd (rdl_accept c) False\<rparr>"

definition request_decompression_pass_through ::
  "'s request_decompression \<Rightarrow> bool \<Rightarrow> 's request_decompression" where
  "request_decompression_pass_through c enabled = c\<lparr>rd_pass_through_unaccepted := enabled\<rparr>"

definition request_decompression_layer_pass_through ::
  "request_decompression_layer \<Rightarrow> bool \<Rightarrow> request_decompression_layer" where
  "request_decompression_layer_pass_through c enable = c\<lparr>rdl_pass_through_unaccepted := enable\<rparr>"

text \<open>The future: of the inner service, or the refusal.\<close>

datatype 'f request_decompression_future = Inner 'f | Unsupported supported

definition request_decompression_call ::
  "('h, string, 'x) http_api \<Rightarrow> ('b, 't, 'e, 'm) stream_codecs \<Rightarrow>
     ('s, ('h, 'u, 'x, ('b, 'm) decompression_body) request, 'f) service_fn \<Rightarrow>
     ('s request_decompression, ('h, 'u, 'x, 'b) request, 'f request_decompression_future) service_fn" where
  "request_decompression_call H K call c req =
     (let parts = request_parts req;
          body = req_body req;
          pass = (\<lambda>p i. let (s, f) = call (rd_inner c) (from_parts p (decompression_body_new i))
                       in (c\<lparr>rd_inner := s\<rparr>, Inner f))
      in (case hm_get H (req_headers req) ''content-encoding'' of
            None \<Rightarrow> pass parts (IdentityBody body)
          | Some v \<Rightarrow>
              (case decode_body K (rd_accept c) v body of
                 Some i \<Rightarrow> pass (parts\<lparr>req_headers := decoded_headers H (req_headers req)\<rparr>) i
               | None \<Rightarrow>
                   (if v = ''identity'' then pass parts (IdentityBody body)
                    else if rd_pass_through_unaccepted c then pass parts (IdentityBody body)
                    else (c, Unsupported (rd_accept c))))))"

text \<open>\<open>boxed\<close> and \<open>empty_box\<close> stand for boxing a body and the empty body of \<open>http_body_util\<close>.\<close>

definition unsupported_response ::
  "('h, string, 'x) http_api \<Rightarrow> 'z \<Rightarrow> supported \<Rightarrow> ('h, 'x, 'z unsync_box_body) response" where
  "unsupported_response H empty_box accept =
     (let r = response_new H (unsync_box_body_from_inner empty_box)
      in r\<lparr>res_headers := hm_append H (res_headers r) ''accept-encoding''
             (case to_header_value accept of Some v \<Rightarrow> v | None \<Rightarrow> ''identity''),
           res_status := 415\<rparr>)"

fun request_decompression_poll ::
  "('h, string, 'x) http_api \<Rightarrow> ('b \<Rightarrow> 'z) \<Rightarrow> 'z \<Rightarrow> ('f, 'er + ('h, 'x, 'b) response) poll_fn \<Rightarrow>
     ('f request_decompression_future, 'er + ('h, 'x, 'z unsync_box_body) response) poll_fn" where
  "request_decompression_poll H boxed empty_box poll (Inner f) =
     (case poll f of
        (p, f') \<Rightarrow>
          (map_ready (map_result (map_response (\<lambda>b. unsync_box_body_from_inner (boxed b)))) p, Inner f'))"
| "request_decompression_poll H boxed empty_box poll (Unsupported accept) =
     (Ready (Inr (unsupported_response H empty_box accept)), Unsupported accept)"

section \<open>What a decoded body reads as\<close>

lemma decompression_poll_frame_eq: "decompression_poll_frame K B i = compression_poll_frame K B i"
  by (cases i) simp_all

lemma reads_decompression:
  "reads (compression_body_api K B) \<lparr>cb_inner = i\<rparr> fs \<Longrightarrow> reads (decompression_body_api K B) \<lparr>db_inner = i\<rparr> fs"
  by (erule reads_simulation [where R = "\<lambda>c d. db_inner d = cb_inner c" and P = "\<lambda>f. True", rotated -3])
    (auto simp: compression_body_api_def decompression_body_api_def decompression_poll_frame_eq
      list_all_iff split: prod.splits)

lemma decode_body_Some:
  assumes "decode_body K accept v b = Some i"
  shows "\<exists>e. v = enc_to_str e \<and> e \<noteq> Identity \<and> is_supported accept e \<and> body_coding i = e"
  using assms by (auto simp: decode_body_def split: if_splits
      intro: exI [of _ Gzip] exI [of _ Deflate] exI [of _ Brotli] exI [of _ Zstd])

lemma decode_body_name:
  "decode_body K accept (enc_to_str e) b = None \<longleftrightarrow> e = Identity \<or> \<not> is_supported accept e"
  by (cases e) (simp_all add: decode_body_def)

lemma reads_decode_body:
  assumes codes: "codecs_code K code" and body: "reads B b (message_frames ds t)"
    and some: "decode_body K accept (enc_to_str e) b = Some i"
    and out: "code e (concat ds) = Some out"
  shows "\<exists>es. reads (decompression_body_api K B) (decompression_body_new i) (message_frames es t) \<and>
    concat es = out"
proof -
  note wrapped = reads_wrap_body [OF _ body, of _ "code e" out Default, OF _ out]
  from some codes wrapped [of "co_gzip K"] wrapped [of "co_deflate K"] wrapped [of "co_br K"]
    wrapped [of "co_zstd K"]
  show ?thesis
    by (cases e) (auto simp: decode_body_def codecs_code_def decompression_body_new_def split: if_splits
        intro: reads_decompression reads_compression_variant)
qed

context header_text
begin

lemma get_all_decoded_headers:
  "hm_get_all H (decoded_headers H h) n =
     (if n \<in> {''content-encoding'', ''content-length''} then [] else hm_get_all H h n)"
  by (simp add: decoded_headers_def laws)

lemma get_all_insert_accept:
  "hm_get_all H (insert_accept_encoding H a h) n =
     (if n = ''accept-encoding'' \<and> hm_get_all H h n = []
      then (case to_header_value a of Some v \<Rightarrow> [v] | None \<Rightarrow> []) else hm_get_all H h n)"
  by (auto simp: insert_accept_encoding_def laws split: option.split)

end

section \<open>Request bodies\<close>

text \<open>The requests that are refused: coded in a way that is not enabled.\<close>

definition enabled_coding :: "supported \<Rightarrow> string \<Rightarrow> bool" where
  "enabled_coding a v = list_ex (\<lambda>e. v = enc_to_str e \<and> is_supported a e) [Gzip, Deflate, Brotli, Zstd]"

definition refuses_coding ::
  "('h, string, 'x) http_api \<Rightarrow> 's request_decompression \<Rightarrow> ('h, 'u, 'x, 'b) request \<Rightarrow> bool" where
  "refuses_coding H c req \<longleftrightarrow>
     (case hm_get H (req_headers req) ''content-encoding'' of
        None \<Rightarrow> False
      | Some v \<Rightarrow> v \<noteq> ''identity'' \<and> \<not> rd_pass_through_unaccepted c \<and>
          \<not> enabled_coding (rd_accept c) v)"

text \<open>What the inner service may be given for the request.\<close>

definition decoded_request ::
  "('h, string, 'x) http_api \<Rightarrow> 's request_decompression \<Rightarrow> ('h, 'u, 'x, 'b) request \<Rightarrow>
     ('h, 'u, 'x, ('b, 'm) decompression_body) request \<Rightarrow> bool" where
  "decoded_request H c req req' \<longleftrightarrow>
     req_method req' = req_method req \<and> req_uri req' = req_uri req \<and>
     req_version req' = req_version req \<and> req_extensions req' = req_extensions req \<and>
     (let coding = hm_get H (req_headers req) ''content-encoding'' in
      case body_coding (db_inner (req_body req')) of
        Identity \<Rightarrow> req_headers req' = req_headers req \<and>
          db_inner (req_body req') = IdentityBody (req_body req) \<and>
          (coding = None \<or> coding = Some ''identity'' \<or> rd_pass_through_unaccepted c)
      | e \<Rightarrow> coding = Some (enc_to_str e) \<and> is_supported (rd_accept c) e \<and>
          hm_get_all H (req_headers req') =
            (hm_get_all H (req_headers req))(''content-encoding'' := [], ''content-length'' := []))"

lemma decode_body_arms: "decode_body K a v b = None \<longleftrightarrow> \<not> enabled_coding a v"
  by (simp add: decode_body_def enabled_coding_def)

context header_text
begin

lemma unsupported_response_headers:
  "hm_get_all H (res_headers (unsupported_response H empty_box a)) ''accept-encoding'' =
     [case to_header_value a of Some v \<Rightarrow> v | None \<Rightarrow> ''identity'']"
  by (simp add: unsupported_response_def response_new_def laws Let_def)

lemma decoded_request_coded:
  assumes v: "hm_get H (req_headers req) ''content-encoding'' = Some v"
    and i: "decode_body K (rd_accept c) v (req_body req) = Some i"
  shows "decoded_request H c req (from_parts ((request_parts req)
    \<lparr>req_headers := decoded_headers H (req_headers req)\<rparr>) (decompression_body_new i))"
proof -
  from decode_body_Some [OF i] obtain e where
    "v = enc_to_str e" "e \<noteq> Identity" "is_supported (rd_accept c) e" "body_coding i = e" by blast
  moreover have "hm_get_all H (decoded_headers H (req_headers req)) =
      (hm_get_all H (req_headers req))(''content-encoding'' := [], ''content-length'' := [])"
    by (rule ext) (simp add: get_all_decoded_headers)
  ultimately show ?thesis
    using v by (cases e) (simp_all add: decoded_request_def decompression_body_new_def)
qed

lemma decoded_request_identity:
  assumes "case hm_get H (req_headers req) ''content-encoding'' of
      None \<Rightarrow> True | Some v \<Rightarrow> v = ''identity'' \<or> rd_pass_through_unaccepted c"
  shows "decoded_request H c req (from_parts (request_parts req)
    (decompression_body_new (IdentityBody (req_body req))))"
  using assms by (auto simp: decoded_request_def decompression_body_new_def split: option.splits)

lemma refused_call:
  "refuses_coding H c req \<Longrightarrow>
     request_decompression_call H K call c req = (c, Unsupported (rd_accept c))"
  by (auto simp: refuses_coding_def request_decompression_call_def Let_def
      decode_body_arms [THEN iffD2] split: option.split_asm)

lemma accepted_call:
  assumes "\<not> refuses_coding H c req"
  shows "\<exists>req' s f. call (rd_inner c) req' = (s, f) \<and> decoded_request H c req req' \<and>
    request_decompression_call H K call c req = (c\<lparr>rd_inner := s\<rparr>, Inner f)"
proof -
  let ?coding = "hm_get H (req_headers req) ''content-encoding''"
  define i where "i = Option.bind ?coding (\<lambda>v. decode_body K (rd_accept c) v (req_body req))"
  define req' where "req' = (case i of
      Some b \<Rightarrow> from_parts ((request_parts req)\<lparr>req_headers := decoded_headers H (req_headers req)\<rparr>)
        (decompression_body_new b)
    | None \<Rightarrow> from_parts (request_parts req) (decompression_body_new (IdentityBody (req_body req))))"
  obtain s f where sf: "call (rd_inner c) req' = (s, f)" by (rule prod.exhaust)
  have free: "case ?coding of None \<Rightarrow> True | Some v \<Rightarrow> v = ''identity'' \<or> rd_pass_through_unaccepted c"
    if "i = None"
    using assms that by (auto simp: i_def refuses_coding_def decode_body_arms split: option.splits)
  have "decoded_request H c req req'"
  proof (cases i)
    case None
    with free show ?thesis by (simp add: req'_def decoded_request_identity)
  next
    case (Some b)
    then obtain v where v: "?coding = Some v" "decode_body K (rd_accept c) v (req_body req) = Some b"
      by (auto simp: i_def bind_eq_Some_conv)
    from decoded_request_coded [OF v] Some show ?thesis by (simp add: req'_def)
  qed
  moreover have "request_decompression_call H K call c req = (c\<lparr>rd_inner := s\<rparr>, Inner f)"
    using sf free by (auto simp: request_decompression_call_def i_def req'_def Let_def
        split: option.splits)
  ultimately show ?thesis using sf by blast
qed

end

text \<open>
  Claim C19.  The service behind \<open>RequestDecompression\<close> never meets a content coding it would have to
  undo itself, unless the layer was told to pass those through: a request is either refused, with
  a 415 that lists the codings that would be accepted and without the inner service being called,
  or the inner service gets it, with its headers untouched if its body is not coded, and without
  \<open>Content-Encoding\<close> and \<open>Content-Length\<close> if it is decoded.
\<close>

theorem request_decompression_gate:
  assumes H: "header_text H"
  shows "if refuses_coding H c req
    then request_decompression_call H K call c req = (c, Unsupported (rd_accept c)) \<and>
      request_decompression_poll H boxed empty_box poll (Unsupported (rd_accept c)) =
        (Ready (Inr (unsupported_response H empty_box (rd_accept c))), Unsupported (rd_accept c)) \<and>
      res_status (unsupported_response H empty_box (rd_accept c)) = 415 \<and>
      hm_get_all H (res_headers (unsupported_response H empty_box (rd_accept c))) ''accept-encoding'' =
        [case to_header_value (rd_accept c) of Some v \<Rightarrow> v | None \<Rightarrow> ''identity'']
    else \<exists>req' s f. call (rd_inner c) req' = (s, f) \<and> decoded_request H c req req' \<and>
      request_decompression_call H K call c req = (c\<lparr>rd_inner := s\<rparr>, Inner f)"
proof (cases "refuses_coding H c req")
  case True
  then show ?thesis
    by (simp add: header_text.refused_call [OF H] header_text.unsupported_response_headers [OF H])
      (simp add: unsupported_response_def Let_def)
next
  case False
  with header_text.accepted_call [OF H False] show ?thesis by simp
qed

theorem request_decompression_gate_witness:
  "request_decompression_call (list_http ())
     (byte_encoders (\<lambda>c. c) :: (unit, unit, unit, (unit, string, unit, unit) body_stream) stream_codecs)
     (\<lambda>s req. (Suc s, ()))
     \<lparr>rd_inner = 0, rd_accept = \<lparr>sup_gzip = True, sup_deflate = False, sup_br = False, sup_zstd = False\<rparr>,
       rd_pass_through_unaccepted = False\<rparr>
     \<lparr>req_method = ''POST'', req_uri = (), req_version = [],
       req_headers = [(''content-encoding'', ''br'')], req_extensions = (), req_body = ()\<rparr> =
   (\<lparr>rd_inner = 0, rd_accept = \<lparr>sup_gzip = True, sup_deflate = False, sup_br = False, sup_zstd = False\<rparr>,
       rd_pass_through_unaccepted = False\<rparr>,
    Unsupported \<lparr>sup_gzip = True, sup_deflate = False, sup_br = False, sup_zstd = False\<rparr>)"
  (is "request_decompression_call _ ?K ?call ?c ?req = (_, Unsupported ?a)")
proof -
  have r: "refuses_coding (list_http ()) ?c ?req" by code_simp
  have "request_decompression_call (list_http ()) ?K ?call ?c ?req = (?c, Unsupported (rd_accept ?c))"
    using request_decompression_gate [OF header_text_list_http, of "()" ?c ?req ?K ?call]
    unfolding if_P [OF r] by (rule conjunct1)
  then show ?thesis by simp
qed

section \<open>Compression undone by decompression\<close>

text \<open>The decoders invert the encoders.\<close>

definition codecs_inverse ::
  "(encoding \<Rightarrow> string \<Rightarrow> string option) \<Rightarrow> (encoding \<Rightarrow> string \<Rightarrow> string option) \<Rightarrow> bool" where
  "codecs_inverse enc dec \<longleftrightarrow> (\<forall>e d. \<exists>out. enc e d = Some out \<and> dec e out = Some d)"

text \<open>
  The same message to a client that the codings do not concern: same status, version, extensions
  and headers but for those that describe the transfer.
\<close>

definition same_message ::
  "('h, 'v, 'x) http_api \<Rightarrow> ('h, 'x, 'b) response \<Rightarrow> ('h, 'x, 'c) response \<Rightarrow> bool" where
  "same_message H r r' \<longleftrightarrow> res_status r' = res_status r \<and> res_version r' = res_version r \<and>
     res_extensions r' = res_extensions r \<and>
     (\<forall>n. n \<in> {''vary'', ''content-length'', ''accept-ranges''} \<or>
        hm_get_all H (res_headers r') n = hm_get_all H (res_headers r) n)"

lemma decompress_response_parts:
  "res_status (decompress_response H K a r) = res_status r"
  "res_version (decompress_response H K a r) = res_version r"
  "res_extensions (decompress_response H K a r) = res_extensions r"
  by (auto simp: decompress_response_def Let_def split: option.split)

lemma decompress_response_coded:
  assumes "hm_get H (res_headers r) ''content-encoding'' = Some (enc_to_str e)" "e \<noteq> Identity" "is_supported a e"
  shows "\<exists>i. decode_body K a (enc_to_str e) (res_body r) = Some i \<and>
    decompress_response H K a r =
      with_headers_body r (decoded_headers H (res_headers r)) (decompression_body_new i)"
  using assms decode_body_name [of K a e "res_body r"]
  by (auto simp: decompress_response_def split: option.split)

lemma response_coding_Some:
  "response_coding H (Some e) p r = Identity \<or>
     response_coding H (Some e) p r = e \<and> e \<noteq> Identity \<and> should_compress H p r"
  by (auto simp: response_coding_def)

context header_text
begin

lemma compressed_content_encoding:
  assumes "hm_get_all H (res_headers r) ''content-encoding'' = []"
  shows "hm_get H (res_headers (compress_response H K enc p q r)) ''content-encoding'' =
    (if response_coding H enc p r = Identity then None else Some (enc_to_str (response_coding H enc p r)))"
  using assms by (simp add: get_first get_all_compress_response compressed_headers_of_def Let_def)

lemma same_message_transfer:
  assumes none: "hm_get_all H (res_headers r) ''content-encoding'' = []"
    and e: "is_supported a e"
  shows "same_message H r (decompress_response H K' a (compress_response H K (Some e) p q r))"
proof (cases "response_coding H (Some e) p r = Identity")
  case True
  with compressed_content_encoding [OF none, of K "Some e" p q] have
    "decompress_response H K' a (compress_response H K (Some e) p q r) =
      with_headers_body (compress_response H K (Some e) p q r)
        (res_headers (compress_response H K (Some e) p q r))
        (decompression_body_new (IdentityBody (res_body (compress_response H K (Some e) p q r))))"
    by (simp add: decompress_response_def)
  with True show ?thesis
    by (simp add: same_message_def compress_response_parts(1-3) get_all_compress_response
        compressed_headers_of_def)
next
  case False
  with response_coding_Some [of H e p r] have c: "response_coding H (Some e) p r = e" "e \<noteq> Identity"
    by auto
  with compressed_content_encoding [OF none, of K "Some e" p q] have
    "hm_get H (res_headers (compress_response H K (Some e) p q r)) ''content-encoding'' = Some (enc_to_str e)"
    by simp
  from decompress_response_coded [OF this c(2) e, of K'] show ?thesis
    using c none by (auto simp: same_message_def compress_response_parts(1-3) get_all_decoded_headers
        get_all_compress_response compressed_headers_of_def Let_def split: if_splits)
qed

lemma transfer_reads:
  fixes K :: "('b, 't, 'er, 'm) stream_codecs"
    and K' :: "(('b, 'm) compression_body, 't, 'er box_error, 'n) stream_codecs"
  assumes none: "hm_get_all H (res_headers r) ''content-encoding'' = []" and e: "is_supported a e"
    and codes: "codecs_code K enc" "codecs_code K' dec" "codecs_inverse enc dec"
    and body: "reads B (res_body r) (message_frames ds t)"
  shows "\<exists>es. reads (decompression_body_api K' (compression_body_api K B))
      (res_body (decompress_response H K' a (compress_response H K (Some e) p q r))) (message_frames es t) \<and>
    concat es = concat ds"
proof -
  let ?r = "compress_response H K (Some e) p q r"
  have total: "enc e (concat ds) \<noteq> None" for e using codes(3) by (fastforce simp: codecs_inverse_def)
  from reads_compress_response [OF codes(1) body total, of H "Some e" p q] obtain es where
    es: "reads (compression_body_api K B) (res_body ?r) (message_frames es t)"
      "if response_coding H (Some e) p r = Identity then concat es = concat ds
       else enc (response_coding H (Some e) p r) (concat ds) = Some (concat es)" by blast
  show ?thesis
  proof (cases "response_coding H (Some e) p r = Identity")
    case True
    with compressed_content_encoding [OF none, of K "Some e" p q] have
      "res_body (decompress_response H K' a ?r) = \<lparr>db_inner = IdentityBody (res_body ?r)\<rparr>"
      by (simp add: decompress_response_def decompression_body_new_def)
    with es True show ?thesis
      by (auto intro: reads_decompression reads_compression_variant)
  next
    case False
    with response_coding_Some [of H e p r] have c: "response_coding H (Some e) p r = e" "e \<noteq> Identity"
      by auto
    with compressed_content_encoding [OF none, of K "Some e" p q] have
      "hm_get H (res_headers ?r) ''content-encoding'' = Some (enc_to_str e)" by simp
    from decompress_response_coded [OF this c(2) e, of K'] obtain i where
      i: "decode_body K' a (enc_to_str e) (res_body ?r) = Some i"
        "res_body (decompress_response H K' a ?r) = decompression_body_new i" by auto
    from es(2) c codes(3) have "dec e (concat es) = Some (concat ds)"
      by (simp add: codecs_inverse_def) (metis option.inject)
    from reads_decode_body [OF codes(2) es(1) i(1) this] i(2) show ?thesis by simp
  qed
qed

end

text \<open>
  Claim C16.  Compression is transparent end to end: a client with the decompression middleware that
  talks to a service behind the compression middleware, each with any codings enabled, gets the
  message that the service sent, for every response that is not already coded.  The server never
  refuses such a client, picks a coding that the client can undo, and the body the client reads is
  the data of the service's body byte for byte, followed by its trailers; only \<open>Vary\<close>,
  \<open>Content-Length\<close> and \<open>Accept-Ranges\<close> may differ.  The codecs are assumed to invert each other.
\<close>

theorem compression_transparent:
  fixes K :: "('b, 't, 'er, 'm) stream_codecs"
    and K' :: "(('b, 'm) compression_body, 't, 'er box_error, 'n) stream_codecs"
    and server :: "('s, ('h, 'x, 'b) response \<Rightarrow> bool) compression"
  assumes H: "header_text H"
    and codes: "codecs_code K enc" "codecs_code K' dec" "codecs_inverse enc dec"
    and asks: "hm_get_all H (req_headers req) ''accept-encoding'' = []"
    and sent: "decompression_call H (compression_call H call) client req = (client', w)"
    and answer: "run_future poll n (cf_inner (df_inner w)) = Some (Inr r)"
    and plain: "hm_get_all H (res_headers r) ''content-encoding'' = []"
    and body: "reads B (res_body r) (message_frames ds t)"
    and client: "client = \<lparr>ds_inner = server, ds_accept = a\<rparr>"
  shows "\<exists>r' es. run_future (decompression_future_poll H K' (compression_future_poll H K poll)) n w = Some (Inr r') \<and>
    same_message H r r' \<and>
    reads (decompression_body_api K' (compression_body_api K B)) (res_body r') (message_frames es t) \<and>
    concat es = concat ds"
proof -
  let ?h = "insert_accept_encoding H a (req_headers req)"
  have "hm_get_all H ?h ''accept-encoding'' = (case to_header_value a of None \<Rightarrow> [] | Some v \<Rightarrow> [v])"
    by (simp add: header_text.get_all_insert_accept [OF H] asks)
  from header_text.from_headers_of_client [OF H this, of "cs_accept server"] obtain e where
    e: "from_headers H ?h (cs_accept server) = Some e" "is_supported a e" by blast
  with sent client have w: "df_accept w = a" "cf_encoding (df_inner w) = Some e"
    by (auto simp: decompression_call_def compression_call_def Let_def split: prod.splits)
  let ?r = "compress_response H K (Some e) (cf_predicate (df_inner w)) (cf_quality (df_inner w)) r"
  have "run_future (compression_future_poll H K poll) n (df_inner w) = Some (Inr ?r)"
    using compress_adaptor.run_outer_Some [OF answer, of H K] w(2) by simp
  from decompress_adaptor.run_outer_Some [OF this, of H K'] w(1) have
    "run_future (decompression_future_poll H K' (compression_future_poll H K poll)) n w =
       Some (Inr (decompress_response H K' a ?r))" by simp
  with header_text.same_message_transfer [OF H plain e(2)]
    header_text.transfer_reads [OF H plain e(2) codes body]
  show ?thesis by blast
qed

definition byte_decoder :: "(char \<Rightarrow> char) \<Rightarrow> ('s, 's, string) async_decoder" where
  "byte_decoder g = \<lparr>ad_new = (\<lambda>s multiple. s), ad_stream = (\<lambda>m. m), ad_set_stream = (\<lambda>s m. s),
     ad_poll_read = byte_codec_read g\<rparr>"

definition byte_decoders :: "(char \<Rightarrow> char) \<Rightarrow> ('s, 's, string) codecs" where
  "byte_decoders g = decoder_codecs \<lparr>dec_gzip = byte_decoder g, dec_deflate = byte_decoder g,
     dec_br = byte_decoder g, dec_zstd = byte_decoder g\<rparr>"

lemma byte_decoders_eq: "byte_decoders g = byte_encoders g"
  by (simp add: byte_decoders_def decoder_codecs_def gzip_decoder_def zlib_decoder_def
        brotli_decoder_def zstd_decoder_def decoder_with_def byte_decoder_def byte_encoders_def
        encoder_codecs_def gzip_encoder_def zlib_encoder_def brotli_encoder_def zstd_encoder_def
        encoder_with_def byte_encoder_def cong: if_cong)

lemma byte_decoders_code: "codecs_code (byte_decoders g) (\<lambda>e d. Some (map g d))"
  by (simp add: byte_decoders_eq byte_encoders_code)

definition swap_ab :: "char \<Rightarrow> char" where
  "swap_ab c = (if c = CHR ''a'' then CHR ''b'' else if c = CHR ''b'' then CHR ''a'' else c)"

lemma swap_ab_inverse: "codecs_inverse (\<lambda>e d. Some (map swap_ab d)) (\<lambda>e d. Some (map swap_ab d))"
proof -
  have "swap_ab (swap_ab c) = c" for c by (simp add: swap_ab_def)
  then show ?thesis by (simp add: codecs_inverse_def o_def)
qed

definition plain_response where
  "plain_response = \<lparr>res_status = 200, res_version = [], res_headers = [(''content-length'', ''3'')],
     res_extensions = (),
     res_body = map (\<lambda>f. Ready (Some (Inr f :: unit + _))) (message_frames [''ab'', ''c''] (Some ()))\<rparr>"

definition plain_request where
  "plain_request = \<lparr>req_method = ''GET'', req_uri = (), req_version = [], req_headers = [],
     req_extensions = (), req_body = ()\<rparr>"

definition plain_service where
  "plain_service s req = (s, (2 :: nat, Inr plain_response :: unit + _))"

definition plain_client where
  "plain_client = \<lparr>ds_inner = \<lparr>cs_inner = (), cs_accept = accept_encoding_default,
     cs_predicate = (\<lambda>r. True), cs_quality = Default\<rparr>, ds_accept = accept_encoding_default\<rparr>"

definition plain_exchange where
  "plain_exchange = snd (decompression_call (list_http ()) (compression_call (list_http ()) plain_service)
     plain_client plain_request)"

lemma plain_exchange_inner: "cf_inner (df_inner plain_exchange) = (2, Inr plain_response)"
  by (simp add: plain_exchange_def decompression_call_def compression_call_def plain_service_def
      plain_client_def Let_def)

theorem compression_transparent_witness:
  "\<exists>r' es. run_future (decompression_future_poll (list_http ()) (byte_decoders swap_ab)
      (compression_future_poll (list_http ()) (byte_encoders swap_ab) ready_after)) 3 plain_exchange
      = Some (Inr r') \<and> same_message (list_http ()) plain_response r' \<and>
    reads (decompression_body_api (byte_decoders swap_ab) (compression_body_api (byte_encoders swap_ab) script_body))
      (res_body r') (message_frames es (Some ())) \<and> concat es = ''abc''"
proof -
  have run: "run_future ready_after 3 (cf_inner (df_inner plain_exchange)) = Some (Inr plain_response)"
    by (simp add: plain_exchange_inner numeral_3_eq_3 numeral_2_eq_2)
  have sent: "decompression_call (list_http ()) (compression_call (list_http ()) plain_service)
      plain_client plain_request = (fst (decompression_call (list_http ())
        (compression_call (list_http ()) plain_service) plain_client plain_request), plain_exchange)"
    by (simp add: plain_exchange_def)
  have body: "reads script_body (res_body plain_response) (message_frames [''ab'', ''c''] (Some ()))"
    unfolding plain_response_def response.simps by (rule reads_script)
  show ?thesis
    using compression_transparent [OF header_text_list_http byte_encoders_code byte_decoders_code
      swap_ab_inverse _ sent run _ body, of "ds_inner plain_client" accept_encoding_default]
    by (simp add: plain_request_def plain_response_def plain_client_def list_http_simps)
qed

end
