(* ===== verification/Path.thy ===== *)
theory Path
  imports Prelude
begin

text \<open>
  What \<open>services/fs\<close> uses of \<open>std::path\<close>, on a Unix target.  A \<open>Path\<close> is observed through its
  components, which is also what its equality compares, so a \<open>PathBuf\<close> is kept as the list of its
  components: \<open>components\<close> reads them off a string, with repeated separators and inner dots
  dropped, and the operations on a \<open>PathBuf\<close> act on the list.  There are no prefixes on Unix.
\<close>

section \<open>Components\<close>

datatype component = RootDir | CurDir | ParentDir | Normal string

type_synonym path = "component list"

definition piece_component :: "string \<Rightarrow> component option" where
  "piece_component w =
     (if w = [] \<or> w = ''.'' then None else if w = ''..'' then Some ParentDir else Some (Normal w))"

definition components :: "string \<Rightarrow> path" where
  "components s =
     (if s = [] then []
      else if hd s = CHR ''/'' then RootDir # List.map_filter piece_component (split_on CHR ''/'' s)
      else (if hd (split_on CHR ''/'' s) = ''.'' then [CurDir] else [])
        @ List.map_filter piece_component (split_on CHR ''/'' s))"

section \<open>PathBuf\<close>

definition path_from :: "string \<Rightarrow> path" where
  "path_from s = components s"

text \<open>
  \<open>PathBuf::push\<close>: an absolute path replaces the buffer; a leading dot is only kept in an empty one.
\<close>

definition path_push :: "path \<Rightarrow> string \<Rightarrow> path" where
  "path_push p s =
     (let cs = components s
      in if cs \<noteq> [] \<and> hd cs = RootDir then cs
         else if p = [] then cs
         else p @ filter (\<lambda>c. c \<noteq> CurDir) cs)"

definition path_pop :: "path \<Rightarrow> path" where
  "path_pop p = (if p = [] \<or> last p = RootDir then p else butlast p)"

definition file_name :: "path \<Rightarrow> string option" where
  "file_name p = (if p = [] then None else case last p of Normal n \<Rightarrow> Some n | _ \<Rightarrow> None)"

definition set_file_name :: "path \<Rightarrow> string \<Rightarrow> path" where
  "set_file_name p n = path_push (if file_name p \<noteq> None then path_pop p else p) n"

text \<open>
  The parts before and after the last dot (\<open>rsplit_file_at_dot\<close>); a leading dot alone does not
  start an extension.
\<close>

fun rsplit_dot :: "string \<Rightarrow> (string \<times> string) option" where
  "rsplit_dot [] = None"
| "rsplit_dot (c # cs) =
     (case rsplit_dot cs of
        Some (b, a) \<Rightarrow> Some (c # b, a)
      | None \<Rightarrow> if c = CHR ''.'' then Some ([], cs) else None)"

definition stem_and_extension :: "string \<Rightarrow> string \<times> string option" where
  "stem_and_extension f =
     (case rsplit_dot f of
        Some (b, a) \<Rightarrow> if b = [] then (f, None) else (b, Some a)
      | None \<Rightarrow> (f, None))"

definition extension :: "path \<Rightarrow> string option" where
  "extension p = Option.bind (file_name p) (\<lambda>f. snd (stem_and_extension f))"

definition set_extension :: "path \<Rightarrow> string \<Rightarrow> path" where
  "set_extension p e =
     (case file_name p of
        None \<Rightarrow> p
      | Some f \<Rightarrow> butlast p @ [Normal (fst (stem_and_extension f) @ (if e = [] then [] else CHR ''.'' # e))])"

section \<open>Lemmas\<close>

definition plain_name :: "string \<Rightarrow> bool" where
  "plain_name n \<longleftrightarrow> n \<noteq> [] \<and> n \<noteq> ''.'' \<and> n \<noteq> ''..'' \<and> CHR ''/'' \<notin> set n"

lemma piece_component_Normal:
  "w \<in> set (split_on CHR ''/'' s) \<Longrightarrow> piece_component w = Some (Normal n) \<Longrightarrow> plain_name n"
  by (auto simp: piece_component_def plain_name_def split: if_splits dest: split_on_pieces)

lemma components_Normal: "Normal n \<in> set (components s) \<Longrightarrow> plain_name n"
  by (auto simp: components_def set_map_filter_iff split: if_splits dest: piece_component_Normal)

lemma components_plain [simp]: "plain_name n \<Longrightarrow> components n = [Normal n]"
  by (cases n) (auto simp: components_def plain_name_def split_on_no_sep piece_component_def
      List.map_filter_def)

lemma path_push_plain: "plain_name n \<Longrightarrow> path_push p n = p @ [Normal n]"
  by (simp add: path_push_def Let_def)

lemma file_name_Normal [simp]: "file_name (p @ [Normal n]) = Some n"
  by (simp add: file_name_def)

lemma file_name_SomeD: "file_name p = Some n \<Longrightarrow> p = butlast p @ [Normal n]"
  by (auto simp: file_name_def split: if_splits component.splits) (metis append_butlast_last_id)

lemma set_file_name_Normal: "plain_name m \<Longrightarrow> set_file_name (p @ [Normal n]) m = p @ [Normal m]"
  by (simp add: set_file_name_def path_pop_def path_push_plain)

lemma rsplit_dot_append: "CHR ''.'' \<notin> set a \<Longrightarrow> rsplit_dot (b @ CHR ''.'' # a) = Some (b, a)"
proof (induction b)
  case Nil
  have "rsplit_dot a = None" if "CHR ''.'' \<notin> set a" for a using that by (induction a) auto
  with Nil show ?case by simp
qed simp

lemma stem_append:
  "CHR ''.'' \<notin> set e \<Longrightarrow> n \<noteq> [] \<Longrightarrow> stem_and_extension (n @ CHR ''.'' # e) = (n, Some e)"
  by (simp add: stem_and_extension_def rsplit_dot_append)

text \<open>Adding an extension to a name and clearing it again restores the path.\<close>

lemma clear_added_extension:
  "n \<noteq> [] \<Longrightarrow> CHR ''.'' \<notin> set e \<Longrightarrow>
     set_extension (p @ [Normal (n @ CHR ''.'' # e)]) [] = p @ [Normal n]"
  by (simp add: set_extension_def stem_append)

end
