(* ===== verification/Fs_Headers.thy ===== *)
theory Fs_Headers
  imports Http
begin

text \<open>
  \<open>services/fs/serve_dir/headers.rs\<close>: entity tags made from file metadata, the conditional request
  headers, and their comparison.  A \<open>SystemTime\<close> is the number of nanoseconds since the Unix epoch,
  as an integer.  \<open>HttpDate\<close> is a type of the \<open>httpdate\<close> crate: parsing, printing and conversion
  are a parameter, its order is the order of the type.
\<close>

section \<open>Entity tags\<close>

datatype etag = ETag string

fun into_header_value :: "etag \<Rightarrow> string" where
  "into_header_value (ETag v) = v"

definition hex_digit :: "nat \<Rightarrow> char" where
  "hex_digit n = char_of (if n < 10 then 48 + n else 87 + n)"

fun hex :: "nat \<Rightarrow> string" where
  "hex n = (if n < 16 then [hex_digit n] else hex (n div 16) @ [hex_digit (n mod 16)])"

declare hex.simps [simp del]

text \<open>The format \<open>{:08x}\<close>.\<close>

definition hex08 :: "nat \<Rightarrow> string" where
  "hex08 n = replicate (8 - length (hex n)) CHR ''0'' @ hex n"

definition etag_text :: "nat \<Rightarrow> nat \<Rightarrow> nat \<Rightarrow> string" where
  "etag_text secs nanos len =
     CHR 0x22 # hex secs @ CHR ''.'' # hex08 nanos @ CHR ''-'' # hex len @ [CHR 0x22]"

definition etag_from_metadata :: "('h, string, 'x) http_api \<Rightarrow> nat \<Rightarrow> int \<Rightarrow> etag option" where
  "etag_from_metadata H len modified =
     (if modified < 0 then None
      else (let duration = nat modified
            in map_option ETag
                 (from_bytes H (etag_text (duration div 10 ^ 9) (duration mod 10 ^ 9) len))))"

fun strong_eq :: "etag \<Rightarrow> string \<Rightarrow> bool" where
  "strong_eq (ETag v) other = (if starts_with other ''W/'' then False else v = other)"

definition strip_weak :: "string \<Rightarrow> string" where
  "strip_weak s = (case strip_prefix ''W/'' s of Some r \<Rightarrow> r | None \<Rightarrow> s)"

fun weak_eq :: "etag \<Rightarrow> string \<Rightarrow> bool" where
  "weak_eq (ETag v) other = (strip_weak v = strip_weak other)"

definition is_ows :: "char \<Rightarrow> bool" where
  "is_ows c = (c = CHR '' '' \<or> byte c = 9)"

definition trim_ows :: "string \<Rightarrow> string" where
  "trim_ows s = rev (dropWhile is_ows (rev (dropWhile is_ows s)))"

text \<open>
  The loop of \<open>for_each_etag\<close>: \<open>cur\<close> is \<open>header[start..i]\<close> and the last argument is
  \<open>header[i..]\<close>.
\<close>

fun each_etag :: "(string \<Rightarrow> bool) \<Rightarrow> string \<Rightarrow> bool \<Rightarrow> string \<Rightarrow> bool" where
  "each_etag predicate cur in_quotes [] =
     (let trimmed = trim_ows cur in trimmed \<noteq> [] \<and> predicate trimmed)"
| "each_etag predicate cur in_quotes (c # cs) =
     (if c = CHR 0x22 then each_etag predicate (cur @ [c]) (\<not> in_quotes) cs
      else if c = CHR '','' \<and> \<not> in_quotes then
        (let trimmed = trim_ows cur
         in if trimmed \<noteq> [] \<and> predicate trimmed then True else each_etag predicate [] in_quotes cs)
      else each_etag predicate (cur @ [c]) in_quotes cs)"

definition for_each_etag :: "string \<Rightarrow> (string \<Rightarrow> bool) \<Rightarrow> bool" where
  "for_each_etag header predicate = each_etag predicate [] False header"

datatype if_none_match = IfNoneMatch string

definition if_none_match_from :: "string \<Rightarrow> if_none_match option" where
  "if_none_match_from value = (if value = [] then None else Some (IfNoneMatch value))"

fun if_none_match_passes :: "if_none_match \<Rightarrow> etag \<Rightarrow> bool" where
  "if_none_match_passes (IfNoneMatch bytes) etag =
     (if bytes = ''*'' then False else \<not> for_each_etag bytes (\<lambda>tag. weak_eq etag tag))"

datatype if_match = IfMatch string

definition if_match_from :: "string \<Rightarrow> if_match option" where
  "if_match_from value = (if value = [] then None else Some (IfMatch value))"

fun if_match_passes :: "if_match \<Rightarrow> etag \<Rightarrow> bool" where
  "if_match_passes (IfMatch bytes) etag =
     (if bytes = ''*'' then True else for_each_etag bytes (\<lambda>tag. strong_eq etag tag))"

section \<open>Dates\<close>

record 'd http_date =
  date_parse :: "string \<Rightarrow> 'd option"
  date_from :: "int \<Rightarrow> 'd"
  date_to_string :: "'d \<Rightarrow> string"

datatype 'd last_modified = LastModified 'd

definition last_modified_from :: "'d http_date \<Rightarrow> int \<Rightarrow> 'd last_modified" where
  "last_modified_from D time = LastModified (date_from D time)"

datatype 'd if_modified_since = IfModifiedSince 'd

fun is_modified :: "('d::linorder) if_modified_since \<Rightarrow> 'd last_modified \<Rightarrow> bool" where
  "is_modified (IfModifiedSince since) (LastModified lm) = (since < lm)"

definition if_modified_since_from ::
  "('h, 'v, 'x) http_api \<Rightarrow> 'd http_date \<Rightarrow> 'v \<Rightarrow> 'd if_modified_since option" where
  "if_modified_since_from H D value =
     map_option IfModifiedSince (Option.bind (to_str H value) (date_parse D))"

datatype 'd if_unmodified_since = IfUnmodifiedSince 'd

fun if_unmodified_since_passes :: "('d::linorder) if_unmodified_since \<Rightarrow> 'd last_modified \<Rightarrow> bool" where
  "if_unmodified_since_passes (IfUnmodifiedSince since) (LastModified lm) = (since \<ge> lm)"

definition if_unmodified_since_from ::
  "('h, 'v, 'x) http_api \<Rightarrow> 'd http_date \<Rightarrow> 'v \<Rightarrow> 'd if_unmodified_since option" where
  "if_unmodified_since_from H D value =
     map_option IfUnmodifiedSince (Option.bind (to_str H value) (date_parse D))"

section \<open>Entity tags identify modification time and size\<close>

definition hex_val :: "char \<Rightarrow> nat" where
  "hex_val c = (if byte c < 58 then byte c - 48 else byte c - 87)"

lemma byte_char_of: "n < 256 \<Longrightarrow> byte (char_of n) = n"
  by (simp add: byte_def)

lemma hex_val_digit: "n < 16 \<Longrightarrow> hex_val (hex_digit n) = n"
  by (simp add: hex_val_def hex_digit_def byte_char_of)

definition hex_number :: "string \<Rightarrow> nat" where
  "hex_number s = foldl (\<lambda>n c. 16 * n + hex_val c) 0 s"

lemma hex_number_hex: "hex_number (hex n) = n"
proof (induction n rule: hex.induct)
  case (1 n)
  then show ?case
    by (subst hex.simps) (auto simp: hex_number_def hex_val_digit)
qed

lemma hex_number_hex08: "hex_number (hex08 n) = n"
proof -
  have "foldl (\<lambda>n c. 16 * n + hex_val c) 0 (replicate k CHR ''0'') = 0" for k
    by (induction k) (auto simp: hex_val_def byte_def)
  then show ?thesis using hex_number_hex [of n] by (simp add: hex08_def hex_number_def)
qed

definition is_hex :: "char \<Rightarrow> bool" where
  "is_hex c \<longleftrightarrow> 48 \<le> byte c \<and> byte c \<le> 57 \<or> 97 \<le> byte c \<and> byte c \<le> 102"

lemma is_hex_digit: "n < 16 \<Longrightarrow> is_hex (hex_digit n)"
  by (auto simp: is_hex_def hex_digit_def byte_char_of)

lemma hex_chars: "list_all is_hex (hex n)"
proof (induction n rule: hex.induct)
  case (1 n)
  then show ?case by (subst hex.simps) (auto simp: is_hex_digit)
qed

lemma hex08_chars: "list_all is_hex (hex08 n)"
proof -
  have "is_hex CHR ''0''" by (simp add: is_hex_def byte_def)
  then show ?thesis using hex_chars [of n] by (auto simp: hex08_def list_all_iff)
qed

lemma not_hex: "\<not> is_hex CHR ''.''" "\<not> is_hex CHR ''-''" "\<not> is_hex CHR 0x22" "\<not> is_hex CHR '',''"
  by (simp_all add: is_hex_def byte_def)

lemma append_sep_eq:
  "list_all P xs \<Longrightarrow> list_all P ys \<Longrightarrow> \<not> P c \<Longrightarrow> xs @ c # us = ys @ c # vs \<longleftrightarrow> xs = ys \<and> us = vs"
proof (induction xs arbitrary: ys)
  case Nil
  then show ?case by (cases ys) auto
next
  case (Cons x xs)
  then show ?case by (cases ys) auto
qed

lemma etag_text_inject:
  "etag_text a b c = etag_text a' b' c' \<longleftrightarrow> a = a' \<and> b = b' \<and> c = c'"
proof
  assume "etag_text a b c = etag_text a' b' c'"
  then have "hex a = hex a'" "hex08 b = hex08 b'" "hex c = hex c'"
    using hex_chars hex08_chars not_hex
    by (simp_all add: etag_text_def append_sep_eq [where P = is_hex])
  then show "a = a' \<and> b = b' \<and> c = c'" by (metis hex_number_hex hex_number_hex08)
qed simp

text \<open>The opaque part of a tag: quoted, without quotes inside.\<close>

definition quoted :: "string \<Rightarrow> bool" where
  "quoted t \<longleftrightarrow> (\<exists>q. t = CHR 0x22 # q @ [CHR 0x22] \<and> CHR 0x22 \<notin> set q)"

definition etag_form :: "string \<Rightarrow> bool" where
  "etag_form t \<longleftrightarrow> quoted t \<or> (\<exists>u. t = ''W/'' @ u \<and> quoted u)"

lemma quoted_etag_text: "quoted (etag_text a b c)"
proof -
  let ?q = "hex a @ CHR ''.'' # hex08 b @ CHR ''-'' # hex c"
  have "CHR 0x22 \<notin> set ?q"
    using hex_chars [of a] hex_chars [of c] hex08_chars [of b] not_hex(3) by (auto simp: list_all_iff)
  then show ?thesis unfolding quoted_def etag_text_def by (intro exI [of _ ?q]) simp
qed

lemma each_etag_inside:
  "CHR 0x22 \<notin> set q \<Longrightarrow> each_etag p cur True (q @ CHR 0x22 # rest) = each_etag p (cur @ q @ [CHR 0x22]) False rest"
  by (induction q arbitrary: cur) auto

lemma each_etag_quoted: "quoted t \<Longrightarrow> each_etag p cur False (t @ rest) = each_etag p (cur @ t) False rest"
  by (auto simp: quoted_def each_etag_inside)

lemma each_etag_form: "etag_form t \<Longrightarrow> each_etag p cur False (t @ rest) = each_etag p (cur @ t) False rest"
  by (auto simp: etag_form_def each_etag_quoted)

lemma etag_form_ends: "etag_form t \<Longrightarrow> t \<noteq> [] \<and> \<not> is_ows (hd t) \<and> \<not> is_ows (last t)"
  by (auto simp: etag_form_def quoted_def is_ows_def byte_def)

lemma trim_ows_form:
  assumes "etag_form t" "list_all is_ows w"
  shows "trim_ows (w @ t) = t"
proof -
  from etag_form_ends [OF assms(1)] obtain a b where
    "t \<noteq> []" "t = a # tl t" "rev t = b # tl (rev t)" "\<not> is_ows a" "\<not> is_ows b"
    by (metis hd_rev list.collapse rev_is_Nil_conv)
  moreover from this have "dropWhile is_ows (w @ t) = t"
    using assms(2) by (metis dropWhile.simps(2) dropWhile_append2 list_all_iff)
  ultimately show ?thesis unfolding trim_ows_def by (metis dropWhile.simps(2) rev_rev_ident)
qed

text \<open>A list of tags, written with a comma and blanks, is read as that list.\<close>

lemma each_etag_list:
  assumes "list_all etag_form ts" "list_all is_ows w" "list_all is_ows sp" "ts \<noteq> []"
  shows "each_etag p w False (join_with (CHR '','' # sp) ts) = list_ex p ts"
  using assms
proof (induction ts arbitrary: w rule: induct_list012)
  case (2 t)
  then show ?case
    using each_etag_form [of t p w "[]"] etag_form_ends [of t] by (simp add: trim_ows_form Let_def)
next
  case (3 t u ts)
  have blanks: "each_etag p [] False (sp @ rest) = each_etag p sp False rest" for rest
  proof -
    have "each_etag p v False (sp @ rest) = each_etag p (v @ sp) False rest"
      if "list_all is_ows sp" for v using that
    proof (induction sp arbitrary: v)
      case (Cons c sp)
      then have "c \<noteq> CHR 0x22" "c \<noteq> CHR '',''" by (auto simp: is_ows_def byte_def)
      with Cons show ?case by simp
    qed simp
    from this [of "[]"] 3(5) show ?thesis by simp
  qed
  show ?case
    using 3 each_etag_form [of t p w] etag_form_ends [of t]
    by (simp add: trim_ows_form Let_def blanks)
qed simp

end
