(* ===== verification/Open_File.thy ===== *)
theory Open_File
  imports Path Fs_Headers Content_Encoding
begin

text \<open>
  \<open>services/fs/serve_dir/open_file.rs\<close> with the traits of \<open>backend.rs\<close>: from a request and a
  path to the file to be served, or the reason why none is.  The backend is a parameter, the record
  \<open>backend\<close>; its answers are functions of the path, that is, the file system does not change while
  one request is served, and the awaits of its futures are sequential.  Also parameters, in
  \<open>fs_env\<close>: \<open>mime_guess\<close>, \<open>http_range_header\<close>, \<open>HttpDate\<close> and the builder of \<open>http::Uri\<close>.
  The features \<open>tracing\<close> and the Windows branches are left out.
\<close>

section \<open>The backend and the other crates\<close>

datatype error_kind = NotFound | PermissionDenied | InvalidInput | OtherKind

record fs_error =
  err_kind :: error_kind
  err_raw_os :: "int option"

record ('file, 'meta) backend =
  be_open :: "path \<Rightarrow> fs_error + 'file"
  be_metadata :: "path \<Rightarrow> fs_error + 'meta"
  file_metadata :: "'file \<Rightarrow> fs_error + 'meta"
  file_seek :: "'file \<Rightarrow> nat \<Rightarrow> fs_error + 'file"
  meta_is_dir :: "'meta \<Rightarrow> bool"
  meta_modified :: "'meta \<Rightarrow> fs_error + int"
  meta_len :: "'meta \<Rightarrow> nat"

record ('u, 'd, 'r) fs_env =
  first_raw :: "path \<Rightarrow> string option"
  parse_range_header :: "string \<Rightarrow> 'r option"
  range_count :: "'r \<Rightarrow> nat"
  range_validate :: "'r \<Rightarrow> nat \<Rightarrow> (nat \<times> nat) list option"
  fs_date :: "'d http_date"
  uri_has_path :: "'u \<Rightarrow> bool"
  uri_build :: "string option \<Rightarrow> string option \<Rightarrow> string \<Rightarrow> 'u option"

text \<open>An \<open>io::Error\<close> of the backend, or a failed \<open>unwrap\<close>.\<close>

datatype serve_error = Io fs_error | Unwrap string

section \<open>The result of opening\<close>

datatype serve_variant =
  Directory (append_index_html_on_directories: bool) (html_as_default_extension: bool)
| SingleFile (single_mime: string)

datatype range_error = Unsatisfiable | MultipleRangesNotSupported

datatype 'file file_request_extent = Full 'file nat | Head nat

record ('file, 'd) file_opened =
  fo_extent :: "'file file_request_extent"
  fo_chunk_size :: nat
  fo_mime_header_value :: string
  fo_maybe_encoding :: "encoding option"
  fo_maybe_range :: "(range_error + nat \<times> nat) option"
  fo_last_modified :: "'d last_modified option"
  fo_precompression_configured :: bool
  fo_etag :: "etag option"

datatype ('file, 'd) open_file_output =
  FileOpened "('file, 'd) file_opened"
| Redirect string
| FileNotFound
| PreconditionFailed
| NotModified "etag option" "'d last_modified option"
| InvalidRedirectUri
| InvalidFilename

record ('h, 'u, 'x, 'b) open_file_request =
  of_variant :: serve_variant
  of_redirect_path_prefix :: string
  of_path_to_file :: path
  of_req :: "('h, 'u, 'x, 'b) request"
  of_negotiated_encodings :: "(encoding \<times> nat) list"
  of_range_header :: "string option"
  of_buf_chunk_size :: nat
  of_precompression_configured :: bool

section \<open>Preconditions\<close>

record 'd preconditions =
  pc_if_match :: "if_match option"
  pc_if_unmodified_since :: "'d if_unmodified_since option"
  pc_if_none_match :: "if_none_match option"
  pc_if_modified_since :: "'d if_modified_since option"

definition preconditions_of ::
  "('h, string, 'x) http_api \<Rightarrow> 'd http_date \<Rightarrow> 'h \<Rightarrow> 'd preconditions" where
  "preconditions_of H D h =
     \<lparr>pc_if_match = Option.bind (hm_get H h ''if-match'') if_match_from,
      pc_if_unmodified_since = Option.bind (hm_get H h ''if-unmodified-since'') (if_unmodified_since_from H D),
      pc_if_none_match = Option.bind (hm_get H h ''if-none-match'') if_none_match_from,
      pc_if_modified_since = Option.bind (hm_get H h ''if-modified-since'') (if_modified_since_from H D)\<rparr>"

definition preconditions_check ::
  "('d::linorder) preconditions \<Rightarrow> etag option \<Rightarrow> 'd last_modified option \<Rightarrow>
     ('file, 'd) open_file_output option" where
  "preconditions_check p etag last_modified =
     (let first =
        (case pc_if_match p of
           Some m \<Rightarrow> (case etag of Some e \<Rightarrow> if_match_passes m e | None \<Rightarrow> False)
         | None \<Rightarrow>
             (case pc_if_unmodified_since p of
                Some since \<Rightarrow>
                  (case last_modified of Some lm \<Rightarrow> if_unmodified_since_passes since lm | None \<Rightarrow> True)
              | None \<Rightarrow> True))
      in if \<not> first then Some PreconditionFailed
         else (case pc_if_none_match p of
                 Some m \<Rightarrow>
                   (if \<not> (case etag of Some e \<Rightarrow> if_none_match_passes m e | None \<Rightarrow> True)
                    then Some (NotModified etag last_modified) else None)
               | None \<Rightarrow>
                   (case pc_if_modified_since p of
                      Some since \<Rightarrow>
                        (if (case last_modified of Some lm \<Rightarrow> \<not> is_modified since lm | None \<Rightarrow> False)
                         then Some (NotModified etag last_modified) else None)
                    | None \<Rightarrow> None)))"

section \<open>Precompressed variants\<close>

definition is_invalid_filename_error :: "fs_error \<Rightarrow> bool" where
  "is_invalid_filename_error err = (err_kind err = InvalidInput)"

text \<open>\<open>preferred_encoding\<close>: the coding and the path with its file extension added.\<close>

definition prefer_path :: "path \<Rightarrow> (encoding \<times> nat) list \<Rightarrow> encoding option \<times> path" where
  "prefer_path p negotiated =
     (let preferred = preferred_encoding negotiated
      in (case Option.bind preferred to_file_extension of
            None \<Rightarrow> (preferred, p)
          | Some ext \<Rightarrow>
              (let new_file_name = (case file_name p of Some n \<Rightarrow> n @ ext | None \<Rightarrow> ext)
               in (preferred, set_file_name p new_file_name))))"

text \<open>The loop of \<open>open_file_with_fallback\<close> and of \<open>file_metadata_with_fallback\<close>.\<close>

function with_fallback ::
  "(path \<Rightarrow> fs_error + 'a) \<Rightarrow> path \<Rightarrow> (encoding \<times> nat) list \<Rightarrow> fs_error + ('a \<times> encoding option)" where
  "with_fallback access p negotiated =
     (case prefer_path p negotiated of (enc, q) \<Rightarrow>
        (case access q of
           Inr file \<Rightarrow> Inr (file, enc)
         | Inl err \<Rightarrow>
             (case enc of
                Some e \<Rightarrow>
                  (if err_kind err = NotFound \<and> e \<noteq> Identity
                   then with_fallback access (set_extension q []) (filter (\<lambda>n. fst n \<noteq> e) negotiated)
                   else Inl err)
              | None \<Rightarrow> Inl err)))"
  by pat_completeness auto

lemma prefer_path_fst: "fst (prefer_path p neg) = preferred_encoding neg"
  by (auto simp: prefer_path_def Let_def split: option.split)

termination with_fallback
proof (relation "measure (\<lambda>(access, p, negotiated). length negotiated)")
  fix access :: "path \<Rightarrow> fs_error + 'a" and p q enc and negotiated :: "(encoding \<times> nat) list" and err e
  assume "(enc, q) = prefer_path p negotiated" and "enc = Some e"
  then have "preferred_encoding negotiated = Some e" by (metis fst_conv prefer_path_fst)
  then obtain n where "n \<in> set negotiated" "fst n = e"
    by (auto dest!: preferred_encoding_Some simp: best_of_def)
  then have "length (filter (\<lambda>n. fst n \<noteq> e) negotiated) < length negotiated"
    by (intro length_filter_less) auto
  then show "((access, set_extension q [], filter (\<lambda>n. fst n \<noteq> e) negotiated), access, p, negotiated)
      \<in> measure (\<lambda>(access, p, negotiated). length negotiated)" by simp
qed simp

declare with_fallback.simps [simp del]

definition open_file_with_fallback ::
  "('file, 'meta) backend \<Rightarrow> path \<Rightarrow> (encoding \<times> nat) list \<Rightarrow> fs_error + ('file \<times> encoding option)" where
  "open_file_with_fallback B = with_fallback (be_open B)"

definition file_metadata_with_fallback ::
  "('file, 'meta) backend \<Rightarrow> path \<Rightarrow> (encoding \<times> nat) list \<Rightarrow> fs_error + ('meta \<times> encoding option)" where
  "file_metadata_with_fallback B = with_fallback (be_metadata B)"

section \<open>Directories\<close>

definition is_dir :: "('file, 'meta) backend \<Rightarrow> path \<Rightarrow> fs_error + bool option" where
  "is_dir B p =
     (case be_metadata B p of
        Inr m \<Rightarrow> Inr (Some (meta_is_dir B m))
      | Inl err \<Rightarrow>
          if err_kind err = NotFound \<or> is_invalid_filename_error err then Inr None else Inl err)"

definition append_slash_on_path ::
  "'u uri_api \<Rightarrow> ('u, 'd, 'r) fs_env \<Rightarrow> 'u \<Rightarrow> string \<Rightarrow> 'u option" where
  "append_slash_on_path U V uri prefix =
     uri_build V (uri_scheme U uri) (uri_authority U uri)
       (if uri_has_path V uri
        then (case uri_query U uri of
                Some query \<Rightarrow> prefix @ uri_path U uri @ ''/?'' @ query
              | None \<Rightarrow> prefix @ uri_path U uri @ ''/'')
        else prefix @ ''/'')"

definition ends_with_slash :: "string \<Rightarrow> bool" where
  "ends_with_slash s = (s \<noteq> [] \<and> last s = CHR ''/'')"

text \<open>The output to return at once, if any, and the path to go on with.\<close>

definition maybe_redirect_or_append_path ::
  "('h, string, 'x) http_api \<Rightarrow> 'u uri_api \<Rightarrow> ('u, 'd, 'r) fs_env \<Rightarrow> ('file, 'meta) backend \<Rightarrow>
     string \<Rightarrow> path \<Rightarrow> 'u \<Rightarrow> bool \<Rightarrow> bool \<Rightarrow>
     serve_error + (('file, 'd) open_file_output option \<times> path)" where
  "maybe_redirect_or_append_path H U V B prefix p uri append_index html_default =
     (let uri_p = uri_path U uri
      in (case is_dir B p of
            Inl err \<Rightarrow> Inl (Io err)
          | Inr is_directory \<Rightarrow>
              if ends_with_slash uri_p \<and> uri_p \<noteq> ''/'' \<and> is_directory \<noteq> Some True
              then Inr (Some FileNotFound, p)
              else if html_default \<and> is_directory = None \<and> extension p = None
              then Inr (None, set_extension p ''html'')
              else if is_directory \<noteq> Some True then Inr (None, p)
              else if \<not> append_index then Inr (Some FileNotFound, p)
              else if ends_with_slash uri_p then Inr (None, path_push p ''index.html'')
              else (case append_slash_on_path U V uri prefix of
                      None \<Rightarrow> Inr (Some InvalidRedirectUri, p)
                    | Some uri' \<Rightarrow>
                        (case from_bytes H (uri_to_string U uri') of
                           None \<Rightarrow> Inl (Unwrap ''location'')
                         | Some location \<Rightarrow> Inr (Some (Redirect location), p)))))"

section \<open>Ranges\<close>

definition try_parse_range ::
  "('u, 'd, 'r) fs_env \<Rightarrow> string option \<Rightarrow> nat \<Rightarrow> (range_error + nat \<times> nat) option" where
  "try_parse_range V header file_size =
     map_option
       (\<lambda>value. case parse_range_header V value of
          None \<Rightarrow> Inl Unsatisfiable
        | Some parsed \<Rightarrow>
            if range_count V parsed > 1 then Inl MultipleRangesNotSupported
            else (case range_validate V parsed file_size of
                    None \<Rightarrow> Inl Unsatisfiable
                  | Some ranges \<Rightarrow> if ranges = [] then Inl Unsatisfiable else Inr (last ranges)))
       header"

section \<open>Opening\<close>

definition guess_mime :: "('u, 'd, 'r) fs_env \<Rightarrow> path \<Rightarrow> string" where
  "guess_mime V p = (case first_raw V p of Some m \<Rightarrow> m | None \<Rightarrow> ''application/octet-stream'')"

definition ok :: "'e + 'a \<Rightarrow> 'a option" where
  "ok r = (case r of Inr x \<Rightarrow> Some x | Inl e \<Rightarrow> None)"

definition meta_last_modified ::
  "('u, 'd, 'r) fs_env \<Rightarrow> ('file, 'meta) backend \<Rightarrow> 'meta \<Rightarrow> 'd last_modified option" where
  "meta_last_modified V B m = map_option (last_modified_from (fs_date V)) (ok (meta_modified B m))"

definition meta_etag ::
  "('h, string, 'x) http_api \<Rightarrow> ('file, 'meta) backend \<Rightarrow> 'meta \<Rightarrow> etag option" where
  "meta_etag H B m = Option.bind (ok (meta_modified B m)) (\<lambda>mtime. etag_from_metadata H (meta_len B m) mtime)"

text \<open>The rest of \<open>open_file\<close>, with the path and the media type known.\<close>

definition open_head ::
  "('h, string, 'x) http_api \<Rightarrow> ('u, 'd::linorder, 'r) fs_env \<Rightarrow> ('file, 'meta) backend \<Rightarrow>
     ('h, 'u, 'x, 'b) open_file_request \<Rightarrow> 'd preconditions \<Rightarrow> path \<Rightarrow> string \<Rightarrow>
     serve_error + ('file, 'd) open_file_output" where
  "open_head H V B r pre p mime =
     (case file_metadata_with_fallback B p (of_negotiated_encodings r) of
        Inl err \<Rightarrow> Inl (Io err)
      | Inr (meta, maybe_encoding) \<Rightarrow>
          (let last_modified = meta_last_modified V B meta;
               etag = meta_etag H B meta
           in (case preconditions_check pre etag last_modified of
                 Some output \<Rightarrow> Inr output
               | None \<Rightarrow> Inr (FileOpened
                   \<lparr>fo_extent = Head (meta_len B meta), fo_chunk_size = of_buf_chunk_size r,
                    fo_mime_header_value = mime, fo_maybe_encoding = maybe_encoding,
                    fo_maybe_range = try_parse_range V (of_range_header r) (meta_len B meta),
                    fo_last_modified = last_modified,
                    fo_precompression_configured = of_precompression_configured r, fo_etag = etag\<rparr>))))"

definition open_full ::
  "('h, string, 'x) http_api \<Rightarrow> ('u, 'd::linorder, 'r) fs_env \<Rightarrow> ('file, 'meta) backend \<Rightarrow>
     ('h, 'u, 'x, 'b) open_file_request \<Rightarrow> 'd preconditions \<Rightarrow> path \<Rightarrow> string \<Rightarrow>
     serve_error + ('file, 'd) open_file_output" where
  "open_full H V B r pre p mime =
     (case open_file_with_fallback B p (of_negotiated_encodings r) of
        Inl err \<Rightarrow> if is_invalid_filename_error err then Inr InvalidFilename else Inl (Io err)
      | Inr (file, maybe_encoding) \<Rightarrow>
          (case file_metadata B file of
             Inl err \<Rightarrow> Inl (Io err)
           | Inr meta \<Rightarrow>
               (let last_modified = meta_last_modified V B meta;
                    etag = meta_etag H B meta
                in (case preconditions_check pre etag last_modified of
                      Some output \<Rightarrow> Inr output
                    | None \<Rightarrow>
                        (let range = try_parse_range V (of_range_header r) (meta_len B meta);
                             opened = (\<lambda>f. Inr (FileOpened
                               \<lparr>fo_extent = Full f (meta_len B meta), fo_chunk_size = of_buf_chunk_size r,
                                fo_mime_header_value = mime, fo_maybe_encoding = maybe_encoding,
                                fo_maybe_range = range, fo_last_modified = last_modified,
                                fo_precompression_configured = of_precompression_configured r,
                                fo_etag = etag\<rparr>))
                         in (case range of
                               Some (Inr (start, e)) \<Rightarrow>
                                 (case file_seek B file start of Inl err \<Rightarrow> Inl (Io err) | Inr f \<Rightarrow> opened f)
                             | _ \<Rightarrow> opened file))))))"

definition open_file ::
  "('h, string, 'x) http_api \<Rightarrow> 'u uri_api \<Rightarrow> ('u, 'd::linorder, 'r) fs_env \<Rightarrow> ('file, 'meta) backend \<Rightarrow>
     ('h, 'u, 'x, 'b) open_file_request \<Rightarrow> serve_error + ('file, 'd) open_file_output" where
  "open_file H U V B r =
     (let pre = preconditions_of H (fs_date V) (req_headers (of_req r));
          finish = (\<lambda>p mime. if req_method (of_req r) = ''HEAD'' then open_head H V B r pre p mime
                             else open_full H V B r pre p mime)
      in (case of_variant r of
            SingleFile mime \<Rightarrow> finish (of_path_to_file r) mime
          | Directory append_index html_default \<Rightarrow>
              (case maybe_redirect_or_append_path H U V B (of_redirect_path_prefix r)
                      (of_path_to_file r) (req_uri (of_req r)) append_index html_default of
                 Inl err \<Rightarrow> Inl err
               | Inr (Some output, p) \<Rightarrow> Inr output
               | Inr (None, p) \<Rightarrow> finish p (guess_mime V p))))"

section \<open>Conditional requests\<close>

text \<open>The tag of a file of \<open>len\<close> bytes modified \<open>t\<close> nanoseconds after the epoch.\<close>

definition tag_of :: "nat \<times> nat \<Rightarrow> string" where
  "tag_of m = etag_text (snd m div 10 ^ 9) (snd m mod 10 ^ 9) (fst m)"

lemma tag_of_inject: "tag_of m = tag_of m' \<longleftrightarrow> m = m'"
proof
  assume "tag_of m = tag_of m'"
  then have "snd m div 10 ^ 9 = snd m' div 10 ^ 9" "snd m mod 10 ^ 9 = snd m' mod 10 ^ 9" "fst m = fst m'"
    unfolding tag_of_def etag_text_inject by blast+
  then show "m = m'" by (metis div_mult_mod_eq prod_eqI)
qed simp

lemma etag_text_first: "\<exists>q. etag_text a b c = CHR 0x22 # q"
  by (simp add: etag_text_def)

lemma tag_of_not_weak: "strip_prefix ''W/'' (tag_of m) = None"
  using etag_text_first [of "snd m div 10 ^ 9" "snd m mod 10 ^ 9" "fst m"] by (auto simp: tag_of_def)

lemma tag_of_eq: "strong_eq (ETag (tag_of m)) (tag_of m') \<longleftrightarrow> m = m'" "weak_eq (ETag (tag_of m)) (tag_of m') \<longleftrightarrow> m = m'"
  by (simp_all add: starts_with_def strip_weak_def tag_of_not_weak tag_of_inject)

lemma tag_of_form: "etag_form (tag_of m)"
  by (simp add: etag_form_def tag_of_def quoted_etag_text)

definition tag_list :: "(nat \<times> nat) list \<Rightarrow> string" where
  "tag_list ms = join_with '', '' (map tag_of ms)"

lemma tag_list_each: "ms \<noteq> [] \<Longrightarrow> for_each_etag (tag_list ms) p = list_ex p (map tag_of ms)"
  unfolding for_each_etag_def tag_list_def
  by (rule each_etag_list) (auto simp: list_all_iff tag_of_form is_ows_def)

lemma tag_list_first: "ms \<noteq> [] \<Longrightarrow> \<exists>q. tag_list ms = CHR 0x22 # q"
proof -
  assume "ms \<noteq> []"
  then obtain m ns where ms: "ms = m # ns" by (cases ms) auto
  have "\<exists>r. tag_list ms = tag_of m @ r" by (cases ns) (simp_all add: ms tag_list_def)
  moreover obtain q where "tag_of m = CHR 0x22 # q" using etag_text_first unfolding tag_of_def by blast
  ultimately show ?thesis by auto
qed

lemma permitted_hex: "is_hex c \<Longrightarrow> permitted_byte c"
  by (auto simp: is_hex_def permitted_byte_def)

lemma tag_of_permitted: "list_all permitted_byte (tag_of m)"
proof -
  have "permitted_byte CHR 0x22" "permitted_byte CHR ''.''" "permitted_byte CHR ''-''"
    by (simp_all add: permitted_byte_def byte_def)
  moreover have "list_all permitted_byte (hex n)" "list_all permitted_byte (hex08 n)" for n
    using hex_chars [of n] hex08_chars [of n] permitted_hex by (auto simp: list_all_iff)
  ultimately show ?thesis by (simp add: tag_of_def etag_text_def)
qed

context header_text
begin

lemma etag_from_metadata_tag:
  "etag_from_metadata H len (int t) = Some (ETag (tag_of (len, t)))"
  using from_bytes_permitted [OF tag_of_permitted [of "(len, t)"]]
  by (simp add: etag_from_metadata_def tag_of_def)

end

text \<open>
  A conditional request detects every change of modification time or size, and only that.
  With \<open>If-None-Match\<close> listing the tags of any versions of the file, the answer is 304 exactly
  when the version now on disk is among them; with \<open>If-Match\<close>, it is 412 exactly when it is not.
\<close>

theorem conditional_detects_change:
  assumes H: "header_text H" and meta: "meta_modified B m = Inr (int t)" and ms: "ms \<noteq> []"
    and none: "hm_get H h ''if-none-match'' = Some (tag_list ms)"
      "hm_get H h ''if-match'' = None" "hm_get H h ''if-unmodified-since'' = None"
    and match: "hm_get H h' ''if-match'' = Some (tag_list ms)"
      "hm_get H h' ''if-none-match'' = None" "hm_get H h' ''if-modified-since'' = None"
  shows "preconditions_check (preconditions_of H D h) (meta_etag H B m) lm =
      (if (meta_len B m, t) \<in> set ms then Some (NotModified (meta_etag H B m) lm) else None) \<and>
    preconditions_check (preconditions_of H D h') (meta_etag H B m) lm =
      (if (meta_len B m, t) \<in> set ms then None else Some PreconditionFailed)"
proof -
  have e: "meta_etag H B m = Some (ETag (tag_of (meta_len B m, t)))"
    by (simp add: meta_etag_def ok_def meta header_text.etag_from_metadata_tag [OF H])
  have q: "tag_list ms \<noteq> []" "tag_list ms \<noteq> ''*''" using tag_list_first [OF ms] by auto
  have ex: "list_ex (\<lambda>w. P w) (map tag_of ms) \<longleftrightarrow> (\<exists>m' \<in> set ms. P (tag_of m'))" for P
    by (auto simp: list_ex_iff)
  have n: "if_none_match_passes (IfNoneMatch (tag_list ms)) (ETag (tag_of x)) \<longleftrightarrow> x \<notin> set ms" for x
    using q by (simp add: tag_list_each [OF ms] ex tag_of_eq del: weak_eq.simps)
  have i: "if_match_passes (IfMatch (tag_list ms)) (ETag (tag_of x)) \<longleftrightarrow> x \<in> set ms" for x
    using q by (simp add: tag_list_each [OF ms] ex tag_of_eq del: strong_eq.simps)
  have "preconditions_check (preconditions_of H D h) (meta_etag H B m) lm =
      (if (meta_len B m, t) \<in> set ms then Some (NotModified (meta_etag H B m) lm) else None)"
    using q n by (simp add: preconditions_check_def preconditions_of_def none e if_none_match_from_def
        del: if_none_match_passes.simps)
  moreover have "preconditions_check (preconditions_of H D h') (meta_etag H B m) lm =
      (if (meta_len B m, t) \<in> set ms then None else Some PreconditionFailed)"
    using q i by (simp add: preconditions_check_def preconditions_of_def match e if_match_from_def
        del: if_match_passes.simps)
  ultimately show ?thesis ..
qed

definition some_files :: "(path \<times> string) list \<Rightarrow> (string, nat) backend" where
  "some_files fs =
     \<lparr>be_open = (\<lambda>p. case map_of fs p of Some s \<Rightarrow> Inr s | None \<Rightarrow> Inl \<lparr>err_kind = NotFound, err_raw_os = None\<rparr>),
      be_metadata = (\<lambda>p. case map_of fs p of Some s \<Rightarrow> Inr (length s)
        | None \<Rightarrow> Inl \<lparr>err_kind = NotFound, err_raw_os = None\<rparr>),
      file_metadata = (\<lambda>s. Inr (length s)), file_seek = (\<lambda>s n. Inr (drop n s)),
      meta_is_dir = (\<lambda>m. False), meta_modified = (\<lambda>m. Inr 1000000007), meta_len = (\<lambda>m. m)\<rparr>"

lemma some_files_simps:
  "be_open (some_files fs) p = (case map_of fs p of Some s \<Rightarrow> Inr s | None \<Rightarrow> Inl \<lparr>err_kind = NotFound, err_raw_os = None\<rparr>)"
  "be_metadata (some_files fs) p =
     (case map_of fs p of Some s \<Rightarrow> Inr (length s) | None \<Rightarrow> Inl \<lparr>err_kind = NotFound, err_raw_os = None\<rparr>)"
  "file_metadata (some_files fs) s = Inr (length s)" "file_seek (some_files fs) s n = Inr (drop n s)"
  "meta_is_dir (some_files fs) m = False" "meta_modified (some_files fs) m = Inr 1000000007"
  "meta_len (some_files fs) m = m"
  by (simp_all add: some_files_def)

lemma some_files_etag: "meta_etag (list_http e) (some_files fs) m = Some (ETag (tag_of (m, 1000000007)))"
  using header_text.etag_from_metadata_tag [OF header_text_list_http, where len = m and t = 1000000007]
  by (simp add: meta_etag_def some_files_simps ok_def)

definition no_dates :: "int http_date" where
  "no_dates = \<lparr>date_parse = (\<lambda>s. None), date_from = (\<lambda>t. t div 10 ^ 9), date_to_string = (\<lambda>d. ''date'')\<rparr>"

theorem conditional_detects_change_witness:
  "preconditions_check (preconditions_of (list_http ()) no_dates [(''if-none-match'', tag_list [(3, 1), (4, 1000000007)])])
     (meta_etag (list_http ()) (some_files []) 3) None = (None :: (string, int) open_file_output option) \<and>
   preconditions_check (preconditions_of (list_http ()) no_dates [(''if-match'', tag_list [(3, 1), (4, 1000000007)])])
     (meta_etag (list_http ()) (some_files []) 3) None =
       (Some PreconditionFailed :: (string, int) open_file_output option)"
proof -
  have m: "meta_modified (some_files []) 3 = Inr (int 1000000007)" by (simp add: some_files_def)
  have "meta_len (some_files []) 3 = 3" by (simp add: some_files_def)
  with conditional_detects_change [OF header_text_list_http [of "()"] m, of "[(3, 1), (4, 1000000007)]"
      "[(''if-none-match'', tag_list [(3, 1), (4, 1000000007)])]"
      "[(''if-match'', tag_list [(3, 1), (4, 1000000007)])]" no_dates None]
  show ?thesis by (simp add: list_http_simps)
qed

section \<open>Which variant of a file is opened\<close>

text \<open>The path of a file in a coding.\<close>

definition variant_path :: "path \<Rightarrow> string \<Rightarrow> encoding option \<Rightarrow> path" where
  "variant_path p n enc =
     p @ [Normal (n @ (case Option.bind enc to_file_extension of Some ext \<Rightarrow> ext | None \<Rightarrow> []))]"

lemma file_extension_form:
  "to_file_extension e = Some ext \<Longrightarrow> \<exists>x. ext = CHR ''.'' # x \<and> CHR ''.'' \<notin> set x \<and> CHR ''/'' \<notin> set x \<and> x \<noteq> []"
  by (cases e) auto

lemma to_file_extension_None: "to_file_extension e = None \<longleftrightarrow> e = Identity"
  by (cases e) auto

lemma plain_name_extend:
  "plain_name n \<Longrightarrow> to_file_extension e = Some ext \<Longrightarrow> plain_name (n @ ext)"
proof -
  assume n: "plain_name n" and "to_file_extension e = Some ext"
  with file_extension_form obtain x where x: "ext = CHR ''.'' # x" "CHR ''/'' \<notin> set x" "x \<noteq> []" by blast
  then have "length (n @ ext) > 2" using n by (cases n; cases x) (auto simp: plain_name_def)
  then have "n @ ext \<noteq> ''.''" "n @ ext \<noteq> ''..''" by (auto dest: arg_cong [where f = length])
  with n x show ?thesis by (simp add: plain_name_def)
qed

lemma prefer_path_variant:
  assumes "plain_name n"
  shows "prefer_path (p @ [Normal n]) neg =
    (preferred_encoding neg, variant_path p n (preferred_encoding neg))"
proof (cases "Option.bind (preferred_encoding neg) to_file_extension")
  case None
  then show ?thesis by (simp add: prefer_path_def variant_path_def)
next
  case (Some ext)
  then have "plain_name (n @ ext)"
    using assms by (auto simp: bind_eq_Some_conv intro: plain_name_extend)
  with Some show ?thesis by (simp add: prefer_path_def variant_path_def set_file_name_Normal)
qed

lemma clear_variant:
  assumes "plain_name n" "e \<noteq> Identity"
  shows "set_extension (variant_path p n (Some e)) [] = p @ [Normal n]"
proof -
  obtain ext where "to_file_extension e = Some ext"
    using assms(2) to_file_extension_None by fastforce
  moreover from file_extension_form [OF this] obtain x where "ext = CHR ''.'' # x" "CHR ''.'' \<notin> set x"
    by blast
  moreover have "n \<noteq> []" using assms(1) by (simp add: plain_name_def)
  ultimately show ?thesis by (simp add: variant_path_def clear_added_extension)
qed

text \<open>One turn of the loop on a path with a file name.\<close>

lemma with_fallback_variant:
  assumes "plain_name n"
  shows "with_fallback access (p @ [Normal n]) neg =
    (let enc = preferred_encoding neg in
     case access (variant_path p n enc) of
       Inr file \<Rightarrow> Inr (file, enc)
     | Inl err \<Rightarrow>
         (case enc of
            Some e \<Rightarrow>
              if err_kind err = NotFound \<and> e \<noteq> Identity
              then with_fallback access (p @ [Normal n]) (filter (\<lambda>x. fst x \<noteq> e) neg)
              else Inl err
          | None \<Rightarrow> Inl err))"
  by (subst with_fallback.simps)
    (auto simp: prefer_path_variant [OF assms] clear_variant [OF assms] Let_def
      split: sum.split option.split)

definition absent :: "(path \<Rightarrow> fs_error + 'a) \<Rightarrow> path \<Rightarrow> bool" where
  "absent access p \<longleftrightarrow> (\<exists>err. access p = Inl err \<and> err_kind err = NotFound)"

text \<open>
  A coding precedes another choice, given the negotiated weights: it is acceptable, and it has more
  weight or, with the same weight, the server prefers it.
\<close>

definition precedes :: "(encoding \<times> nat) list \<Rightarrow> encoding \<times> nat \<Rightarrow> encoding option \<Rightarrow> bool" where
  "precedes neg c enc \<longleftrightarrow> c \<in> set neg \<and> snd c > 0 \<and> fst c \<noteq> Identity \<and>
     (case enc of None \<Rightarrow> True
      | Some e \<Rightarrow> fst c \<noteq> e \<and> (\<forall>q. (e, q) \<in> set neg \<longrightarrow> (q, e) < (snd c, fst c)))"

lemma with_fallback_result:
  assumes "plain_name n" "with_fallback access (p @ [Normal n]) neg = Inr (file, enc)"
  shows "access (variant_path p n enc) = Inr file \<and>
    (case enc of None \<Rightarrow> True | Some e \<Rightarrow> \<exists>q > 0. (e, q) \<in> set neg) \<and>
    (\<forall>c. precedes neg c enc \<longrightarrow> absent access (variant_path p n (Some (fst c))))"
  using assms(2)
proof (induction "length neg" arbitrary: neg rule: less_induct)
  case less
  let ?enc = "preferred_encoding neg"
  show ?case
  proof (cases "access (variant_path p n ?enc)")
    case (Inr f)
    with less.prems have f: "f = file" "enc = ?enc"
      by (simp_all add: with_fallback_variant [OF assms(1)] Let_def)
    have "False" if "precedes neg c enc" for c
    proof (cases enc)
      case None
      with f(2) preferred_encoding_None [of neg] that show False by (auto simp: precedes_def)
    next
      case (Some e)
      with f(2) preferred_encoding_Some [of neg e] that show False
        by (cases c) (fastforce simp: precedes_def best_of_def)
    qed
    moreover have "case enc of None \<Rightarrow> True | Some e \<Rightarrow> \<exists>q > 0. (e, q) \<in> set neg"
      unfolding f(2) using preferred_encoding_Some [of neg]
      by (cases "preferred_encoding neg") (auto simp: best_of_def)
    ultimately show ?thesis using Inr f by blast
  next
    case (Inl err)
    with less.prems obtain e where e: "?enc = Some e" "err_kind err = NotFound" "e \<noteq> Identity"
      and rec: "with_fallback access (p @ [Normal n]) (filter (\<lambda>x. fst x \<noteq> e) neg) = Inr (file, enc)"
      by (subst (asm) with_fallback_variant [OF assms(1)])
        (auto simp: Let_def split: option.splits if_splits)
    obtain q where q: "(e, q) \<in> set neg" "q > 0"
      using preferred_encoding_Some [OF e(1)] by (auto simp: best_of_def)
    then have "length (filter (\<lambda>x. fst x \<noteq> e) neg) < length neg"
      by (intro length_filter_less) auto
    from less.hyps [OF this rec] have IH: "access (variant_path p n enc) = Inr file"
      "case enc of None \<Rightarrow> True | Some e' \<Rightarrow> \<exists>q > 0. (e', q) \<in> set (filter (\<lambda>x. fst x \<noteq> e) neg)"
      "\<forall>c. precedes (filter (\<lambda>x. fst x \<noteq> e) neg) c enc \<longrightarrow> absent access (variant_path p n (Some (fst c)))"
      by blast+
    have "absent access (variant_path p n (Some (fst c)))" if c: "precedes neg c enc" for c
    proof (cases "fst c = e")
      case True
      with Inl e show ?thesis by (simp add: absent_def)
    next
      case False
      with c have "precedes (filter (\<lambda>x. fst x \<noteq> e) neg) c enc"
        by (auto simp: precedes_def split: option.splits)
      with IH(3) show ?thesis by blast
    qed
    with IH(1,2) show ?thesis by (auto split: option.splits)
  qed
qed

text \<open>
  Claim C12.  The file that \<open>open_file_with_fallback\<close> opens is the variant of the requested file in the
  coding it reports, so the \<open>Content-Encoding\<close> of the response is that of the bytes sent; the
  coding is one that the client accepts with a positive weight; and every coding that the client
  weighs higher, or that the server prefers at the same weight, has no file.
\<close>

theorem precompressed_variant_best:
  assumes "plain_name n" "open_file_with_fallback B (p @ [Normal n]) neg = Inr (file, enc)"
  shows "be_open B (variant_path p n enc) = Inr file \<and>
    (case enc of None \<Rightarrow> True | Some e \<Rightarrow> \<exists>q > 0. (e, q) \<in> set neg) \<and>
    (\<forall>c. precedes neg c enc \<longrightarrow> absent (be_open B) (variant_path p n (Some (fst c))))"
  using assms unfolding open_file_with_fallback_def by (rule with_fallback_result)

theorem precompressed_variant_best_witness:
  "open_file_with_fallback (some_files [([Normal ''a.txt''], ''abc''), ([Normal ''a.txt.gz''], ''z'')])
     [Normal ''a.txt''] [(Brotli, 1000), (Gzip, 1000), (Identity, 500)] = Inr (''z'', Some Gzip) \<and>
   absent (be_open (some_files [([Normal ''a.txt''], ''abc''), ([Normal ''a.txt.gz''], ''z'')]))
     [Normal ''a.txt.br'']"
proof -
  let ?B = "some_files [([Normal ''a.txt''], ''abc''), ([Normal ''a.txt.gz''], ''z'')]"
  let ?neg = "[(Brotli, 1000), (Gzip, 1000), (Identity, 500)] :: (encoding \<times> nat) list"
  have r: "open_file_with_fallback ?B ([] @ [Normal ''a.txt'']) ?neg = Inr (''z'', Some Gzip)"
    by code_simp
  have "plain_name ''a.txt''" by (simp add: plain_name_def)
  note b = precompressed_variant_best [OF this r]
  have "precedes ?neg (Brotli, 1000) (Some Gzip)"
    by (simp add: precedes_def less_encoding_def)
  with b have "absent (be_open ?B) (variant_path [] ''a.txt'' (Some (fst (Brotli, 1000 :: nat))))" by blast
  with r show ?thesis by (simp add: variant_path_def)
qed

section \<open>Confinement to a directory\<close>

text \<open>
  Paths below \<open>base\<close>, and the siblings of \<open>base\<close> whose name extends that of \<open>base\<close>: those are looked
  at when \<open>base\<close> itself is the requested file and has precompressed variants.
\<close>

definition confined :: "path \<Rightarrow> path \<Rightarrow> bool" where
  "confined base p \<longleftrightarrow> (\<exists>ns. p = base @ map Normal ns) \<or>
     (\<exists>n s. file_name base = Some n \<and> p = butlast base @ [Normal (n @ s)])"

definition path_ok :: "path \<Rightarrow> bool" where
  "path_ok p = list_all (\<lambda>c. case c of Normal n \<Rightarrow> plain_name n | _ \<Rightarrow> True) p"

lemma path_okD: "path_ok p \<Longrightarrow> Normal m \<in> set p \<Longrightarrow> plain_name m"
  unfolding path_ok_def by (drule (1) list_all_lookup) simp

text \<open>\<open>p\<close> and every variant of it are confined.\<close>

definition closed_path :: "path \<Rightarrow> path \<Rightarrow> bool" where
  "closed_path base p \<longleftrightarrow> path_ok p \<and> confined base p \<and>
     (case file_name p of
        Some m \<Rightarrow> \<forall>s. confined base (butlast p @ [Normal (m @ s)])
      | None \<Rightarrow> \<forall>w. confined base (p @ [Normal w]))"

lemma closed_path_below:
  assumes "path_ok (base @ map Normal ns)"
  shows "closed_path base (base @ map Normal ns)"
proof (cases ns rule: rev_cases)
  case Nil
  have "confined base (base @ [Normal w])" for w
    unfolding confined_def by (rule disjI1) (intro exI [of _ "[w]"], simp)
  moreover have "confined base base" unfolding confined_def by (rule disjI1) (intro exI [of _ "[]"], simp)
  ultimately show ?thesis
    using Nil assms by (auto simp: closed_path_def confined_def split: option.split)
next
  case (snoc ms m)
  have "file_name (base @ map Normal ns) = Some m" "butlast (base @ map Normal ns) = base @ map Normal ms"
    using snoc by (simp_all add: file_name_def butlast_append)
  moreover have "confined base (base @ map Normal ms @ [Normal w])" for w
    unfolding confined_def by (rule disjI1) (intro exI [of _ "ms @ [w]"], simp)
  moreover have "confined base (base @ map Normal ns)" by (auto simp: confined_def)
  ultimately show ?thesis using assms by (simp add: closed_path_def)
qed

lemma closed_path_extend:
  assumes "closed_path base p" "file_name p = Some m" "plain_name (m @ s)"
  shows "closed_path base (butlast p @ [Normal (m @ s)])"
  using assms by (auto simp: closed_path_def path_ok_def list_all_iff dest: in_set_butlastD)

lemma with_fallback_agree_name:
  assumes "plain_name n" and "\<And>s. access (p @ [Normal (n @ s)]) = access' (p @ [Normal (n @ s)])"
  shows "with_fallback access (p @ [Normal n]) neg = with_fallback access' (p @ [Normal n]) neg"
proof (induction "length neg" arbitrary: neg rule: less_induct)
  case less
  have a: "access (variant_path p n e) = access' (variant_path p n e)" for e
    using assms(2) by (simp add: variant_path_def)
  have "with_fallback access (p @ [Normal n]) (filter (\<lambda>x. fst x \<noteq> e) neg) =
      with_fallback access' (p @ [Normal n]) (filter (\<lambda>x. fst x \<noteq> e) neg)"
    if "preferred_encoding neg = Some e" for e
  proof -
    from preferred_encoding_Some [OF that] obtain q where "(e, q) \<in> set neg" by (auto simp: best_of_def)
    then have "length (filter (\<lambda>x. fst x \<noteq> e) neg) < length neg"
      by (intro length_filter_less) auto
    then show ?thesis by (rule less)
  qed
  then show ?case
    unfolding with_fallback_variant [OF assms(1), of _ p neg] a
    by (auto simp: Let_def split: sum.split option.split)
qed

lemma prefer_path_no_name:
  assumes "file_name p = None"
  shows "prefer_path p neg = (preferred_encoding neg,
    case Option.bind (preferred_encoding neg) to_file_extension of None \<Rightarrow> p | Some ext \<Rightarrow> p @ [Normal ext])"
proof -
  have "plain_name ext" if "to_file_extension e = Some ext" for e ext
    using that by (cases e) (auto simp: plain_name_def)
  then have "set_file_name p ext = p @ [Normal ext]"
    if "Option.bind (preferred_encoding neg) to_file_extension = Some ext" for ext
    using that assms by (auto simp: set_file_name_def path_push_plain bind_eq_Some_conv)
  then show ?thesis using assms by (simp add: prefer_path_def split: option.split)
qed

lemma with_fallback_agree:
  assumes p: "closed_path base p"
    and agree: "\<And>p. confined base p \<Longrightarrow> access p = access' p"
  shows "with_fallback access p neg = with_fallback access' p neg"
proof (cases "file_name p")
  case (Some n)
  from file_name_SomeD [OF this] have q: "p = butlast p @ [Normal n]" .
  then have "Normal n \<in> set p" by (metis in_set_conv_decomp)
  with p have "plain_name n" by (auto simp: closed_path_def intro: path_okD)
  moreover have "access (butlast p @ [Normal (n @ s)]) = access' (butlast p @ [Normal (n @ s)])" for s
    using p Some agree by (simp add: closed_path_def)
  ultimately show ?thesis
    using with_fallback_agree_name [of n access "butlast p" access' neg] q by simp
next
  case None
  have names: "access (p @ [Normal w]) = access' (p @ [Normal w])" for w
    using p None agree by (simp add: closed_path_def)
  have here: "access p = access' p" using p agree by (simp add: closed_path_def)
  have rec: "with_fallback access (set_extension (p @ [Normal ext]) []) neg' =
      with_fallback access' (set_extension (p @ [Normal ext]) []) neg'"
    if "to_file_extension e = Some ext" for e ext neg'
  proof -
    have "stem_and_extension ext = (ext, None)"
      using that by (cases e) (auto simp: stem_and_extension_def)
    then have q: "set_extension (p @ [Normal ext]) [] = p @ [Normal ext]"
      by (simp add: set_extension_def)
    have "plain_name ext" using that by (cases e) (auto simp: plain_name_def)
    then show ?thesis unfolding q by (rule with_fallback_agree_name) (rule names)
  qed
  show ?thesis
    apply (subst with_fallback.simps, subst (2) with_fallback.simps)
    using rec names here
    by (auto simp: prefer_path_no_name [OF None] to_file_extension_None bind_eq_Some_conv
        split: sum.split option.split)
qed

text \<open>Two backends that differ at most outside of what \<open>base\<close> confines.\<close>

definition same_confined :: "path \<Rightarrow> ('file, 'meta) backend \<Rightarrow> ('file, 'meta) backend \<Rightarrow> bool" where
  "same_confined base B B' \<longleftrightarrow>
     (\<forall>p. confined base p \<longrightarrow> be_open B p = be_open B' p \<and> be_metadata B p = be_metadata B' p) \<and>
     file_metadata B = file_metadata B' \<and> file_seek B = file_seek B' \<and>
     meta_is_dir B = meta_is_dir B' \<and> meta_modified B = meta_modified B' \<and> meta_len B = meta_len B'"

lemma same_confinedD:
  assumes "same_confined base B B'"
  shows "confined base p \<Longrightarrow> be_open B p = be_open B' p"
    "confined base p \<Longrightarrow> be_metadata B p = be_metadata B' p"
    "file_metadata B = file_metadata B'" "file_seek B = file_seek B'"
    "meta_is_dir B = meta_is_dir B'" "meta_modified B = meta_modified B'" "meta_len B = meta_len B'"
  using assms by (auto simp: same_confined_def)

lemma open_ways_agree:
  assumes s: "same_confined base B B'" and p: "closed_path base p"
  shows "open_head H V B r pre p mime = open_head H V B' r pre p mime"
    and "open_full H V B r pre p mime = open_full H V B' r pre p mime"
proof -
  note eqs = same_confinedD(3-7) [OF s]
  have loops: "with_fallback (be_open B) p neg = with_fallback (be_open B') p neg"
    "with_fallback (be_metadata B) p neg = with_fallback (be_metadata B') p neg" for neg
    by (rule with_fallback_agree [OF p]; erule same_confinedD [OF s])+
  show "open_head H V B r pre p mime = open_head H V B' r pre p mime"
    and "open_full H V B r pre p mime = open_full H V B' r pre p mime"
    unfolding open_head_def open_full_def open_file_with_fallback_def
      file_metadata_with_fallback_def meta_last_modified_def meta_etag_def loops eqs
    by (rule refl)+
qed

lemma closed_path_html:
  assumes p: "path_ok (base @ map Normal ns)" and e: "extension (base @ map Normal ns) = None"
  shows "closed_path base (set_extension (base @ map Normal ns) ''html'')"
proof (cases "file_name (base @ map Normal ns)")
  case None
  with closed_path_below [OF p] show ?thesis by (simp add: set_extension_def)
next
  case (Some m)
  with e have "fst (stem_and_extension m) = m"
    by (auto simp: extension_def stem_and_extension_def split: option.splits if_splits)
  moreover from file_name_SomeD [OF Some] have "Normal m \<in> set (base @ map Normal ns)"
    by (metis in_set_conv_decomp)
  with p have "plain_name m" by (rule path_okD)
  then have "plain_name (m @ ''.html'')"
    by (cases m) (auto simp: plain_name_def dest: arg_cong [where f = length])
  ultimately show ?thesis
    using closed_path_extend [OF closed_path_below [OF p] Some, of "''.html''"] Some
    by (simp add: set_extension_def)
qed

lemma maybe_redirect_agree:
  assumes s: "same_confined base B B'" and p: "path_ok (base @ map Normal ns)"
  shows "maybe_redirect_or_append_path H U V B prefix (base @ map Normal ns) uri a h =
      maybe_redirect_or_append_path H U V B' prefix (base @ map Normal ns) uri a h"
    and "maybe_redirect_or_append_path H U V B prefix (base @ map Normal ns) uri a h = Inr (None, q) \<Longrightarrow>
      closed_path base q"
proof -
  let ?p = "base @ map Normal ns"
  have "confined base ?p" by (auto simp: confined_def)
  then have d: "is_dir B ?p = is_dir B' ?p"
    unfolding is_dir_def same_confinedD(5) [OF s] by (simp add: same_confinedD(2) [OF s])
  show "maybe_redirect_or_append_path H U V B prefix ?p uri a h =
      maybe_redirect_or_append_path H U V B' prefix ?p uri a h"
    unfolding maybe_redirect_or_append_path_def d by (rule refl)
  have index: "plain_name ''index.html''" by (simp add: plain_name_def)
  have pushed: "path_push ?p ''index.html'' = base @ map Normal (ns @ [''index.html''])"
    by (simp add: path_push_plain [OF index])
  have "path_ok (base @ map Normal (ns @ [''index.html'']))"
    using p index by (simp add: path_ok_def)
  from closed_path_below [OF this] have "closed_path base (path_push ?p ''index.html'')"
    unfolding pushed .
  with closed_path_below [OF p] closed_path_html [OF p]
  show "maybe_redirect_or_append_path H U V B prefix ?p uri a h = Inr (None, q) \<Longrightarrow> closed_path base q"
    by (auto simp: maybe_redirect_or_append_path_def Let_def
        split: sum.splits if_splits option.splits)
qed

lemma open_file_agree:
  fixes B :: "('file, 'meta) backend" and V :: "('u, 'd::linorder, 'r) fs_env"
  assumes s: "same_confined base B B'" and p: "path_ok (base @ map Normal ns)"
    and r: "of_path_to_file r = base @ map Normal ns"
  shows "open_file H U V B r = open_file H U V B' r"
proof (cases "of_variant r")
  case (SingleFile mime)
  then show ?thesis
    by (simp add: open_file_def Let_def r open_ways_agree [OF s closed_path_below [OF p]])
next
  case (Directory a h)
  let ?m = "maybe_redirect_or_append_path H U V B (of_redirect_path_prefix r) (base @ map Normal ns)
    (req_uri (of_req r)) a h :: serve_error + (('file, 'd) open_file_output option \<times> path)"
  show ?thesis
  proof (cases "\<exists>q. ?m = Inr (None, q)")
    case True
    then obtain q where q: "?m = Inr (None, q)" by blast
    from maybe_redirect_agree(2) [OF s p q] have "closed_path base q" .
    with Directory q maybe_redirect_agree(1) [OF s p, of H U V "of_redirect_path_prefix r"
        "req_uri (of_req r)" a h] show ?thesis
      by (simp add: open_file_def Let_def r open_ways_agree [OF s])
  next
    case False
    with Directory maybe_redirect_agree(1) [OF s p, of H U V "of_redirect_path_prefix r"
        "req_uri (of_req r)" a h] show ?thesis
      by (auto simp: r open_file_def Let_def split: sum.splits option.splits)
  qed
qed

end
