(* ===== verification/Serve_Dir.thy ===== *)
theory Serve_Dir
  imports Open_File Message_Layers
begin

text \<open>
  \<open>services/fs\<close>: the service \<open>ServeDir\<close>, its response future, and \<open>ServeFile\<close>.  Opening a file is
  \<open>Open_File.open_file\<close>; its future is a delay and that result.  The fallback service is a
  parameter, as are percent decoding and cloning of the fallback.  A body of the response is a file
  with the size of its chunks and, for a range, the number of bytes it is limited to (\<open>take\<close> of
  \<open>tokio\<close>), or bytes, or the body of the fallback.
\<close>

section \<open>Response bodies\<close>

definition DEFAULT_CAPACITY :: nat where
  "DEFAULT_CAPACITY = 65536"

datatype ('file, 'b) serve_body =
  WholeFile 'file nat
| LimitedFile 'file nat nat
| BytesBody string
| EmptyBody
| FallbackBody 'b

text \<open>\<open>AsyncReadBody\<close> over a \<open>ReaderStream\<close>: each chunk of the stream is a data frame.\<close>

definition async_read_poll_frame ::
  "('s, ('e + 'd) option) poll_fn \<Rightarrow> ('s, ('d, 't, 'e) frame_result) poll_fn" where
  "async_read_poll_frame poll_next s =
     (case poll_next s of
        (Pending, s') \<Rightarrow> (Pending, s')
      | (Ready (Some (Inr chunk)), s') \<Rightarrow> (Ready (Some (Inr (DataFrame chunk))), s')
      | (Ready (Some (Inl err)), s') \<Rightarrow> (Ready (Some (Inl err)), s')
      | (Ready None, s') \<Rightarrow> (Ready None, s'))"

definition async_read_body_api ::
  "('s, ('e + 'd) option) poll_fn \<Rightarrow> ('s, 'd, 't, 'e) body_api" where
  "async_read_body_api poll_next = \<lparr>body_poll_frame = async_read_poll_frame poll_next,
     body_is_end_stream = (\<lambda>s. False), body_size_hint = (\<lambda>s. size_hint_default)\<rparr>"

section \<open>Building responses\<close>

definition response_with_status ::
  "('h, string, 'x) http_api \<Rightarrow> nat \<Rightarrow> ('h, 'x, ('file, 'b) serve_body) response" where
  "response_with_status H n = (response_new H EmptyBody)\<lparr>res_status := n\<rparr>"

definition not_found :: "('h, string, 'x) http_api \<Rightarrow> ('h, 'x, ('file, 'b) serve_body) response" where
  "not_found H = response_with_status H 404"

definition range_text :: "nat \<Rightarrow> nat \<Rightarrow> nat \<Rightarrow> string" where
  "range_text start e len = ''bytes '' @ show_nat start @ ''-'' @ show_nat e @ ''/'' @ show_nat len"

definition unsatisfied_text :: "nat \<Rightarrow> string" where
  "unsatisfied_text len = ''bytes */'' @ show_nat len"

text \<open>
  The headers of the builder before the range is looked at.  The text of an \<open>HttpDate\<close> that is not
  a header value makes the builder fail, which the final \<open>unwrap\<close> turns into a panic.
\<close>

definition file_headers ::
  "('h, string, 'x) http_api \<Rightarrow> 'd http_date \<Rightarrow> ('file, 'd) file_opened \<Rightarrow> 'h panics" where
  "file_headers H D f =
     (let h1 = hm_append H (hm_new H) ''content-type'' (fo_mime_header_value f);
          h2 = hm_append H h1 ''accept-ranges'' ''bytes'';
          h3 = (case fo_maybe_encoding f of
                  Some e \<Rightarrow> if e \<noteq> Identity then hm_append H h2 ''content-encoding'' (enc_to_str e) else h2
                | None \<Rightarrow> h2);
          h4 = (if fo_precompression_configured f then hm_append H h3 ''vary'' ''accept-encoding'' else h3);
          tag = (\<lambda>h. case fo_etag f of Some e \<Rightarrow> hm_append H h ''etag'' (into_header_value e) | None \<Rightarrow> h)
      in (case fo_last_modified f of
            None \<Rightarrow> Inr (tag h4)
          | Some (LastModified d) \<Rightarrow>
              (case from_bytes H (date_to_string D d) of
                 None \<Rightarrow> Inl ''last-modified''
               | Some v \<Rightarrow> Inr (tag (hm_append H h4 ''last-modified'' v)))))"

definition file_response ::
  "('h, string, 'x) http_api \<Rightarrow> 'h \<Rightarrow> nat \<Rightarrow> ('file, 'b) serve_body \<Rightarrow> ('h, 'x, ('file, 'b) serve_body) response" where
  "file_response H h status body = (response_new H body)\<lparr>res_headers := h, res_status := status\<rparr>"

definition ranged_response ::
  "('h, string, 'x) http_api \<Rightarrow> ('file, 'd) file_opened \<Rightarrow> 'file option \<Rightarrow> nat \<Rightarrow> 'h \<Rightarrow>
     ('h, 'x, ('file, 'b) serve_body) response" where
  "ranged_response H f maybe_file len h =
     (case fo_maybe_range f of
        Some (Inr (start, e)) \<Rightarrow>
          file_response H
            (hm_append H (hm_append H h ''content-range'' (range_text start e len))
              ''content-length'' (show_nat (if len = 0 then 0 else e - start + 1)))
            206
            (case maybe_file of
               Some file \<Rightarrow> LimitedFile file (fo_chunk_size f) (e - start + 1)
             | None \<Rightarrow> EmptyBody)
      | Some (Inl MultipleRangesNotSupported) \<Rightarrow>
          file_response H (hm_append H h ''content-range'' (unsatisfied_text len)) 416
            (BytesBody ''Cannot serve multipart range requests'')
      | Some (Inl Unsatisfiable) \<Rightarrow>
          file_response H (hm_append H h ''content-range'' (unsatisfied_text len)) 416 EmptyBody
      | None \<Rightarrow>
          file_response H (hm_append H h ''content-length'' (show_nat len)) 200
            (case maybe_file of
               Some file \<Rightarrow> WholeFile file (fo_chunk_size f)
             | None \<Rightarrow> EmptyBody))"

definition build_response ::
  "('h, string, 'x) http_api \<Rightarrow> 'd http_date \<Rightarrow> ('file, 'd) file_opened \<Rightarrow>
     ('h, 'x, ('file, 'b) serve_body) response panics" where
  "build_response H D f =
     (case (case fo_extent f of Full file n \<Rightarrow> (Some file, n) | Head n \<Rightarrow> (None, n)) of
        (maybe_file, len) \<Rightarrow> map_result (ranged_response H f maybe_file len) (file_headers H D f))"

section \<open>The response future\<close>

datatype ('o, 'fb, 'q, 'ff) serve_future =
  OpenFileFuture 'o "('fb \<times> 'q) option"
| FallbackFuture 'ff
| InvalidPath "('fb \<times> 'q) option"
| MethodNotAllowed

text \<open>
  The response of the fallback with its body boxed; its error type is empty, so its future gives a
  response.
\<close>

definition poll_fallback ::
  "('ff, ('h, 'x, 'b) response) poll_fn \<Rightarrow> 'ff \<Rightarrow>
     (serve_error + ('h, 'x, ('file, 'b) serve_body) response) poll \<times> ('o, 'fb, 'q, 'ff) serve_future" where
  "poll_fallback poll_fb ff =
     (case poll_fb ff of (p, ff') \<Rightarrow> (map_ready (\<lambda>r. Inr (map_response FallbackBody r)) p, FallbackFuture ff'))"

definition not_modified_response ::
  "('h, string, 'x) http_api \<Rightarrow> 'd http_date \<Rightarrow> etag option \<Rightarrow> 'd last_modified option \<Rightarrow>
     serve_error + ('h, 'x, ('file, 'b) serve_body) response" where
  "not_modified_response H D etag lm =
     (let r = response_with_status H 304;
          h = (case etag of Some e \<Rightarrow> hm_insert H (res_headers r) ''etag'' (into_header_value e)
               | None \<Rightarrow> res_headers r)
      in (case lm of
            None \<Rightarrow> Inr (r\<lparr>res_headers := h\<rparr>)
          | Some (LastModified d) \<Rightarrow>
              (case from_bytes H (date_to_string D d) of
                 None \<Rightarrow> Inl (Unwrap ''last-modified'')
               | Some v \<Rightarrow> Inr (r\<lparr>res_headers := hm_insert H h ''last-modified'' v\<rparr>))))"

text \<open>On Unix, error 20 is \<open>ENOTDIR\<close>.\<close>

definition should_return_not_found :: "fs_error \<Rightarrow> bool" where
  "should_return_not_found err =
     (err_kind err \<in> {NotFound, PermissionDenied} \<or> err_raw_os err = Some 20)"

text \<open>
  The loop of \<open>poll\<close> comes round once, with the future of the fallback: \<open>round\<close> is that second
  turn, and \<open>absent\<close> what the first one answers when there is no fallback.
\<close>

definition serve_future_poll ::
  "('h, string, 'x) http_api \<Rightarrow> 'd http_date \<Rightarrow> ('fb, 'q, 'ff) service_fn \<Rightarrow>
     ('ff, ('h, 'x, 'b) response) poll_fn \<Rightarrow>
     ('o, serve_error + ('file, 'd) open_file_output) poll_fn \<Rightarrow>
     (('o, 'fb, 'q, 'ff) serve_future, serve_error + ('h, 'x, ('file, 'b) serve_body) response) poll_fn" where
  "serve_future_poll H D call_fb poll_fb poll_open w =
     (let fallback_or = (\<lambda>fr absent rest. case fr of
            Some (fb, q) \<Rightarrow> poll_fallback poll_fb (snd (call_fb fb q))
          | None \<Rightarrow> (Ready absent, rest))
      in (case w of
            OpenFileFuture op fr \<Rightarrow>
              (case poll_open op of
                 (Pending, op') \<Rightarrow> (Pending, OpenFileFuture op' fr)
               | (Ready r, op') \<Rightarrow>
                   (let rest = OpenFileFuture op' fr
                    in (case r of
                          Inr (FileOpened f) \<Rightarrow>
                            (Ready (case build_response H D f of Inl m \<Rightarrow> Inl (Unwrap m) | Inr res \<Rightarrow> Inr res), rest)
                        | Inr (Redirect location) \<Rightarrow>
                            (let res = response_with_status H 307
                             in (Ready (Inr (res\<lparr>res_headers := hm_insert H (res_headers res) ''location'' location\<rparr>)), rest))
                        | Inr FileNotFound \<Rightarrow> fallback_or fr (Inr (not_found H)) rest
                        | Inr InvalidFilename \<Rightarrow> fallback_or fr (Inr (not_found H)) rest
                        | Inr PreconditionFailed \<Rightarrow> (Ready (Inr (response_with_status H 412)), rest)
                        | Inr (NotModified etag lm) \<Rightarrow> (Ready (not_modified_response H D etag lm), rest)
                        | Inr InvalidRedirectUri \<Rightarrow> (Ready (Inr (response_with_status H 500)), rest)
                        | Inl (Io err) \<Rightarrow>
                            (if should_return_not_found err then fallback_or fr (Inl (Io err)) rest
                             else (Ready (Inl (Io err)), rest))
                        | Inl (Unwrap m) \<Rightarrow> (Ready (Inl (Unwrap m)), rest))))
          | FallbackFuture ff \<Rightarrow> poll_fallback poll_fb ff
          | InvalidPath fr \<Rightarrow> fallback_or fr (Inr (not_found H)) (InvalidPath fr)
          | MethodNotAllowed \<Rightarrow>
              (let res = response_with_status H 405
               in (Ready (Inr (res\<lparr>res_headers := hm_insert H (res_headers res) ''allow'' ''GET,HEAD''\<rparr>)),
                   MethodNotAllowed))))"

text \<open>The future of \<open>call\<close>: an error becomes a response, a panic stays one.\<close>

definition infallible_response ::
  "('h, string, 'x) http_api \<Rightarrow> serve_error + ('h, 'x, ('file, 'b) serve_body) response \<Rightarrow>
     ('h, 'x, ('file, 'b) serve_body) response panics" where
  "infallible_response H r =
     (case r of
        Inr res \<Rightarrow> Inr res
      | Inl (Io err) \<Rightarrow> Inr (response_with_status H (if should_return_not_found err then 404 else 500))
      | Inl (Unwrap m) \<Rightarrow> Inl m)"

definition infallible_poll ::
  "('h, string, 'x) http_api \<Rightarrow> ('w, serve_error + ('h, 'x, ('file, 'b) serve_body) response) poll_fn \<Rightarrow>
     ('w, ('h, 'x, ('file, 'b) serve_body) response panics) poll_fn" where
  "infallible_poll H poll = poll_map poll (infallible_response H)"

section \<open>The service\<close>

definition precompressed_default :: supported where
  "precompressed_default = \<lparr>sup_gzip = False, sup_deflate = False, sup_br = False, sup_zstd = False\<rparr>"

record 'fb serve_dir =
  sd_base :: path
  sd_redirect_path_prefix :: string
  sd_buf_chunk_size :: nat
  sd_precompressed_variants :: "supported option"
  sd_variant :: serve_variant
  sd_fallback :: "'fb option"
  sd_call_fallback_on_method_not_allowed :: bool

definition serve_dir_new :: "string \<Rightarrow> 'fb serve_dir" where
  "serve_dir_new p = \<lparr>sd_base = path_push (path_from ''.'') p, sd_redirect_path_prefix = [],
     sd_buf_chunk_size = DEFAULT_CAPACITY, sd_precompressed_variants = None,
     sd_variant = Directory True False, sd_fallback = None,
     sd_call_fallback_on_method_not_allowed = False\<rparr>"

definition serve_dir_new_single_file :: "string \<Rightarrow> string \<Rightarrow> 'fb serve_dir" where
  "serve_dir_new_single_file p mime = \<lparr>sd_base = path_from p, sd_redirect_path_prefix = [],
     sd_buf_chunk_size = DEFAULT_CAPACITY, sd_precompressed_variants = None,
     sd_variant = SingleFile mime, sd_fallback = None,
     sd_call_fallback_on_method_not_allowed = False\<rparr>"

definition set_append_index_html :: "'fb serve_dir \<Rightarrow> bool \<Rightarrow> 'fb serve_dir" where
  "set_append_index_html s enable =
     (case sd_variant s of
        Directory _ html \<Rightarrow> s\<lparr>sd_variant := Directory enable html\<rparr>
      | SingleFile mime \<Rightarrow> s)"

definition set_html_as_default :: "'fb serve_dir \<Rightarrow> bool \<Rightarrow> 'fb serve_dir" where
  "set_html_as_default s enable =
     (case sd_variant s of
        Directory index _ \<Rightarrow> s\<lparr>sd_variant := Directory index enable\<rparr>
      | SingleFile mime \<Rightarrow> s)"

definition get_or_default :: "supported option \<Rightarrow> supported" where
  "get_or_default p = (case p of Some v \<Rightarrow> v | None \<Rightarrow> precompressed_default)"

definition precompressed_gzip :: "'fb serve_dir \<Rightarrow> 'fb serve_dir" where
  "precompressed_gzip s =
     s\<lparr>sd_precompressed_variants := Some ((get_or_default (sd_precompressed_variants s))\<lparr>sup_gzip := True\<rparr>)\<rparr>"

definition precompressed_br :: "'fb serve_dir \<Rightarrow> 'fb serve_dir" where
  "precompressed_br s =
     s\<lparr>sd_precompressed_variants := Some ((get_or_default (sd_precompressed_variants s))\<lparr>sup_br := True\<rparr>)\<rparr>"

definition precompressed_deflate :: "'fb serve_dir \<Rightarrow> 'fb serve_dir" where
  "precompressed_deflate s =
     s\<lparr>sd_precompressed_variants := Some ((get_or_default (sd_precompressed_variants s))\<lparr>sup_deflate := True\<rparr>)\<rparr>"

definition precompressed_zstd :: "'fb serve_dir \<Rightarrow> 'fb serve_dir" where
  "precompressed_zstd s =
     s\<lparr>sd_precompressed_variants := Some ((get_or_default (sd_precompressed_variants s))\<lparr>sup_zstd := True\<rparr>)\<rparr>"

definition redirect_path_prefix :: "'fb serve_dir \<Rightarrow> string \<Rightarrow> 'fb serve_dir" where
  "redirect_path_prefix s prefix = s\<lparr>sd_redirect_path_prefix := prefix\<rparr>"

definition with_buf_chunk_size :: "'fb serve_dir \<Rightarrow> nat \<Rightarrow> 'fb serve_dir" where
  "with_buf_chunk_size s chunk_size = s\<lparr>sd_buf_chunk_size := chunk_size\<rparr>"

definition call_fallback_on_method_not_allowed :: "'fb serve_dir \<Rightarrow> bool \<Rightarrow> 'fb serve_dir" where
  "call_fallback_on_method_not_allowed s call_fallback =
     s\<lparr>sd_call_fallback_on_method_not_allowed := call_fallback\<rparr>"

definition serve_dir_fallback :: "'fa serve_dir \<Rightarrow> 'fb \<Rightarrow> 'fb serve_dir" where
  "serve_dir_fallback s new_fallback =
     \<lparr>sd_base = sd_base s, sd_redirect_path_prefix = sd_redirect_path_prefix s,
      sd_buf_chunk_size = sd_buf_chunk_size s, sd_precompressed_variants = sd_precompressed_variants s,
      sd_variant = sd_variant s, sd_fallback = Some new_fallback,
      sd_call_fallback_on_method_not_allowed = sd_call_fallback_on_method_not_allowed s\<rparr>"

definition not_found_service :: "'fa serve_dir \<Rightarrow> 'fb \<Rightarrow> 'fb set_status serve_dir" where
  "not_found_service s new_fallback = serve_dir_fallback s (set_status_new new_fallback 404)"

text \<open>
  \<open>build_and_validate_path\<close>; \<open>pdecode\<close> is \<open>percent_decode\<close>.  \<open>push_components\<close> is its loop.
\<close>

fun push_components :: "path \<Rightarrow> component list \<Rightarrow> path option" where
  "push_components p [] = Some p"
| "push_components p (Normal name # cs) =
     (if list_all (\<lambda>c. case c of Normal _ \<Rightarrow> True | _ \<Rightarrow> False) (components name)
      then push_components (path_push p name) cs else None)"
| "push_components p (CurDir # cs) = push_components p cs"
| "push_components p (RootDir # cs) = None"
| "push_components p (ParentDir # cs) = None"

definition build_and_validate_path ::
  "(string \<Rightarrow> string) \<Rightarrow> serve_variant \<Rightarrow> path \<Rightarrow> string \<Rightarrow> path option" where
  "build_and_validate_path pdecode variant base requested =
     (case variant of
        Directory _ _ \<Rightarrow>
          (case from_utf8 (pdecode (dropWhile (\<lambda>c. c = CHR ''/'') requested)) of
             None \<Rightarrow> None
           | Some decoded \<Rightarrow> push_components base (components decoded))
      | SingleFile _ \<Rightarrow> Some base)"

text \<open>The request of the fallback: a new request with four of the parts, and the body.\<close>

definition fallback_request ::
  "('h, string, 'x) http_api \<Rightarrow> ('h, 'u, 'x, 'q) request \<Rightarrow> ('h, 'u, 'x, 'q) request" where
  "fallback_request H req = \<lparr>req_method = req_method req, req_uri = req_uri req,
     req_version = ''HTTP/1.1'', req_headers = req_headers req, req_extensions = req_extensions req,
     req_body = req_body req\<rparr>"

definition open_request ::
  "('h, string, 'x) http_api \<Rightarrow> 'fb serve_dir \<Rightarrow> path \<Rightarrow> ('h, 'u, 'x, 'q) request \<Rightarrow>
     ('h, 'u, 'x, unit) open_file_request" where
  "open_request H s p req =
     \<lparr>of_variant = sd_variant s, of_redirect_path_prefix = sd_redirect_path_prefix s,
      of_path_to_file = p,
      of_req = from_parts ((request_parts req)\<lparr>req_extensions := ext_new H\<rparr>) (),
      of_negotiated_encodings = encodings H (req_headers req) (get_or_default (sd_precompressed_variants s)),
      of_range_header = Option.bind (hm_get H (req_headers req) ''range'') (to_str H),
      of_buf_chunk_size = sd_buf_chunk_size s,
      of_precompression_configured = (sd_precompressed_variants s \<noteq> None)\<rparr>"

text \<open>
  \<open>try_call\<close>: \<open>delay\<close> is how often the future of \<open>open_file\<close> is pending, \<open>clone\<close> the \<open>Clone\<close> of
  the fallback.
\<close>

definition serve_dir_try_call ::
  "('h, string, 'x) http_api \<Rightarrow> 'u uri_api \<Rightarrow> ('u, 'd::linorder, 'r) fs_env \<Rightarrow> ('file, 'meta) backend \<Rightarrow>
     (string \<Rightarrow> string) \<Rightarrow> ('fb \<Rightarrow> 'fb) \<Rightarrow> nat \<Rightarrow> ('fb, ('h, 'u, 'x, 'q) request, 'ff) service_fn \<Rightarrow>
     ('fb serve_dir, ('h, 'u, 'x, 'q) request,
      (nat \<times> (serve_error + ('file, 'd) open_file_output), 'fb, ('h, 'u, 'x, 'q) request, 'ff) serve_future) service_fn" where
  "serve_dir_try_call H U V B pdecode clone delay call_fb s req =
     (if req_method req \<noteq> ''GET'' \<and> req_method req \<noteq> ''HEAD'' then
        (case (if sd_call_fallback_on_method_not_allowed s then sd_fallback s else None) of
           Some fb \<Rightarrow> (case call_fb fb req of (fb', ff) \<Rightarrow> (s\<lparr>sd_fallback := Some fb'\<rparr>, FallbackFuture ff))
         | None \<Rightarrow> (s, MethodNotAllowed))
      else
        (let fr = map_option (\<lambda>fb. (fb, fallback_request H req)) (sd_fallback s);
             s' = s\<lparr>sd_fallback := map_option clone (sd_fallback s)\<rparr>
         in (case build_and_validate_path pdecode (sd_variant s) (sd_base s) (uri_path U (req_uri req)) of
               None \<Rightarrow> (s', InvalidPath fr)
             | Some p \<Rightarrow>
                 (s', OpenFileFuture (delay, open_file H U V B (open_request H s p req)) fr))))"

definition serve_dir_poll_ready ::
  "('fb, 'e + unit) poll_fn \<Rightarrow> ('fb serve_dir, 'e + unit) poll_fn" where
  "serve_dir_poll_ready ready_fb s =
     (case sd_fallback s of
        Some fb \<Rightarrow> (case ready_fb fb of (p, fb') \<Rightarrow> (p, s\<lparr>sd_fallback := Some fb'\<rparr>))
      | None \<Rightarrow> (Ready (Inr ()), s))"

section \<open>ServeFile\<close>

datatype 'fb serve_file = ServeFile "'fb serve_dir"

definition serve_file_new :: "('u, 'd, 'r) fs_env \<Rightarrow> string \<Rightarrow> 'fb serve_file" where
  "serve_file_new V p = ServeFile (serve_dir_new_single_file p (guess_mime V (path_from p)))"

definition serve_file_new_with_mime ::
  "('h, string, 'x) http_api \<Rightarrow> string \<Rightarrow> string \<Rightarrow> 'fb serve_file panics" where
  "serve_file_new_with_mime H p mime =
     (case from_bytes H mime of
        None \<Rightarrow> Inl ''mime isn't a valid header value''
      | Some m \<Rightarrow> Inr (ServeFile (serve_dir_new_single_file p m)))"

fun serve_file_map :: "('fb serve_dir \<Rightarrow> 'fb serve_dir) \<Rightarrow> 'fb serve_file \<Rightarrow> 'fb serve_file" where
  "serve_file_map g (ServeFile s) = ServeFile (g s)"

definition serve_file_precompressed_gzip :: "'fb serve_file \<Rightarrow> 'fb serve_file" where
  "serve_file_precompressed_gzip = serve_file_map precompressed_gzip"

definition serve_file_precompressed_br :: "'fb serve_file \<Rightarrow> 'fb serve_file" where
  "serve_file_precompressed_br = serve_file_map precompressed_br"

definition serve_file_precompressed_deflate :: "'fb serve_file \<Rightarrow> 'fb serve_file" where
  "serve_file_precompressed_deflate = serve_file_map precompressed_deflate"

definition serve_file_precompressed_zstd :: "'fb serve_file \<Rightarrow> 'fb serve_file" where
  "serve_file_precompressed_zstd = serve_file_map precompressed_zstd"

definition serve_file_with_buf_chunk_size :: "'fb serve_file \<Rightarrow> nat \<Rightarrow> 'fb serve_file" where
  "serve_file_with_buf_chunk_size s n = serve_file_map (\<lambda>d. with_buf_chunk_size d n) s"

fun serve_file_try_call ::
  "('h, string, 'x) http_api \<Rightarrow> 'u uri_api \<Rightarrow> ('u, 'd::linorder, 'r) fs_env \<Rightarrow> ('file, 'meta) backend \<Rightarrow>
     (string \<Rightarrow> string) \<Rightarrow> ('fb \<Rightarrow> 'fb) \<Rightarrow> nat \<Rightarrow> ('fb, ('h, 'u, 'x, 'q) request, 'ff) service_fn \<Rightarrow>
     ('fb serve_file, ('h, 'u, 'x, 'q) request,
      (nat \<times> (serve_error + ('file, 'd) open_file_output), 'fb, ('h, 'u, 'x, 'q) request, 'ff) serve_future) service_fn" where
  "serve_file_try_call H U V B pdecode clone delay call_fb (ServeFile s) req =
     (case serve_dir_try_call H U V B pdecode clone delay call_fb s req of (s', w) \<Rightarrow> (ServeFile s', w))"

section \<open>A concrete environment for the witnesses\<close>

text \<open>It reads single ranges \<open>bytes=a-b\<close>.\<close>

definition plain_env :: "(simple_uri, int, nat \<times> nat) fs_env" where
  "plain_env = \<lparr>first_raw = (\<lambda>p. None),
     parse_range_header = (\<lambda>s. Option.bind (strip_prefix ''bytes='' s) (\<lambda>t.
       case splitn2 CHR ''-'' t of
         (a, Some b) \<Rightarrow> (if list_all is_digit (a @ b) then Some (digits_val a, digits_val b) else None)
       | (a, None) \<Rightarrow> None)),
     range_count = (\<lambda>r. 1), range_validate = (\<lambda>r n. if fst r \<le> snd r \<and> snd r < n then Some [r] else None),
     fs_date = no_dates, uri_has_path = (\<lambda>u. True),
     uri_build = (\<lambda>s a p. Some \<lparr>su_scheme = s, su_authority = a, su_path = p, su_query = None\<rparr>)\<rparr>"

definition plain_request ::
  "string \<Rightarrow> string \<Rightarrow> (string \<times> string) list \<Rightarrow> ((string \<times> string) list, simple_uri, unit, unit) request" where
  "plain_request m p h = \<lparr>req_method = m,
     req_uri = \<lparr>su_scheme = None, su_authority = None, su_path = p, su_query = None\<rparr>,
     req_version = ''HTTP/1.1'', req_headers = h, req_extensions = (), req_body = ()\<rparr>"

section \<open>No request leaves the directory\<close>

lemma push_components_names:
  "push_components p cs = Some q \<Longrightarrow> (\<And>n. Normal n \<in> set cs \<Longrightarrow> plain_name n) \<Longrightarrow>
     \<exists>ns. q = p @ map Normal ns \<and> list_all plain_name ns"
proof (induction p cs rule: push_components.induct)
  case (1 p)
  then show ?case by (intro exI [of _ "[]"]) simp
next
  case (2 p n cs)
  then have n: "plain_name n" by simp
  with 2 obtain ns where "q = path_push p n @ map Normal ns" "list_all plain_name ns"
    by (auto split: if_splits)
  with n show ?case by (intro exI [of _ "n # ns"]) (simp add: path_push_plain)
qed auto

lemma build_path_names:
  assumes "build_and_validate_path pdecode variant base requested = Some p"
  shows "\<exists>ns. p = base @ map Normal ns \<and> list_all plain_name ns"
proof (cases variant)
  case (SingleFile mime)
  with assms show ?thesis by (intro exI [of _ "[]"]) (simp add: build_and_validate_path_def)
next
  case (Directory a h)
  with assms obtain d where "push_components base (components d) = Some p"
    by (auto simp: build_and_validate_path_def split: option.splits)
  then show ?thesis by (rule push_components_names) (rule components_Normal)
qed



section \<open>The fallback answers what would be 404\<close>

lemma run_serve_fallback:
  "run_future (infallible_poll H (serve_future_poll H D call_fb poll_fb poll_open)) n (FallbackFuture ff) =
     map_option (\<lambda>r. Inr (map_response FallbackBody r)) (run_future poll_fb n ff)"
proof (induction n arbitrary: ff)
  case (Suc n)
  obtain p ff' where "poll_fb ff = (p, ff')" by (rule prod.exhaust)
  with Suc show ?case
    by (cases p) (simp_all add: infallible_poll_def poll_map_def serve_future_poll_def poll_fallback_def
        infallible_response_def)
qed simp

lemma run_serve_delay:
  "run_future (infallible_poll H (serve_future_poll H D call_fb poll_fb ready_after)) (k + m)
       (OpenFileFuture (k, r) fr) =
     run_future (infallible_poll H (serve_future_poll H D call_fb poll_fb ready_after)) m
       (OpenFileFuture (0, r) fr)"
proof (induction k)
  case (Suc k)
  then show ?case
    by (simp add: infallible_poll_def poll_map_def serve_future_poll_def)
qed simp

text \<open>What opening comes to when there is no fallback, and when the fallback is asked instead.\<close>

definition open_result ::
  "('h, string, 'x) http_api \<Rightarrow> 'd http_date \<Rightarrow> serve_error + ('file, 'd) open_file_output \<Rightarrow>
     serve_error + ('h, 'x, ('file, 'b) serve_body) response" where
  "open_result H D r =
     (case r of
        Inr (FileOpened f) \<Rightarrow> (case build_response H D f of Inl m \<Rightarrow> Inl (Unwrap m) | Inr res \<Rightarrow> Inr res)
      | Inr (Redirect location) \<Rightarrow>
          (let res = response_with_status H 307
           in Inr (res\<lparr>res_headers := hm_insert H (res_headers res) ''location'' location\<rparr>))
      | Inr FileNotFound \<Rightarrow> Inr (not_found H)
      | Inr InvalidFilename \<Rightarrow> Inr (not_found H)
      | Inr PreconditionFailed \<Rightarrow> Inr (response_with_status H 412)
      | Inr (NotModified etag lm) \<Rightarrow> not_modified_response H D etag lm
      | Inr InvalidRedirectUri \<Rightarrow> Inr (response_with_status H 500)
      | Inl e \<Rightarrow> Inl e)"

definition falls_back :: "serve_error + ('file, 'd) open_file_output \<Rightarrow> bool" where
  "falls_back r = (case r of
     Inr FileNotFound \<Rightarrow> True | Inr InvalidFilename \<Rightarrow> True
   | Inl (Io err) \<Rightarrow> should_return_not_found err | _ \<Rightarrow> False)"

definition is_404 :: "('h, 'x, 'b) response panics \<Rightarrow> bool" where
  "is_404 r = (case r of Inr res \<Rightarrow> res_status res = 404 | Inl m \<Rightarrow> False)"

lemma response_with_status_status [simp]: "res_status (response_with_status H n) = n"
  by (simp add: response_with_status_def)

lemma ranged_response_status: "res_status (ranged_response H f mf len h) \<in> {200, 206, 416}"
  by (auto simp: ranged_response_def file_response_def split: option.split sum.split range_error.split)

lemma build_response_status:
  "build_response H D f = Inr res \<Longrightarrow> res_status res \<in> {200, 206, 416}"
proof -
  assume "build_response H D f = Inr res"
  then obtain mf len h where "res = ranged_response H f mf len h"
    by (auto simp: build_response_def map_result_eq_Inr split: prod.splits)
  then show ?thesis by (simp only: ranged_response_status)
qed

lemma not_modified_status:
  "not_modified_response H D e lm = Inr res \<Longrightarrow> res_status res = 304"
  "not_modified_response H D e lm = Inl err \<Longrightarrow> \<exists>m. err = Unwrap m"
  by (auto simp: not_modified_response_def Let_def split: option.splits last_modified.splits)

lemma falls_back_404:
  fixes H :: "('h, string, 'x) http_api" and r :: "serve_error + ('file, 'd) open_file_output"
  shows "is_404 (infallible_response H (open_result H D r) :: ('h, 'x, ('file, 'b) serve_body) response panics) \<longleftrightarrow>
    falls_back r"
proof (cases r)
  case (Inl e)
  then show ?thesis by (cases e) (auto simp: open_result_def falls_back_def is_404_def infallible_response_def)
next
  case (Inr out)
  show ?thesis
  proof (cases out)
    case (FileOpened f)
    with Inr show ?thesis
      by (cases "build_response H D f :: ('h, 'x, ('file, 'b) serve_body) response panics")
        (auto simp: open_result_def falls_back_def is_404_def infallible_response_def
          dest!: build_response_status)
  next
    case (NotModified etag lm)
    with Inr show ?thesis
      by (cases "not_modified_response H D etag lm :: serve_error + ('h, 'x, ('file, 'b) serve_body) response")
        (auto simp: open_result_def falls_back_def is_404_def infallible_response_def
          dest!: not_modified_status)
  qed (use Inr in \<open>auto simp: Let_def open_result_def falls_back_def is_404_def infallible_response_def not_found_def\<close>)
qed

lemma serve_poll_open:
  "serve_future_poll H D call_fb poll_fb ready_after (OpenFileFuture (0, r) fr) =
     (case fr of
        Some (fb, q) \<Rightarrow>
          if falls_back r then poll_fallback poll_fb (snd (call_fb fb q))
          else (Ready (open_result H D r), OpenFileFuture (0, r) fr)
      | None \<Rightarrow> (Ready (open_result H D r), OpenFileFuture (0, r) fr))"
proof (cases r)
  case (Inl e)
  then show ?thesis
    by (cases e) (auto simp: serve_future_poll_def open_result_def falls_back_def Let_def split: option.split)
next
  case (Inr out)
  then show ?thesis
    by (cases out) (auto simp: serve_future_poll_def open_result_def falls_back_def Let_def split: option.split)
qed

lemma run_serve_open:
  "run_future (infallible_poll H (serve_future_poll H D call_fb poll_fb ready_after)) (Suc m)
       (OpenFileFuture (0, r) fr) =
     (case fr of
        Some (fb, q) \<Rightarrow>
          if falls_back r
          then map_option (\<lambda>r. Inr (map_response FallbackBody r)) (run_future poll_fb (Suc m) (snd (call_fb fb q)))
          else Some (infallible_response H (open_result H D r))
      | None \<Rightarrow> Some (infallible_response H (open_result H D r)))"
proof -
  let ?P = "infallible_poll H (serve_future_poll H D call_fb poll_fb ready_after)"
  have again: "?P (OpenFileFuture (0, r) (Some (fb, q))) = ?P (FallbackFuture (snd (call_fb fb q)))"
    if "falls_back r" for fb q
    using that by (simp add: infallible_poll_def poll_map_def serve_poll_open)
      (simp add: serve_future_poll_def)
  have "run_future ?P (Suc m) (OpenFileFuture (0, r) (Some (fb, q))) =
      run_future ?P (Suc m) (FallbackFuture (snd (call_fb fb q)))" if "falls_back r" for fb q
    using again [OF that] by (simp only: run_future.simps)
  then show ?thesis
    unfolding run_serve_fallback
    by (auto simp: infallible_poll_def poll_map_def serve_poll_open split: option.split)
qed

lemma run_serve_invalid:
  "run_future (infallible_poll H (serve_future_poll H D call_fb poll_fb poll_open)) (Suc n) (InvalidPath None) =
     Some (Inr (not_found H))"
  "run_future (infallible_poll H (serve_future_poll H D call_fb poll_fb poll_open)) (Suc n) (InvalidPath (Some (fb, q))) =
     map_option (\<lambda>r. Inr (map_response FallbackBody r)) (run_future poll_fb (Suc n) (snd (call_fb fb q)))"
proof -
  let ?P = "infallible_poll H (serve_future_poll H D call_fb poll_fb poll_open)"
  show "run_future ?P (Suc n) (InvalidPath None) = Some (Inr (not_found H))"
    by (simp add: infallible_poll_def poll_map_def serve_future_poll_def infallible_response_def)
  have "?P (InvalidPath (Some (fb, q))) = ?P (FallbackFuture (snd (call_fb fb q)))"
    by (simp add: infallible_poll_def poll_map_def serve_future_poll_def)
  then have "run_future ?P (Suc n) (InvalidPath (Some (fb, q))) =
      run_future ?P (Suc n) (FallbackFuture (snd (call_fb fb q)))"
    by (simp only: run_future.simps)
  then show "run_future ?P (Suc n) (InvalidPath (Some (fb, q))) =
     map_option (\<lambda>r. Inr (map_response FallbackBody r)) (run_future poll_fb (Suc n) (snd (call_fb fb q)))"
    unfolding run_serve_fallback .
qed

definition serve_run where
  "serve_run H D call_fb poll_fb n w =
     run_future (infallible_poll H (serve_future_poll H D call_fb poll_fb ready_after)) n w"

text \<open>
  Claim C10.  \<open>ServeDir\<close> always answers, in the poll in which the file has been looked up, and a
  fallback replaces exactly the answers that would be 404: for a \<open>GET\<close> or \<open>HEAD\<close>, the service with a
  fallback gives the fallback's response to that request if without one it would answer 404, whether
  for a path that is not valid, a missing file or an error that counts as one, and its own answer
  otherwise.
\<close>

theorem fallback_answers_404:
  fixes B :: "('file, 'meta) backend"
  assumes "req_method req \<in> {''GET'', ''HEAD''}" and m: "m = Suc m'"
  shows "\<exists>r0. serve_run H D call_fb poll_fb (delay + m)
        (snd (serve_dir_try_call H U V B pdecode clone delay call_fb (s\<lparr>sd_fallback := None\<rparr>) req)) = Some r0 \<and>
    serve_run H D call_fb poll_fb (delay + m)
        (snd (serve_dir_try_call H U V B pdecode clone delay call_fb (s\<lparr>sd_fallback := Some fb\<rparr>) req)) =
      (if is_404 r0
       then map_option (\<lambda>r. Inr (map_response FallbackBody r))
         (run_future poll_fb (if build_and_validate_path pdecode (sd_variant s) (sd_base s)
              (uri_path U (req_uri req)) = None then delay + m else m) (snd (call_fb fb (fallback_request H req))))
       else Some r0)"
proof (cases "build_and_validate_path pdecode (sd_variant s) (sd_base s) (uri_path U (req_uri req))")
  case None
  then have "serve_dir_try_call H U V B pdecode clone delay call_fb (s\<lparr>sd_fallback := x\<rparr>) req =
      (s\<lparr>sd_fallback := map_option clone x\<rparr>, InvalidPath (map_option (\<lambda>fb. (fb, fallback_request H req)) x))" for x
    using assms(1) by (auto simp: serve_dir_try_call_def)
  with None show ?thesis
    by (intro exI [of _ "Inr (not_found H)"])
      (simp add: serve_run_def m run_serve_invalid is_404_def not_found_def del: run_future.simps)
next
  case (Some p)
  let ?r = "open_file H U V B (open_request H s p req)"
  have "serve_dir_try_call H U V B pdecode clone delay call_fb (s\<lparr>sd_fallback := x\<rparr>) req =
      (s\<lparr>sd_fallback := map_option clone x\<rparr>,
       OpenFileFuture (delay, ?r) (map_option (\<lambda>fb. (fb, fallback_request H req)) x))" for x
    using Some assms(1) by (auto simp: serve_dir_try_call_def open_request_def)
  with Some show ?thesis
    by (intro exI [of _ "infallible_response H (open_result H D ?r)"])
      (simp add: serve_run_def m run_serve_delay [of H D call_fb poll_fb delay "Suc m'", simplified add_Suc_right]
        run_serve_open falls_back_404 del: run_future.simps)
qed

theorem fallback_answers_404_witness:
  "\<exists>r0. serve_run (list_http ()) no_dates (\<lambda>fb q. (fb, (0, response_new (list_http ()) ()))) ready_after (2 + 1)
     (snd (serve_dir_try_call (list_http ()) simple_uri_api plain_env (some_files []) (\<lambda>s. s) (\<lambda>s. s) 2
        (\<lambda>fb q. (fb, (0 :: nat, response_new (list_http ()) ())))
        ((serve_dir_new ''pub'' :: unit serve_dir)\<lparr>sd_fallback := None\<rparr>) (plain_request ''GET'' ''/a'' []))) = Some r0"
  using fallback_answers_404 [of "plain_request ''GET'' ''/a'' []" 1 0 "list_http ()" no_dates
     "\<lambda>fb q. (fb, (0 :: nat, response_new (list_http ()) ()))" ready_after 2 simple_uri_api plain_env "some_files []"
     "\<lambda>s. s" "\<lambda>s. s" "serve_dir_new ''pub'' :: unit serve_dir" "()"]
  by (auto simp: plain_request_def)

section \<open>The bytes that are served\<close>

text \<open>A backend whose files have a content, which the metadata measures and a seek drops from.\<close>

definition file_law :: "('file, 'meta) backend \<Rightarrow> ('file \<Rightarrow> string) \<Rightarrow> bool" where
  "file_law B read \<longleftrightarrow>
     (\<forall>file m. file_metadata B file = Inr m \<longrightarrow> meta_len B m = length (read file)) \<and>
     (\<forall>file n file'. file_seek B file n = Inr file' \<longrightarrow> read file' = drop n (read file))"

text \<open>\<open>http_range_header\<close> only validates ranges inside of the file.\<close>

definition range_law :: "('u, 'd, 'r) fs_env \<Rightarrow> bool" where
  "range_law V \<longleftrightarrow> (\<forall>r n rs. range_validate V r n = Some rs \<longrightarrow> list_all (\<lambda>(a, b). a \<le> b \<and> b < n) rs)"

text \<open>What a client reads from a body.\<close>

fun body_bytes :: "('file \<Rightarrow> string) \<Rightarrow> ('b \<Rightarrow> string) \<Rightarrow> ('file, 'b) serve_body \<Rightarrow> string" where
  "body_bytes read fb (WholeFile file n) = read file"
| "body_bytes read fb (LimitedFile file n k) = take k (read file)"
| "body_bytes read fb (BytesBody s) = s"
| "body_bytes read fb EmptyBody = []"
| "body_bytes read fb (FallbackBody b) = fb b"

lemma try_parse_range_law:
  "range_law V \<Longrightarrow> try_parse_range V v n = Some (Inr (a, b)) \<Longrightarrow> a \<le> b \<and> b < n"
proof -
  assume V: "range_law V" and p: "try_parse_range V v n = Some (Inr (a, b))"
  from p obtain r rs where "range_validate V r n = Some rs" "rs \<noteq> []" "last rs = (a, b)"
    unfolding try_parse_range_def map_option_eq_Some by (elim exE conjE) (simp split: option.split_asm if_split_asm)
  then show ?thesis using V last_in_set [of rs] unfolding range_law_def list_all_iff by fastforce
qed

context header_text
begin

lemma file_headers_no_length:
  assumes "file_headers H D f = Inr h"
  shows "hm_get_all H h ''content-length'' = []" "hm_get_all H h ''content-range'' = []"
    "hm_get_all H h ''content-encoding'' =
      (case fo_maybe_encoding f of Some e \<Rightarrow> if e \<noteq> Identity then [enc_to_str e] else [] | None \<Rightarrow> [])"
  using assms
  by (auto simp: file_headers_def Let_def laws split: option.splits if_splits last_modified.splits)

end

text \<open>The file that a request without \<open>HEAD\<close> opened, before its range is applied.\<close>

lemma preconditions_never_open: "preconditions_check pre e lm \<noteq> Some (FileOpened f)"
  by (simp add: preconditions_check_def Let_def split: option.split)

lemma redirect_never_opens:
  "maybe_redirect_or_append_path H U V B prefix p uri a h \<noteq> Inr (Some (FileOpened f), q)"
  by (simp add: maybe_redirect_or_append_path_def Let_def split: sum.split option.split)

lemma open_full_opened:
  fixes f :: "('file, 'd::linorder) file_opened"
  assumes "open_full H V B r pre p mime = Inr (FileOpened f)"
  shows "\<exists>file enc m file'. open_file_with_fallback B p (of_negotiated_encodings r) = Inr (file, enc) \<and>
    file_metadata B file = Inr m \<and> fo_extent f = Full file' (meta_len B m) \<and> fo_maybe_encoding f = enc \<and>
    fo_maybe_range f = try_parse_range V (of_range_header r) (meta_len B m) \<and>
    (case fo_maybe_range f of
       Some (Inr (a, b)) \<Rightarrow> file_seek B file a = Inr file' | _ \<Rightarrow> file' = file)"
proof -
  obtain g enc where f: "open_file_with_fallback B p (of_negotiated_encodings r) = Inr (g, enc)"
    using assms by (auto simp: open_full_def split: sum.splits if_splits)
  with assms obtain m where m: "file_metadata B g = Inr m"
    by (auto simp: open_full_def split: sum.splits)
  from assms f m have n: "preconditions_check pre (meta_etag H B m) (meta_last_modified V B m) =
      (None :: ('file, 'd) open_file_output option)"
    using preconditions_never_open
    by (cases "preconditions_check pre (meta_etag H B m) (meta_last_modified V B m) ::
        ('file, 'd) open_file_output option") (auto simp: open_full_def Let_def)
  show ?thesis
    using assms
    by (cases "try_parse_range V (of_range_header r) (meta_len B m)")
      (auto simp: open_full_def f m n Let_def split: sum.splits)
qed

lemma open_file_opened:
  fixes f :: "('file, 'd::linorder) file_opened"
  assumes "open_file H U V B r = Inr (FileOpened f)" "req_method (of_req r) \<noteq> ''HEAD''"
  shows "\<exists>p mime.
    open_full H V B r (preconditions_of H (fs_date V) (req_headers (of_req r))) p mime = Inr (FileOpened f)"
proof (cases "of_variant r")
  case (SingleFile mime)
  with assms show ?thesis
    by (intro exI [of _ "of_path_to_file r"] exI [of _ mime]) (simp add: open_file_def)
next
  case (Directory a h)
  with assms obtain q where
    "maybe_redirect_or_append_path H U V B (of_redirect_path_prefix r) (of_path_to_file r)
      (req_uri (of_req r)) a h = (Inr (None, q) :: serve_error + (('file, 'd) open_file_output option \<times> path))"
    by (auto simp: open_file_def redirect_never_opens split: sum.splits option.splits)
  with Directory assms show ?thesis
    by (intro exI [of _ q] exI [of _ "guess_mime V q"]) (simp add: open_file_def)
qed

text \<open>
  Claim C9.  A \<open>GET\<close> that opens a file is answered with exactly the bytes it asks for.  Without a range
  the response is 200 with the whole content; with one valid range it is 206 with exactly those
  bytes, and \<open>Content-Range\<close> names them; any other range is 416 with the size of the file.  Whenever
  file content is sent, \<open>Content-Length\<close> is the number of bytes in the body, and
  \<open>Content-Encoding\<close> the coding of the file that was opened.
\<close>

theorem served_bytes:
  fixes V :: "('u, 'd::linorder, 'r) fs_env" and res :: "('h, 'x, ('file, 'b) serve_body) response"
  assumes H: "header_text H" and B: "file_law B read" and V: "range_law V"
    and opened: "open_file H U V B r = Inr (FileOpened f)" "req_method (of_req r) \<noteq> ''HEAD''"
    and res: "build_response H D f = Inr res"
  shows "\<exists>p file enc. open_file_with_fallback B p (of_negotiated_encodings r) = Inr (file, enc) \<and>
    hm_get_all H (res_headers res) ''content-encoding'' =
      (case enc of Some e \<Rightarrow> if e \<noteq> Identity then [enc_to_str e] else [] | None \<Rightarrow> []) \<and>
    (case try_parse_range V (of_range_header r) (length (read file)) of
       None \<Rightarrow> res_status res = 200 \<and> body_bytes read fb (res_body res) = read file \<and>
         hm_get_all H (res_headers res) ''content-length'' = [show_nat (length (read file))] \<and>
         hm_get_all H (res_headers res) ''content-range'' = []
     | Some (Inr (a, b)) \<Rightarrow> a \<le> b \<and> b < length (read file) \<and> res_status res = 206 \<and>
         body_bytes read fb (res_body res) = take (b - a + 1) (drop a (read file)) \<and>
         hm_get_all H (res_headers res) ''content-length'' = [show_nat (length (body_bytes read fb (res_body res)))] \<and>
         hm_get_all H (res_headers res) ''content-range'' = [range_text a b (length (read file))]
     | Some (Inl _) \<Rightarrow> res_status res = 416 \<and>
         hm_get_all H (res_headers res) ''content-length'' = [] \<and>
         hm_get_all H (res_headers res) ''content-range'' = [unsatisfied_text (length (read file))])"
proof -
  from opened obtain p mime where
    "open_full H V B r (preconditions_of H (fs_date V) (req_headers (of_req r))) p mime = Inr (FileOpened f)"
    by (blast dest: open_file_opened)
  from open_full_opened [OF this] obtain g enc m g' where
    g: "open_file_with_fallback B p (of_negotiated_encodings r) = Inr (g, enc)"
    and m: "file_metadata B g = Inr m" and ext: "fo_extent f = Full g' (meta_len B m)"
    and enc: "fo_maybe_encoding f = enc"
    and range: "fo_maybe_range f = try_parse_range V (of_range_header r) (meta_len B m)"
    and g': "case fo_maybe_range f of
       Some (Inr (a, b)) \<Rightarrow> file_seek B g a = Inr g' | _ \<Rightarrow> g' = g" by blast
  have len: "meta_len B m = length (read g)" using B m by (auto simp: file_law_def)
  have seek: "read g'' = drop a (read g)" if "file_seek B g a = Inr g''" for a g''
    using B that unfolding file_law_def by blast
  from res ext obtain h where h: "file_headers H D f = Inr h"
    and res': "res = ranged_response H f (Some g') (length (read g)) h"
    by (auto simp: build_response_def map_result_eq_Inr len)
  note laws = header_map.laws [OF header_text.axioms(1) [OF H]]
  note none = header_text.file_headers_no_length [OF H h]
  show ?thesis
    apply (intro exI [of _ p] exI [of _ g] exI [of _ enc] conjI g)
    subgoal by (auto simp: res' ranged_response_def file_response_def laws none enc
          split: option.split sum.split range_error.split)
    subgoal using g' seek try_parse_range_law [OF V, of "of_range_header r" "length (read g)"]
      by (auto simp: range [unfolded len] res' ranged_response_def file_response_def response_new_def laws none
          split: option.splits sum.splits range_error.splits)
    done
qed

definition range_example :: "((string \<times> string) list, simple_uri, unit, unit) open_file_request" where
  "range_example = open_request (list_http ()) (serve_dir_new_single_file ''a.txt'' ''text/plain'' :: unit serve_dir)
     [Normal ''a.txt''] (plain_request ''GET'' ''/'' [(''range'', ''bytes=1-3'')])"

definition range_opened :: "(string, int) file_opened" where
  "range_opened =
     \<lparr>fo_extent = Full ''ello'' 5, fo_chunk_size = DEFAULT_CAPACITY, fo_mime_header_value = ''text/plain'',
      fo_maybe_encoding = None, fo_maybe_range = Some (Inr (1, 3)), fo_last_modified = Some (LastModified 1),
      fo_precompression_configured = False, fo_etag = Some (ETag (tag_of (5, 1000000007)))\<rparr>"

lemma file_law_some_files: "file_law (some_files fs) id"
  by (simp add: file_law_def some_files_def)

lemma range_law_plain_env: "range_law plain_env"
  by (simp add: range_law_def plain_env_def)

lemma range_example_is: "range_example = \<lparr>of_variant = SingleFile ''text/plain'', of_redirect_path_prefix = [],
    of_path_to_file = [Normal ''a.txt''], of_req = plain_request ''GET'' ''/'' [(''range'', ''bytes=1-3'')],
    of_negotiated_encodings = [], of_range_header = Some ''bytes=1-3'', of_buf_chunk_size = DEFAULT_CAPACITY,
    of_precompression_configured = False\<rparr>"
  by (simp add: range_example_def open_request_def serve_dir_new_single_file_def plain_request_def
      request_parts_def from_parts_def encodings_def accept_items_def list_http_simps visible_ascii_def
      byte_def List.map_filter_def)

lemma range_example_opens:
  "open_file (list_http ()) simple_uri_api plain_env (some_files [([Normal ''a.txt''], ''hello'')]) range_example =
     Inr (FileOpened range_opened)"
proof -
  let ?B = "some_files [([Normal ''a.txt''], ''hello'')]"
  let ?n = "Suc (Suc (Suc (Suc (Suc 0))))"
  have n: "?n = 5" by simp
  have range: "try_parse_range plain_env (Some ''bytes=1-3'') ?n = Some (Inr (1, 3))"
    by (simp add: try_parse_range_def plain_env_def digits_val_def digit_val_def is_digit_def byte_def)
  have opens: "open_file_with_fallback ?B [Normal ''a.txt''] [] = Inr (''hello'', None)"
    unfolding open_file_with_fallback_def
    by (subst with_fallback.simps) (simp add: prefer_path_def preferred_encoding_None [THEN iffD2] some_files_simps)
  have lm: "meta_last_modified plain_env ?B ?n = Some (LastModified 1)"
    by (simp add: meta_last_modified_def some_files_simps ok_def plain_env_def no_dates_def last_modified_from_def)
  show ?thesis
    by (simp add: range_example_is open_file_def open_full_def opens lm range preconditions_check_def preconditions_of_def
        some_files_etag plain_request_def list_http_simps range_opened_def some_files_simps Let_def n [symmetric])
qed

theorem served_bytes_witness:
  "\<exists>res :: ((string \<times> string) list, unit, (string, unit) serve_body) response.
     build_response (list_http ()) no_dates range_opened = Inr res \<and> res_status res = 206 \<and>
     body_bytes id (\<lambda>b. []) (res_body res) = ''ell'' \<and>
     map snd (filter (\<lambda>p. fst p = ''content-range'') (res_headers res)) = [range_text 1 3 5]"
proof -
  let ?B = "some_files [([Normal ''a.txt''], ''hello'')]"
  have get: "req_method (of_req range_example) \<noteq> ''HEAD''" by (simp add: range_example_is plain_request_def)
  have range: "try_parse_range plain_env (of_range_header range_example) (length ''hello'') = Some (Inr (1, 3))"
    by (simp add: range_example_is try_parse_range_def plain_env_def digits_val_def digit_val_def is_digit_def byte_def)
  obtain res where res: "build_response (list_http ()) no_dates range_opened =
      Inr (res :: ((string \<times> string) list, unit, (string, unit) serve_body) response)"
    by (auto simp: build_response_def file_headers_def range_opened_def list_http_simps no_dates_def
        permitted_byte_def byte_def Let_def)
  have only: "g = ''hello''" if "open_file_with_fallback ?B p (of_negotiated_encodings range_example) = Inr (g, enc)"
    for p g enc
    using that unfolding open_file_with_fallback_def
    by (subst (asm) with_fallback.simps)
      (auto simp: range_example_is prefer_path_def preferred_encoding_None [THEN iffD2] some_files_simps
        split: sum.splits option.splits if_splits)
  from served_bytes [OF header_text_list_http file_law_some_files range_law_plain_env
      range_example_opens get res, of "\<lambda>b. []"]
  have "res_status res = 206 \<and> body_bytes id (\<lambda>b. []) (res_body res) = ''ell'' \<and>
      hm_get_all (list_http ()) (res_headers res) ''content-range'' = [range_text 1 3 5]"
    by (elim exE conjE) (drule only, simp add: range [simplified], simp add: range_text_def numeral_eq_Suc)
  with res show ?thesis by (simp add: list_http_simps)
qed

section \<open>HEAD and GET\<close>

text \<open>
  A backend whose metadata of a path is that of the file there, which never refuses a name, and whose
  files can be measured and sought.
\<close>

definition coherent :: "('file, 'meta) backend \<Rightarrow> bool" where
  "coherent B \<longleftrightarrow>
     (\<forall>p. case be_open B p of
        Inr file \<Rightarrow> (\<exists>m. file_metadata B file = Inr m \<and> be_metadata B p = Inr m)
      | Inl err \<Rightarrow> err_kind err \<noteq> InvalidInput \<and> be_metadata B p = Inl err) \<and>
     (\<forall>file n. \<exists>file'. file_seek B file n = Inr file')"

lemma coherent_metadata:
  assumes "coherent B"
  shows "with_fallback (be_metadata B) p neg =
    (case with_fallback (be_open B) p neg of
       Inl err \<Rightarrow> Inl err
     | Inr (file, enc) \<Rightarrow> (case file_metadata B file of Inl err \<Rightarrow> Inl err | Inr m \<Rightarrow> Inr (m, enc)))"
proof (induction "be_open B" p neg rule: with_fallback.induct)
  case (1 p neg)
  obtain enc q where q: "prefer_path p neg = (enc, q)" by (rule prod.exhaust)
  have c: "case be_open B q of
      Inr file \<Rightarrow> (\<exists>m. file_metadata B file = Inr m \<and> be_metadata B q = Inr m)
    | Inl err \<Rightarrow> err_kind err \<noteq> InvalidInput \<and> be_metadata B q = Inl err"
    using assms by (simp add: coherent_def)
  show ?case
  proof (cases "be_open B q")
    case (Inr g)
    with c show ?thesis by (subst (1 2) with_fallback.simps) (auto simp: q)
  next
    case (Inl err)
    with c have m: "be_metadata B q = Inl err" by simp
    show ?thesis
    proof (cases "\<exists>e. enc = Some e \<and> err_kind err = NotFound \<and> e \<noteq> Identity")
      case True
      then obtain e where e: "enc = Some e" "err_kind err = NotFound \<and> e \<noteq> Identity" by blast
      from 1 [OF q [symmetric] Inl e] show ?thesis
        by (subst (1 2) with_fallback.simps) (simp add: q Inl m e)
    next
      case False
      then show ?thesis by (subst (1 2) with_fallback.simps) (auto simp: q Inl m split: option.split)
    qed
  qed
qed

lemma coherent_valid:
  assumes "coherent B" "with_fallback (be_open B) p neg = Inl err"
  shows "\<not> is_invalid_filename_error err"
  using assms(2)
proof (induction "be_open B" p neg rule: with_fallback.induct)
  case (1 p neg)
  obtain enc q where q: "prefer_path p neg = (enc, q)" by (rule prod.exhaust)
  have c: "err_kind err' \<noteq> InvalidInput" if "be_open B q = Inl err'" for err'
    using assms(1) that by (auto simp: coherent_def split: sum.splits)
  from "1.prems" show ?case
    by (subst (asm) with_fallback.simps)
      (auto simp: q is_invalid_filename_error_def dest: c "1.hyps" [OF q [symmetric]]
        split: sum.splits option.splits if_splits)
qed

definition as_head :: "('file, 'd) open_file_output \<Rightarrow> ('file, 'd) open_file_output" where
  "as_head out = (case out of
     FileOpened f \<Rightarrow> FileOpened (f\<lparr>fo_extent := Head (case fo_extent f of Full g n \<Rightarrow> n | Head n \<Rightarrow> n)\<rparr>)
   | _ \<Rightarrow> out)"

lemma as_head_opened [simp]:
  "as_head (FileOpened f) = FileOpened (f\<lparr>fo_extent := Head (case fo_extent f of Full g n \<Rightarrow> n | Head n \<Rightarrow> n)\<rparr>)"
  by (simp add: as_head_def)

lemma preconditions_as_head: "map_option as_head (preconditions_check pre e lm) = preconditions_check pre e lm"
  by (simp add: preconditions_check_def as_head_def Let_def split: option.split)

lemma open_head_full:
  fixes B :: "('file, 'meta) backend" and V :: "('u, 'd::linorder, 'r) fs_env"
  assumes B: "coherent B"
  shows "open_head H V B r pre p mime = map_result as_head (open_full H V B r pre p mime)"
proof (cases "with_fallback (be_open B) p (of_negotiated_encodings r)")
  case (Inl err)
  with coherent_valid [OF B Inl] show ?thesis
    by (simp add: open_head_def open_full_def file_metadata_with_fallback_def open_file_with_fallback_def
        coherent_metadata [OF B])
next
  case (Inr x)
  obtain g enc where x: "x = (g, enc)" by (rule prod.exhaust)
  have seek: "file_seek B g n \<noteq> Inl e" for n e using B by (metis coherent_def sum.distinct(1))
  show ?thesis
  proof (cases "file_metadata B g")
    case (Inl e)
    with Inr x show ?thesis
      by (simp add: open_head_def open_full_def file_metadata_with_fallback_def open_file_with_fallback_def
          coherent_metadata [OF B])
  next
    case m: (Inr m)
    show ?thesis
      using preconditions_as_head [of pre "meta_etag H B m" "meta_last_modified V B m", where 'a = 'file] seek
      by (cases "preconditions_check pre (meta_etag H B m) (meta_last_modified V B m) :: ('file, 'd) open_file_output option")
        (auto simp: open_head_def open_full_def file_metadata_with_fallback_def open_file_with_fallback_def
          coherent_metadata [OF B] Inr x m Let_def split: option.split sum.split)
  qed
qed

lemma open_file_head:
  fixes B :: "('file, 'meta) backend" and V :: "('u, 'd::linorder, 'r) fs_env"
  assumes B: "coherent B" and m: "req_method (of_req r) \<noteq> ''HEAD''"
  shows "open_file H U V B (r\<lparr>of_req := (of_req r)\<lparr>req_method := ''HEAD''\<rparr>\<rparr>) = map_result as_head (open_file H U V B r)"
proof -
  have "open_head H V B (r\<lparr>of_req := q\<rparr>) pre p mime = open_head H V B r pre p mime" for q pre p mime
    by (simp add: open_head_def Let_def split: sum.split option.split)
  then have head: "open_head H V B (r\<lparr>of_req := q\<rparr>) pre p mime = map_result as_head (open_full H V B r pre p mime)"
    for q pre p mime by (simp add: open_head_full [OF B])
  moreover have "as_head out = out" if "maybe_redirect_or_append_path H U V B prefix p uri a h = Inr (Some out, q)"
    for out :: "('file, 'd) open_file_output" and prefix p uri a h q
    using that by (auto simp: as_head_def redirect_never_opens split: open_file_output.split)
  ultimately show ?thesis
    using m by (simp add: open_file_def Let_def
        split: serve_variant.split sum.split option.split)
qed

lemma run_serve_pending:
  "n \<le> k \<Longrightarrow>
     run_future (infallible_poll H (serve_future_poll H D call_fb poll_fb ready_after)) n (OpenFileFuture (k, r) fr) = None"
proof (induction n arbitrary: k)
  case (Suc n)
  then show ?case by (cases k) (simp_all add: infallible_poll_def poll_map_def serve_future_poll_def)
qed simp

definition status_and_headers :: "('h, 'x, 'b) response panics \<Rightarrow> (nat \<times> 'h) panics" where
  "status_and_headers = map_result (\<lambda>res. (res_status res, res_headers res))"

lemma build_response_as_head:
  fixes H :: "('h, string, 'x) http_api" and f :: "('file, 'd) file_opened"
  shows "status_and_headers (build_response H D (f\<lparr>fo_extent := Head (case fo_extent f of Full g n \<Rightarrow> n | Head n \<Rightarrow> n)\<rparr>)
      :: ('h, 'x, ('file, 'b) serve_body) response panics) =
    status_and_headers (build_response H D f :: ('h, 'x, ('file, 'b) serve_body) response panics)"
proof -
  have h: "file_headers H D (f\<lparr>fo_extent := e\<rparr>) = file_headers H D f" for e
    by (simp add: file_headers_def)
  show ?thesis
    by (cases "file_headers H D f"; cases "fo_extent f")
      (auto simp: build_response_def h status_and_headers_def ranged_response_def file_response_def response_new_def
        split: option.split sum.split range_error.split)
qed

lemma open_result_as_head:
  fixes H :: "('h, string, 'x) http_api" and r :: "serve_error + ('file, 'd) open_file_output"
  shows "status_and_headers (infallible_response H (open_result H D (map_result as_head r)
      :: serve_error + ('h, 'x, ('file, 'b) serve_body) response)) =
    status_and_headers (infallible_response H (open_result H D r
      :: serve_error + ('h, 'x, ('file, 'b) serve_body) response))"
proof (cases r)
  case (Inr out)
  show ?thesis
  proof (cases out)
    case (FileOpened f)
    with Inr build_response_as_head [of H D f, where 'b = 'b] show ?thesis
      by (auto simp: open_result_def as_head_def infallible_response_def status_and_headers_def
          map_result_eq_Inr map_result_eq_Inl split: sum.splits)
  qed (simp_all add: Inr as_head_def open_result_def)
qed simp



text \<open>
  The hypothesis on invalid names is needed: where the backend refuses a name (a NUL byte, say), \<open>GET\<close> is
  answered 404 by the branch of \<open>open_full\<close> that recognises the error, and \<open>HEAD\<close>, whose branch has
  no such test, 500.
\<close>

definition refusing :: "(string, nat) backend" where
  "refusing = (some_files [])\<lparr>be_open := \<lambda>p. Inl \<lparr>err_kind = InvalidInput, err_raw_os = None\<rparr>,
     be_metadata := \<lambda>p. Inl \<lparr>err_kind = InvalidInput, err_raw_os = None\<rparr>\<rparr>"

definition answer :: "(string, nat) backend \<Rightarrow> string \<Rightarrow> nat panics option" where
  "answer B m = map_option (map_result res_status)
     (serve_run (list_http ()) no_dates (\<lambda>fb q. (fb, ()))
       (\<lambda>f. (Pending :: ((string \<times> string) list, unit, unit) response poll, f)) 1
       (snd (serve_dir_try_call (list_http ()) simple_uri_api plain_env B (\<lambda>s. s) (\<lambda>s. s) 0 (\<lambda>fb q. (fb, ()))
         (serve_dir_new ''pub'' :: unit serve_dir) (plain_request m ''/a'' []))))"

lemma invalid_name_status: "answer refusing ''GET'' = Some (Inr 404)" "answer refusing ''HEAD'' = Some (Inr 500)"
proof -
  let ?p = "[CurDir, Normal ''pub'', Normal ''a'']"
  have p: "build_and_validate_path (\<lambda>s. s) (Directory True False) [CurDir, Normal ''pub''] ''/a'' = Some ?p"
    by (simp add: build_and_validate_path_def from_utf8_def components_def piece_component_def byte_def
        List.map_filter_def path_push_def)
  have base: "path_push (path_from ''.'') ''pub'' = [CurDir, Normal ''pub'']"
    by (simp add: path_from_def components_def piece_component_def path_push_def List.map_filter_def)
  have neg: "encodings (list_http ()) [] v = []" for v
    by (simp add: encodings_def accept_items_def list_http_simps List.map_filter_def)
  have loop: "with_fallback (\<lambda>p. Inl \<lparr>err_kind = InvalidInput, err_raw_os = None\<rparr>) q [] =
      (Inl \<lparr>err_kind = InvalidInput, err_raw_os = None\<rparr> :: fs_error + ('a \<times> encoding option))" for q
    by (subst with_fallback.simps) (simp add: prefer_path_def preferred_encoding_None [THEN iffD2])
  note defs = answer_def serve_run_def serve_dir_try_call_def serve_dir_new_def plain_request_def simple_uri_api_def
    p base open_request_def open_file_def maybe_redirect_or_append_path_def is_dir_def refusing_def
    is_invalid_filename_error_def ends_with_slash_def open_full_def open_head_def open_file_with_fallback_def
    file_metadata_with_fallback_def neg loop list_http_simps infallible_poll_def poll_map_def serve_future_poll_def
    infallible_response_def should_return_not_found_def not_found_def Let_def
  show "answer refusing ''GET'' = Some (Inr 404)" by (simp add: defs)
  show "answer refusing ''HEAD'' = Some (Inr 500)" by (simp add: defs)
qed

section \<open>Other observations\<close>

text \<open>
  The redirect to a directory keeps the path of the request as it came, so a request for \<open>//docs\<close>
  is sent to \<open>//docs/\<close>, which a client resolves as the host \<open>docs\<close>.
\<close>

definition directories :: "path list \<Rightarrow> (string, nat) backend" where
  "directories ps = (some_files (map (\<lambda>p. (p, [])) ps))\<lparr>meta_is_dir := \<lambda>m. True\<rparr>"

lemma redirect_keeps_leading_slashes:
  "map_option (map_result (\<lambda>res. (res_status res, res_headers res)))
     (serve_run (list_http ()) no_dates (\<lambda>fb q. (fb, ()))
       (\<lambda>f. (Pending :: ((string \<times> string) list, unit, unit) response poll, f)) 1
       (snd (serve_dir_try_call (list_http ()) simple_uri_api plain_env
         (directories [[CurDir, Normal ''pub'', Normal ''docs'']]) (\<lambda>s. s) (\<lambda>s. s) 0 (\<lambda>fb q. (fb, ()))
         (serve_dir_new ''pub'' :: unit serve_dir) (plain_request ''GET'' ''//docs'' [])))) =
   Some (Inr (307, [(''location'', ''//docs/'')]))"
proof -
  let ?p = "[CurDir, Normal ''pub'', Normal ''docs'']"
  have p: "build_and_validate_path (\<lambda>s. s) (Directory True False) [CurDir, Normal ''pub''] ''//docs'' = Some ?p"
    by (simp add: build_and_validate_path_def from_utf8_def components_def piece_component_def byte_def
        List.map_filter_def path_push_def)
  have base: "path_push (path_from ''.'') ''pub'' = [CurDir, Normal ''pub'']"
    by (simp add: path_from_def components_def piece_component_def path_push_def List.map_filter_def)
  show ?thesis
    by (simp add: serve_run_def serve_dir_try_call_def serve_dir_new_def plain_request_def simple_uri_api_def
        p base open_request_def open_file_def maybe_redirect_or_append_path_def is_dir_def directories_def some_files_def
        ends_with_slash_def append_slash_on_path_def plain_env_def list_http_simps permitted_byte_def byte_def
        infallible_poll_def poll_map_def serve_future_poll_def response_with_status_def response_new_def
        infallible_response_def Let_def)
qed

text \<open>
  The text that answers several ranges is labelled with the coding of the precompressed file, although it
  is not in that coding.
\<close>

lemma multipart_error_claims_coding:
  assumes H: "header_text H" and res: "build_response H D f = Inr res"
    and f: "fo_maybe_range f = Some (Inl MultipleRangesNotSupported)" "fo_maybe_encoding f = Some e" "e \<noteq> Identity"
  shows "hm_get_all H (res_headers res) ''content-encoding'' = [enc_to_str e]"
    "res_body res = BytesBody ''Cannot serve multipart range requests''"
proof -
  from res obtain h mf n where h: "file_headers H D f = Inr h" and r: "res = ranged_response H f mf n h"
    by (auto simp: build_response_def map_result_eq_Inr split: prod.splits)
  from header_text.file_headers_no_length(3) [OF H h] f(2,3)
  show "hm_get_all H (res_headers res) ''content-encoding'' = [enc_to_str e]"
    by (simp add: r f ranged_response_def file_response_def header_map.laws [OF header_text.axioms(1) [OF H]])
  show "res_body res = BytesBody ''Cannot serve multipart range requests''"
    by (simp add: r f ranged_response_def file_response_def response_new_def)
qed

end
