(* ===== verification/Serve_Headers.thy ===== *)
theory Serve_Headers
  imports Serve_Dir
begin

text \<open>
  The header values of \<open>ServeDir\<close> are valid: many of them are built from data of the request or of the file
  system (the location of a redirection, entity tags, dates, ranges) and put into a response without a
  check of their own.  The locale \<open>valid_header_text\<close> adds to \<open>header_text\<close> that \<open>HeaderValue::from_bytes\<close>
  refuses every byte that could end a header line.
\<close>

text \<open>The bytes \<open>HeaderValue::from_bytes\<close> admits: a tab, or any byte from 32 on but 127.\<close>

definition header_byte :: "char \<Rightarrow> bool" where
  "header_byte c = (byte c = 9 \<or> permitted_byte c)"

definition headers_valid :: "('h, string, 'x) http_api \<Rightarrow> 'h \<Rightarrow> bool" where
  "headers_valid H h \<longleftrightarrow> (\<forall>n v. v \<in> set (hm_get_all H h n) \<longrightarrow> list_all header_byte v)"

locale valid_header_text = header_text H for H :: "('h, string, 'x) http_api" +
  assumes from_bytes_valid: "from_bytes H b = Some v \<Longrightarrow> list_all header_byte b"

text \<open>What a result of \<open>open_file\<close> puts into headers.\<close>

definition etag_valid :: "etag option \<Rightarrow> bool" where
  "etag_valid e = (case e of Some t \<Rightarrow> list_all header_byte (into_header_value t) | None \<Rightarrow> True)"

fun output_valid :: "('file, 'd) open_file_output \<Rightarrow> bool" where
  "output_valid (FileOpened f) = (list_all header_byte (fo_mime_header_value f) \<and> etag_valid (fo_etag f))"
| "output_valid (Redirect location) = list_all header_byte location"
| "output_valid (NotModified e lm) = etag_valid e"
| "output_valid out = True"

lemma list_all_map_permitted: "list_all permitted_byte s \<Longrightarrow> list_all header_byte s"
  by (auto simp: list_all_iff header_byte_def)

lemma show_nat_permitted: "list_all permitted_byte (show_nat n)"
proof (induction n rule: show_nat.induct)
  case (1 n)
  have digit: "permitted_byte (char_of (48 + k :: nat))" if "k < 10" for k
    using that by (simp add: permitted_byte_def byte_def)
  from 1 show ?case
    by (subst show_nat.simps) (auto simp: digit)
qed

lemma header_constants:
  "list_all header_byte ''bytes''" "list_all header_byte ''accept-encoding''" "list_all header_byte (enc_to_str e)"
  "list_all header_byte ''GET,HEAD''" "list_all header_byte (range_text a b n)" "list_all header_byte (unsatisfied_text n)"
  "list_all header_byte (show_nat n)"
  using show_nat_permitted
  by (auto simp: range_text_def unsatisfied_text_def header_byte_def permitted_byte_def byte_def
      intro!: list_all_map_permitted split: encoding.split) (cases e; simp add: header_byte_def permitted_byte_def byte_def)

context valid_header_text
begin

lemma valid_new: "headers_valid H (hm_new H)"
  by (simp add: headers_valid_def laws)

lemma valid_append: "headers_valid H h \<Longrightarrow> list_all header_byte v \<Longrightarrow> headers_valid H (hm_append H h n v)"
  by (auto simp: headers_valid_def laws split: if_splits)

lemma valid_insert: "headers_valid H h \<Longrightarrow> list_all header_byte v \<Longrightarrow> headers_valid H (hm_insert H h n v)"
  by (auto simp: headers_valid_def laws split: if_splits)

lemma from_bytes_ok: "from_bytes H b = Some v \<Longrightarrow> list_all header_byte v"
  using from_bytes_keeps from_bytes_valid by blast

lemmas valid_intros = valid_new valid_append valid_insert header_constants from_bytes_ok

lemma file_headers_valid:
  assumes "file_headers H D f = Inr h" "list_all header_byte (fo_mime_header_value f)" "etag_valid (fo_etag f)"
  shows "headers_valid H h"
  using assms
  by (auto simp: file_headers_def Let_def etag_valid_def
      split: option.splits last_modified.splits if_splits intro!: valid_intros)

lemma open_result_valid:
  assumes "output_valid out" "open_result H D (Inr out) = Inr res"
  shows "headers_valid H (res_headers res)"
proof (cases out)
  case (FileOpened f)
  with assms obtain h mf len where h: "file_headers H D f = Inr h" and res: "res = ranged_response H f mf len h"
    by (auto simp: open_result_def build_response_def map_result_eq_Inr split: sum.splits prod.splits)
  from FileOpened assms have "headers_valid H h" by (auto intro!: file_headers_valid [OF h])
  then show ?thesis
    by (auto simp: res ranged_response_def file_response_def split: option.split sum.split range_error.split
        intro!: valid_intros)
qed (use assms in \<open>auto simp: open_result_def not_modified_response_def not_found_def response_with_status_def
      response_new_def etag_valid_def Let_def
      split: option.splits last_modified.splits intro!: valid_intros\<close>)

lemma meta_etag_valid: "etag_valid (meta_etag H B m)"
  by (auto simp: meta_etag_def etag_from_metadata_def etag_valid_def Let_def
      split: option.split bind_splits intro: from_bytes_ok)

lemma preconditions_valid: "preconditions_check pre e lm = Some out \<Longrightarrow> etag_valid e \<Longrightarrow> output_valid out"
  by (auto simp: preconditions_check_def Let_def split: option.splits if_splits)

lemma open_head_valid:
  assumes "open_head H V B r pre p mime = Inr out" "list_all header_byte mime"
  shows "output_valid out"
  using assms
  by (auto simp: open_head_def Let_def meta_etag_valid split: sum.splits option.splits
      intro: preconditions_valid [OF _ meta_etag_valid])

lemma open_full_valid:
  assumes "open_full H V B r pre p mime = Inr out" "list_all header_byte mime"
  shows "output_valid out"
  using assms
  by (auto simp: open_full_def Let_def meta_etag_valid split: sum.splits option.splits if_splits)
    (erule preconditions_valid, rule meta_etag_valid)

lemma redirect_valid:
  assumes "maybe_redirect_or_append_path H U V B prefix p uri a h = Inr (Some out, q)"
  shows "output_valid out"
  using assms
  by (auto simp: maybe_redirect_or_append_path_def Let_def split: sum.splits if_splits option.splits
      intro: from_bytes_ok)

end

text \<open>The media types of files are valid: those of \<open>mime_guess\<close>, and the one a single file is served with.\<close>

definition mimes_valid :: "('u, 'd, 'r) fs_env \<Rightarrow> serve_variant \<Rightarrow> bool" where
  "mimes_valid V variant \<longleftrightarrow>
     (case variant of
        SingleFile mime \<Rightarrow> list_all header_byte mime
      | Directory _ _ \<Rightarrow> (\<forall>p m. first_raw V p = Some m \<longrightarrow> list_all header_byte m))"

lemma guess_mime_valid: "mimes_valid V (Directory a h) \<Longrightarrow> list_all header_byte (guess_mime V p)"
  by (auto simp: mimes_valid_def guess_mime_def header_byte_def permitted_byte_def byte_def split: option.split)

context valid_header_text
begin

lemma open_file_valid:
  assumes "open_file H U V B r = Inr out" "mimes_valid V (of_variant r)"
  shows "output_valid out"
proof (cases "of_variant r")
  case (SingleFile mime)
  with assms show ?thesis
    by (auto simp: open_file_def mimes_valid_def Let_def split: if_splits dest: open_head_valid open_full_valid)
next
  case (Directory a h)
  with assms(2) have mime: "list_all header_byte (guess_mime V p)" for p
    by (intro guess_mime_valid) simp
  from Directory assms(1) show ?thesis
    by (auto simp: open_file_def Let_def split: if_splits sum.splits option.splits
        dest: open_head_valid [OF _ mime] open_full_valid [OF _ mime] redirect_valid)
qed

end

lemma valid_header_text_list_http: "valid_header_text (list_http e)"
  by (intro valid_header_text.intro header_text_list_http valid_header_text_axioms.intro)
    (auto simp: list_http_simps header_byte_def list_all_iff split: if_splits)

interpretation lv: valid_header_text "list_http e" for e
  by (rule valid_header_text_list_http)

section \<open>Every header value of a response is valid\<close>

text \<open>The answers of a service without a fallback.\<close>

definition not_allowed_response :: "('h, string, 'x) http_api \<Rightarrow> ('h, 'x, ('file, 'b) serve_body) response" where
  "not_allowed_response H =
     (let res = response_with_status H 405
      in res\<lparr>res_headers := hm_insert H (res_headers res) ''allow'' ''GET,HEAD''\<rparr>)"

lemma run_serve_not_allowed:
  "run_future (infallible_poll H (serve_future_poll H D call_fb poll_fb poll_open)) (Suc n) MethodNotAllowed =
     Some (Inr (not_allowed_response H))"
  by (simp add: infallible_poll_def poll_map_def serve_future_poll_def infallible_response_def Let_def
      not_allowed_response_def)

lemma serve_run_own [consumes 2, case_names not_allowed invalid_path opened]:
  fixes V :: "('u, 'd::linorder, 'r) fs_env"
  assumes own: "sd_fallback s = None"
    and run: "serve_run H D call_fb poll_fb n
      (snd (serve_dir_try_call H U V B pdecode clone delay call_fb s req)) = Some r"
  obtains "req_method req \<notin> {''GET'', ''HEAD''}" "r = Inr (not_allowed_response H)"
  | "req_method req \<in> {''GET'', ''HEAD''}" "r = Inr (not_found H)"
  | p where "req_method req \<in> {''GET'', ''HEAD''}"
      "r = infallible_response H (open_result H D (open_file H U V B (open_request H s p req)))"
proof (cases "req_method req \<in> {''GET'', ''HEAD''}")
  case False
  from run obtain m where "n = Suc m" by (cases n) (auto simp: serve_run_def)
  with run own False have "r = Inr (not_allowed_response H)"
    by (cases "sd_call_fallback_on_method_not_allowed s")
      (auto simp: serve_run_def serve_dir_try_call_def run_serve_not_allowed simp del: run_future.simps)
  with False that(1) show thesis by blast
next
  case get: True
  from run obtain m where n: "n = Suc m" by (cases n) (auto simp: serve_run_def)
  show thesis
  proof (cases "build_and_validate_path pdecode (sd_variant s) (sd_base s) (uri_path U (req_uri req))")
    case None
    with run own get have "r = Inr (not_found H)"
      by (auto simp: n serve_run_def serve_dir_try_call_def run_serve_invalid Let_def simp del: run_future.simps)
    with get that(2) show thesis by blast
  next
    case (Some p)
    let ?r = "open_request H s p req"
    have w: "snd (serve_dir_try_call H U V B pdecode clone delay call_fb s req) =
        OpenFileFuture (delay, open_file H U V B ?r) None"
      using Some own get by (auto simp: serve_dir_try_call_def Let_def)
    have "\<not> n \<le> delay"
      using run run_serve_pending [of n delay H D call_fb poll_fb "open_file H U V B ?r" None]
      by (auto simp: w serve_run_def)
    then obtain k where "n = delay + Suc k" by (metis add_Suc_right less_iff_Suc_add not_le)
    with run have "r = infallible_response H (open_result H D (open_file H U V B ?r))"
      by (simp add: w serve_run_def run_serve_delay run_serve_open del: run_future.simps add_Suc_right)
    with get that(3) show thesis by blast
  qed
qed

context valid_header_text
begin

lemma infallible_open_valid:
  fixes res :: "('h, 'x, ('file, 'b) serve_body) response"
  assumes "infallible_response H (open_result H D (open_file H U V B r)) = Inr res" "mimes_valid V (of_variant r)"
  shows "headers_valid H (res_headers res)"
proof (cases "open_file H U V B r")
  case (Inr out)
  with assms(2) have out: "output_valid out" by (blast intro: open_file_valid)
  show ?thesis
  proof (cases "open_result H D (Inr out) :: serve_error + ('h, 'x, ('file, 'b) serve_body) response")
    case (Inl e)
    with assms(1) Inr show ?thesis
      by (cases e) (auto simp: infallible_response_def response_with_status_def response_new_def intro: valid_new)
  next
    case res: (Inr res')
    with assms(1) Inr have "res' = res" by (simp add: infallible_response_def)
    with res out show ?thesis by (auto intro: open_result_valid)
  qed
next
  case (Inl e)
  with assms(1) show ?thesis
    by (cases e) (auto simp: open_result_def infallible_response_def response_with_status_def response_new_def
        intro: valid_new)
qed

end


text \<open>A request for a range of a file, whose response has an entity tag.\<close>

definition range_service :: "unit serve_dir" where
  "range_service = serve_dir_new_single_file ''a.txt'' ''text/plain''"

definition range_request :: "((string \<times> string) list, simple_uri, unit, unit) request" where
  "range_request = plain_request ''GET'' ''/'' [(''range'', ''bytes=1-3'')]"

definition range_files :: "(string, nat) backend" where
  "range_files = some_files [([Normal ''a.txt''], ''hello'')]"

definition no_fallback ::
  "unit \<Rightarrow> ((string \<times> string) list, simple_uri, unit, unit) request \<Rightarrow>
     unit \<times> (nat \<times> ((string \<times> string) list, unit, unit) response)" where
  "no_fallback fb q = (fb, (0, response_new (list_http ()) ()))"

lemma range_run:
  "\<exists>res. serve_run (list_http ()) no_dates no_fallback ready_after (2 + Suc 0)
      (snd (serve_dir_try_call (list_http ()) simple_uri_api plain_env range_files id id 2 no_fallback
        range_service range_request)) = Some (Inr res) \<and>
    res_status res = 206 \<and> hm_get_all (list_http ()) (res_headers res) ''etag'' = [tag_of (5, 1000000007)]"
proof -
  have p: "build_and_validate_path id (sd_variant range_service) (sd_base range_service)
      (uri_path simple_uri_api (req_uri range_request)) = Some [Normal ''a.txt'']"
    by (simp add: build_and_validate_path_def range_service_def serve_dir_new_single_file_def path_from_def) code_simp
  have get: "req_method range_request \<in> {''GET'', ''HEAD''}" by (simp add: range_request_def plain_request_def)
  have own: "sd_fallback range_service = None" by (simp add: range_service_def serve_dir_new_single_file_def)
  have w: "snd (serve_dir_try_call (list_http ()) simple_uri_api plain_env range_files id id 2 no_fallback
      range_service range_request) = OpenFileFuture (2, Inr (FileOpened range_opened)) None"
    using p get own by (auto simp: serve_dir_try_call_def range_example_opens [unfolded range_example_def]
        range_service_def range_request_def range_files_def)
  obtain res where res: "build_response (list_http ()) no_dates range_opened =
      Inr (res :: ((string \<times> string) list, unit, (string, unit) serve_body) response)"
    and etag: "hm_get_all (list_http ()) (res_headers res) ''etag'' = [tag_of (5, 1000000007)]"
    and status: "res_status res = 206"
    by (auto simp: build_response_def file_headers_def range_opened_def list_http_simps no_dates_def
        permitted_byte_def byte_def Let_def ranged_response_def file_response_def)
  have "serve_run (list_http ()) no_dates no_fallback ready_after (2 + Suc 0)
      (OpenFileFuture (2, Inr (FileOpened range_opened)) None) = Some (Inr res)"
    unfolding serve_run_def run_serve_delay run_serve_open
    by (simp add: open_result_def res infallible_response_def)
  with etag status w show ?thesis by auto
qed

lemma range_service_own: "sd_fallback range_service = None"
  by (simp add: range_service_def serve_dir_new_single_file_def)


end
