(* ===== verification/Serve_Cache.thy ===== *)
theory Serve_Cache
  imports Serve_Site
begin

text \<open>
  A client that keeps a page of \<open>ServeDir\<close> with its entity tag and revalidates it (RFC 9110, section 13): it sends
  the tag in \<open>If-None-Match\<close>, keeps its page on 304 and takes the new one on 200.  Between the two requests
  the files may change in any way, so the two requests meet two file systems.  The theorem shows that the
  client has the current page afterwards, as far as length and modification time tell versions apart.
\<close>

section \<open>The client\<close>

record cached_page =
  ca_tag :: string
  ca_content :: string

definition store ::
  "('h, string, 'x) http_api \<Rightarrow> ('file \<Rightarrow> string) \<Rightarrow> ('b \<Rightarrow> string) \<Rightarrow>
     ('h, 'x, ('file, 'b) serve_body) response \<Rightarrow> cached_page option" where
  "store H read fb res =
     (if res_status res = 200
      then map_option (\<lambda>t. \<lparr>ca_tag = t, ca_content = body_bytes read fb (res_body res)\<rparr>)
        (hm_get H (res_headers res) ''etag'')
      else None)"

definition refresh ::
  "('h, string, 'x) http_api \<Rightarrow> ('file \<Rightarrow> string) \<Rightarrow> ('b \<Rightarrow> string) \<Rightarrow> cached_page \<Rightarrow>
     ('h, 'x, ('file, 'b) serve_body) response \<Rightarrow> cached_page option" where
  "refresh H read fb page res = (if res_status res = 304 then Some page else store H read fb res)"

definition revalidates :: "('h, string, 'x) http_api \<Rightarrow> string \<Rightarrow> 'h \<Rightarrow> bool" where
  "revalidates H tag h \<longleftrightarrow> hm_get H h ''if-none-match'' = Some tag \<and>
     list_all (\<lambda>n. hm_get H h n = None) [''range'', ''if-match'', ''if-modified-since'', ''if-unmodified-since'']"

text \<open>What tells the versions of a file apart: its length and its modification time, in nanoseconds.\<close>

definition page_version :: "('file, 'meta) backend \<Rightarrow> path \<Rightarrow> (nat \<times> nat) option" where
  "page_version B p =
     (case be_open B p of
        Inl _ \<Rightarrow> None
      | Inr f \<Rightarrow>
          (case file_metadata B f of
             Inl _ \<Rightarrow> None
           | Inr m \<Rightarrow> (case meta_modified B m of
                Inl _ \<Rightarrow> None
              | Inr t \<Rightarrow> if 0 \<le> t then Some (meta_len B m, nat t) else None)))"

section \<open>Revalidation\<close>

lemma version_etag:
  assumes "header_text H" "page_version B p = Some v" "be_open B p = Inr f" "file_metadata B f = Inr m"
  shows "meta_etag H B m = Some (ETag (tag_of v))"
proof -
  obtain t where t: "meta_modified B m = Inr t" "0 \<le> t" "v = (meta_len B m, nat t)"
    using assms(2-4) by (auto simp: page_version_def split: sum.splits if_splits)
  with header_text.etag_from_metadata_tag [OF assms(1), of "meta_len B m" "nat t"] show ?thesis
    by (simp add: meta_etag_def ok_def)
qed

lemma revalidation_check:
  assumes "revalidates H (tag_of v) h"
  shows "preconditions_check (preconditions_of H D h) (Some (ETag (tag_of w))) lm =
    (if v = w then Some (NotModified (Some (ETag (tag_of w))) lm) else None)"
proof -
  have q: "tag_of v \<noteq> []" "tag_of v \<noteq> ''*''" by (simp_all add: tag_of_def etag_text_def)
  have each: "for_each_etag (tag_of v) p = p (tag_of v)" for p
    using tag_list_each [of "[v]" p] by (simp add: tag_list_def)
  have passes: "if_none_match_passes (IfNoneMatch (tag_of v)) (ETag (tag_of w)) \<longleftrightarrow> v \<noteq> w"
    using q by (simp add: each tag_of_eq del: weak_eq.simps) blast
  show ?thesis
    using assms q passes
    by (simp add: revalidates_def preconditions_check_def preconditions_of_def if_none_match_from_def
        del: if_none_match_passes.simps)
qed

context tree_site
begin

text \<open>A page the specification names is opened as a whole, whatever the request is conditional on.\<close>

lemma open_page:
  fixes V :: "('u, 'd, 'r) fs_env"
  assumes names: "list_all plain_name ns0" and q: "whole_file H q"
    and s: "of_variant q = Directory index html" "of_path_to_file q = base @ map Normal ns0"
    and law: "origin_form_law U V (of_redirect_path_prefix q) (req_uri (of_req q))"
    and page: "site_answer root index html (uri_path U (req_uri (of_req q))) (Some ns0) = Page ns c"
  shows "list_all plain_name ns \<and> find_node root ns = Inr (Doc c) \<and>
    open_file H U V B q = open_full H V B q (preconditions_of H (fs_date V) (req_headers (of_req q)))
      (base @ map Normal ns) (guess_mime V (base @ map Normal ns))"
proof -
  let ?u = "req_uri (of_req q)"
  have openq: "open_file H U V B q =
      (case maybe_redirect_or_append_path H U V B (of_redirect_path_prefix q) (base @ map Normal ns0) ?u index html of
         Inl err \<Rightarrow> Inl err | Inr (Some output, p) \<Rightarrow> Inr output
       | Inr (None, p) \<Rightarrow> open_full H V B q (preconditions_of H (fs_date V) (req_headers (of_req q))) p (guess_mime V p))"
    using q by (simp add: open_file_def s Let_def whole_file_def)
  have at: "page_at root ms = Page ns c \<Longrightarrow> ns = ms \<and> find_node root ms = Inr (Doc c)" for ms
    by (auto simp: page_at_def split: sum.splits node.splits)
  note redirect = redirect_site [OF names law, of index html]
  show ?thesis
  proof (cases "find_node root ns0")
    case (Inr n)
    show ?thesis
    proof (cases n)
      case (Doc c')
      with Inr page redirect names show ?thesis
        by (auto simp: openq site_answer_def Let_def split: if_splits)
    next
      case (Folder es)
      with Inr page have "index" "ends_with_slash (uri_path U ?u)" "page_at root (ns0 @ [''index.html'']) = Page ns c"
        by (auto simp: site_answer_def split: if_splits)
      with at [of "ns0 @ [''index.html'']"] Inr Folder redirect names html_plain(2) show ?thesis
        by (auto simp: openq)
    qed
  next
    case (Inl e)
    let ?ms = "butlast ns0 @ [last ns0 @ ''.html'']"
    from Inl page have e: "e = NoEntry" "html" "snd (stem_and_extension (last ns0)) = None" "page_at root ?ms = Page ns c"
      "\<not> (ends_with_slash (uri_path U ?u) \<and> uri_path U ?u \<noteq> ''/'')"
      by (auto simp: site_answer_def Let_def split: lookup_error.splits if_splits)
    have "list_all plain_name ?ms"
      using names Inl html_plain(1) [of "last ns0"] by (cases ns0 rule: rev_cases) simp_all
    with at [OF e(4)] Inl e redirect show ?thesis by (auto simp: openq)
  qed
qed

lemma run_page:
  fixes V :: "('u, 'd, 'r) fs_env" and req :: "('h, 'u, 'x, 'q) request"
  assumes s: "sd_base s = base" "sd_variant s = Directory index html" "sd_precompressed_variants s = None" "sd_fallback s = None"
    and req: "req_method req = ''GET''" "hm_get H (req_headers req) ''range'' = None"
    and law: "origin_form_law U V (sd_redirect_path_prefix s) (req_uri req)"
    and page: "site_answer root index html (uri_path U (req_uri req))
      (Option.bind (from_utf8 (pdecode (dropWhile (\<lambda>c. c = CHR ''/'') (uri_path U (req_uri req))))) wanted_names) = Page ns c"
  shows "\<exists>q :: ('h, 'u, 'x, unit) open_file_request. list_all plain_name ns \<and> find_node root ns = Inr (Doc c) \<and> whole_file H q \<and>
    serve_run H D call_fb poll_fb (delay + Suc n)
      (snd (serve_dir_try_call H U V B pdecode clone delay call_fb s req)) =
    Some (infallible_response H (open_result H D (open_full H V B q (preconditions_of H (fs_date V) (req_headers req))
      (base @ map Normal ns) (guess_mime V (base @ map Normal ns)))))"
proof -
  let ?u = "req_uri req"
  let ?names = "Option.bind (from_utf8 (pdecode (dropWhile (\<lambda>c. c = CHR ''/'') (uri_path U ?u)))) wanted_names"
  obtain ns0 where names: "?names = Some ns0" using page by (cases ?names) (simp_all add: site_answer_def)
  then obtain d where "wanted_names d = Some ns0" by (auto simp: bind_eq_Some_conv)
  then have ns0: "list_all plain_name ns0" by (rule wanted_plain)
  have path: "build_and_validate_path pdecode (sd_variant s) base (uri_path U ?u) = Some (base @ map Normal ns0)"
    using names by (auto simp: build_and_validate_path_def s push_wanted bind_eq_Some_conv)
  let ?q = "open_request H s (base @ map Normal ns0) req"
  have q: "whole_file H ?q" "of_variant ?q = Directory index html" "of_path_to_file ?q = base @ map Normal ns0"
    "of_redirect_path_prefix ?q = sd_redirect_path_prefix s" "req_uri (of_req ?q) = ?u"
    "req_headers (of_req ?q) = req_headers req"
    using req identity_encodings
    by (simp_all add: whole_file_def open_request_def s get_or_default_def from_parts_def request_parts_def)
  have w: "snd (serve_dir_try_call H U V B pdecode clone delay call_fb s req) =
      OpenFileFuture (delay, open_file H U V B ?q) None"
    using path by (simp add: serve_dir_try_call_def req s(1,4))
  show ?thesis
    using open_page [OF ns0 q(1-3), of U V ns c] law page unfolding w serve_run_def run_serve_delay run_serve_open q names
    by (intro exI [of _ ?q]) (simp add: q(1) del: run_future.simps)
qed

text \<open>A page whose version is known is sent with its tag.\<close>

lemma page_stored:
  fixes V :: "('u, 'd, 'r) fs_env" and fb :: "'b \<Rightarrow> string"
  assumes ns: "list_all plain_name ns" "find_node root ns = Inr (Doc c)" and q: "whole_file H q"
    and v: "page_version B (base @ map Normal ns) = Some v"
    and check: "\<And>lm. preconditions_check pre (Some (ETag (tag_of v))) lm = (None :: ('file, 'd) open_file_output option)"
  shows "\<exists>res. infallible_response H (open_result H D (open_full H V B q pre (base @ map Normal ns) mime)) = Inr res \<and>
    res_status res = 200 \<and> body_bytes read fb (res_body res) = c \<and>
    store H read fb res = Some \<lparr>ca_tag = tag_of v, ca_content = c\<rparr>"
proof -
  have checked: "preconditions_check pre (meta_etag H B m) (meta_last_modified V B m) =
      (None :: ('file, 'd) open_file_output option)"
    if "be_open B (base @ map Normal ns) = Inr f" "file_metadata B f = Inr m" for f m
    using version_etag [OF header_text_axioms v that] check by simp
  from page_sent [OF ns q, of pre V mime fb] checked obtain res f m where
    res: "infallible_response H (open_result H D (open_full H V B q pre (base @ map Normal ns) mime)) = Inr res"
    "be_open B (base @ map Normal ns) = Inr f" "file_metadata B f = Inr m"
    "res_status res = 200" "body_bytes read fb (res_body res) = c"
    "hm_get_all H (res_headers res) ''etag'' = (case meta_etag H B m of Some e \<Rightarrow> [into_header_value e] | None \<Rightarrow> [])"
    by blast
  from version_etag [OF header_text_axioms v res(2,3)] res(6) have "hm_get H (res_headers res) ''etag'' = Some (tag_of v)"
    by (simp add: get_first)
  with res show ?thesis by (auto simp: store_def)
qed

text \<open>A page is not sent again if its version is the one the tag names.\<close>

lemma page_not_modified:
  fixes V :: "('u, 'd, 'r) fs_env" and fb :: "'b \<Rightarrow> string"
  assumes ns: "list_all plain_name ns" "find_node root ns = Inr (Doc c)" and q: "whole_file H q"
    and v: "page_version B (base @ map Normal ns) = Some v"
    and check: "\<And>lm. preconditions_check pre (Some (ETag (tag_of v))) lm =
      (Some (NotModified (Some (ETag (tag_of v))) lm) :: ('file, 'd) open_file_output option)"
  shows "\<exists>res. infallible_response H (open_result H D (open_full H V B q pre (base @ map Normal ns) mime)) = Inr res \<and>
    res_status res = 304 \<and> body_bytes read fb (res_body res) = []"
proof -
  from holds [OF ns(1)] ns(2) obtain f m where f: "be_open B (base @ map Normal ns) = Inr f" "file_metadata B f = Inr m"
    by (auto simp: holds_node_def split: sum.splits)
  have neg: "\<forall>e \<in> fst ` set (of_negotiated_encodings q). e = Identity" using q by (simp add: whole_file_def)
  have o: "open_full H V B q pre (base @ map Normal ns) mime =
      Inr (NotModified (Some (ETag (tag_of v))) (meta_last_modified V B m))"
    by (simp add: open_full_def open_file_with_fallback_def with_fallback_identity [OF neg] f check
        version_etag [OF header_text_axioms v f])
  show ?thesis
  proof (cases "meta_last_modified V B m")
    case None
    then show ?thesis
      by (simp add: o open_result_def not_modified_response_def infallible_response_def response_with_status_def
          response_new_def)
  next
    case (Some lm)
    then show ?thesis
      by (cases lm) (simp add: o open_result_def not_modified_response_def infallible_response_def
          response_with_status_def response_new_def from_bytes_permitted dates)
  qed
qed

end

section \<open>A cache that revalidates is current\<close>

text \<open>
  Claim C4.  A client that revalidates has the current page, however the files changed: it stored the answer
  \<open>ServeDir\<close> gave to a \<open>GET\<close> for a page; it sends the tag of that answer with the next request for the same
  page; then it holds the content that is there now, and the content is only sent when the version differs,
  provided files of equal length and modification time at the two moments are the same.
\<close>

theorem cache_stays_current:
  fixes V :: "('u, 'd::linorder, 'r) fs_env" and fb :: "'b \<Rightarrow> string" and H :: "('h, string, 'x) http_api"
    and B :: "('file, 'meta) backend" and req :: "('h, 'u, 'x, 'q) request"
  assumes before: "tree_site H D B read (sd_base s) root" and now: "tree_site H D B' read (sd_base s) root'"
    and s: "sd_variant s = Directory index html" "sd_precompressed_variants s = None" "sd_fallback s = None"
    and req: "req_method req = ''GET''" "unconditional H (req_headers req)"
    and req': "req_method req' = ''GET''" "revalidates H (ca_tag page) (req_headers req')" "req_uri req' = req_uri req"
    and law: "origin_form_law U V (sd_redirect_path_prefix s) (req_uri req)"
    and names: "names = Option.bind (from_utf8 (pdecode (dropWhile (\<lambda>c. c = CHR ''/'') (uri_path U (req_uri req))))) wanted_names"
    and old: "site_answer root index html (uri_path U (req_uri req)) names = Page ns c"
      "page_version B (sd_base s @ map Normal ns) = Some v"
    and new: "site_answer root' index html (uri_path U (req_uri req)) names = Page ns' c'"
      "page_version B' (sd_base s @ map Normal ns') = Some v'"
    and versions: "v = v' \<Longrightarrow> c = c'"
    and run: "serve_run H D call_fb poll_fb (delay + Suc n)
      (snd (serve_dir_try_call H U V B pdecode clone delay call_fb s req)) = Some (Inr res)"
    and stored: "store H read fb res = Some page"
  shows "ca_content page = c \<and>
    (\<exists>res'. serve_run H D call_fb poll_fb (delay + Suc n)
        (snd (serve_dir_try_call H U V B' pdecode clone delay call_fb s req')) = Some (Inr res') \<and>
      res_status res' = (if v = v' then 304 else 200) \<and>
      body_bytes read fb (res_body res') = (if v = v' then [] else c') \<and>
      refresh H read fb page res' = Some \<lparr>ca_tag = tag_of v', ca_content = c'\<rparr>)"
proof -
  have range: "hm_get H (req_headers req) ''range'' = None" "hm_get H (req_headers req') ''range'' = None"
    using req(2) req'(2) by (simp_all add: unconditional_def revalidates_def)
  obtain q :: "('h, 'u, 'x, unit) open_file_request" where q: "list_all plain_name ns" "find_node root ns = Inr (Doc c)" "whole_file H q"
    and res: "infallible_response H (open_result H D (open_full H V B q (preconditions_of H (fs_date V) (req_headers req))
      (sd_base s @ map Normal ns) (guess_mime V (sd_base s @ map Normal ns)))) = Inr res"
    using tree_site.run_page [where req = req and s = s and pdecode = pdecode and U = U, OF before refl s req(1) range(1) law old(1) [unfolded names], of call_fb poll_fb delay n clone]
      run by auto
  from tree_site.page_stored [OF before q old(2) unconditional_check [OF req(2)], of V "fs_date V"
      "guess_mime V (sd_base s @ map Normal ns)" fb] res stored
  have page: "page = \<lparr>ca_tag = tag_of v, ca_content = c\<rparr>" by auto
  obtain q' :: "('h, 'u, 'x, unit) open_file_request" where q': "list_all plain_name ns'" "find_node root' ns' = Inr (Doc c')" "whole_file H q'"
    and run': "serve_run H D call_fb poll_fb (delay + Suc n)
      (snd (serve_dir_try_call H U V B' pdecode clone delay call_fb s req')) =
      Some (infallible_response H (open_result H D (open_full H V B' q' (preconditions_of H (fs_date V) (req_headers req'))
        (sd_base s @ map Normal ns') (guess_mime V (sd_base s @ map Normal ns')))))"
    using tree_site.run_page [where req = req' and s = s and pdecode = pdecode and U = U, OF now refl s req'(1) range(2), of V ns' c' call_fb poll_fb delay n clone]
      law new(1) unfolding req'(3) names by blast
  note check = revalidation_check [OF req'(2) [unfolded page cached_page.select_convs], of "fs_date V" v']
  show ?thesis
  proof (cases "v = v'")
    case True
    from tree_site.page_not_modified [OF now q' new(2), of "preconditions_of H (fs_date V) (req_headers req')" V
        "guess_mime V (sd_base s @ map Normal ns')" fb] check True obtain res' where
      "infallible_response H (open_result H D (open_full H V B' q' (preconditions_of H (fs_date V) (req_headers req'))
        (sd_base s @ map Normal ns') (guess_mime V (sd_base s @ map Normal ns')))) = Inr res'"
      "res_status res' = 304" "body_bytes read fb (res_body res') = []" by auto
    with run' True versions show ?thesis by (auto simp: page refresh_def)
  next
    case False
    from tree_site.page_stored [OF now q' new(2), of "preconditions_of H (fs_date V) (req_headers req')" V
        "guess_mime V (sd_base s @ map Normal ns')" fb] check False obtain res' where
      "infallible_response H (open_result H D (open_full H V B' q' (preconditions_of H (fs_date V) (req_headers req'))
        (sd_base s @ map Normal ns') (guess_mime V (sd_base s @ map Normal ns')))) = Inr res'"
      "res_status res' = 200" "body_bytes read fb (res_body res') = c'"
      "store H read fb res' = Some \<lparr>ca_tag = tag_of v', ca_content = c'\<rparr>" by auto
    with run' False show ?thesis by (auto simp: page refresh_def)
  qed
qed

section \<open>An example\<close>

definition ex_later :: node where
  "ex_later = Folder [(''docs'', Folder [(''a.txt'', Doc ''second'')])]"

lemma ex_later_site:
  "tree_site (list_http ()) no_dates (tree_files [CurDir, Normal ''pub''] ex_later) doc_bytes [CurDir, Normal ''pub''] ex_later"
  by (rule tree_files_site [OF header_text_list_http]) (simp add: ex_later_def html_name_def)

definition ex_names :: "string list option" where
  "ex_names = Option.bind (from_utf8 (id (dropWhile (\<lambda>c. c = CHR ''/'') ''/docs/a.txt''))) wanted_names"

lemma ex_pages:
  "site_answer ex_tree True False ''/docs/a.txt'' ex_names = Page [''docs'', ''a.txt''] ''first''"
  "site_answer ex_later True False ''/docs/a.txt'' ex_names = Page [''docs'', ''a.txt''] ''second''"
  by code_simp+

lemma page_version_tree:
  "find_node root ns = Inr (Doc c) \<Longrightarrow>
     page_version (tree_files base root) (base @ map Normal ns) = Some (length c, 1000000007)"
  by (simp add: page_version_def tree_files_def tree_lookup_def)

theorem cache_stays_current_witness:
  "\<exists>page res'. ca_content page = ''first'' \<and>
    serve_run (list_http ()) no_dates no_fallback ready_after (2 + Suc 0)
      (snd (serve_dir_try_call (list_http ()) simple_uri_api plain_env (tree_files [CurDir, Normal ''pub''] ex_later)
        id id 2 no_fallback (serve_dir_new ''pub'') (plain_request ''GET'' ''/docs/a.txt'' [(''if-none-match'', ca_tag page)]))) =
      Some (Inr res') \<and>
    refresh (list_http ()) doc_bytes (\<lambda>u. []) page res' = Some \<lparr>ca_tag = tag_of (6, 1000000007), ca_content = ''second''\<rparr>"
proof -
  let ?s = "serve_dir_new ''pub'' :: unit serve_dir" and ?q = "plain_request ''GET'' ''/docs/a.txt'' []"
  let ?q' = "plain_request ''GET'' ''/docs/a.txt'' [(''if-none-match'', tag_of (5, 1000000007))]"
  let ?B = "tree_files [CurDir, Normal ''pub''] ex_tree" and ?p = "[''docs'', ''a.txt'']"
  have base: "sd_base ?s = [CurDir, Normal ''pub'']"
    by (simp add: serve_dir_new_def path_from_def components_def piece_component_def path_push_def List.map_filter_def)
  have s: "sd_variant ?s = Directory True False" "sd_precompressed_variants ?s = None" "sd_fallback ?s = None"
    by (simp_all add: serve_dir_new_def)
  have q: "req_method ?q = ''GET''" "unconditional (list_http ()) (req_headers ?q)"
    "hm_get (list_http ()) (req_headers ?q) ''range'' = None"
    "req_method ?q' = ''GET''" "req_uri ?q' = req_uri ?q" "uri_path simple_uri_api (req_uri ?q) = ''/docs/a.txt''"
    by (simp_all add: plain_request_def unconditional_def list_http_simps simple_uri_api_def)
  have q': "revalidates (list_http ()) (tag_of (5, 1000000007)) (req_headers ?q')"
    by (simp add: plain_request_def revalidates_def list_http_simps)
  have law: "origin_form_law simple_uri_api plain_env (sd_redirect_path_prefix ?s) (req_uri ?q)"
    by (simp add: origin_form_law_def moved_to_def plain_env_def simple_uri_api_def plain_request_def serve_dir_new_def
        permitted_byte_def byte_def)
  have found: "find_node ex_tree ?p = Inr (Doc ''first'')" "find_node ex_later ?p = Inr (Doc ''second'')"
    by (simp_all add: ex_tree_def ex_later_def)
  have sizes: "length ''first'' = 5" "length ''second'' = 6" by simp_all
  have v: "page_version ?B ([CurDir, Normal ''pub''] @ map Normal ?p) = Some (5, 1000000007)"
    "page_version (tree_files [CurDir, Normal ''pub''] ex_later) ([CurDir, Normal ''pub''] @ map Normal ?p) = Some (6, 1000000007)"
    by (rule page_version_tree [OF found(1), unfolded sizes], rule page_version_tree [OF found(2), unfolded sizes])
  have names: "ex_names = Option.bind (from_utf8 (id (dropWhile (\<lambda>c. c = CHR ''/'') (uri_path simple_uri_api (req_uri ?q))))) wanted_names"
    by (simp add: q(6) ex_names_def)
  have first: "site_answer ex_tree True False (uri_path simple_uri_api (req_uri ?q))
      (Option.bind (from_utf8 (id (dropWhile (\<lambda>c. c = CHR ''/'') (uri_path simple_uri_api (req_uri ?q))))) wanted_names) =
    Page ?p ''first''"
    using ex_pages(1) by (simp only: names q(6))
  obtain r :: "(_, _, _, unit) open_file_request" where r: "list_all plain_name ?p" "find_node ex_tree ?p = Inr (Doc ''first'')" "whole_file (list_http ()) r"
    and run: "serve_run (list_http ()) no_dates no_fallback ready_after (2 + Suc 0)
      (snd (serve_dir_try_call (list_http ()) simple_uri_api plain_env ?B id id 2 no_fallback ?s ?q)) =
      Some (infallible_response (list_http ()) (open_result (list_http ()) no_dates (open_full (list_http ()) plain_env ?B r
        (preconditions_of (list_http ()) (fs_date plain_env) (req_headers ?q)) ([CurDir, Normal ''pub''] @ map Normal ?p)
        (guess_mime plain_env ([CurDir, Normal ''pub''] @ map Normal ?p)))))"
    using docs.run_page [where req = ?q and s = ?s and pdecode = id and U = simple_uri_api, OF base s q(1,3) law,
        of ?p "''first''" no_fallback ready_after 2 0 id] first by blast
  obtain res where res: "serve_run (list_http ()) no_dates no_fallback ready_after (2 + Suc 0)
      (snd (serve_dir_try_call (list_http ()) simple_uri_api plain_env ?B id id 2 no_fallback ?s ?q)) = Some (Inr res)"
    and stored: "store (list_http ()) doc_bytes (\<lambda>u. []) res = Some \<lparr>ca_tag = tag_of (5, 1000000007), ca_content = ''first''\<rparr>"
    using docs.page_stored [OF r v(1) unconditional_check [OF q(2)], of plain_env "fs_date plain_env"
        "guess_mime plain_env ([CurDir, Normal ''pub''] @ map Normal ?p)" "\<lambda>u. []"] run by metis
  have differ: "(5::nat, 1000000007::nat) = (6, 1000000007) \<Longrightarrow> ''first'' = ''second''" by simp
  have pages: "site_answer ex_tree True False (uri_path simple_uri_api (req_uri ?q)) ex_names = Page ?p ''first''"
    "site_answer ex_later True False (uri_path simple_uri_api (req_uri ?q)) ex_names = Page ?p ''second''"
    using ex_pages by (simp_all only: q(6))
  note current = cache_stays_current [where req' = ?q' and page = "\<lparr>ca_tag = tag_of (5, 1000000007), ca_content = ''first''\<rparr>"
        and names = ex_names and pdecode = id and ns = ?p and ns' = ?p and v = "(5, 1000000007)" and v' = "(6, 1000000007)"
        and c = "''first''" and c' = "''second''" and delay = 2 and n = 0 and V = plain_env and U = simple_uri_api
        and call_fb = no_fallback and poll_fb = ready_after and clone = id and fb = "\<lambda>u. []",
      OF docs.tree_site_axioms [folded base] ex_later_site [folded base] s q(1,2,4) _ q(5) law names
        pages(1) v(1) [folded base] pages(2) v(2) [folded base] _ res [folded base] stored]
  have "revalidates (list_http ()) (ca_tag \<lparr>ca_tag = tag_of (5, 1000000007), ca_content = ''first''\<rparr>) (req_headers ?q')"
    using q' by (simp only: cached_page.select_convs)
  from current [OF this] have
    "\<exists>res'. serve_run (list_http ()) no_dates no_fallback ready_after (2 + Suc 0)
      (snd (serve_dir_try_call (list_http ()) simple_uri_api plain_env (tree_files [CurDir, Normal ''pub''] ex_later)
        id id 2 no_fallback ?s ?q')) = Some (Inr res') \<and>
    refresh (list_http ()) doc_bytes (\<lambda>u. []) \<lparr>ca_tag = tag_of (5, 1000000007), ca_content = ''first''\<rparr> res' =
      Some \<lparr>ca_tag = tag_of (6, 1000000007), ca_content = ''second''\<rparr>"
    unfolding base by auto
  then show ?thesis
    by (intro exI [of _ "\<lparr>ca_tag = tag_of (5, 1000000007), ca_content = ''first''\<rparr>"]) (simp only: cached_page.select_convs, blast)
qed

end
