(* ===== verification/Dos_Name.thy ===== *)
theory Dos_Name
  imports Prelude
begin

text \<open>
  \<open>is_reserved_dos_name\<close> of \<open>services/fs/serve_dir/mod.rs\<close>, which the Windows build of
  \<open>build_and_validate_path\<close> applies to each component of a path.  The iterator over the UTF-16 code
  units of the name is their list.
\<close>

section \<open>The routine\<close>

definition unit_of :: "char \<Rightarrow> 16 word" where
  "unit_of c = word_of_nat (byte c)"

definition units :: "string \<Rightarrow> 16 word list" where
  "units s = map unit_of s"

definition is_whitespace_u16 :: "16 word \<Rightarrow> bool" where
  "is_whitespace_u16 c = (c \<le> 0x7F \<and> (c \<in> {0x20, 0x09, 0x0A, 0x0C, 0x0D} \<or> c = 0x0B))"

definition trimmed_len :: "16 word list \<Rightarrow> nat" where
  "trimmed_len name =
     (let kept = filter (\<lambda>(idx, c). \<not> is_whitespace_u16 c)
            (enumerate 0 (takeWhile (\<lambda>c. c \<noteq> unit_of CHR ''.'' \<and> c \<noteq> unit_of CHR '':'') name))
      in if kept = [] then 0 else fst (last kept) + 1)"

definition upper_u8 :: "16 word \<Rightarrow> 16 word" where
  "upper_u8 c = (if 97 \<le> c \<and> c \<le> 122 then c - 32 else c)"

definition canonical_unit :: "16 word \<Rightarrow> 16 word" where
  "canonical_unit b0 =
     (let b1 = (if b0 \<le> 0x7F then upper_u8 b0 else b0);
          b2 = (if b1 = 0x00B9 then unit_of CHR ''1'' else b1);
          b3 = (if b2 = 0x00B2 then unit_of CHR ''2'' else b2)
      in if b3 = 0x00B3 then unit_of CHR ''3'' else b3)"

definition fill_buf :: "16 word list \<Rightarrow> 16 word list" where
  "fill_buf cs = fold (\<lambda>(i, c) buf. buf[i := c]) (enumerate 0 cs) (replicate 7 0)"

definition is_reserved_dos_name :: "16 word list \<Rightarrow> bool" where
  "is_reserved_dos_name s =
     (let n = trimmed_len s
      in if n > 7 then False
         else
           (let name = take n (map canonical_unit (fill_buf (take n s)))
            in if name \<in> set (map units [''CON'', ''PRN'', ''AUX'', ''NUL'', ''CONIN$'', ''CONOUT$'']) then True
               else if length name = 4
               then take 3 name \<in> {units ''COM'', units ''LPT''} \<and>
                 unit_of CHR ''0'' \<le> name ! 3 \<and> name ! 3 \<le> unit_of CHR ''9''
               else False))"

section \<open>What it decides\<close>

text \<open>The base name: up to the first dot or colon, without the white space at its end.\<close>

definition base_name :: "16 word list \<Rightarrow> 16 word list" where
  "base_name s = rev (dropWhile is_whitespace_u16
     (rev (takeWhile (\<lambda>c. c \<noteq> unit_of CHR ''.'' \<and> c \<noteq> unit_of CHR '':'') s)))"

definition device_name :: "16 word list \<Rightarrow> bool" where
  "device_name w \<longleftrightarrow>
     w \<in> set (map units [''CON'', ''PRN'', ''AUX'', ''NUL'', ''CONIN$'', ''CONOUT$'']) \<or>
     (\<exists>p \<in> set [''COM'', ''LPT'']. \<exists>d. unit_of CHR ''0'' \<le> d \<and> d \<le> unit_of CHR ''9'' \<and> w = units p @ [d])"

lemma last_kept:
  "(let kept = filter (\<lambda>(idx, c). \<not> P c) (enumerate k xs) in if kept = [] then k else fst (last kept) + 1) =
     k + length (rev (dropWhile P (rev xs)))"
proof (induction xs rule: rev_induct)
  case (snoc x xs)
  have e: "enumerate k (xs @ [x]) = enumerate k xs @ [(k + length xs, x)]" by (simp add: enumerate_append_eq)
  show ?case
  proof (cases "P x")
    case True
    with snoc show ?thesis unfolding e by simp
  next
    case False
    then show ?thesis unfolding e by (simp add: Let_def)
  qed
qed simp

lemma trimmed_len_base: "trimmed_len s = length (base_name s)"
  by (simp only: trimmed_len_def base_name_def last_kept add_0)

lemma rev_dropWhile_prefix:
  obtains r where "xs = rev (dropWhile P (rev xs)) @ r"
proof -
  have "xs = rev (takeWhile P (rev xs) @ dropWhile P (rev xs))" by simp
  then have "xs = rev (dropWhile P (rev xs)) @ rev (takeWhile P (rev xs))" by (simp only: rev_append)
  then show ?thesis by (rule that)
qed

lemma take_of_takeWhile: "takeWhile P s = b @ r \<Longrightarrow> take (length b) s = b"
proof -
  assume "takeWhile P s = b @ r"
  with takeWhile_dropWhile_id [of P s] have "(b @ r) @ dropWhile P s = s" by simp
  then have "take (length b) ((b @ r) @ dropWhile P s) = take (length b) s" by (rule arg_cong)
  then show ?thesis by simp
qed

lemma base_name_prefix: "take (length (base_name s)) s = base_name s"
  unfolding base_name_def by (rule rev_dropWhile_prefix) (erule take_of_takeWhile)

lemma fill_from:
  "k + length cs \<le> length buf \<Longrightarrow>
     fold (\<lambda>(i, c) buf. buf[i := c]) (enumerate k cs) buf = take k buf @ cs @ drop (k + length cs) buf"
proof (induction cs arbitrary: k buf)
  case (Cons c cs)
  then show ?case
    by (simp add: Cons.IH take_Suc_conv_app_nth)
qed simp

lemma take_fill_buf: "length cs \<le> 7 \<Longrightarrow> take (length cs) (map canonical_unit (fill_buf cs)) = map canonical_unit cs"
  using fill_from [of 0 cs "replicate 7 0"] by (simp add: fill_buf_def)

lemma device_name_iff:
  "device_name w \<longleftrightarrow> w \<in> set (map units [''CON'', ''PRN'', ''AUX'', ''NUL'', ''CONIN$'', ''CONOUT$'']) \<or>
     (length w = 4 \<and> take 3 w \<in> {units ''COM'', units ''LPT''} \<and>
       unit_of CHR ''0'' \<le> w ! 3 \<and> w ! 3 \<le> unit_of CHR ''9'')"
proof -
  have "(\<exists>d. unit_of CHR ''0'' \<le> d \<and> d \<le> unit_of CHR ''9'' \<and> w = units p @ [d]) \<longleftrightarrow>
      length w = 4 \<and> take 3 w = units p \<and> unit_of CHR ''0'' \<le> w ! 3 \<and> w ! 3 \<le> unit_of CHR ''9''"
    if "length p = 3" for p
  proof -
    have "w = take 3 w @ [w ! 3]" if "length w = 4"
      using that take_Suc_conv_app_nth [of 3 w] by simp
    with \<open>length p = 3\<close> show ?thesis by (auto simp: units_def nth_append)
  qed
  then show ?thesis by (auto simp: device_name_def)
qed

theorem is_reserved_dos_name_iff:
  "is_reserved_dos_name s \<longleftrightarrow> device_name (map canonical_unit (base_name s))"
proof (cases "length (base_name s) \<le> 7")
  case True
  then show ?thesis
    by (simp add: is_reserved_dos_name_def trimmed_len_base base_name_prefix take_fill_buf device_name_iff Let_def)
next
  case False
  then have "\<not> device_name (map canonical_unit (base_name s))"
    by (auto simp: device_name_def units_def dest!: arg_cong [where f = length])
  with False show ?thesis by (simp add: is_reserved_dos_name_def trimmed_len_base)
qed

end
