(* ===== verification/Normalize_Path.thy ===== *)
theory Normalize_Path
  imports Http Service
begin

text \<open>
  \<open>normalize_path.rs\<close>: the middleware that trims or appends the trailing slash of the path of a
  request.  Taking a \<open>Uri\<close> apart, putting it together and parsing a \<open>PathAndQuery\<close> belong to the
  \<open>http\<close> crate and are the parameter \<open>Q\<close>.
\<close>

section \<open>The interface of the parts of a URI\<close>

record ('u, 'p) uri_parts_api =
  uri_into_parts :: "'u \<Rightarrow> string option \<times> string option \<times> 'p option"
  uri_from_parts :: "string option \<times> string option \<times> 'p option \<Rightarrow> 'u option"
  pq_parse :: "string \<Rightarrow> 'p option"
  pq_path :: "'p \<Rightarrow> string"
  pq_query :: "'p \<Rightarrow> string option"

text \<open>
  What the middleware relies on.  The path and query of a URI are those of its parts; a path that only
  reorders the characters of a path, with slashes, and starts with one is accepted with the old query;
  and a \<open>PathAndQuery\<close> may be replaced by another one.
\<close>

definition query_suffix :: "string option \<Rightarrow> string" where
  "query_suffix q = (case q of None \<Rightarrow> [] | Some s \<Rightarrow> CHR ''?'' # s)"

definition uri_parts_law :: "'u uri_api \<Rightarrow> ('u, 'p) uri_parts_api \<Rightarrow> bool" where
  "uri_parts_law U Q \<longleftrightarrow>
     (\<forall>u s a p. uri_into_parts Q u = (s, a, p) \<longrightarrow> uri_scheme U u = s \<and> uri_authority U u = a \<and>
        uri_path U u = (case p of None \<Rightarrow> [] | Some w \<Rightarrow> pq_path Q w) \<and>
        uri_query U u = Option.bind p (pq_query Q)) \<and>
     (\<forall>p w. set w \<subseteq> set (pq_path Q p) \<union> {CHR ''/''} \<longrightarrow> starts_with w ''/'' \<longrightarrow>
        (\<exists>p'. pq_parse Q (w @ query_suffix (pq_query Q p)) = Some p' \<and> pq_path Q p' = w \<and>
           pq_query Q p' = pq_query Q p)) \<and>
     (\<forall>u s a p p'. uri_into_parts Q u = (s, a, Some p) \<longrightarrow>
        (\<exists>u'. uri_from_parts Q (s, a, Some p') = Some u' \<and> uri_into_parts Q u' = (s, a, Some p')))"

section \<open>The middleware\<close>

datatype normalize_mode = Trim | Append

datatype normalize_path_layer = NormalizePathLayer (normalize_layer_mode: normalize_mode)

definition trim_trailing_slash_layer :: normalize_path_layer where
  "trim_trailing_slash_layer = NormalizePathLayer Trim"

definition append_trailing_slash_layer :: normalize_path_layer where
  "append_trailing_slash_layer = NormalizePathLayer Append"

record 's normalize_path =
  np_mode :: normalize_mode
  np_inner :: 's

definition normalize_path_layer_layer :: "normalize_path_layer \<Rightarrow> 's \<Rightarrow> 's normalize_path" where
  "normalize_path_layer_layer l inner = \<lparr>np_mode = normalize_layer_mode l, np_inner = inner\<rparr>"

definition normalize_path_trim :: "'s \<Rightarrow> 's normalize_path" where
  "normalize_path_trim inner = \<lparr>np_mode = Trim, np_inner = inner\<rparr>"

definition normalize_path_append :: "'s \<Rightarrow> 's normalize_path" where
  "normalize_path_append inner = \<lparr>np_mode = Append, np_inner = inner\<rparr>"

definition ends_with :: "string \<Rightarrow> string \<Rightarrow> bool" where
  "ends_with s t = starts_with (rev s) (rev t)"

definition trim_matches :: "char \<Rightarrow> string \<Rightarrow> string" where
  "trim_matches c s = rev (dropWhile (\<lambda>x. x = c) (rev (dropWhile (\<lambda>x. x = c) s)))"

text \<open>\<open>Inl\<close> is the panic of a path that does not parse; a URI that cannot be put together again stays.\<close>

definition trim_trailing_slash :: "'u uri_api \<Rightarrow> ('u, 'p) uri_parts_api \<Rightarrow> 'u \<Rightarrow> 'u panics" where
  "trim_trailing_slash U Q uri =
     (if \<not> ends_with (uri_path U uri) ''/'' \<and> \<not> starts_with (uri_path U uri) ''//'' then Inr uri
      else
        (let new_path = CHR ''/'' # trim_matches CHR ''/'' (uri_path U uri)
         in (case uri_into_parts Q uri of
               (s, a, None) \<Rightarrow> (case uri_from_parts Q (s, a, None) of Some u \<Rightarrow> Inr u | None \<Rightarrow> Inr uri)
             | (s, a, Some p) \<Rightarrow>
                 (case pq_parse Q (case pq_query Q p of
                      Some query \<Rightarrow> new_path @ CHR ''?'' # query | None \<Rightarrow> new_path) of
                    None \<Rightarrow> Inl ''InvalidUri''
                  | Some p' \<Rightarrow>
                      (case uri_from_parts Q (s, a, Some p') of Some u \<Rightarrow> Inr u | None \<Rightarrow> Inr uri)))))"

definition append_trailing_slash :: "'u uri_api \<Rightarrow> ('u, 'p) uri_parts_api \<Rightarrow> 'u \<Rightarrow> 'u panics" where
  "append_trailing_slash U Q uri =
     (if ends_with (uri_path U uri) ''/'' \<and> \<not> ends_with (uri_path U uri) ''//'' then Inr uri
      else
        (let trimmed = trim_matches CHR ''/'' (uri_path U uri);
             new_path = (if trimmed = [] then ''/'' else CHR ''/'' # trimmed @ ''/'')
         in (case uri_into_parts Q uri of
               (s, a, p) \<Rightarrow>
                 (case pq_parse Q (case Option.bind p (pq_query Q) of
                      Some query \<Rightarrow> new_path @ CHR ''?'' # query | None \<Rightarrow> new_path) of
                    None \<Rightarrow> Inl ''InvalidUri''
                  | Some p' \<Rightarrow>
                      (case uri_from_parts Q (s, a, Some p') of Some u \<Rightarrow> Inr u | None \<Rightarrow> Inr uri)))))"

fun normalize_uri :: "'u uri_api \<Rightarrow> ('u, 'p) uri_parts_api \<Rightarrow> normalize_mode \<Rightarrow> 'u \<Rightarrow> 'u panics" where
  "normalize_uri U Q Trim uri = trim_trailing_slash U Q uri"
| "normalize_uri U Q Append uri = append_trailing_slash U Q uri"

definition normalize_path_call ::
  "'u uri_api \<Rightarrow> ('u, 'p) uri_parts_api \<Rightarrow> ('s, ('h, 'u, 'x, 'b) request, 'f) service_fn \<Rightarrow>
     's normalize_path \<Rightarrow> ('h, 'u, 'x, 'b) request \<Rightarrow> ('s normalize_path \<times> 'f) panics" where
  "normalize_path_call U Q call_inner m req =
     map_result (\<lambda>uri. case call_inner (np_inner m) (req\<lparr>req_uri := uri\<rparr>) of
         (s, f) \<Rightarrow> (m\<lparr>np_inner := s\<rparr>, f))
       (normalize_uri U Q (np_mode m) (req_uri req))"

section \<open>Trimming\<close>

lemma ends_with_iff: "ends_with s t \<longleftrightarrow> (\<exists>r. s = r @ t)"
  by (auto simp: ends_with_def starts_with_iff) (metis rev_append rev_rev_ident)

lemma dropWhile_not_hd: "dropWhile P xs = y # ys \<Longrightarrow> \<not> P y"
  by (induction xs) (auto split: if_splits)

lemma trim_matches_ends:
  "\<not> starts_with (trim_matches c s) [c]" "\<not> ends_with (trim_matches c s) [c]"
proof -
  let ?d = "dropWhile (\<lambda>x. x = c) s"
  show "\<not> ends_with (trim_matches c s) [c]"
    by (auto simp: ends_with_def trim_matches_def starts_with_iff dest: dropWhile_not_hd)
  have "\<exists>r. ?d = trim_matches c s @ r"
    unfolding trim_matches_def by (metis rev_append rev_rev_ident takeWhile_dropWhile_id)
  then show "\<not> starts_with (trim_matches c s) [c]"
    by (auto simp: starts_with_iff dest: dropWhile_not_hd)
qed

lemma set_trim_matches: "set (trim_matches c s) \<subseteq> set s"
  by (auto simp: trim_matches_def dest!: set_dropWhileD)

text \<open>The path the inner service sees.\<close>

fun normal_path :: "normalize_mode \<Rightarrow> string \<Rightarrow> string" where
  "normal_path Trim p =
     (if ends_with p ''/'' \<or> starts_with p ''//'' then CHR ''/'' # trim_matches CHR ''/'' p else p)"
| "normal_path Append p =
     (if ends_with p ''/'' \<and> \<not> ends_with p ''//'' then p
      else if trim_matches CHR ''/'' p = [] then ''/'' else CHR ''/'' # trim_matches CHR ''/'' p @ ''/'')"

lemma normal_path_trim:
  "\<not> starts_with (normal_path Trim p) ''//''"
  "ends_with (normal_path Trim p) ''/'' \<longleftrightarrow> normal_path Trim p = ''/''"
  using trim_matches_ends [of "CHR ''/''" p]
  by (auto simp: starts_with_iff ends_with_iff Cons_eq_append_conv append_eq_Cons_conv)

lemma normal_path_append:
  "ends_with (normal_path Append p) ''/''" "\<not> ends_with (normal_path Append p) ''//''"
  using trim_matches_ends [of "CHR ''/''" p]
  by (auto simp: starts_with_iff ends_with_iff Cons_eq_append_conv append_eq_Cons_conv append_eq_append_conv2)


lemma trim_matches_around: "list_all (\<lambda>x. x = c) a \<Longrightarrow> list_all (\<lambda>x. x = c) b \<Longrightarrow> trim_matches c (a @ s @ b) = trim_matches c s"
proof -
  assume a: "list_all (\<lambda>x. x = c) a" and b: "list_all (\<lambda>x. x = c) b"
  have front: "dropWhile (\<lambda>x. x = c) (v @ t) = dropWhile (\<lambda>x. x = c) t" if "list_all (\<lambda>x. x = c) v" for v t
    using that by (induction v) auto
  show ?thesis
  proof (cases "list_all (\<lambda>x. x = c) s")
    case True
    with b have e: "dropWhile (\<lambda>x. x = c) (s @ b) = []" "dropWhile (\<lambda>x. x = c) s = []"
      by (auto simp: dropWhile_eq_Nil_conv list_all_iff)
    show ?thesis unfolding trim_matches_def front [OF a] e by (rule refl)
  next
    case False
    then have "dropWhile (\<lambda>x. x = c) (s @ b) = dropWhile (\<lambda>x. x = c) s @ b"
      by (auto simp: list_all_iff intro: dropWhile_append1)
    moreover have "list_all (\<lambda>x. x = c) (rev b)" using b by (simp add: list_all_iff)
    ultimately show ?thesis by (simp add: trim_matches_def front [OF a] front)
  qed
qed

lemma trim_matches_id: "\<not> starts_with s [c] \<Longrightarrow> \<not> ends_with s [c] \<Longrightarrow> trim_matches c s = s"
proof -
  have "dropWhile (\<lambda>x. x = c) t = t" if "\<not> starts_with t [c]" for t
    using that by (cases t) (auto simp: starts_with_iff)
  then show "\<not> starts_with s [c] \<Longrightarrow> \<not> ends_with s [c] \<Longrightarrow> trim_matches c s = s"
    by (simp add: trim_matches_def ends_with_def)
qed

lemma trim_matches_idem: "trim_matches c (trim_matches c s) = trim_matches c s"
  by (rule trim_matches_id) (rule trim_matches_ends)+

lemma trim_normal_path: "trim_matches CHR ''/'' (normal_path m p) = trim_matches CHR ''/'' p"
proof -
  let ?t = "trim_matches CHR ''/'' p"
  have "trim_matches CHR ''/'' (''/'' @ ?t @ b) = ?t" if "list_all (\<lambda>x. x = CHR ''/'') b" for b
    using trim_matches_around [OF _ that, of "''/''" ?t] by (simp add: trim_matches_idem)
  from this [of "[]"] this [of "''/''"] show ?thesis by (cases m) auto
qed

lemma normal_path_idem: "normal_path m (normal_path m p) = normal_path m p"
proof (cases m)
  case Trim
  show ?thesis
  proof (cases "ends_with (normal_path Trim p) ''/''")
    case True
    with normal_path_trim have "normal_path Trim p = ''/''" by blast
    then show ?thesis unfolding Trim by (simp add: trim_matches_def ends_with_iff starts_with_iff)
  next
    case False
    with normal_path_trim(1) [of p] show ?thesis
      unfolding Trim by (subst normal_path.simps(1)) (simp only: if_False simp_thms)
  qed
next
  case Append
  with normal_path_append [of p] show ?thesis
    by (subst (1) Append, subst normal_path.simps(2)) (simp only: if_True simp_thms)
qed

lemma set_normal_path: "set (normal_path m p) \<subseteq> set p \<union> {CHR ''/''}"
  using set_trim_matches [of "CHR ''/''" p] by (cases m) auto

text \<open>Under the law, normalising replaces the path, and nothing else.\<close>

lemma normalize_uri_path:
  assumes law: "uri_parts_law U Q" and parts: "uri_into_parts Q u = (s, a, Some p)"
  shows "\<exists>u' p'. normalize_uri U Q m u = Inr u' \<and> uri_into_parts Q u' = (s, a, Some p') \<and>
    pq_path Q p' = normal_path m (pq_path Q p) \<and> pq_query Q p' = pq_query Q p"
proof -
  let ?w = "normal_path m (pq_path Q p)"
  have path: "uri_path U u = pq_path Q p" using law parts by (simp add: uri_parts_law_def)
  show ?thesis
  proof (cases "starts_with ?w ''/''")
    case True
    with law set_normal_path [of m "pq_path Q p"] obtain p' where
      p': "pq_parse Q (?w @ query_suffix (pq_query Q p)) = Some p'" "pq_path Q p' = ?w" "pq_query Q p' = pq_query Q p"
      unfolding uri_parts_law_def by blast
    from law parts obtain u' where u': "uri_from_parts Q (s, a, Some p') = Some u'"
      "uri_into_parts Q u' = (s, a, Some p')" unfolding uri_parts_law_def by blast
    show ?thesis
      using p' u' parts
      by (cases m; cases "pq_query Q p")
        (auto simp: trim_trailing_slash_def append_trailing_slash_def path query_suffix_def Let_def split: if_splits)
  next
    case False
    with parts show ?thesis
      by (cases m) (auto simp: trim_trailing_slash_def append_trailing_slash_def path starts_with_iff split: if_splits)
  qed
qed

text \<open>
  Claim C32.  The inner service is called once, with the same request but for its URI, of which only the
  path differs, and that only in the slashes at its ends.  In the trimming mode the path ends with no slash,
  unless it is the root, and never starts with two, so it is not read as another host; in the appending
  mode it ends with exactly one slash.  Normalising again changes nothing, and nothing panics.
\<close>

theorem normalize_path_sound:
  fixes req :: "('h, 'u, 'x, 'b) request"
  assumes law: "uri_parts_law U Q" and parts: "uri_into_parts Q (req_uri req) = (s, a, Some p)"
  shows "\<exists>u'. normalize_path_call U Q call_inner m req =
      (case call_inner (np_inner m) (req\<lparr>req_uri := u'\<rparr>) of (i, f) \<Rightarrow> Inr (m\<lparr>np_inner := i\<rparr>, f)) \<and>
    uri_scheme U u' = uri_scheme U (req_uri req) \<and> uri_authority U u' = uri_authority U (req_uri req) \<and>
    uri_query U u' = uri_query U (req_uri req) \<and>
    trim_matches CHR ''/'' (uri_path U u') = trim_matches CHR ''/'' (uri_path U (req_uri req)) \<and>
    (case np_mode m of
       Trim \<Rightarrow> \<not> starts_with (uri_path U u') ''//'' \<and>
         (ends_with (uri_path U u') ''/'' \<longleftrightarrow> uri_path U u' = ''/'')
     | Append \<Rightarrow> ends_with (uri_path U u') ''/'' \<and> \<not> ends_with (uri_path U u') ''//'') \<and>
    map_result (uri_path U) (normalize_uri U Q (np_mode m) u') = Inr (uri_path U u')"
proof -
  let ?u = "req_uri req" and ?m = "np_mode m"
  have of_parts: "uri_scheme U u = s" "uri_authority U u = a" "uri_path U u = pq_path Q w"
    "uri_query U u = pq_query Q w" if "uri_into_parts Q u = (s, a, Some w)" for u w
    using law that unfolding uri_parts_law_def by auto
  from normalize_uri_path [OF law parts, of ?m] obtain u' p' where
    u': "normalize_uri U Q ?m ?u = Inr u'" "uri_into_parts Q u' = (s, a, Some p')"
    and p': "pq_path Q p' = normal_path ?m (pq_path Q p)" "pq_query Q p' = pq_query Q p" by blast
  from normalize_uri_path [OF law u'(2), of ?m] obtain u'' p'' where
    again: "normalize_uri U Q ?m u' = Inr u''" "uri_into_parts Q u'' = (s, a, Some p'')"
    "pq_path Q p'' = normal_path ?m (pq_path Q p')" by blast
  have "case ?m of
       Trim \<Rightarrow> \<not> starts_with (uri_path U u') ''//'' \<and> (ends_with (uri_path U u') ''/'' \<longleftrightarrow> uri_path U u' = ''/'')
     | Append \<Rightarrow> ends_with (uri_path U u') ''/'' \<and> \<not> ends_with (uri_path U u') ''//''"
    unfolding of_parts(3) [OF u'(2)] p'(1) using normal_path_trim [of "pq_path Q p"] normal_path_append [of "pq_path Q p"]
    by (cases ?m) (simp_all del: normal_path.simps)
  then show ?thesis
    using u' p' again of_parts [OF parts] of_parts [OF u'(2)] of_parts [OF again(2)] normal_path_idem [of ?m "pq_path Q p"]
      trim_normal_path [of ?m "pq_path Q p"]
    by (intro exI [of _ u']) (simp add: normalize_path_call_def split: prod.split)
qed

text \<open>URIs whose path and query are kept as text.\<close>

definition text_uri_api :: "(string option \<times> string option \<times> string option) uri_api" where
  "text_uri_api = \<lparr>uri_parse = (\<lambda>s. Inl ''unused''), uri_scheme = fst, uri_authority = (\<lambda>u. fst (snd u)),
     uri_host = (\<lambda>u. None), uri_port = (\<lambda>u. None), uri_to_string = (\<lambda>u. []),
     uri_path = (\<lambda>u. case snd (snd u) of None \<Rightarrow> [] | Some w \<Rightarrow> fst (splitn2 CHR ''?'' w)),
     uri_query = (\<lambda>u. Option.bind (snd (snd u)) (\<lambda>w. snd (splitn2 CHR ''?'' w)))\<rparr>"

definition text_parts_api :: "(string option \<times> string option \<times> string option, string) uri_parts_api" where
  "text_parts_api = \<lparr>uri_into_parts = (\<lambda>u. u), uri_from_parts = Some,
     pq_parse = (\<lambda>s. if starts_with s ''/'' then Some s else None),
     pq_path = (\<lambda>w. fst (splitn2 CHR ''?'' w)), pq_query = (\<lambda>w. snd (splitn2 CHR ''?'' w))\<rparr>"

lemma splitn2_fst: "d \<notin> set (fst (splitn2 d s))"
  by (induction d s rule: splitn2.induct) (auto simp: Let_def split: prod.splits)

lemma splitn2_suffix: "CHR ''?'' \<notin> set w \<Longrightarrow> splitn2 CHR ''?'' (w @ query_suffix q) = (w, q)"
  by (induction w) (auto simp: query_suffix_def split: option.split)

lemma text_parts_law: "uri_parts_law text_uri_api text_parts_api"
proof -
  have "CHR ''?'' \<notin> set w" if "set w \<subseteq> set (fst (splitn2 CHR ''?'' p)) \<union> {CHR ''/''}" for w p
    using that splitn2_fst [of "CHR ''?''" p] by auto
  then show ?thesis
    by (auto simp: uri_parts_law_def text_uri_api_def text_parts_api_def splitn2_suffix starts_with_iff
        split: option.split)
qed

theorem normalize_path_sound_witness:
  "\<exists>u'. normalize_path_call text_uri_api text_parts_api (\<lambda>c q. (c + 1, req_uri q))
      (normalize_path_trim (0 :: nat))
      \<lparr>req_method = ''GET'', req_uri = (None, None, Some ''//evil.org//?q=1''), req_version = ''HTTP/1.1'',
       req_headers = (), req_extensions = (), req_body = ()\<rparr> =
        Inr (\<lparr>np_mode = Trim, np_inner = 1\<rparr>, u') \<and>
    \<not> starts_with (uri_path text_uri_api u') ''//'' \<and> uri_query text_uri_api u' = Some ''q=1''"
  using normalize_path_sound [OF text_parts_law, where req = "\<lparr>req_method = ''GET'',
      req_uri = (None, None, Some ''//evil.org//?q=1''), req_version = ''HTTP/1.1'',
      req_headers = (), req_extensions = (), req_body = ()\<rparr>" and m = "normalize_path_trim (0 :: nat)"
      and call_inner = "\<lambda>c q. (c + 1, req_uri q)" and s = None and a = None and p = "''//evil.org//?q=1''"]
  by (auto simp: normalize_path_trim_def text_uri_api_def text_parts_api_def)

text \<open>In the appending mode slashes at the start stay where the path already ends with one slash.\<close>

lemma append_keeps_leading_slashes:
  "uri_path U uri = ''//foo/'' \<Longrightarrow> append_trailing_slash U Q uri = Inr uri"
  by (simp add: append_trailing_slash_def ends_with_def starts_with_def)

end
