(* ===== verification/Redirect_Service.thy ===== *)
theory Redirect_Service
  imports Http Service
begin

text \<open>
  \<open>services/redirect.rs\<close>: a service that answers every request with a redirection to one location.  A
  failed \<open>assert!\<close> or \<open>expect\<close> of the constructors, and the \<open>unwrap\<close> of a future polled after it
  was ready, are \<open>Inl\<close> of their message.  \<open>ResBody::default()\<close> is the parameter \<open>default_body\<close>.
\<close>

record redirect =
  rd_status_code :: nat
  rd_location :: string

definition is_redirection :: "nat \<Rightarrow> bool" where
  "is_redirection status = (300 \<le> status \<and> status < 400)"

definition redirect_with_status_code ::
  "('h, string, 'x) http_api \<Rightarrow> 'u uri_api \<Rightarrow> nat \<Rightarrow> 'u \<Rightarrow> redirect panics" where
  "redirect_with_status_code H U status_code uri =
     (if \<not> is_redirection status_code then Inl ''not a redirection status code''
      else (case from_bytes H (uri_to_string U uri) of
              None \<Rightarrow> Inl ''URI isn't a valid header value''
            | Some location \<Rightarrow> Inr \<lparr>rd_status_code = status_code, rd_location = location\<rparr>))"

definition redirect_temporary :: "('h, string, 'x) http_api \<Rightarrow> 'u uri_api \<Rightarrow> 'u \<Rightarrow> redirect panics" where
  "redirect_temporary H U uri = redirect_with_status_code H U 307 uri"

definition redirect_permanent :: "('h, string, 'x) http_api \<Rightarrow> 'u uri_api \<Rightarrow> 'u \<Rightarrow> redirect panics" where
  "redirect_permanent H U uri = redirect_with_status_code H U 308 uri"

record redirect_reply =
  rr_location :: "string option"
  rr_status_code :: nat

definition redirect_poll_ready :: "(redirect, unit) poll_fn" where
  "redirect_poll_ready s = (Ready (), s)"

definition redirect_call :: "(redirect, 'q, redirect_reply) service_fn" where
  "redirect_call s req = (s, \<lparr>rr_location = Some (rd_location s), rr_status_code = rd_status_code s\<rparr>)"

definition redirect_reply_poll ::
  "('h, string, 'x) http_api \<Rightarrow> 'b \<Rightarrow> (redirect_reply, ('h, 'x, 'b) response panics) poll_fn" where
  "redirect_reply_poll H default_body f =
     (let res = (response_new H default_body)\<lparr>res_status := rr_status_code f\<rparr>;
          f' = f\<lparr>rr_location := None\<rparr>
      in (case rr_location f of
            None \<Rightarrow> (Ready (Inl ''called `Option::unwrap()` on a `None` value''), f')
          | Some l \<Rightarrow> (Ready (Inr (res\<lparr>res_headers := hm_insert H (res_headers res) ''location'' l\<rparr>)), f')))"

text \<open>
  A redirect that could be built answers every request in one poll, with its status in the 300s and
  the text of its URI as the only location.
\<close>

lemma redirect_answers:
  assumes H: "header_text H" and c: "redirect_with_status_code H U code uri = Inr s"
  shows "\<exists>res. run_future (redirect_reply_poll H b) 1 (snd (redirect_call s req)) = Some (Inr res) \<and>
    res_status res = code \<and> 300 \<le> code \<and> code < 400 \<and>
    hm_get_all H (res_headers res) ''location'' = [uri_to_string U uri]"
proof -
  from c have s: "300 \<le> code" "code < 400" "s = \<lparr>rd_status_code = code, rd_location = uri_to_string U uri\<rparr>"
    using header_text.from_bytes_keeps [OF H]
    by (auto simp: redirect_with_status_code_def is_redirection_def split: if_splits option.splits)
  then show ?thesis
    by (simp add: redirect_call_def redirect_reply_poll_def Let_def
        header_map.laws [OF header_text.axioms(1) [OF H]])
qed

end
