(* ===== verification/Service_Ext.thy ===== *)
theory Service_Ext
  imports Message_Layers Compression Decompression Trace Follow_Redirect Sensitive_Headers Set_Header
    Request_Id Catch_Panic Limit Normalize_Path
begin

text \<open>
  \<open>service_ext.rs\<close> and \<open>builder.rs\<close>: the methods that wrap any service in a middleware of the crate, and
  those that add the middleware to a \<open>tower::ServiceBuilder\<close>.  The builder belongs to \<open>tower\<close>: its
  method \<open>layer\<close> is the parameter \<open>layer\<close>, which takes the builder and the function that the
  \<open>Layer\<close> applies to a service.  The lemma at the end compares the two ways.
\<close>

section \<open>Methods of a service\<close>

definition svc_propagate_header where
  "svc_propagate_header s header = propagate_header_new s header"

definition svc_add_extension where
  "svc_add_extension s v = add_extension_new s v"

definition svc_map_request_body where
  "svc_map_request_body s f = map_request_body_new s f"

definition svc_map_response_body where
  "svc_map_response_body s f = map_response_body_new s f"

definition svc_compression where
  "svc_compression s H B = compression_new H B s"

definition svc_decompression where
  "svc_decompression s = decompression_new s"

definition svc_trace_for_http where
  "svc_trace_for_http s = trace_new_for_http s"

definition svc_trace_for_grpc where
  "svc_trace_for_grpc s = trace_new_for_grpc s"

definition svc_follow_redirects where
  "svc_follow_redirects s = follow_redirect_new s"

definition svc_sensitive_headers where
  "svc_sensitive_headers s headers = set_sensitive_headers_layer_apply (set_sensitive_headers_layer_new headers) s"

definition svc_sensitive_request_headers where
  "svc_sensitive_request_headers s headers = set_sensitive_request_headers_new s headers"

definition svc_sensitive_response_headers where
  "svc_sensitive_response_headers s headers = set_sensitive_response_headers_new s headers"

definition svc_override_request_header where
  "svc_override_request_header s header_name mk = set_request_header_overriding s header_name mk"

definition svc_override_response_header where
  "svc_override_response_header s header_name mk = set_response_header_overriding s header_name mk"

definition svc_append_request_header where
  "svc_append_request_header s header_name mk = set_request_header_appending s header_name mk"

definition svc_append_response_header where
  "svc_append_response_header s header_name mk = set_response_header_appending s header_name mk"

definition svc_insert_request_header_if_not_present where
  "svc_insert_request_header_if_not_present s header_name mk = set_request_header_if_not_present s header_name mk"

definition svc_insert_response_header_if_not_present where
  "svc_insert_response_header_if_not_present s header_name mk = set_response_header_if_not_present s header_name mk"

definition svc_set_request_id where
  "svc_set_request_id s header_name make_request_id = set_request_id_new s header_name make_request_id"

definition svc_set_x_request_id where
  "svc_set_x_request_id s make_request_id = svc_set_request_id s X_REQUEST_ID make_request_id"

definition svc_propagate_request_id where
  "svc_propagate_request_id s header_name = propagate_request_id_new s header_name"

definition svc_propagate_x_request_id where
  "svc_propagate_x_request_id s = svc_propagate_request_id s X_REQUEST_ID"

definition svc_catch_panic where
  "svc_catch_panic s = catch_panic_new s"

definition svc_request_body_limit where
  "svc_request_body_limit s limit = request_body_limit_new s limit"

definition svc_trim_trailing_slash where
  "svc_trim_trailing_slash s = normalize_path_trim s"

definition svc_append_trailing_slash where
  "svc_append_trailing_slash s = normalize_path_append s"

section \<open>Methods of a service builder\<close>

definition builder_propagate_header where
  "builder_propagate_header layer b header = layer b (propagate_header_layer_apply (propagate_header_layer_new header))"

definition builder_add_extension where
  "builder_add_extension layer b v = layer b (add_extension_layer_apply (add_extension_layer_new v))"

definition builder_map_request_body where
  "builder_map_request_body layer b f = layer b (map_request_body_layer_apply (map_request_body_layer_new f))"

definition builder_map_response_body where
  "builder_map_response_body layer b f = layer b (map_response_body_layer_apply (map_response_body_layer_new f))"

definition builder_compression where
  "builder_compression layer b H B = layer b (compression_layer_layer (compression_layer_new H B))"

definition builder_decompression where
  "builder_decompression layer b = layer b (decompression_layer_layer decompression_layer_new)"

definition builder_trace_for_http where
  "builder_trace_for_http layer b = layer b (trace_layer_apply trace_layer_new_for_http)"

definition builder_trace_for_grpc where
  "builder_trace_for_grpc layer b = layer b (trace_layer_apply trace_layer_new_for_grpc)"

definition builder_follow_redirects where
  "builder_follow_redirects layer b = layer b (follow_redirect_layer_apply follow_redirect_layer_new)"

definition builder_sensitive_headers where
  "builder_sensitive_headers layer b headers = layer b (set_sensitive_headers_layer_apply (set_sensitive_headers_layer_new headers))"

definition builder_sensitive_request_headers where
  "builder_sensitive_request_headers layer b headers = layer b (set_sensitive_request_headers_layer_apply (set_sensitive_request_headers_layer_from_shared headers))"

definition builder_sensitive_response_headers where
  "builder_sensitive_response_headers layer b headers = layer b (set_sensitive_response_headers_layer_apply (set_sensitive_response_headers_layer_from_shared headers))"

definition builder_override_request_header where
  "builder_override_request_header layer b header_name mk = layer b (set_request_header_layer_apply (set_request_header_layer_overriding header_name mk))"

definition builder_override_response_header where
  "builder_override_response_header layer b header_name mk = layer b (set_response_header_layer_apply (set_response_header_layer_overriding header_name mk))"

definition builder_append_request_header where
  "builder_append_request_header layer b header_name mk = layer b (set_request_header_layer_apply (set_request_header_layer_appending header_name mk))"

definition builder_append_response_header where
  "builder_append_response_header layer b header_name mk = layer b (set_response_header_layer_apply (set_response_header_layer_appending header_name mk))"

definition builder_insert_request_header_if_not_present where
  "builder_insert_request_header_if_not_present layer b header_name mk = layer b (set_request_header_layer_apply (set_request_header_layer_if_not_present header_name mk))"

definition builder_insert_response_header_if_not_present where
  "builder_insert_response_header_if_not_present layer b header_name mk = layer b (set_response_header_layer_apply (set_response_header_layer_if_not_present header_name mk))"

definition builder_set_request_id where
  "builder_set_request_id layer b header_name make_request_id = layer b (set_request_id_layer_apply (set_request_id_layer_new header_name make_request_id))"

definition builder_set_x_request_id where
  "builder_set_x_request_id layer b make_request_id = builder_set_request_id layer b X_REQUEST_ID make_request_id"

definition builder_propagate_request_id where
  "builder_propagate_request_id layer b header_name = layer b (propagate_request_id_layer_apply (propagate_request_id_layer_new header_name))"

definition builder_propagate_x_request_id where
  "builder_propagate_x_request_id layer b = builder_propagate_request_id layer b X_REQUEST_ID"

definition builder_catch_panic where
  "builder_catch_panic layer b = layer b (catch_panic_layer_apply catch_panic_layer_new)"

definition builder_request_body_limit where
  "builder_request_body_limit layer b limit = layer b (request_body_limit_layer_apply (request_body_limit_layer_new limit))"

definition builder_trim_trailing_slash where
  "builder_trim_trailing_slash layer b = layer b (normalize_path_layer_layer trim_trailing_slash_layer)"

definition builder_append_trailing_slash where
  "builder_append_trailing_slash layer b = layer b (normalize_path_layer_layer append_trailing_slash_layer)"

section \<open>Both ways agree\<close>

lemmas service_ext_defs =
  svc_propagate_header_def svc_add_extension_def svc_map_request_body_def
  svc_map_response_body_def svc_compression_def svc_decompression_def
  svc_trace_for_http_def svc_trace_for_grpc_def svc_follow_redirects_def
  svc_sensitive_headers_def svc_sensitive_request_headers_def svc_sensitive_response_headers_def
  svc_override_request_header_def svc_override_response_header_def svc_append_request_header_def
  svc_append_response_header_def svc_insert_request_header_if_not_present_def svc_insert_response_header_if_not_present_def
  svc_set_request_id_def svc_set_x_request_id_def svc_propagate_request_id_def
  svc_propagate_x_request_id_def svc_catch_panic_def svc_request_body_limit_def
  svc_trim_trailing_slash_def svc_append_trailing_slash_def

lemmas service_builder_defs =
  builder_propagate_header_def builder_add_extension_def builder_map_request_body_def
  builder_map_response_body_def builder_compression_def builder_decompression_def
  builder_trace_for_http_def builder_trace_for_grpc_def builder_follow_redirects_def
  builder_sensitive_headers_def builder_sensitive_request_headers_def builder_sensitive_response_headers_def
  builder_override_request_header_def builder_override_response_header_def builder_append_request_header_def
  builder_append_response_header_def builder_insert_request_header_if_not_present_def builder_insert_response_header_if_not_present_def
  builder_set_request_id_def builder_set_x_request_id_def builder_propagate_request_id_def
  builder_propagate_x_request_id_def builder_catch_panic_def builder_request_body_limit_def
  builder_trim_trailing_slash_def builder_append_trailing_slash_def

text \<open>The constructors of the services and the layers behind them, to unfold a method to the record it builds.\<close>

lemmas constructor_defs =
  propagate_header_new_def propagate_header_layer_apply_def [abs_def] propagate_header_layer_new_def
  add_extension_new_def add_extension_layer_apply_def [abs_def] add_extension_layer_new_def
  map_request_body_layer_apply_def [abs_def] map_request_body_layer_new_def
  map_response_body_layer_apply_def [abs_def] map_response_body_layer_new_def
  compression_new_def compression_layer_layer_def [abs_def] compression_layer_new_def
  decompression_new_def decompression_layer_layer_def [abs_def] decompression_layer_new_def
  trace_new_for_http_def trace_new_for_grpc_def trace_new_def trace_layer_apply_def [abs_def]
  trace_layer_new_for_http_def trace_layer_new_for_grpc_def trace_layer_new_def
  follow_redirect_new_def follow_redirect_with_policy_def follow_redirect_layer_apply_def [abs_def] follow_redirect_layer_new_def
  follow_redirect_layer_default_def follow_redirect_layer_with_policy_def follow_redirect_preserve_extensions_def
  set_sensitive_request_headers_new_def set_sensitive_request_headers_from_shared_def
  set_sensitive_request_headers_layer_apply_def [abs_def] set_sensitive_request_headers_layer_from_shared_def
  set_sensitive_response_headers_new_def set_sensitive_response_headers_from_shared_def
  set_sensitive_response_headers_layer_apply_def [abs_def] set_sensitive_response_headers_layer_from_shared_def
  set_request_header_overriding_def set_request_header_appending_def set_request_header_if_not_present_def
  set_request_header_new_def set_request_header_layer_apply_def [abs_def] set_request_header_layer_new_def
  set_request_header_layer_overriding_def set_request_header_layer_appending_def
  set_request_header_layer_if_not_present_def
  set_response_header_overriding_def set_response_header_appending_def set_response_header_if_not_present_def
  set_response_header_new_def set_response_header_layer_apply_def [abs_def] set_response_header_layer_new_def
  set_response_header_layer_overriding_def set_response_header_layer_appending_def
  set_response_header_layer_if_not_present_def
  set_request_id_layer_apply_def [abs_def] set_request_id_layer_new_def
  propagate_request_id_layer_apply_def [abs_def] propagate_request_id_layer_new_def
  catch_panic_new_def catch_panic_layer_apply_def [abs_def] catch_panic_layer_new_def
  request_body_limit_new_def request_body_limit_layer_apply_def [abs_def] request_body_limit_layer_new_def
  normalize_path_trim_def normalize_path_append_def normalize_path_layer_layer_def [abs_def]
  trim_trailing_slash_layer_def append_trailing_slash_layer_def

text \<open>A method of the builder adds the layer that wraps a service as the method of that name does.\<close>

lemma builder_adds_service_ext:
  "builder_propagate_header layer1 b header = layer1 b (\<lambda>s. svc_propagate_header s header)"
  "builder_add_extension layer2 b v2 = layer2 b (\<lambda>s. svc_add_extension s v2)"
  "builder_map_request_body layer3 b f3 = layer3 b (\<lambda>s. svc_map_request_body s f3)"
  "builder_map_response_body layer4 b f4 = layer4 b (\<lambda>s. svc_map_response_body s f4)"
  "builder_compression layer5 b H5 B5 = layer5 b (\<lambda>s. svc_compression s H5 B5)"
  "builder_decompression layer6 b = layer6 b (\<lambda>s. svc_decompression s)"
  "builder_trace_for_http layer7 b = layer7 b (\<lambda>s. svc_trace_for_http s)"
  "builder_trace_for_grpc layer8 b = layer8 b (\<lambda>s. svc_trace_for_grpc s)"
  "builder_follow_redirects layer9 b = layer9 b (\<lambda>s. svc_follow_redirects s)"
  "builder_sensitive_headers layer10 b headers = layer10 b (\<lambda>s. svc_sensitive_headers s headers)"
  "builder_sensitive_request_headers layer11 b headers = layer11 b (\<lambda>s. svc_sensitive_request_headers s headers)"
  "builder_sensitive_response_headers layer12 b headers = layer12 b (\<lambda>s. svc_sensitive_response_headers s headers)"
  "builder_override_request_header layer13 b header_name mk13 = layer13 b (\<lambda>s. svc_override_request_header s header_name mk13)"
  "builder_override_response_header layer14 b header_name mk14 = layer14 b (\<lambda>s. svc_override_response_header s header_name mk14)"
  "builder_append_request_header layer15 b header_name mk15 = layer15 b (\<lambda>s. svc_append_request_header s header_name mk15)"
  "builder_append_response_header layer16 b header_name mk16 = layer16 b (\<lambda>s. svc_append_response_header s header_name mk16)"
  "builder_insert_request_header_if_not_present layer17 b header_name mk17 = layer17 b (\<lambda>s. svc_insert_request_header_if_not_present s header_name mk17)"
  "builder_insert_response_header_if_not_present layer18 b header_name mk18 = layer18 b (\<lambda>s. svc_insert_response_header_if_not_present s header_name mk18)"
  "builder_set_request_id layer19 b header_name make_request_id19 = layer19 b (\<lambda>s. svc_set_request_id s header_name make_request_id19)"
  "builder_set_x_request_id layer20 b make_request_id20 = layer20 b (\<lambda>s. svc_set_x_request_id s make_request_id20)"
  "builder_propagate_request_id layer21 b header_name = layer21 b (\<lambda>s. svc_propagate_request_id s header_name)"
  "builder_propagate_x_request_id layer22 b = layer22 b (\<lambda>s. svc_propagate_x_request_id s)"
  "builder_catch_panic layer23 b = layer23 b (\<lambda>s. svc_catch_panic s)"
  "builder_request_body_limit layer24 b limit = layer24 b (\<lambda>s. svc_request_body_limit s limit)"
  "builder_trim_trailing_slash layer25 b = layer25 b (\<lambda>s. svc_trim_trailing_slash s)"
  "builder_append_trailing_slash layer26 b = layer26 b (\<lambda>s. svc_append_trailing_slash s)"
  by (simp_all add: service_ext_defs service_builder_defs constructor_defs)

end
