(* ===== verification/Macros.thy ===== *)
theory Macros
  imports Service
begin

text \<open>
  \<open>macros.rs\<close>: the accessors of an inner service, the wrappers \<open>opaque_body\<close> and \<open>opaque_future\<close> that hide
  the type of a body or a future and forward every call to it, and \<open>rate_limited\<close>, which evaluates a
  call at most once every interval per call site.  \<open>rate_limited\<close> reads and swaps an atomic with relaxed
  ordering: a load may see any value the atomic has had, the compare-and-exchange sees the last one.
  The evaluations of one call site by any number of threads are the relation \<open>rate_step\<close>.
\<close>

section \<open>Inner services, opaque bodies and futures\<close>

definition inner_get_ref :: "('w \<Rightarrow> 's) \<Rightarrow> 'w \<Rightarrow> 's" where
  "inner_get_ref inner w = inner w"

text \<open>What a caller does through the mutable reference is a function on the inner service.\<close>

definition inner_get_mut :: "('w \<Rightarrow> 's) \<Rightarrow> ('s \<Rightarrow> 'w \<Rightarrow> 'w) \<Rightarrow> ('s \<Rightarrow> 's) \<Rightarrow> 'w \<Rightarrow> 'w" where
  "inner_get_mut inner set_inner g w = set_inner (g (inner w)) w"

definition inner_into_inner :: "('w \<Rightarrow> 's) \<Rightarrow> 'w \<Rightarrow> 's" where
  "inner_into_inner inner w = inner w"

record 'i opaque = opaque_inner :: 'i

definition opaque_new :: "'i \<Rightarrow> 'i opaque" where
  "opaque_new i = \<lparr>opaque_inner = i\<rparr>"

definition opaque_body :: "('i, 'd, 't, 'e) body_api \<Rightarrow> ('i opaque, 'd, 't, 'e) body_api" where
  "opaque_body B =
     \<lparr>body_poll_frame = (\<lambda>w. case body_poll_frame B (opaque_inner w) of (p, i) \<Rightarrow> (p, w\<lparr>opaque_inner := i\<rparr>)),
      body_is_end_stream = (\<lambda>w. body_is_end_stream B (opaque_inner w)),
      body_size_hint = (\<lambda>w. body_size_hint B (opaque_inner w))\<rparr>"

definition opaque_future_poll :: "('i, 'o) poll_fn \<Rightarrow> ('i opaque, 'o) poll_fn" where
  "opaque_future_poll poll w = (case poll (opaque_inner w) of (p, i) \<Rightarrow> (p, w\<lparr>opaque_inner := i\<rparr>))"

lemma opaque_body_methods: "opaque_body B = body_methods opaque_inner (\<lambda>i w. w\<lparr>opaque_inner := i\<rparr>) B"
  by (simp add: opaque_body_def body_methods_def)

interpretation opaque: body_contract "opaque_body script_body"
  unfolding opaque_body_methods by (rule body_methods_contract [OF script_body_contract])

interpretation opaque_future: response_adaptor poll "opaque_future_poll poll" opaque_inner "\<lambda>w v. v" for poll
  by unfold_locales (auto simp: opaque_future_poll_def)

lemma opaque_body_read: "body_read (opaque_body B) n (opaque_new b) = body_read B n b"
  unfolding opaque_body_methods by (subst body_read_methods) (simp_all add: opaque_new_def)

lemma opaque_future_run: "run_future (opaque_future_poll poll) n (opaque_new f) = run_future poll n f"
  by (simp add: opaque_future.run_outer opaque_new_def map_option_idI)

section \<open>Rate limiting\<close>

type_synonym u64 = "64 word"

definition saturating_add :: "u64 \<Rightarrow> u64 \<Rightarrow> u64" where
  "saturating_add a b = (if unat a + unat b < 2 ^ 64 then a + b else - 1)"

text \<open>Where a thread is in one evaluation: the clock is read, then the atomic, then it is swapped.\<close>

datatype rate_thread = Timed u64 | Loaded u64 u64 | Finished

text \<open>The load: the call is due, or the evaluation ends.\<close>

fun rate_load :: "u64 \<Rightarrow> rate_thread \<Rightarrow> rate_thread" where
  "rate_load seen (Timed now) = (if now \<ge> seen then Loaded now seen else Finished)"
| "rate_load seen t = t"

text \<open>The swap: the new value of the atomic, and the time of the call if it is made.\<close>

fun rate_exchange :: "u64 \<Rightarrow> u64 \<Rightarrow> rate_thread \<Rightarrow> u64 \<times> u64 option" where
  "rate_exchange interval current (Loaded now seen) =
     (if current = seen then (saturating_add now interval, Some now) else (current, None))"
| "rate_exchange interval current t = (current, None)"

text \<open>One thread alone: the new value, and whether the call is made.\<close>

definition rate_limited :: "u64 \<Rightarrow> u64 \<Rightarrow> u64 \<Rightarrow> u64 \<times> u64 option" where
  "rate_limited interval now current = rate_exchange interval current (rate_load current (Timed now))"

text \<open>All values of the atomic, the last one first, the threads, and the times of the calls, the last first.\<close>

record rate_world =
  rw_values :: "u64 list"
  rw_threads :: "rate_thread list"
  rw_calls :: "u64 list"

inductive rate_step :: "u64 \<Rightarrow> rate_world \<Rightarrow> rate_world \<Rightarrow> bool" for interval where
  enter: "rate_step interval \<lparr>rw_values = vs, rw_threads = ts, rw_calls = cs\<rparr>
     \<lparr>rw_values = vs, rw_threads = ts @ [Timed now], rw_calls = cs\<rparr>"
| load: "seen \<in> set vs \<Longrightarrow>
     rate_step interval \<lparr>rw_values = vs, rw_threads = ts @ Timed now # us, rw_calls = cs\<rparr>
       \<lparr>rw_values = vs, rw_threads = ts @ rate_load seen (Timed now) # us, rw_calls = cs\<rparr>"
| exchange: "rate_exchange interval v (Loaded now seen) = (v', call) \<Longrightarrow>
     rate_step interval \<lparr>rw_values = v # vs, rw_threads = ts @ Loaded now seen # us, rw_calls = cs\<rparr>
       \<lparr>rw_values = (if call = None then v # vs else v' # v # vs), rw_threads = ts @ Finished # us,
        rw_calls = (case call of None \<Rightarrow> cs | Some c \<Rightarrow> c # cs)\<rparr>"

inductive rate_reachable :: "u64 \<Rightarrow> rate_world \<Rightarrow> bool" for interval where
  rate_start: "rate_reachable interval \<lparr>rw_values = [0], rw_threads = [], rw_calls = []\<rparr>"
| rate_next: "rate_reachable interval w \<Longrightarrow> rate_step interval w w' \<Longrightarrow> rate_reachable interval w'"

definition rate_invariant :: "u64 \<Rightarrow> rate_world \<Rightarrow> bool" where
  "rate_invariant interval w \<longleftrightarrow> rw_values w \<noteq> [] \<and>
     (\<forall>now seen. Loaded now seen \<in> set (rw_threads w) \<longrightarrow> seen \<le> now) \<and>
     (\<forall>c \<in> set (rw_calls w). saturating_add c interval \<le> hd (rw_values w)) \<and>
     sorted_wrt (\<lambda>a b. saturating_add b interval \<le> a) (rw_calls w)"

lemma unat_saturating_add: "unat (saturating_add a b) = min (unat a + unat b) (2 ^ 64 - 1)"
proof -
  have "unat a < 2 ^ 64" "unat b < 2 ^ 64"
    using unsigned_less [of a] unsigned_less [of b] by simp_all
  then show ?thesis
    by (auto simp: saturating_add_def unat_word_ariths unsigned_minus_1_eq_mask mask_eq_exp_minus_1 take_bit_nat_eq_self)
qed

lemma le_saturating_add: "a \<le> saturating_add a b"
proof -
  have "unat a < 2 ^ 64" using unsigned_less [of a] by simp
  then show ?thesis by (simp add: word_le_nat_alt unat_saturating_add)
qed

lemma rate_step_invariant:
  assumes "rate_step interval w w'" "rate_invariant interval w"
  shows "rate_invariant interval w'"
  using assms
proof (cases rule: rate_step.cases)
  case (exchange v now seen v' call vs ts us cs)
  have now: "seen \<le> now" using assms(2) exchange by (auto simp: rate_invariant_def)
  show ?thesis
  proof (cases "v = seen")
    case True
    then have "saturating_add c interval \<le> now" if "c \<in> set cs" for c
      using that now assms(2) exchange by (fastforce simp: rate_invariant_def)
    moreover from this have "saturating_add c interval \<le> saturating_add now interval" if "c \<in> set cs" for c
      using that le_saturating_add [of now interval] order_trans by blast
    ultimately show ?thesis
      using True assms(2) exchange by (auto simp: rate_invariant_def)
  next
    case False
    then show ?thesis using assms(2) exchange by (auto simp: rate_invariant_def)
  qed
qed (auto simp: rate_invariant_def split: if_splits)

lemma rate_reachable_invariant: "rate_reachable interval w \<Longrightarrow> rate_invariant interval w"
  by (induction rule: rate_reachable.induct)
    (simp add: rate_invariant_def, rule rate_step_invariant)

text \<open>
  Claim C34.  However the threads interleave, and whatever stale values their loads see, two calls made at
  one call site are an interval apart on the clock (up to the end of the 64-bit range): of the times
  of the calls, the last first, each is at least every one after it plus the interval.
\<close>

theorem rate_limited_spacing:
  assumes "rate_reachable interval w"
  shows "sorted_wrt (\<lambda>a b. unat a \<ge> min (unat b + unat interval) (2 ^ 64 - 1)) (rw_calls w)"
proof -
  from rate_reachable_invariant [OF assms]
  have "sorted_wrt (\<lambda>a b. saturating_add b interval \<le> a) (rw_calls w)"
    by (simp add: rate_invariant_def)
  then show ?thesis by (simp add: word_le_nat_alt unat_saturating_add)
qed

text \<open>A thread that is alone makes the call exactly when it is due.\<close>

lemma rate_limited_alone:
  "rate_limited interval now current =
     (if now \<ge> current then (saturating_add now interval, Some now) else (current, None))"
  by (simp add: rate_limited_def)

text \<open>
  Two calls sixty seconds apart at one call site of \<open>open_file.rs\<close>; a thread that loads in between makes
  none.
\<close>

definition ex_rate_world :: rate_world where
  "ex_rate_world = \<lparr>rw_values = [1120, 1060, 0], rw_threads = [Finished, Finished, Finished],
     rw_calls = [1060, 1000]\<rparr>"

lemma rate_reachable_ex: "rate_reachable 60 ex_rate_world"
proof -
  let ?R = "rate_reachable 60"
  have "?R \<lparr>rw_values = [0], rw_threads = [] @ [Timed 1000], rw_calls = []\<rparr>"
    by (rule rate_next [OF rate_start]) (rule rate_step.enter)
  then have "?R \<lparr>rw_values = [0], rw_threads = [] @ rate_load 0 (Timed 1000) # [], rw_calls = []\<rparr>"
    by (rule rate_next) (rule rate_step.load, simp)
  then have "?R \<lparr>rw_values = [0], rw_threads = [] @ Loaded 1000 0 # [], rw_calls = []\<rparr>" by simp
  from rate_next [OF this rate_step.exchange [where v' = 1060 and call = "Some 1000"]]
  have "?R \<lparr>rw_values = [1060, 0], rw_threads = [Finished], rw_calls = [1000]\<rparr>"
    by (simp add: saturating_add_def)
  then have "?R \<lparr>rw_values = [1060, 0], rw_threads = [Finished] @ [Timed 1030], rw_calls = [1000]\<rparr>"
    by (rule rate_next) (rule rate_step.enter)
  then have "?R \<lparr>rw_values = [1060, 0], rw_threads = [Finished] @ rate_load 1060 (Timed 1030) # [], rw_calls = [1000]\<rparr>"
    by (intro rate_next [OF _ rate_step.load]) simp_all
  then have "?R \<lparr>rw_values = [1060, 0], rw_threads = [Finished, Finished] @ [Timed 1060], rw_calls = [1000]\<rparr>"
    by (intro rate_next [OF _ rate_step.enter]) simp
  then have "?R \<lparr>rw_values = [1060, 0], rw_threads = [Finished, Finished] @ rate_load 1060 (Timed 1060) # [], rw_calls = [1000]\<rparr>"
    by (intro rate_next [OF _ rate_step.load]) simp_all
  then have "?R \<lparr>rw_values = [1060, 0], rw_threads = [Finished, Finished] @ Loaded 1060 1060 # [], rw_calls = [1000]\<rparr>"
    by simp
  from rate_next [OF this rate_step.exchange [where v' = 1120 and call = "Some 1060"]]
  show ?thesis by (simp add: saturating_add_def ex_rate_world_def)
qed

theorem rate_limited_spacing_witness:
  "sorted_wrt (\<lambda>a b. unat a \<ge> min (unat b + unat (60 :: u64)) (2 ^ 64 - 1)) (rw_calls ex_rate_world) \<and>
   rw_calls ex_rate_world = [1060, 1000]"
  using rate_limited_spacing [OF rate_reachable_ex] by (simp add: ex_rate_world_def)

end
