(* ===== verification/Readiness.thy ===== *)
theory Readiness
  imports Cors Csrf Auth Follow_Redirect In_Flight Catch_Panic Limit Timeout Set_Header
    Message_Layers Request_Id Sensitive_Headers Trace On_Early_Drop Compression Decompression
    Normalize_Path Serve_Dir Redirect_Service Macros
begin

text \<open>
  Back pressure: \<open>Service::poll_ready\<close> of every middleware.  All but three forward to the inner service; the
  locale \<open>readiness\<close> states what that means, and is interpreted on each of them.  The exceptions are in
  the theories of their components: \<open>Cors\<close> checks its rules first, \<open>ServeDir\<close> asks its fallback, and
  \<open>Redirect\<close> is always ready, as is \<open>ServeFile\<close> here.  A service that hands a copy of its inner service to
  a future must call the instance that was polled ready and keep the copy; the last part is about the
  three that do.
\<close>

section \<open>Forwarding\<close>

definition forward_ready ::
  "('w \<Rightarrow> 's) \<Rightarrow> (('s \<Rightarrow> 's) \<Rightarrow> 'w \<Rightarrow> 'w) \<Rightarrow> ('s, 'r) poll_fn \<Rightarrow> ('w, 'r) poll_fn" where
  "forward_ready inner upd ready w = (case ready (inner w) of (p, s) \<Rightarrow> (p, upd (\<lambda>_. s) w))"

locale readiness =
  fixes ready :: "('s, 'r) poll_fn" and inner :: "'w \<Rightarrow> 's" and outer :: "('w, 'r) poll_fn"
  assumes forwards: "fst (outer w) = fst (ready (inner w))"
    and keeps_instance: "inner (snd (outer w)) = snd (ready (inner w))"
begin

text \<open>The service is ready after exactly as many polls as the inner one, with the same result.\<close>

lemma run_ready: "run_future outer n w = run_future ready n (inner w)"
proof (induction n arbitrary: w)
  case (Suc n)
  obtain p w' where o: "outer w = (p, w')" by (rule prod.exhaust)
  then have "ready (inner w) = (p, inner w')"
    using forwards [of w] keeps_instance [of w] by (simp add: prod_eq_iff)
  with o Suc show ?case by (simp split: poll.split)
qed simp

lemma ready_instance: "outer w = (p, w') \<Longrightarrow> ready (inner w) = (p, inner w')"
  using forwards [of w] keeps_instance [of w] by (simp add: prod_eq_iff)

end

lemma forward_readiness:
  assumes "\<And>s w. inner (upd (\<lambda>_. s) w) = s"
  shows "readiness ready inner (forward_ready inner upd ready)"
  by unfold_locales (simp_all add: forward_ready_def assms split: prod.split)

text \<open>Layers stack.\<close>

lemma readiness_stack:
  "readiness ready inner mid \<Longrightarrow> readiness mid mid_inner outer \<Longrightarrow>
   readiness ready (inner \<circ> mid_inner) outer"
  by (simp add: readiness_def)

section \<open>The middlewares\<close>

definition validate_poll_ready :: "('s, 'r) poll_fn \<Rightarrow> (('s, 't) validate_request_header, 'r) poll_fn" where
  "validate_poll_ready ready = forward_ready vr_inner vr_inner_update ready"

definition trace_poll_ready :: "('s, 'r) poll_fn \<Rightarrow> (('s, 'm, 'ms, 'oq, 'or, 'ob, 'oe, 'of) trace, 'r) poll_fn" where
  "trace_poll_ready ready = forward_ready tr_inner tr_inner_update ready"

definition map_request_body_poll_ready :: "('s, 'r) poll_fn \<Rightarrow> (('s, 'k) map_request_body, 'r) poll_fn" where
  "map_request_body_poll_ready ready = forward_ready mb_inner mb_inner_update ready"

definition propagate_header_poll_ready :: "('s, 'r) poll_fn \<Rightarrow> ('s propagate_header, 'r) poll_fn" where
  "propagate_header_poll_ready ready = forward_ready ph_inner ph_inner_update ready"

definition set_request_id_poll_ready :: "('s, 'r) poll_fn \<Rightarrow> (('s, 'm) set_request_id, 'r) poll_fn" where
  "set_request_id_poll_ready ready = forward_ready si_inner si_inner_update ready"

definition propagate_request_id_poll_ready :: "('s, 'r) poll_fn \<Rightarrow> ('s propagate_request_id, 'r) poll_fn" where
  "propagate_request_id_poll_ready ready = forward_ready pi_inner pi_inner_update ready"

definition add_authorization_poll_ready :: "('s, 'r) poll_fn \<Rightarrow> (('s, 'v) add_authorization, 'r) poll_fn" where
  "add_authorization_poll_ready ready = forward_ready aa_inner aa_inner_update ready"

definition async_auth_poll_ready :: "('s, 'r) poll_fn \<Rightarrow> (('s, 't) async_require_authorization, 'r) poll_fn" where
  "async_auth_poll_ready ready = forward_ready as_inner as_inner_update ready"

definition in_flight_poll_ready :: "('s, 'r) poll_fn \<Rightarrow> ('s in_flight_requests, 'r) poll_fn" where
  "in_flight_poll_ready ready = forward_ready ir_inner ir_inner_update ready"

definition add_extension_poll_ready :: "('s, 'r) poll_fn \<Rightarrow> (('s, 'a) add_extension, 'r) poll_fn" where
  "add_extension_poll_ready ready = forward_ready ae_inner ae_inner_update ready"

definition set_multiple_request_header_poll_ready :: "('s, 'r) poll_fn \<Rightarrow> (('s, 'm) set_multiple_request_header, 'r) poll_fn" where
  "set_multiple_request_header_poll_ready ready = forward_ready mq_inner mq_inner_update ready"

definition set_request_header_poll_ready :: "('s, 'r) poll_fn \<Rightarrow> (('s, 'm) set_request_header, 'r) poll_fn" where
  "set_request_header_poll_ready ready = forward_ready sq_inner sq_inner_update ready"

definition set_multiple_response_header_poll_ready :: "('s, 'r) poll_fn \<Rightarrow> (('s, 'm) set_multiple_response_header, 'r) poll_fn" where
  "set_multiple_response_header_poll_ready ready = forward_ready mr_inner mr_inner_update ready"

definition set_response_header_poll_ready :: "('s, 'r) poll_fn \<Rightarrow> (('s, 'm) set_response_header, 'r) poll_fn" where
  "set_response_header_poll_ready ready = forward_ready sr_inner sr_inner_update ready"

definition map_response_body_poll_ready :: "('s, 'r) poll_fn \<Rightarrow> (('s, 'k) map_response_body, 'r) poll_fn" where
  "map_response_body_poll_ready ready = forward_ready mrb_inner mrb_inner_update ready"

definition normalize_path_poll_ready :: "('s, 'r) poll_fn \<Rightarrow> ('s normalize_path, 'r) poll_fn" where
  "normalize_path_poll_ready ready = forward_ready np_inner np_inner_update ready"

definition follow_redirect_poll_ready :: "('s, 'r) poll_fn \<Rightarrow> (('s, 'p) follow_redirect, 'r) poll_fn" where
  "follow_redirect_poll_ready ready = forward_ready fr_inner fr_inner_update ready"

definition sensitive_request_poll_ready :: "('s, 'r) poll_fn \<Rightarrow> ('s set_sensitive_request_headers, 'r) poll_fn" where
  "sensitive_request_poll_ready ready = forward_ready nq_inner nq_inner_update ready"

definition sensitive_response_poll_ready :: "('s, 'r) poll_fn \<Rightarrow> ('s set_sensitive_response_headers, 'r) poll_fn" where
  "sensitive_response_poll_ready ready = forward_ready nr_inner nr_inner_update ready"

definition request_decompression_poll_ready :: "('s, 'r) poll_fn \<Rightarrow> ('s request_decompression, 'r) poll_fn" where
  "request_decompression_poll_ready ready = forward_ready rd_inner rd_inner_update ready"

definition decompression_poll_ready :: "('s, 'r) poll_fn \<Rightarrow> ('s decompression, 'r) poll_fn" where
  "decompression_poll_ready ready = forward_ready ds_inner ds_inner_update ready"

definition catch_panic_poll_ready :: "('s, 'r) poll_fn \<Rightarrow> (('s, 't) catch_panic, 'r) poll_fn" where
  "catch_panic_poll_ready ready = forward_ready cp_inner cp_inner_update ready"

definition compression_poll_ready :: "('s, 'r) poll_fn \<Rightarrow> (('s, 'p) compression, 'r) poll_fn" where
  "compression_poll_ready ready = forward_ready compression.cs_inner compression.cs_inner_update ready"

definition set_status_poll_ready :: "('s, 'r) poll_fn \<Rightarrow> ('s set_status, 'r) poll_fn" where
  "set_status_poll_ready ready = forward_ready ss_inner ss_inner_update ready"

definition body_limit_poll_ready :: "('s, 'r) poll_fn \<Rightarrow> ('s request_body_limit, 'r) poll_fn" where
  "body_limit_poll_ready ready = forward_ready rb_inner rb_inner_update ready"

definition early_drop_poll_ready :: "('s, 'r) poll_fn \<Rightarrow> (('s, 'fm, 'bm) early_drop_service, 'r) poll_fn" where
  "early_drop_poll_ready ready = forward_ready es_inner es_inner_update ready"

definition timeout_poll_ready :: "('s, 'r) poll_fn \<Rightarrow> ('s timeout, 'r) poll_fn" where
  "timeout_poll_ready ready = forward_ready tm_inner tm_inner_update ready"

definition request_body_timeout_poll_ready :: "('s, 'r) poll_fn \<Rightarrow> ('s request_body_timeout, 'r) poll_fn" where
  "request_body_timeout_poll_ready ready = forward_ready qt_inner qt_inner_update ready"

definition response_body_timeout_poll_ready :: "('s, 'r) poll_fn \<Rightarrow> ('s response_body_timeout, 'r) poll_fn" where
  "response_body_timeout_poll_ready ready = forward_ready st_inner st_inner_update ready"

definition request_body_deadline_poll_ready :: "('s, 'r) poll_fn \<Rightarrow> ('s request_body_deadline, 'r) poll_fn" where
  "request_body_deadline_poll_ready ready = forward_ready qd_inner qd_inner_update ready"

definition response_body_deadline_poll_ready :: "('s, 'r) poll_fn \<Rightarrow> ('s response_body_deadline, 'r) poll_fn" where
  "response_body_deadline_poll_ready ready = forward_ready sd_inner sd_inner_update ready"

definition csrf_poll_ready :: "('s, 'r) poll_fn \<Rightarrow> (('u, 't, 's) csrf, 'r) poll_fn" where
  "csrf_poll_ready ready = forward_ready csrf.cs_inner csrf.cs_inner_update ready"

definition serve_file_poll_ready :: "('fb serve_file, 'e + unit) poll_fn" where
  "serve_file_poll_ready s = (Ready (Inr ()), s)"

section \<open>Interpretations\<close>

interpretation validate_ready: readiness ready vr_inner "validate_poll_ready ready" for ready
  unfolding validate_poll_ready_def by (rule forward_readiness) simp

interpretation trace_ready: readiness ready tr_inner "trace_poll_ready ready" for ready
  unfolding trace_poll_ready_def by (rule forward_readiness) simp

interpretation map_request_body_ready: readiness ready mb_inner "map_request_body_poll_ready ready" for ready
  unfolding map_request_body_poll_ready_def by (rule forward_readiness) simp

interpretation propagate_header_ready: readiness ready ph_inner "propagate_header_poll_ready ready" for ready
  unfolding propagate_header_poll_ready_def by (rule forward_readiness) simp

interpretation set_request_id_ready: readiness ready si_inner "set_request_id_poll_ready ready" for ready
  unfolding set_request_id_poll_ready_def by (rule forward_readiness) simp

interpretation propagate_request_id_ready: readiness ready pi_inner "propagate_request_id_poll_ready ready" for ready
  unfolding propagate_request_id_poll_ready_def by (rule forward_readiness) simp

interpretation add_authorization_ready: readiness ready aa_inner "add_authorization_poll_ready ready" for ready
  unfolding add_authorization_poll_ready_def by (rule forward_readiness) simp

interpretation async_auth_ready: readiness ready as_inner "async_auth_poll_ready ready" for ready
  unfolding async_auth_poll_ready_def by (rule forward_readiness) simp

interpretation in_flight_ready: readiness ready ir_inner "in_flight_poll_ready ready" for ready
  unfolding in_flight_poll_ready_def by (rule forward_readiness) simp

interpretation add_extension_ready: readiness ready ae_inner "add_extension_poll_ready ready" for ready
  unfolding add_extension_poll_ready_def by (rule forward_readiness) simp

interpretation set_multiple_request_header_ready: readiness ready mq_inner "set_multiple_request_header_poll_ready ready" for ready
  unfolding set_multiple_request_header_poll_ready_def by (rule forward_readiness) simp

interpretation set_request_header_ready: readiness ready sq_inner "set_request_header_poll_ready ready" for ready
  unfolding set_request_header_poll_ready_def by (rule forward_readiness) simp

interpretation set_multiple_response_header_ready: readiness ready mr_inner "set_multiple_response_header_poll_ready ready" for ready
  unfolding set_multiple_response_header_poll_ready_def by (rule forward_readiness) simp

interpretation set_response_header_ready: readiness ready sr_inner "set_response_header_poll_ready ready" for ready
  unfolding set_response_header_poll_ready_def by (rule forward_readiness) simp

interpretation map_response_body_ready: readiness ready mrb_inner "map_response_body_poll_ready ready" for ready
  unfolding map_response_body_poll_ready_def by (rule forward_readiness) simp

interpretation normalize_path_ready: readiness ready np_inner "normalize_path_poll_ready ready" for ready
  unfolding normalize_path_poll_ready_def by (rule forward_readiness) simp

interpretation follow_redirect_ready: readiness ready fr_inner "follow_redirect_poll_ready ready" for ready
  unfolding follow_redirect_poll_ready_def by (rule forward_readiness) simp

interpretation sensitive_request_ready: readiness ready nq_inner "sensitive_request_poll_ready ready" for ready
  unfolding sensitive_request_poll_ready_def by (rule forward_readiness) simp

interpretation sensitive_response_ready: readiness ready nr_inner "sensitive_response_poll_ready ready" for ready
  unfolding sensitive_response_poll_ready_def by (rule forward_readiness) simp

interpretation request_decompression_ready: readiness ready rd_inner "request_decompression_poll_ready ready" for ready
  unfolding request_decompression_poll_ready_def by (rule forward_readiness) simp

interpretation decompression_ready: readiness ready ds_inner "decompression_poll_ready ready" for ready
  unfolding decompression_poll_ready_def by (rule forward_readiness) simp

interpretation catch_panic_ready: readiness ready cp_inner "catch_panic_poll_ready ready" for ready
  unfolding catch_panic_poll_ready_def by (rule forward_readiness) simp

interpretation compression_ready: readiness ready compression.cs_inner "compression_poll_ready ready" for ready
  unfolding compression_poll_ready_def by (rule forward_readiness) simp

interpretation set_status_ready: readiness ready ss_inner "set_status_poll_ready ready" for ready
  unfolding set_status_poll_ready_def by (rule forward_readiness) simp

interpretation body_limit_ready: readiness ready rb_inner "body_limit_poll_ready ready" for ready
  unfolding body_limit_poll_ready_def by (rule forward_readiness) simp

interpretation early_drop_ready: readiness ready es_inner "early_drop_poll_ready ready" for ready
  unfolding early_drop_poll_ready_def by (rule forward_readiness) simp

interpretation timeout_ready: readiness ready tm_inner "timeout_poll_ready ready" for ready
  unfolding timeout_poll_ready_def by (rule forward_readiness) simp

interpretation request_body_timeout_ready: readiness ready qt_inner "request_body_timeout_poll_ready ready" for ready
  unfolding request_body_timeout_poll_ready_def by (rule forward_readiness) simp

interpretation response_body_timeout_ready: readiness ready st_inner "response_body_timeout_poll_ready ready" for ready
  unfolding response_body_timeout_poll_ready_def by (rule forward_readiness) simp

interpretation request_body_deadline_ready: readiness ready qd_inner "request_body_deadline_poll_ready ready" for ready
  unfolding request_body_deadline_poll_ready_def by (rule forward_readiness) simp

interpretation response_body_deadline_ready: readiness ready sd_inner "response_body_deadline_poll_ready ready" for ready
  unfolding response_body_deadline_poll_ready_def by (rule forward_readiness) simp

interpretation csrf_ready: readiness ready csrf.cs_inner "csrf_poll_ready ready" for ready
  unfolding csrf_poll_ready_def by (rule forward_readiness) simp

text \<open>
  The CORS service is ready with its inner service if its rules are usable; otherwise it panics before
  the inner service is asked.
\<close>

lemma cors_poll_ready_cases:
  "cors_poll_ready ready c =
     (case ensure_usable_cors_rules (cors_rules c) of
        Inl m \<Rightarrow> Inl m | Inr _ \<Rightarrow> Inr (forward_ready cors_inner cors_inner_update ready c))"
  by (simp add: cors_poll_ready_def forward_ready_def split: sum.split prod.split)

section \<open>The instance that is ready is the one that is called\<close>

text \<open>
  An inner service that insists on the contract of \<open>tower::Service\<close>, as the concurrency limit and the
  buffer of \<open>tower\<close> do: \<open>poll_ready\<close> hands out a permit, \<open>call\<close> uses it up and panics without one, and
  a clone has none.
\<close>

definition permit_ready :: "('s, 'e + unit) poll_fn \<Rightarrow> ('s \<times> bool, 'e + unit) poll_fn" where
  "permit_ready ready w =
     (case ready (fst w) of (p, s) \<Rightarrow> (p, (s, case p of Ready (Inr _) \<Rightarrow> True | _ \<Rightarrow> snd w)))"

definition permit_clone :: "('s \<Rightarrow> 's) \<Rightarrow> 's \<times> bool \<Rightarrow> 's \<times> bool" where
  "permit_clone clone w = (clone (fst w), False)"

definition permit_call :: "('s, 'q, 'f) service_fn \<Rightarrow> ('s \<times> bool, 'q, 'f panics) service_fn" where
  "permit_call inner_call w q =
     (case inner_call (fst w) q of (s, f) \<Rightarrow>
        ((s, False), if snd w then Inr f else Inl ''called before it was ready''))"

lemma permit_ready_holds: "permit_ready ready w = (Ready (Inr u), w') \<Longrightarrow> snd w'"
  by (auto simp: permit_ready_def split: prod.splits)

text \<open>The permits that the future of \<open>ServeDir\<close> has: of a fallback it keeps, or of one already called.\<close>

fun serve_future_permit :: "('o, 's \<times> bool, 'q, 'f panics) serve_future \<Rightarrow> bool" where
  "serve_future_permit (OpenFileFuture op fr) = (case fr of Some (fb, q) \<Rightarrow> snd fb | None \<Rightarrow> True)"
| "serve_future_permit (InvalidPath fr) = (case fr of Some (fb, q) \<Rightarrow> snd fb | None \<Rightarrow> True)"
| "serve_future_permit (FallbackFuture ff) = (\<exists>f. ff = Inr f)"
| "serve_future_permit MethodNotAllowed = True"

lemma async_auth_permit:
  assumes "async_auth_poll_ready (permit_ready ready) c = (Ready (Inr u), c')"
    and "async_auth_call (permit_clone clone) authorize c' req = (c'', w)"
  shows "snd (af_service w) \<and> \<not> snd (as_inner c'')"
  using async_auth_ready.ready_instance [OF assms(1), THEN permit_ready_holds] assms(2)
  by (auto simp: async_auth_call_def permit_clone_def split: prod.splits)

lemma follow_redirect_permit:
  assumes "follow_redirect_poll_ready (permit_ready ready) c = (Ready (Inr u), c')"
    and "follow_redirect_call (permit_clone clone) H P ei db (permit_call inner_call) c' req = (c'', w)"
  shows "(\<exists>f. rf_future w = Inl (Inr f)) \<and> \<not> snd (fr_inner c'')"
  using follow_redirect_ready.ready_instance [OF assms(1), THEN permit_ready_holds] assms(2)
  by (auto simp: follow_redirect_call_def permit_clone_def permit_call_def Let_def split: prod.splits)

lemma serve_dir_permit:
  assumes "serve_dir_poll_ready (permit_ready ready) c = (Ready (Inr u), c')"
    and "serve_dir_try_call H U V B pdecode (permit_clone clone) delay (permit_call call_fb) c' req = (c'', w)"
  shows "serve_future_permit w \<and> (\<forall>fb. sd_fallback c'' = Some fb \<and> snd fb \<longrightarrow> w = MethodNotAllowed)"
proof -
  have "snd fb" if "sd_fallback c' = Some fb" for fb
    using assms(1) that permit_ready_holds
    by (fastforce simp: serve_dir_poll_ready_def split: option.splits prod.splits)
  then show ?thesis using assms(2)
    by (auto simp: serve_dir_try_call_def permit_call_def permit_clone_def Let_def
        split: if_splits option.splits prod.splits)
qed

text \<open>
  Claim C27.  The middlewares that move their inner service into a future obey the contract of
  \<open>tower::Service\<close> even when clones are not ready: if the last \<open>poll_ready\<close> said so, asynchronous
  authorization and \<open>ServeDir\<close> give the future the instance that holds the permit, \<open>FollowRedirect\<close> calls
  that instance, and the service keeps a clone, which has to be polled again before the next request.
\<close>

theorem ready_instance_called:
  fixes ready :: "('s, 'e + unit) poll_fn"
  shows "(async_auth_poll_ready (permit_ready ready) c1 = (Ready (Inr ()), c1') \<and>
      async_auth_call (permit_clone clone) authorize c1' q1 = (c1'', w1) \<longrightarrow>
      snd (af_service w1) \<and> \<not> snd (as_inner c1'')) \<and>
    (follow_redirect_poll_ready (permit_ready ready) c2 = (Ready (Inr ()), c2') \<and>
      follow_redirect_call (permit_clone clone) H P ei db (permit_call inner_call) c2' q2 = (c2'', w2) \<longrightarrow>
      (\<exists>f. rf_future w2 = Inl (Inr f)) \<and> \<not> snd (fr_inner c2'')) \<and>
    (serve_dir_poll_ready (permit_ready ready) c3 = (Ready (Inr ()), c3') \<and>
      serve_dir_try_call H U V B pdecode (permit_clone clone) delay (permit_call call_fb) c3' q3 = (c3'', w3) \<longrightarrow>
      serve_future_permit w3 \<and> (\<forall>fb. sd_fallback c3'' = Some fb \<and> snd fb \<longrightarrow> w3 = MethodNotAllowed))"
  by (intro conjI [OF _ conjI] impI; elim conjE; (rule async_auth_permit follow_redirect_permit serve_dir_permit; assumption))

text \<open>One round of each on an inner service that is ready at once and whose clone is another instance.\<close>

definition ex_ready :: "nat \<Rightarrow> (unit + unit) poll \<times> nat" where
  "ex_ready s = (Ready (Inr ()), s)"

definition ex_inner :: "nat \<Rightarrow> ((string \<times> string) list, simple_uri, string, unit) request \<Rightarrow> nat \<times> string" where
  "ex_inner s q = (s, req_method q)"

definition ex_sd :: "(nat \<times> bool) serve_dir" where
  "ex_sd = call_fallback_on_method_not_allowed (serve_dir_fallback (serve_dir_new ''a'' :: unit serve_dir) (7, False)) True"

lemma permit_ready_ex: "permit_ready ex_ready (s, b) = (Ready (Inr ()), (s, True))"
  by (simp add: permit_ready_def ex_ready_def)

theorem ready_instance_called_witness:
  "snd (af_service (snd (async_auth_call (permit_clone Suc) (\<lambda>t (q :: nat). (t, q))
      \<lparr>as_inner = (7, True), as_auth = ()\<rparr> 1))) \<and>
   (\<exists>f. rf_future (snd (follow_redirect_call (permit_clone Suc) (list_http []) ex_policy (\<lambda>_. Some 0) ()
      (permit_call ex_inner) \<lparr>fr_inner = (7, True), fr_policy = standard_default, fr_preserve_extensions = True\<rparr>
      ex_request) :: (string panics, unit, nat \<times> bool, limited \<times> string filter_credentials, simple_uri,
        (string \<times> string) list, string, unit) redirect_future) = Inl (Inr f)) \<and>
   serve_future_permit (snd (serve_dir_try_call (list_http []) simple_uri_api plain_env (some_files []) id
      (permit_clone Suc) 0 (permit_call ex_inner) (ex_sd\<lparr>sd_fallback := Some (7, True)\<rparr>) ex_request))"
proof -
  note ready = ready_instance_called [where ready = ex_ready and clone = Suc]
  have a: "async_auth_poll_ready (permit_ready ex_ready) \<lparr>as_inner = (7, False), as_auth = ()\<rparr> =
      (Ready (Inr ()), \<lparr>as_inner = (7, True), as_auth = ()\<rparr>)"
    by (simp add: async_auth_poll_ready_def forward_ready_def permit_ready_ex)
  have f: "follow_redirect_poll_ready (permit_ready ex_ready)
      \<lparr>fr_inner = (7, False), fr_policy = standard_default, fr_preserve_extensions = True\<rparr> =
      (Ready (Inr ()), \<lparr>fr_inner = (7, True), fr_policy = standard_default, fr_preserve_extensions = True\<rparr>)"
    by (simp add: follow_redirect_poll_ready_def forward_ready_def permit_ready_ex)
  have s: "serve_dir_poll_ready (permit_ready ex_ready) ex_sd = (Ready (Inr ()), ex_sd\<lparr>sd_fallback := Some (7, True)\<rparr>)"
    by (simp add: serve_dir_poll_ready_def permit_ready_ex ex_sd_def serve_dir_fallback_def
        call_fallback_on_method_not_allowed_def)
  show ?thesis
    by (intro conjI;
        rule ready [THEN conjunct1, rule_format, OF conjI, OF a prod.collapse [symmetric], THEN conjunct1]
          ready [THEN conjunct2, THEN conjunct1, rule_format, OF conjI, OF f prod.collapse [symmetric], THEN conjunct1]
          ready [THEN conjunct2, THEN conjunct2, rule_format, OF conjI, OF s prod.collapse [symmetric], THEN conjunct1])
qed

end
