(* ===== verification/Accessors.thy ===== *)
theory Accessors
  imports Compression Decompression Macros
begin

text \<open>
  The accessors of the coded bodies: \<open>get_ref\<close>, \<open>get_mut\<close>, \<open>get_pin_mut\<close> and \<open>into_inner\<close> of \<open>CompressionBody\<close>
  and \<open>DecompressionBody\<close>, through the codec, the \<open>StreamReader\<close>, \<open>StreamErrorIntoIoError\<close> and
  \<open>BodyIntoStream\<close> of \<open>compression_utils.rs\<close>.  A mutable reference is the function that changes the value
  it refers to.  Every layer is an \<open>accessor\<close>, and chains of accessors are accessors, so what is written
  through \<open>get_mut\<close> is what \<open>get_ref\<close> reads and nothing else of the body changes.
\<close>

section \<open>The contract\<close>

locale accessor =
  fixes get :: "'w \<Rightarrow> 'i" and modify :: "('i \<Rightarrow> 'i) \<Rightarrow> 'w \<Rightarrow> 'w"
  assumes get_modify: "get (modify g w) = g (get w)"
    and modify_same: "modify (\<lambda>_. get w) w = w"
    and modify_modify: "modify g (modify h w) = modify (\<lambda>i. g (h i)) w"
begin

text \<open>A write is determined by the value it leaves, and equal parts are the same body.\<close>

lemma modify_const: "modify g w = modify (\<lambda>_. g (get w)) w"
proof -
  have "modify g (modify (\<lambda>_. get w) w) = modify (\<lambda>_. g (get w)) w" by (rule modify_modify)
  then show ?thesis by (simp only: modify_same)
qed

lemma restore: "modify (\<lambda>_. get w) (modify g w) = w"
  by (simp only: modify_modify modify_same)

end

lemma accessor_comp:
  assumes a: "accessor get1 modify1" and b: "accessor get2 modify2"
  shows "accessor (\<lambda>w. get2 (get1 w)) (\<lambda>g. modify1 (modify2 g))"
proof
  show "modify1 (modify2 (\<lambda>_. get2 (get1 w))) w = w" for w
    using accessor.modify_const [OF a, of "modify2 (\<lambda>_. get2 (get1 w))" w]
    by (simp add: accessor.modify_same [OF b] accessor.modify_same [OF a])
qed (simp_all add: accessor.get_modify [OF a] accessor.get_modify [OF b] accessor.modify_modify [OF a]
    accessor.modify_modify [OF b])

section \<open>The layers\<close>

definition bis_get_ref :: "('b, 'd, 't) body_into_stream \<Rightarrow> 'b" where
  "bis_get_ref s = bis_body s"

definition bis_get_mut :: "('b \<Rightarrow> 'b) \<Rightarrow> ('b, 'd, 't) body_into_stream \<Rightarrow> ('b, 'd, 't) body_into_stream" where
  "bis_get_mut g s = s\<lparr>bis_body := g (bis_body s)\<rparr>"

definition bis_get_pin_mut :: "('b \<Rightarrow> 'b) \<Rightarrow> ('b, 'd, 't) body_into_stream \<Rightarrow> ('b, 'd, 't) body_into_stream" where
  "bis_get_pin_mut g s = s\<lparr>bis_body := g (bis_body s)\<rparr>"

definition bis_into_inner :: "('b, 'd, 't) body_into_stream \<Rightarrow> 'b" where
  "bis_into_inner s = bis_body s"

definition sei_get_ref :: "('s, 'e) stream_error_into_io \<Rightarrow> 's" where
  "sei_get_ref s = sei_inner s"

definition sei_get_mut :: "('s \<Rightarrow> 's) \<Rightarrow> ('s, 'e) stream_error_into_io \<Rightarrow> ('s, 'e) stream_error_into_io" where
  "sei_get_mut g s = s\<lparr>sei_inner := g (sei_inner s)\<rparr>"

definition sei_get_pin_mut :: "('s \<Rightarrow> 's) \<Rightarrow> ('s, 'e) stream_error_into_io \<Rightarrow> ('s, 'e) stream_error_into_io" where
  "sei_get_pin_mut g s = s\<lparr>sei_inner := g (sei_inner s)\<rparr>"

definition sei_into_inner :: "('s, 'e) stream_error_into_io \<Rightarrow> 's" where
  "sei_into_inner s = sei_inner s"

text \<open>The accessors of the codec and of the \<open>StreamReader\<close> in it, which belong to other crates.\<close>

definition codec_modify :: "('m, 's, 'd) codec_api \<Rightarrow> ('s \<Rightarrow> 's) \<Rightarrow> 'm \<Rightarrow> 'm" where
  "codec_modify C g m = codec_set_stream C (g (codec_stream C m)) m"

abbreviation read_accessor :: "('m, 's, 'd) codec_api \<Rightarrow> bool" where
  "read_accessor C \<equiv> accessor (codec_stream C) (codec_modify C)"

interpretation bis: accessor bis_get_ref bis_get_mut
  by unfold_locales (simp_all add: bis_get_ref_def bis_get_mut_def)

interpretation bis_pin: accessor bis_into_inner bis_get_pin_mut
  by unfold_locales (simp_all add: bis_into_inner_def bis_get_pin_mut_def)

interpretation sei: accessor sei_get_ref sei_get_mut
  by unfold_locales (simp_all add: sei_get_ref_def sei_get_mut_def)

interpretation sei_pin: accessor sei_into_inner sei_get_pin_mut
  by unfold_locales (simp_all add: sei_into_inner_def sei_get_pin_mut_def)

interpretation byte_reader: accessor "codec_stream (byte_codec g)" "codec_modify (byte_codec g)" for g
  by unfold_locales (simp_all add: byte_codec_def codec_modify_def)

section \<open>The chains\<close>

definition wrapped_get_mut ::
  "('m, ('b, string, 't, 'e) body_stream, string) codec_api \<Rightarrow> ('b \<Rightarrow> 'b) \<Rightarrow> 'm wrap_body \<Rightarrow> 'm wrap_body" where
  "wrapped_get_mut C g w =
     w\<lparr>wb_read := codec_modify C (\<lambda>s. sei_get_mut (\<lambda>b. bis_get_mut g b) s) (wb_read w)\<rparr>"

definition wrapped_get_pin_mut ::
  "('m, ('b, string, 't, 'e) body_stream, string) codec_api \<Rightarrow> ('b \<Rightarrow> 'b) \<Rightarrow> 'm wrap_body \<Rightarrow> 'm wrap_body" where
  "wrapped_get_pin_mut C g w =
     w\<lparr>wb_read := codec_modify C (\<lambda>s. sei_get_pin_mut (\<lambda>b. bis_get_pin_mut g b) s) (wb_read w)\<rparr>"

definition wrapped_into_inner ::
  "('m, ('b, string, 't, 'e) body_stream, string) codec_api \<Rightarrow> 'm wrap_body \<Rightarrow> 'b" where
  "wrapped_into_inner C w = bis_into_inner (sei_into_inner (codec_stream C (wb_read w)))"

lemma wrapped_pin [simp]: "wrapped_get_pin_mut C = wrapped_get_mut C"
  by (simp add: fun_eq_iff wrapped_get_pin_mut_def wrapped_get_mut_def sei_get_pin_mut_def sei_get_mut_def
      bis_get_pin_mut_def bis_get_mut_def)

lemma wrapped_into [simp]: "wrapped_into_inner C = wrapped_body C"
  by (simp add: fun_eq_iff wrapped_into_inner_def wrapped_body_def bis_into_inner_def sei_into_inner_def)

lemma wrapped_accessor:
  assumes C: "read_accessor C"
  shows "accessor (wrapped_body C) (wrapped_get_mut C)"
proof -
  have field: "accessor wb_read (\<lambda>g w. w\<lparr>wb_read := g (wb_read w)\<rparr>)" by unfold_locales simp_all
  from accessor_comp [OF accessor_comp [OF accessor_comp [OF field C] sei.accessor_axioms] bis.accessor_axioms]
  show ?thesis
    by (simp add: wrapped_body_def [abs_def] wrapped_get_mut_def [abs_def] sei_get_ref_def bis_get_ref_def)
qed

fun compression_get_mut ::
  "('b, 't, 'e, 'm) stream_codecs \<Rightarrow> ('b \<Rightarrow> 'b) \<Rightarrow> ('b, 'm) body_inner \<Rightarrow> ('b, 'm) body_inner" where
  "compression_get_mut K g (GzipBody w) = GzipBody (wrapped_get_mut (co_gzip K) g w)"
| "compression_get_mut K g (DeflateBody w) = DeflateBody (wrapped_get_mut (co_deflate K) g w)"
| "compression_get_mut K g (BrotliBody w) = BrotliBody (wrapped_get_mut (co_br K) g w)"
| "compression_get_mut K g (ZstdBody w) = ZstdBody (wrapped_get_mut (co_zstd K) g w)"
| "compression_get_mut K g (IdentityBody b) = IdentityBody (g b)"

fun compression_get_pin_mut ::
  "('b, 't, 'e, 'm) stream_codecs \<Rightarrow> ('b \<Rightarrow> 'b) \<Rightarrow> ('b, 'm) body_inner \<Rightarrow> ('b, 'm) body_inner" where
  "compression_get_pin_mut K g (GzipBody w) = GzipBody (wrapped_get_pin_mut (co_gzip K) g w)"
| "compression_get_pin_mut K g (DeflateBody w) = DeflateBody (wrapped_get_pin_mut (co_deflate K) g w)"
| "compression_get_pin_mut K g (BrotliBody w) = BrotliBody (wrapped_get_pin_mut (co_br K) g w)"
| "compression_get_pin_mut K g (ZstdBody w) = ZstdBody (wrapped_get_pin_mut (co_zstd K) g w)"
| "compression_get_pin_mut K g (IdentityBody b) = IdentityBody (g b)"

fun compression_into_inner :: "('b, 't, 'e, 'm) stream_codecs \<Rightarrow> ('b, 'm) body_inner \<Rightarrow> 'b" where
  "compression_into_inner K (GzipBody w) = wrapped_into_inner (co_gzip K) w"
| "compression_into_inner K (DeflateBody w) = wrapped_into_inner (co_deflate K) w"
| "compression_into_inner K (BrotliBody w) = wrapped_into_inner (co_br K) w"
| "compression_into_inner K (ZstdBody w) = wrapped_into_inner (co_zstd K) w"
| "compression_into_inner K (IdentityBody b) = b"

fun decompression_get_mut ::
  "('b, 't, 'e, 'm) stream_codecs \<Rightarrow> ('b \<Rightarrow> 'b) \<Rightarrow> ('b, 'm) body_inner \<Rightarrow> ('b, 'm) body_inner" where
  "decompression_get_mut K g (GzipBody w) = GzipBody (wrapped_get_mut (co_gzip K) g w)"
| "decompression_get_mut K g (DeflateBody w) = DeflateBody (wrapped_get_mut (co_deflate K) g w)"
| "decompression_get_mut K g (BrotliBody w) = BrotliBody (wrapped_get_mut (co_br K) g w)"
| "decompression_get_mut K g (ZstdBody w) = ZstdBody (wrapped_get_mut (co_zstd K) g w)"
| "decompression_get_mut K g (IdentityBody b) = IdentityBody (g b)"

fun decompression_get_pin_mut ::
  "('b, 't, 'e, 'm) stream_codecs \<Rightarrow> ('b \<Rightarrow> 'b) \<Rightarrow> ('b, 'm) body_inner \<Rightarrow> ('b, 'm) body_inner" where
  "decompression_get_pin_mut K g (GzipBody w) = GzipBody (wrapped_get_pin_mut (co_gzip K) g w)"
| "decompression_get_pin_mut K g (DeflateBody w) = DeflateBody (wrapped_get_pin_mut (co_deflate K) g w)"
| "decompression_get_pin_mut K g (BrotliBody w) = BrotliBody (wrapped_get_pin_mut (co_br K) g w)"
| "decompression_get_pin_mut K g (ZstdBody w) = ZstdBody (wrapped_get_pin_mut (co_zstd K) g w)"
| "decompression_get_pin_mut K g (IdentityBody b) = IdentityBody (g b)"

fun decompression_into_inner :: "('b, 't, 'e, 'm) stream_codecs \<Rightarrow> ('b, 'm) body_inner \<Rightarrow> 'b" where
  "decompression_into_inner K (GzipBody w) = wrapped_into_inner (co_gzip K) w"
| "decompression_into_inner K (DeflateBody w) = wrapped_into_inner (co_deflate K) w"
| "decompression_into_inner K (BrotliBody w) = wrapped_into_inner (co_br K) w"
| "decompression_into_inner K (ZstdBody w) = wrapped_into_inner (co_zstd K) w"
| "decompression_into_inner K (IdentityBody b) = b"

section \<open>The body behind the codec\<close>

definition read_accessors :: "('b, 't, 'e, 'm) stream_codecs \<Rightarrow> bool" where
  "read_accessors K \<longleftrightarrow> read_accessor (co_gzip K) \<and> read_accessor (co_deflate K) \<and> read_accessor (co_br K) \<and>
     read_accessor (co_zstd K)"

lemma compression_accessor:
  assumes "read_accessors K"
  shows "accessor (compression_get_ref K) (compression_get_mut K)"
proof -
  have a: "accessor (wrapped_body C) (wrapped_get_mut C)" if "C \<in> {co_gzip K, co_deflate K, co_br K, co_zstd K}" for C
    using assms that by (auto simp: read_accessors_def wrapped_accessor)
  note laws = accessor.get_modify [OF a] accessor.modify_same [OF a] accessor.modify_modify [OF a]
  show ?thesis
  proof
    show "compression_get_ref K (compression_get_mut K g w) = g (compression_get_ref K w)" for g w
      by (cases w) (simp_all add: laws)
    show "compression_get_mut K (\<lambda>_. compression_get_ref K w) w = w" for w
      by (cases w) (simp_all add: laws)
    show "compression_get_mut K g (compression_get_mut K h w) = compression_get_mut K (\<lambda>i. g (h i)) w" for g h w
      by (cases w) (simp_all add: laws)
  qed
qed

lemma compression_get_pin_mut [simp]: "compression_get_pin_mut K g w = compression_get_mut K g w"
  by (cases w) simp_all

lemma compression_into_inner [simp]: "compression_into_inner K w = compression_get_ref K w"
  by (cases w) simp_all

lemma decompression_accessors:
  "decompression_get_ref K w = compression_get_ref K w"
  "decompression_get_mut K g w = compression_get_mut K g w"
  "decompression_get_pin_mut K g w = compression_get_mut K g w"
  "decompression_into_inner K w = compression_get_ref K w"
  by (cases w; simp)+

text \<open>
  The accessors reach the same body: after any sequence of writes through \<open>get_mut\<close> and \<open>get_pin_mut\<close>, \<open>get_ref\<close>
  and \<open>into_inner\<close> give the written body, the coding is the same, and writing the first body back
  gives the coded body as it was, with what the codec has buffered.
\<close>

theorem accessors_agree:
  assumes K: "read_accessors K"
  shows "compression_into_inner K (compression_get_pin_mut K h (compression_get_mut K g w)) =
      h (g (compression_get_ref K w)) \<and>
    decompression_into_inner K (decompression_get_pin_mut K h (decompression_get_mut K g w)) =
      h (g (decompression_get_ref K w)) \<and>
    compression_get_mut K (\<lambda>_. compression_get_ref K w) (compression_get_mut K g w) = w \<and>
    decompression_get_mut K (\<lambda>_. decompression_get_ref K w) (decompression_get_mut K g w) = w"
  using accessor.get_modify [OF compression_accessor [OF K]] accessor.restore [OF compression_accessor [OF K]]
  by (simp add: decompression_accessors)

text \<open>The accessors hold for the reference codec.\<close>

lemma read_accessors_bytes:
  "read_accessors \<lparr>co_gzip = byte_codec g, co_deflate = byte_codec g, co_br = byte_codec g, co_zstd = byte_codec g\<rparr>"
  by (simp add: read_accessors_def byte_reader.accessor_axioms)

text \<open>The accessors that the macro gives every middleware, on one that wraps its inner service.\<close>

lemma service_accessor:
  assumes "\<And>s w. inner (set_inner s w) = s" "\<And>w. set_inner (inner w) w = w"
    "\<And>s r w. set_inner s (set_inner r w) = set_inner s w"
  shows "accessor (inner_get_ref inner) (inner_get_mut inner set_inner)"
  using assms by unfold_locales (simp_all add: inner_get_ref_def inner_get_mut_def)

interpretation compression_service: accessor "inner_get_ref compression.cs_inner"
  "inner_get_mut compression.cs_inner (\<lambda>s. compression.cs_inner_update (\<lambda>_. s))"
  by (rule service_accessor) simp_all

end
