(* ===== verification/Constructors.thy ===== *)
theory Constructors
  imports Service_Ext Timeout Trace Follow_Redirect Request_Id Auth Sensitive_Headers Csrf
begin

text \<open>
  The two ways to make a middleware: \<open>X::new\<close> on a service, and \<open>X::layer\<close> for a layer that is applied to
  a service later.  The interface \<open>layered\<close> says that both give the same service; it is interpreted on
  every middleware that has both.  Then the policies behind references and boxes (\<open>follow_redirect/policy/mod.rs\<close>).
\<close>

section \<open>Layers\<close>

locale layered =
  fixes layer :: "'a \<Rightarrow> 'l" and apply_layer :: "'l \<Rightarrow> 's \<Rightarrow> 'w" and new :: "'s \<Rightarrow> 'a \<Rightarrow> 'w"
  assumes apply_new: "apply_layer (layer a) s = new s a"
begin

text \<open>A stack of layers applied from the inside out is the nesting of \<open>new\<close>.\<close>

lemma apply_twice:
  assumes "layered layer2 apply2 new2"
  shows "apply2 (layer2 b) (apply_layer (layer a) s) = new2 (new s a) b"
  by (simp only: apply_new layered.apply_new [OF assms])

end

definition map_request_body_layer_fn :: "'k \<Rightarrow> 'k map_request_body_layer" where
  "map_request_body_layer_fn k = map_request_body_layer_new k"

definition map_response_body_layer_fn :: "'k \<Rightarrow> 'k map_response_body_layer" where
  "map_response_body_layer_fn k = map_response_body_layer_new k"

definition propagate_header_layer_fn :: "string \<Rightarrow> propagate_header_layer" where
  "propagate_header_layer_fn n = propagate_header_layer_new n"

definition add_extension_layer_fn :: "'a \<Rightarrow> 'a add_extension_layer" where
  "add_extension_layer_fn v = add_extension_layer_new v"

definition set_status_layer_fn :: "nat \<Rightarrow> set_status_layer" where
  "set_status_layer_fn n = set_status_layer_new n"

definition request_body_limit_layer_fn :: "nat \<Rightarrow> request_body_limit_layer" where
  "request_body_limit_layer_fn n = request_body_limit_layer_new n"

definition set_request_id_layer_fn :: "string \<times> 'm \<Rightarrow> 'm set_request_id_layer" where
  "set_request_id_layer_fn p = set_request_id_layer_new (fst p) (snd p)"

definition propagate_request_id_layer_fn :: "string \<Rightarrow> propagate_request_id_layer" where
  "propagate_request_id_layer_fn n = propagate_request_id_layer_new n"

definition async_auth_layer_fn :: "'t \<Rightarrow> 't async_require_authorization_layer" where
  "async_auth_layer_fn t = async_require_authorization_layer_new t"

definition follow_redirect_layer_fn :: "unit \<Rightarrow> (limited \<times> 'x filter_credentials) follow_redirect_layer" where
  "follow_redirect_layer_fn u = follow_redirect_layer_new"

definition follow_redirect_layer_with_policy_fn :: "'p \<Rightarrow> 'p follow_redirect_layer" where
  "follow_redirect_layer_with_policy_fn p = follow_redirect_layer_with_policy p"

definition sensitive_request_layer_fn :: "string list \<Rightarrow> set_sensitive_request_headers_layer" where
  "sensitive_request_layer_fn ns = set_sensitive_request_headers_layer_new ns"

definition sensitive_response_layer_fn :: "string list \<Rightarrow> set_sensitive_response_headers_layer" where
  "sensitive_response_layer_fn ns = set_sensitive_response_headers_layer_new ns"

definition request_decompression_layer_fn :: "unit \<Rightarrow> request_decompression_layer" where
  "request_decompression_layer_fn u = request_decompression_layer_new"

definition decompression_layer_fn :: "unit \<Rightarrow> decompression_layer" where
  "decompression_layer_fn u = decompression_layer_new"

definition compression_layer_fn :: "('h, string, 'x) http_api \<times> ('b, 'd, 't, 'e) body_api \<Rightarrow> ('h, 'x, 'b) predicate compression_layer" where
  "compression_layer_fn p = compression_layer_new (fst p) (snd p)"

definition timeout_layer_fn :: "duration \<Rightarrow> timeout_layer" where
  "timeout_layer_fn d = timeout_layer_with_status_code 408 d"

definition timeout_layer_with_status_code_fn :: "nat \<times> duration \<Rightarrow> timeout_layer" where
  "timeout_layer_with_status_code_fn p = timeout_layer_with_status_code (fst p) (snd p)"

definition request_body_timeout_layer_fn :: "duration \<Rightarrow> request_body_timeout_layer" where
  "request_body_timeout_layer_fn d = request_body_timeout_layer_new d"

definition response_body_timeout_layer_fn :: "duration \<Rightarrow> response_body_timeout_layer" where
  "response_body_timeout_layer_fn d = response_body_timeout_layer_new d"

definition request_body_deadline_layer_fn :: "duration \<Rightarrow> request_body_deadline_layer" where
  "request_body_deadline_layer_fn d = request_body_deadline_layer_new d"

definition response_body_deadline_layer_fn :: "duration \<Rightarrow> response_body_deadline_layer" where
  "response_body_deadline_layer_fn d = response_body_deadline_layer_new d"

definition trace_layer_fn :: "'m \<Rightarrow> 'm default_trace_layer" where
  "trace_layer_fn m = trace_layer_new m"

lemmas layer_fn_defs = map_request_body_layer_fn_def map_response_body_layer_fn_def propagate_header_layer_fn_def add_extension_layer_fn_def set_status_layer_fn_def request_body_limit_layer_fn_def set_request_id_layer_fn_def propagate_request_id_layer_fn_def async_auth_layer_fn_def follow_redirect_layer_fn_def follow_redirect_layer_with_policy_fn_def sensitive_request_layer_fn_def sensitive_response_layer_fn_def request_decompression_layer_fn_def decompression_layer_fn_def compression_layer_fn_def timeout_layer_fn_def timeout_layer_with_status_code_fn_def request_body_timeout_layer_fn_def response_body_timeout_layer_fn_def request_body_deadline_layer_fn_def response_body_deadline_layer_fn_def trace_layer_fn_def

lemmas layer_new_defs = add_extension_layer_apply_def add_extension_layer_new_def add_extension_new_def async_require_authorization_layer_apply_def async_require_authorization_layer_new_def async_require_authorization_new_def compression_layer_layer_def compression_layer_new_def compression_new_def decompression_layer_layer_def decompression_layer_new_def decompression_new_def follow_redirect_layer_apply_def follow_redirect_layer_default_def follow_redirect_layer_new_def follow_redirect_layer_with_policy_def follow_redirect_new_def follow_redirect_preserve_extensions_def follow_redirect_with_policy_def map_request_body_layer_apply_def map_request_body_layer_new_def map_request_body_new_def map_response_body_layer_apply_def map_response_body_layer_new_def map_response_body_new_def propagate_header_layer_apply_def propagate_header_layer_new_def propagate_header_new_def propagate_request_id_layer_apply_def propagate_request_id_layer_new_def propagate_request_id_new_def request_body_deadline_layer_apply_def request_body_deadline_layer_new_def request_body_deadline_new_def request_body_limit_layer_apply_def request_body_limit_layer_new_def request_body_limit_new_def request_body_timeout_layer_apply_def request_body_timeout_layer_new_def request_body_timeout_new_def request_decompression_layer_layer_def request_decompression_layer_new_def request_decompression_new_def response_body_deadline_layer_apply_def response_body_deadline_layer_new_def response_body_deadline_new_def response_body_timeout_layer_apply_def response_body_timeout_layer_new_def response_body_timeout_new_def set_request_id_layer_apply_def set_request_id_layer_new_def set_request_id_new_def set_sensitive_request_headers_from_shared_def set_sensitive_request_headers_layer_apply_def set_sensitive_request_headers_layer_from_shared_def set_sensitive_request_headers_layer_new_def set_sensitive_request_headers_new_def set_sensitive_response_headers_from_shared_def set_sensitive_response_headers_layer_apply_def set_sensitive_response_headers_layer_from_shared_def set_sensitive_response_headers_layer_new_def set_sensitive_response_headers_new_def set_status_layer_apply_def set_status_layer_new_def set_status_new_def timeout_layer_apply_def timeout_layer_with_status_code_def timeout_new_def timeout_with_status_code_def trace_layer_apply_def trace_layer_new_def trace_new_def

interpretation map_request_body_layer: layered map_request_body_layer_fn map_request_body_layer_apply "\<lambda>s k. map_request_body_new s k"
  by unfold_locales (simp add: layer_fn_defs layer_new_defs)

interpretation map_response_body_layer: layered map_response_body_layer_fn map_response_body_layer_apply "\<lambda>s k. map_response_body_new s k"
  by unfold_locales (simp add: layer_fn_defs layer_new_defs)

interpretation propagate_header_layer: layered propagate_header_layer_fn propagate_header_layer_apply "\<lambda>s n. propagate_header_new s n"
  by unfold_locales (simp add: layer_fn_defs layer_new_defs)

interpretation add_extension_layer: layered add_extension_layer_fn add_extension_layer_apply "\<lambda>s v. add_extension_new s v"
  by unfold_locales (simp add: layer_fn_defs layer_new_defs)

interpretation set_status_layer: layered set_status_layer_fn set_status_layer_apply "\<lambda>s n. set_status_new s n"
  by unfold_locales (simp add: layer_fn_defs layer_new_defs)

interpretation request_body_limit_layer: layered request_body_limit_layer_fn request_body_limit_layer_apply "\<lambda>s n. request_body_limit_new s n"
  by unfold_locales (simp add: layer_fn_defs layer_new_defs)

interpretation set_request_id_layer: layered set_request_id_layer_fn set_request_id_layer_apply "\<lambda>s p. set_request_id_new s (fst p) (snd p)"
  by unfold_locales (simp add: layer_fn_defs layer_new_defs)

interpretation propagate_request_id_layer: layered propagate_request_id_layer_fn propagate_request_id_layer_apply "\<lambda>s n. propagate_request_id_new s n"
  by unfold_locales (simp add: layer_fn_defs layer_new_defs)

interpretation async_auth_layer: layered async_auth_layer_fn async_require_authorization_layer_apply "\<lambda>s t. async_require_authorization_new s t"
  by unfold_locales (simp add: layer_fn_defs layer_new_defs)

interpretation follow_redirect_layer: layered follow_redirect_layer_fn follow_redirect_layer_apply "\<lambda>s _. follow_redirect_new s"
  by unfold_locales (simp add: layer_fn_defs layer_new_defs)

interpretation follow_redirect_layer_with_policy: layered follow_redirect_layer_with_policy_fn follow_redirect_layer_apply "\<lambda>s p. follow_redirect_with_policy s p"
  by unfold_locales (simp add: layer_fn_defs layer_new_defs)

interpretation sensitive_request_layer: layered sensitive_request_layer_fn set_sensitive_request_headers_layer_apply "\<lambda>s ns. set_sensitive_request_headers_new s ns"
  by unfold_locales (simp add: layer_fn_defs layer_new_defs)

interpretation sensitive_response_layer: layered sensitive_response_layer_fn set_sensitive_response_headers_layer_apply "\<lambda>s ns. set_sensitive_response_headers_new s ns"
  by unfold_locales (simp add: layer_fn_defs layer_new_defs)

interpretation request_decompression_layer: layered request_decompression_layer_fn request_decompression_layer_layer "\<lambda>s _. request_decompression_new s"
  by unfold_locales (simp add: layer_fn_defs layer_new_defs)

interpretation decompression_layer: layered decompression_layer_fn decompression_layer_layer "\<lambda>s _. decompression_new s"
  by unfold_locales (simp add: layer_fn_defs layer_new_defs)

interpretation compression_layer: layered compression_layer_fn compression_layer_layer "\<lambda>s p. compression_new (fst p) (snd p) s"
  by unfold_locales (simp add: layer_fn_defs layer_new_defs)

interpretation timeout_layer: layered timeout_layer_fn timeout_layer_apply "\<lambda>s d. timeout_new s d"
  by unfold_locales (simp add: layer_fn_defs layer_new_defs)

interpretation timeout_layer_with_status_code: layered timeout_layer_with_status_code_fn timeout_layer_apply "\<lambda>s p. timeout_with_status_code s (fst p) (snd p)"
  by unfold_locales (simp add: layer_fn_defs layer_new_defs)

interpretation request_body_timeout_layer: layered request_body_timeout_layer_fn request_body_timeout_layer_apply "\<lambda>s d. request_body_timeout_new s d"
  by unfold_locales (simp add: layer_fn_defs layer_new_defs)

interpretation response_body_timeout_layer: layered response_body_timeout_layer_fn response_body_timeout_layer_apply "\<lambda>s d. response_body_timeout_new s d"
  by unfold_locales (simp add: layer_fn_defs layer_new_defs)

interpretation request_body_deadline_layer: layered request_body_deadline_layer_fn request_body_deadline_layer_apply "\<lambda>s d. request_body_deadline_new s d"
  by unfold_locales (simp add: layer_fn_defs layer_new_defs)

interpretation response_body_deadline_layer: layered response_body_deadline_layer_fn response_body_deadline_layer_apply "\<lambda>s d. response_body_deadline_new s d"
  by unfold_locales (simp add: layer_fn_defs layer_new_defs)

interpretation trace_layer: layered trace_layer_fn trace_layer_apply "\<lambda>s m. trace_new s m"
  by unfold_locales (simp add: layer_fn_defs layer_new_defs)

text \<open>\<open>Csrf::new\<close> takes its fields; the default layer is the layer of \<open>CsrfLayer::new\<close>.\<close>

definition csrf_new ::
  "'s \<Rightarrow> (string \<Rightarrow> 'u \<Rightarrow> bool) option \<Rightarrow> 't \<Rightarrow> origins \<Rightarrow> ('u, 't, 's) csrf" where
  "csrf_new s bypass response trusted =
     \<lparr>csrf.cs_inner = s, cs_insecure_bypass = bypass, cs_rejection_response = response, cs_trusted_origins = trusted\<rparr>"

definition csrf_layer_new :: "('u, unit) csrf_layer" where
  "csrf_layer_new = csrf_layer_default ()"

definition csrf_default :: "'s \<Rightarrow> 't \<Rightarrow> ('u, 't, 's) csrf" where
  "csrf_default s t =
     \<lparr>csrf.cs_inner = s, cs_insecure_bypass = None, cs_rejection_response = t, cs_trusted_origins = {}\<rparr>"

lemma csrf_layer_apply_new:
  "csrf_layer_apply l s = csrf_new s (cf_insecure_bypass l) (cf_rejection_response l) (cf_trusted_origins l)"
  "csrf_layer_apply csrf_layer_new s = csrf_default s ()"
  by (simp_all add: csrf_layer_apply_def csrf_new_def csrf_layer_new_def csrf_layer_default_def csrf_default_def)

section \<open>Policies behind references and boxes\<close>

text \<open>
  The impls for \<open>&mut P\<close> and \<open>Box<P>\<close> call the methods of the policy they point to, whose state is the
  state of the pointer.
\<close>

definition ref_policy :: "('p, 'u, 'q, 'b, 'e) policy \<Rightarrow> ('p, 'u, 'q, 'b, 'e) policy" where
  "ref_policy P =
     \<lparr>pol_redirect = (\<lambda>p attempt. pol_redirect P p attempt),
      pol_on_request = (\<lambda>p request. pol_on_request P p request),
      pol_clone_body = (\<lambda>p body. pol_clone_body P p body)\<rparr>"

definition box_policy :: "('p, 'u, 'q, 'b, 'e) policy \<Rightarrow> ('p, 'u, 'q, 'b, 'e) policy" where
  "box_policy P =
     \<lparr>pol_redirect = (\<lambda>p attempt. pol_redirect P p attempt),
      pol_on_request = (\<lambda>p request. pol_on_request P p request),
      pol_clone_body = (\<lambda>p body. pol_clone_body P p body)\<rparr>"

definition policy_ext_and ::
  "('p, 'u, 'q, 'b, 'e) policy \<Rightarrow> ('r, 'u, 'q, 'b, 'e) policy \<Rightarrow> ('p \<times> 'r, 'u, 'q, 'b, 'e) policy" where
  "policy_ext_and A B = and_policy A B"

definition policy_ext_or ::
  "('p, 'u, 'q, 'b, 'e) policy \<Rightarrow> ('r, 'u, 'q, 'b, 'e) policy \<Rightarrow> ('p \<times> 'r, 'u, 'q, 'b, 'e) policy" where
  "policy_ext_or A B = or_policy A B"

text \<open>
  Boxing a policy does not change how a redirection is followed, so the bounds proved for a policy hold
  for its boxed combinations.
\<close>

lemma boxed_policies [simp]: "ref_policy P = P" "box_policy P = P"
  by (simp_all add: ref_policy_def box_policy_def)

context and_budget
begin

lemma boxed_budget:
  "policy_budget (box_policy (policy_ext_and (ref_policy A) (box_policy B))) (\<lambda>p. budget (fst p))"
  by (simp add: policy_ext_and_def conj.policy_budget_axioms)

end

text \<open>What one policy follows \<open>or\<close> follows; what one stops \<open>and\<close> stops.\<close>

lemma policy_ext_or_follows:
  "fst (pol_redirect A a t) = Inr Follow \<Longrightarrow> fst (pol_redirect (policy_ext_or A B) (a, b) t) = Inr Follow"
  by (auto simp: policy_ext_or_def or_policy_def split: prod.splits sum.splits action.splits)

lemma policy_ext_and_follows:
  "fst (pol_redirect (policy_ext_and A B) (a, b) t) = Inr Follow \<longleftrightarrow>
     fst (pol_redirect A a t) = Inr Follow \<and> fst (pol_redirect B b t) = Inr Follow"
  by (auto simp: policy_ext_and_def and_policy_def split: prod.splits sum.splits action.splits)

end
