(* ===== verification/Messages.thy ===== *)
theory Messages
  imports Trace_Callbacks Csrf Timeout
begin

text \<open>
  The \<open>Display\<close> impls of the failure classes and errors (\<open>classify/\<close>, \<open>csrf/mod.rs\<close>, \<open>timeout/body.rs\<close>), which
  the default \<open>on_failure\<close> callback of \<open>trace/\<close> prints.  The text of a status code belongs to the \<open>http\<close>
  crate and the quoted form of a string to the standard library; both are arguments.  The text of a gRPC
  failure tells the failure, so that the log says why a call has failed.
\<close>

section \<open>Failure classes\<close>

definition server_errors_display :: "(nat \<Rightarrow> string) \<Rightarrow> status_failure_class \<Rightarrow> string" where
  "server_errors_display status f =
     (case f of
        StatusCodeFailure code \<Rightarrow> ''Status code: '' @ status code
      | ErrorFailure e \<Rightarrow> ''Error: '' @ e)"

definition status_in_range_display :: "(nat \<Rightarrow> string) \<Rightarrow> status_failure_class \<Rightarrow> string" where
  "status_in_range_display status f =
     (case f of
        StatusCodeFailure code \<Rightarrow> ''Status code: '' @ status code
      | ErrorFailure e \<Rightarrow> ''Error: '' @ e)"

definition grpc_status_code :: "grpc_status \<Rightarrow> grpc_code option" where
  "grpc_status_code s = gs_code s"

definition grpc_status_code_raw :: "grpc_status \<Rightarrow> int" where
  "grpc_status_code_raw s = gs_code_raw s"

definition grpc_status_message :: "grpc_status \<Rightarrow> string option" where
  "grpc_status_message s = gs_message s"

text \<open>The derived \<open>Debug\<close> of \<open>GrpcCode\<close> prints the name of the variant.\<close>

definition grpc_code_debug :: "grpc_code \<Rightarrow> string" where
  "grpc_code_debug c = (case c of
     GrpcOk \<Rightarrow> ''Ok''
   | GrpcCancelled \<Rightarrow> ''Cancelled''
   | GrpcUnknown \<Rightarrow> ''Unknown''
   | GrpcInvalidArgument \<Rightarrow> ''InvalidArgument''
   | GrpcDeadlineExceeded \<Rightarrow> ''DeadlineExceeded''
   | GrpcNotFound \<Rightarrow> ''NotFound''
   | GrpcAlreadyExists \<Rightarrow> ''AlreadyExists''
   | GrpcPermissionDenied \<Rightarrow> ''PermissionDenied''
   | GrpcResourceExhausted \<Rightarrow> ''ResourceExhausted''
   | GrpcFailedPrecondition \<Rightarrow> ''FailedPrecondition''
   | GrpcAborted \<Rightarrow> ''Aborted''
   | GrpcOutOfRange \<Rightarrow> ''OutOfRange''
   | GrpcUnimplemented \<Rightarrow> ''Unimplemented''
   | GrpcInternal \<Rightarrow> ''Internal''
   | GrpcUnavailable \<Rightarrow> ''Unavailable''
   | GrpcDataLoss \<Rightarrow> ''DataLoss''
   | GrpcUnauthenticated \<Rightarrow> ''Unauthenticated'')"

definition grpc_status_display :: "grpc_status \<Rightarrow> string" where
  "grpc_status_display s =
     (case gs_code s of
        Some code \<Rightarrow> grpc_code_debug code
      | None \<Rightarrow> ''Code('' @ show_int (gs_code_raw s) @ '')'') @
     (case gs_message s of Some message \<Rightarrow> '': '' @ message | None \<Rightarrow> [])"

definition grpc_failure_display :: "grpc_failure_class \<Rightarrow> string" where
  "grpc_failure_display f =
     (case f of
        GrpcStatusFailure status \<Rightarrow> ''Status: '' @ grpc_status_display status
      | GrpcErrorFailure e \<Rightarrow> ''Error: '' @ e)"

section \<open>Errors\<close>

text \<open>\<open>quoted\<close> is the \<open>{:?}\<close> of a string; the last message ends with an ellipsis in UTF-8.\<close>

definition config_error_display :: "(string \<Rightarrow> string) \<Rightarrow> config_error \<Rightarrow> string" where
  "config_error_display quoted e =
     (case e of
        InvalidOriginUrl origin message \<Rightarrow> ''invalid origin '' @ quoted origin @ '': '' @ message
      | InvalidOriginUrlComponents origin \<Rightarrow>
          ''invalid origin '' @ quoted origin @ '': path, query, and fragment are not allowed''
      | OpaqueOrigin origin \<Rightarrow> ''invalid origin '' @ quoted origin @ '': scheme must be http or https''
      | NonAsciiHostname origin \<Rightarrow>
          ''invalid origin '' @ quoted origin @ '': non-ASCII hostnames must be supplied in punycode (xn--'' @
          map char_of [0xE2 :: nat, 0x80, 0xA6] @ '')'')"

definition timeout_error_display :: "unit \<Rightarrow> string" where
  "timeout_error_display e = ''data was not received within the designated timeout''"

section \<open>What the text tells\<close>

text \<open>The status as the classifiers make it: the code is what the number stands for.\<close>

definition status_consistent :: "grpc_status \<Rightarrow> bool" where
  "status_consistent s \<longleftrightarrow> gs_code s = grpc_from_i32 (gs_code_raw s)"

lemma classified_consistent:
  "classify_grpc_metadata H decode h m = GrpcNonSuccess s \<Longrightarrow> status_consistent s"
  by (auto simp: classify_grpc_metadata_def status_consistent_def Let_def split: option.splits if_splits)

lemma show_nat_digits: "c \<in> set (show_nat n) \<Longrightarrow> is_digit c"
  by (induction n rule: show_nat.induct)
    (subst (asm) (2) show_nat.simps, auto simp: is_digit_def byte_def split: if_splits)

lemma show_int_inject: "show_int i = show_int j \<longleftrightarrow> i = j"
proof -
  have digit: "show_nat n \<noteq> CHR ''-'' # s" for n s
    using show_nat_digits [of "CHR ''-''" n] by (auto simp: is_digit_def byte_def)
  show ?thesis
    using digit digit [symmetric] by (auto simp: show_int_def)
qed

lemma show_int_chars: "c \<in> set (show_int i) \<Longrightarrow> c = CHR ''-'' \<or> is_digit c"
  by (auto simp: show_int_def dest: show_nat_digits split: if_splits)

definition status_head :: "grpc_status \<Rightarrow> string" where
  "status_head s = (case gs_code s of Some code \<Rightarrow> grpc_code_debug code
     | None \<Rightarrow> ''Code('' @ show_int (gs_code_raw s) @ '')'')"

lemma grpc_code_debug_chars: "list_all (\<lambda>c. c \<noteq> CHR '':'' \<and> c \<noteq> CHR ''('') (grpc_code_debug c)"
  by (cases c) (simp_all add: grpc_code_debug_def)

lemma grpc_code_debug_inject: "grpc_code_debug c = grpc_code_debug d \<longleftrightarrow> c = d"
  by (cases c; cases d; simp add: grpc_code_debug_def)

lemma status_head_no_colon: "CHR '':'' \<notin> set (status_head s)"
  using grpc_code_debug_chars show_int_chars [of "CHR '':''" "gs_code_raw s"]
  by (fastforce simp: status_head_def list_all_iff is_digit_def byte_def split: option.splits)

lemma status_head_inject:
  assumes "status_consistent s" "status_consistent t" and eq: "status_head s = status_head t"
  shows "gs_code s = gs_code t \<and> gs_code_raw s = gs_code_raw t"
proof -
  have other: "grpc_code_debug c \<noteq> ''Code('' @ r" for c r
    using grpc_code_debug_chars [of c] by auto
  show ?thesis
    using assms other other [symmetric]
    by (auto simp: status_head_def status_consistent_def grpc_code_debug_inject show_int_inject
        dest!: grpc_from_i32_Some split: option.splits)
qed

lemma grpc_status_display_inject:
  assumes s: "status_consistent s" and t: "status_consistent t"
    and eq: "grpc_status_display s = grpc_status_display t"
  shows "s = t"
proof -
  have display: "grpc_status_display u =
      status_head u @ (case gs_message u of Some m \<Rightarrow> '':'' @ '' '' @ m | None \<Rightarrow> [])" for u
    by (simp add: grpc_status_display_def status_head_def split: option.split)
  have colon: "status_head u \<noteq> status_head v @ CHR '':'' # r" for u v r
    using status_head_no_colon [of u] by (metis in_set_conv_decomp)
  have "status_head s = status_head t \<and> gs_message s = gs_message t"
  proof (cases "gs_message s"; cases "gs_message t")
    fix m m'
    assume m: "gs_message s = Some m" "gs_message t = Some m'"
    with eq have "status_head s @ '':'' @ '' '' @ m = status_head t @ '':'' @ '' '' @ m'" by (simp add: display)
    from colon_append_eq [OF this status_head_no_colon status_head_no_colon] m show ?thesis by simp
  qed (use eq in \<open>simp_all add: display colon colon [symmetric]\<close>)
  with status_head_inject [OF s t] show ?thesis by simp
qed

text \<open>
  The failure in the log line of the default \<open>on_failure\<close> is the failure that was classified: two calls
  whose classifications print the same failed with the same code, number and message.
\<close>

theorem logged_failure_identifies:
  assumes s: "classify_grpc_metadata H decode h m = GrpcNonSuccess s"
    and t: "classify_grpc_metadata H decode h' m' = GrpcNonSuccess t"
    and log: "le_fields (on_failure secs grpc_failure_display c (GrpcStatusFailure s) d sp) =
      le_fields (on_failure secs grpc_failure_display c' (GrpcStatusFailure t) d' sp')"
  shows "s = t"
proof -
  have "grpc_failure_display (GrpcStatusFailure s) = grpc_failure_display (GrpcStatusFailure t)"
    using log by (auto simp: on_failure_def event_dynamic_lvl_def Let_def split: level.splits)
  then show ?thesis
    using grpc_status_display_inject [OF s [THEN classified_consistent] t [THEN classified_consistent]]
    by (simp add: grpc_failure_display_def)
qed

lemma failure_kinds_differ:
  "grpc_failure_display (GrpcStatusFailure s) \<noteq> grpc_failure_display (GrpcErrorFailure e)"
  "server_errors_display status (StatusCodeFailure n) \<noteq> server_errors_display status (ErrorFailure e)"
  by (simp_all add: grpc_failure_display_def server_errors_display_def)

end
