(* ===== verification/Client_Stack.thy ===== *)
theory Client_Stack
  imports Auth Follow_Redirect
begin

text \<open>
  A client that adds credentials and follows redirections (\<open>auth/add_authorization.rs\<close>, \<open>follow_redirect/mod.rs\<close>):
  in which order of the two middlewares the credentials leave the origin they are meant for.  The URIs
  of a chain of followed redirections are listed, the last one first.
\<close>

section \<open>The URIs of a chain\<close>

inductive redirect_trace for H U L P ab ei sz db oneshot where
  trace_start: "redirect_trace H U L P ab ei sz db oneshot [] [rf_uri st] st st"
| trace_next: "redirect_trace H U L P ab ei sz db oneshot rs us st st1 \<Longrightarrow>
    redirect_response H U L P ab ei sz db oneshot (st1\<lparr>rf_future := k\<rparr>) res = (Pending, st2) \<Longrightarrow>
    redirect_trace H U L P ab ei sz db oneshot (rs @ [res]) (rf_uri st2 # us) st st2"

definition stays_at_origin :: "'u uri_api \<Rightarrow> 'u list \<Rightarrow> bool" where
  "stays_at_origin U us = successively (\<lambda>later earlier. eq_origin U earlier later) us"

lemma trace_chain:
  "redirect_trace H U L P ab ei sz db oneshot rs us st st' \<Longrightarrow>
     redirect_chain H U L P ab ei sz db oneshot rs st st' \<and> us \<noteq> [] \<and> hd us = rf_uri st'"
proof (induction rule: redirect_trace.induct)
  case (trace_next rs us st st1 k res st2)
  then show ?case by (auto intro: chain_step)
qed (simp add: chain_refl)

lemma trace_service:
  "redirect_trace H U L P ab ei sz db oneshot rs us st st' \<Longrightarrow> rf_service st' = rf_service st"
proof (induction rule: redirect_trace.induct)
  case (trace_next rs us st st1 k res st2)
  from trace_next.hyps(2) have "rf_service st2 = rf_service st1"
    by (rule redirect_response_Pending) simp
  with trace_next.IH show ?case by simp
qed simp

lemma trace_future:
  assumes "redirect_trace H U L P ab ei sz db oneshot rs us st st'" and "rs \<noteq> []"
  shows "\<exists>q. rf_future st' = Inr (oneshot (rf_service st) q) \<and> req_headers q = rf_headers st'"
  using assms(1)
proof cases
  case (trace_next rs' us' st1 k res)
  have "rf_service st1 = rf_service st" by (rule trace_service [OF trace_next(3)])
  then show ?thesis
    using trace_next(4) by (elim redirect_response_Pending) auto
qed (use assms(2) in simp)

section \<open>The credentials of a chain\<close>

definition filters_cross_origin :: "'x filter_credentials \<Rightarrow> bool" where
  "filters_cross_origin f \<longleftrightarrow> filters_credentials f \<and> \<not> fc_block_any f"

lemma filters_cross_origin_new: "filters_cross_origin filter_credentials_new"
  by (simp add: filters_cross_origin_def filters_credentials_def filter_credentials_new_def)

text \<open>
  With the standard policy the headers of the block list are kept exactly as long as every redirection
  stays at the origin of the URI before it.
\<close>

lemma trace_credentials:
  assumes H: "header_map H" and n: "n \<in> set BLOCKLIST"
    and trace: "redirect_trace H U L (standard_policy H U) ab ei sz db oneshot rs us st st'"
    and filter: "filters_cross_origin (snd (rf_policy st))"
  shows "filters_cross_origin (snd (rf_policy st')) \<and>
    hm_get_all H (rf_headers st') n = (if stays_at_origin U us then hm_get_all H (rf_headers st) n else [])"
  using trace filter
proof (induction rule: redirect_trace.induct)
  case (trace_start st)
  then show ?case by (simp add: stays_at_origin_def)
next
  case (trace_next rs us st st1 k res st2)
  have f1: "filters_cross_origin (snd (rf_policy st1))"
    and h1: "hm_get_all H (rf_headers st1) n = (if stays_at_origin U us then hm_get_all H (rf_headers st) n else [])"
    using trace_next.IH [OF trace_next.prems] by auto
  obtain vs where us: "us = rf_uri st1 # vs"
    using trace_chain [OF trace_next.hyps(1)] by (cases us) auto
  have stays: "stays_at_origin U (rf_uri st2 # us) \<longleftrightarrow> eq_origin U (rf_uri st1) (rf_uri st2) \<and> stays_at_origin U us"
    by (simp add: stays_at_origin_def us)
  from trace_next.hyps(2) show ?case
  proof (rule standard_step)
    fix m b h body f q
    assume rw: "redirect_rewrite H (res_status res) (rf_method (st1\<lparr>rf_future := k\<rparr>), rf_body (st1\<lparr>rf_future := k\<rparr>),
        rf_headers (st1\<lparr>rf_future := k\<rparr>)) = Some (m, b, h)"
      and f: "f = (snd (rf_policy (st1\<lparr>rf_future := k\<rparr>)))\<lparr>fc_blocked := fc_block_any (snd (rf_policy (st1\<lparr>rf_future := k\<rparr>))) \<or>
        (fc_block_cross_origin (snd (rf_policy (st1\<lparr>rf_future := k\<rparr>))) \<and>
         \<not> eq_origin U (rf_uri (st1\<lparr>rf_future := k\<rparr>)) (rf_uri st2))\<rparr>"
      and q: "fc_on_request H f (redirect_request (st1\<lparr>rf_future := k\<rparr>) m (rf_uri st2) h body) = (q, f)"
      and p2: "snd (rf_policy st2) = f" and h2: "rf_headers st2 = req_headers q"
    have blocked: "fc_blocked f \<longleftrightarrow> \<not> eq_origin U (rf_uri st1) (rf_uri st2)"
      using f1 by (simp add: f filters_cross_origin_def filters_credentials_def)
    have h: "hm_get_all H h n = hm_get_all H (rf_headers st1) n"
      using rw n by (auto simp: redirect_rewrite_def BLOCKLIST_def header_map.get_all_drop_payload [OF H]
          split: if_splits)
    have "hm_get_all H (req_headers q) n = (if fc_blocked f then [] else hm_get_all H h n)"
    proof (cases "fc_blocked f")
      case True
      moreover have "fc_remove_blocklisted f \<or> fc_remove_all f"
        using f1 by (simp add: f filters_cross_origin_def filters_credentials_def)
      ultimately show ?thesis using header_map.fc_on_request_blocked [OF H q] n by simp
    next
      case False
      then show ?thesis using q by (auto simp: fc_on_request_def redirect_request_def)
    qed
    moreover have "filters_cross_origin f"
      using f1 by (simp add: f filters_cross_origin_def filters_credentials_def)
    ultimately show ?thesis by (simp add: p2 h2 blocked h h1 stays)
  qed
qed

lemma follow_redirect_call_start:
  assumes H: "header_map H"
    and call: "follow_redirect_call clone H (standard_policy H U) ei db inner_call fr req = (fr', st)"
    and fresh: "\<not> fc_blocked (snd (fr_policy fr))"
  shows "rf_headers st = req_headers req \<and> snd (rf_policy st) = snd (fr_policy fr) \<and>
    (\<exists>q f. inner_call (fr_inner fr) q = (rf_service st, f) \<and> rf_future st = Inl f \<and> req_headers q = req_headers req)"
  using call fresh
  by (auto simp: follow_redirect_call_def standard_policy_def and_policy_def limited_policy_def fc_policy_def
      default_on_request_def fc_on_request_def Let_def split: prod.splits)

text \<open>
  Claim C25.  The order of \<open>AddAuthorization\<close> and \<open>FollowRedirect\<close> decides where the credentials go.  With
  \<open>AddAuthorization\<close> outside, a followed redirection carries them exactly if no redirection so far has
  left the origin of the URI before it; with \<open>AddAuthorization\<close> inside, the filter of the policy is
  without effect, and every request of the chain carries them, to whatever origin it goes.
\<close>

theorem authorization_order:
  fixes P :: "(limited \<times> 'x filter_credentials, 'u, ('h, 'u, 'x, 'b) request, 'b, 'e) policy"
  assumes H: "header_map H" and P: "P = standard_policy H U"
    and filter: "filters_cross_origin (snd (fr_policy (aa_inner c)))" "\<not> fc_blocked (snd (fr_policy (aa_inner c)))"
    and outside: "add_authorization_call H
      (follow_redirect_call clone H P ei db inner_call) c req = (c', st0)"
      "redirect_trace H U L P ab eu sz db oneshot rs us st0 st" "rs \<noteq> []"
    and fresh: "\<not> fc_blocked (snd (fr_policy d))"
    and inside: "follow_redirect_call clone' H P ei db
      (add_authorization_call H inner_call) d req = (d', st0')"
      "redirect_trace H U L P ab eu sz db
        (\<lambda>s q. snd (add_authorization_call H inner_call s q)) rs' us' st0' st'" "rs' \<noteq> []"
  shows "(\<exists>s q. rf_future st = Inr (oneshot s q) \<and>
      hm_get_all H (req_headers q) ''authorization'' = (if stays_at_origin U us then [aa_value c] else [])) \<and>
    (\<exists>s q. rf_future st' = Inr (snd (inner_call s q)) \<and>
      hm_get_all H (req_headers q) ''authorization'' = [aa_value (fr_inner d)])"
proof
  let ?req = "req\<lparr>req_headers := hm_insert H (req_headers req) ''authorization'' (aa_value c)\<rparr>"
  obtain fr' where "follow_redirect_call clone H P ei db inner_call (aa_inner c) ?req = (fr', st0)"
    using outside(1) by (auto simp: add_authorization_call_def split: prod.splits)
  from follow_redirect_call_start [OF H this [unfolded P] filter(2)] filter(1)
  have "hm_get_all H (rf_headers st0) ''authorization'' = [aa_value c]" "filters_cross_origin (snd (rf_policy st0))"
    by (simp_all add: header_map.laws [OF H])
  with trace_credentials [OF H _ outside(2) [unfolded P], of "''authorization''"]
  have "hm_get_all H (rf_headers st) ''authorization'' = (if stays_at_origin U us then [aa_value c] else [])"
    by (simp add: BLOCKLIST_def)
  with trace_future [OF outside(2,3)]
  show "\<exists>s q. rf_future st = Inr (oneshot s q) \<and>
      hm_get_all H (req_headers q) ''authorization'' = (if stays_at_origin U us then [aa_value c] else [])"
    by metis
  from follow_redirect_call_start [OF H inside(1) [unfolded P] fresh] obtain q f
    where "add_authorization_call H inner_call (fr_inner d) q = (rf_service st0', f)" by blast
  then have v: "aa_value (rf_service st0') = aa_value (fr_inner d)"
    by (auto simp: add_authorization_call_def split: prod.splits dest!: sym [of _ "rf_service st0'"])
  from trace_future [OF inside(2,3)] obtain q' where
    "rf_future st' = Inr (snd (add_authorization_call H inner_call (rf_service st0') q'))" by blast
  then show "\<exists>s q. rf_future st' = Inr (snd (inner_call s q)) \<and>
      hm_get_all H (req_headers q) ''authorization'' = [aa_value (fr_inner d)]"
    by (intro exI [of _ "aa_inner (rf_service st0')"]
        exI [of _ "q'\<lparr>req_headers := hm_insert H (req_headers q') ''authorization'' (aa_value (rf_service st0'))\<rparr>"])
      (simp add: add_authorization_call_def header_map.laws [OF H] v split: prod.split)
qed

text \<open>Both orders for a request that is redirected from \<open>https://a\<close> to \<open>https://b\<close>.\<close>

type_synonym ex_call = "nat \<times> ex_answer"

definition ex_inner_call ::
  "unit \<Rightarrow> ((string \<times> string) list, simple_uri, string, unit) request \<Rightarrow> unit \<times> ex_call" where
  "ex_inner_call s q = (s, (1, Inr ex_found))"

definition ex_anonymous :: "((string \<times> string) list, simple_uri, string, unit) request" where
  "ex_anonymous = ex_request\<lparr>req_headers := []\<rparr>"

definition ex_outside :: "((unit, limited \<times> string filter_credentials) follow_redirect, string) add_authorization" where
  "ex_outside = \<lparr>aa_inner = ex_service, aa_value = ''secret''\<rparr>"

definition ex_inside :: "((unit, string) add_authorization, limited \<times> string filter_credentials) follow_redirect" where
  "ex_inside = follow_redirect_with_policy \<lparr>aa_inner = (), aa_value = ''secret''\<rparr> standard_default"

definition ex_outside_call ::
  "_ \<times> (ex_call, ex_call, unit, limited \<times> string filter_credentials, simple_uri,
    (string \<times> string) list, string, unit) redirect_future" where
  "ex_outside_call = add_authorization_call (list_http [])
     (follow_redirect_call id (list_http []) ex_policy (\<lambda>_. Some 0) () ex_inner_call) ex_outside ex_anonymous"

definition ex_inside_call ::
  "_ \<times> (ex_call, ex_call, (unit, string) add_authorization, limited \<times> string filter_credentials, simple_uri,
    (string \<times> string) list, string, unit) redirect_future" where
  "ex_inside_call = follow_redirect_call id (list_http []) ex_policy (\<lambda>_. Some 0) ()
     (add_authorization_call (list_http []) ex_inner_call) ex_inside ex_anonymous"

definition ex_follow where
  "ex_follow os st = redirect_response (list_http []) simple_uri_api ex_url_api ex_policy id
     (\<lambda>u x. uri_to_string simple_uri_api u) (\<lambda>_. Some 0) () os (st\<lparr>rf_future := rf_future st\<rparr>) ex_found"

lemma ex_follow_trace:
  assumes "fst (ex_follow os st) = Pending"
  shows "redirect_trace (list_http []) simple_uri_api ex_url_api ex_policy id (\<lambda>u x. uri_to_string simple_uri_api u)
    (\<lambda>_. Some 0) () os [ex_found] [rf_uri (snd (ex_follow os st)), rf_uri st] st (snd (ex_follow os st))"
proof -
  have "redirect_response (list_http []) simple_uri_api ex_url_api ex_policy id (\<lambda>u x. uri_to_string simple_uri_api u)
      (\<lambda>_. Some 0) () os (st\<lparr>rf_future := rf_future st\<rparr>) ex_found = (Pending, snd (ex_follow os st))"
    using assms by (metis ex_follow_def prod.collapse)
  from trace_next [OF trace_start this] show ?thesis by simp
qed

theorem authorization_order_witness:
  "\<exists>st st' q q' s s'.
     st = snd (ex_follow ex_oneshot (snd ex_outside_call)) \<and> rf_future st = Inr (ex_oneshot s q) \<and>
     hm_get_all (list_http ([] :: string)) (req_headers q) ''authorization'' = [] \<and>
     st' = snd (ex_follow (\<lambda>s q. snd (add_authorization_call (list_http []) ex_inner_call s q)) (snd ex_inside_call)) \<and>
     rf_future st' = Inr (snd (ex_inner_call s' q')) \<and>
     hm_get_all (list_http ([] :: string)) (req_headers q') ''authorization'' = [''secret'']"
proof -
  let ?os = "\<lambda>s q. snd (add_authorization_call (list_http []) ex_inner_call s q)"
  have pending: "fst (ex_follow ex_oneshot (snd ex_outside_call)) = Pending"
    "fst (ex_follow ?os (snd ex_inside_call)) = Pending" by code_simp+
  have filter: "filters_cross_origin (snd (fr_policy (aa_inner ex_outside)))"
    "\<not> fc_blocked (snd (fr_policy (aa_inner ex_outside)))" "\<not> fc_blocked (snd (fr_policy ex_inside))" by code_simp+
  have cross: "\<not> stays_at_origin simple_uri_api
    [rf_uri (snd (ex_follow ex_oneshot (snd ex_outside_call))), rf_uri (snd ex_outside_call)]" by code_simp
  have "aa_value ex_outside = ''secret''" "aa_value (fr_inner ex_inside) = ''secret''" by code_simp+
  with authorization_order [OF header_map_list_http ex_policy_def filter(1,2)
      ex_outside_call_def [symmetric, THEN trans, OF prod.collapse [symmetric]] ex_follow_trace [OF pending(1)] _ filter(3)
      ex_inside_call_def [symmetric, THEN trans, OF prod.collapse [symmetric]] ex_follow_trace [OF pending(2)]] cross
  show ?thesis by simp
qed

end
