(* ===== verification/Spec2Isabelle.thy ===== *)
theory Spec2Isabelle
  imports Prelude Http Content_Encoding Cors_Headers Cors Cors_Builder Cors_Browser Csrf Follow_Redirect_Policy Follow_Redirect
    Body Service Limit Set_Header Timeout In_Flight
    Catch_Panic Validate_Request Auth Sensitive_Headers Message_Layers Request_Id
    Classify Trace Trace_Callbacks On_Early_Drop
    Compression_Utils Compression Decompression
    Path Fs_Headers Open_File Serve_Dir Serve_Headers Serve_Site Serve_Cache Dos_Name Normalize_Path Redirect_Service Service_Ext
    Macros Readiness Accessors Constructors Messages Client_Stack
begin

text \<open>
  A model of \<open>tower-http\<close> (\<open>src/tower-http/src\<close>): the HTTP middlewares for \<open>tower\<close> services, and the
  services for static files and redirections.  All Cargo features are on and the target is Unix.

  The program.  A middleware is a layer (a configuration), a service that wraps an inner service, and a
  response future that wraps the future of the inner service; many also wrap the body of the request or
  of the response.  Nothing is shared between middlewares but the request and response they pass on, so a
  component here is one middleware, and its state is what its structs hold.

  How it is modelled.
  \<^item> A struct is a record with the fields of the source under a short prefix, an enum a datatype.
  \<^item> \<open>Service::call\<close> is a function \<open>'s \<Rightarrow> request \<Rightarrow> 's \<times> future\<close> (\<open>service_fn\<close> of Service), the inner call
    an argument.  A future or a body is polled by a function from its state to \<open>Pending\<close> or \<open>Ready\<close> and
    its next state (\<open>poll_fn\<close>, and the record \<open>body_api\<close> of Body for \<open>poll_frame\<close>, \<open>is_end_stream\<close> and
    \<open>size_hint\<close>).  Wake-ups are not modelled: a run polls again and again.
  \<^item> A \<open>Result\<close> is a sum with the error on the left, a panic a \<open>panics\<close> sum of its message; callbacks of
    the user that are called for their effect are events of a list.
  \<^item> Machine integers whose width matters are words (\<open>In_Flight\<close>, \<open>Classify\<close>, \<open>Macros\<close>) or natural numbers
    with the bound written out (\<open>parse_usize\<close>, the sizes of files and ranges).  A duration is its number of
    nanoseconds (Cors_Headers, Trace_Callbacks), and otherwise what the timer is started with.
  \<^item> Fuel: \<open>run_future poll n w\<close> polls at most \<open>n\<close> times and \<open>body_read B n b\<close> reads at most \<open>n\<close> frames.
    Theorems on results say for which \<open>n\<close> they exist: an adaptor answers after as many polls as the
    future it wraps, a redirection after the sum of the polls of its requests, whose number the policy
    bounds, and \<open>ServeDir\<close> after the polls that opening the file takes.  The search for a precompressed
    variant terminates because each failed attempt removes a coding.

  Arguments.  Code that is not in this repository is an argument with its documented laws.
  \<^item> Http: the header map \<open>H\<close> (locales \<open>header_map\<close> and \<open>header_text\<close>, interpreted on association lists),
    the URI \<open>U\<close>, requests and responses.  A \<open>HeaderValue\<close> is its bytes.
  \<^item> The backend of \<open>ServeDir\<close> (\<open>B\<close>), percent decoding, MIME types, dates and range parsing (\<open>fs_env\<close>);
    the codecs and stream adaptors of \<open>async-compression\<close> and \<open>tokio-util\<close> (\<open>stream_codecs\<close>); the timers of
    \<open>tokio\<close>; \<open>Limited\<close> of \<open>http-body-util\<close>; \<open>base64\<close>; \<open>mime\<close>; closures; clones of services.

  The theories, in the order of the code.
  \<^item> Prelude: polls and runs, panics, the string functions of the standard library.  Body and Service: the
    contracts of bodies (\<open>body_contract\<close>) and of response futures that map the inner result
    (\<open>response_adaptor\<close>), \<open>body.rs\<close>.  Macros: \<open>macros.rs\<close>, with \<open>rate_limited\<close> as a step relation of threads.
  \<^item> Content_Encoding (\<open>content_encoding.rs\<close>): q-values against their grammar, the best acceptable coding.
  \<^item> Cors_Headers, Cors, Cors_Builder (\<open>cors/\<close>): the parts of a policy, the layer and service, and the
    builder as an inductive set of layers; which headers a response carries, that checked rules exclude
    wildcards with credentials, and for which built layers \<open>Vary\<close> is sound.  Cors_Browser: the CORS protocol of
    the Fetch standard on the browser's side, and that the service and a browser together implement the policy.
  \<^item> Csrf (\<open>csrf/\<close>): the decision against a declarative policy.  Follow_Redirect_Policy, Follow_Redirect
    (\<open>follow_redirect/\<close>): the policies and their combinators, the response future, its termination
    (\<open>policy_budget\<close>), the requests it issues and the credentials it drops.
  \<^item> Limit (\<open>limit/\<close>), Timeout (\<open>timeout/\<close>), In_Flight (\<open>metrics/\<close>), Set_Header (\<open>set_header/\<close>), Catch_Panic,
    Validate_Request, Auth (\<open>auth/\<close>), Sensitive_Headers, Message_Layers (\<open>map_request_body.rs\<close>,
    \<open>map_response_body.rs\<close>, \<open>add_extension.rs\<close>, \<open>set_status.rs\<close>, \<open>propagate_header.rs\<close>), Request_Id,
    Normalize_Path, Redirect_Service (\<open>services/redirect.rs\<close>), Service_Ext (\<open>service_ext.rs\<close>,
    \<open>builder.rs\<close>): one file of the source each.
  \<^item> Classify (\<open>classify/\<close>), Trace and Trace_Callbacks (\<open>trace/\<close>), On_Early_Drop (\<open>on_early_drop/\<close>): classifiers
    refine a set of success codes; the events of a traced request and what the default callbacks print;
    which callbacks a drop fires.
  \<^item> Compression_Utils, Compression, Decompression: the buffered stream adaptors, the negotiation and the
    headers of coded responses, and the round trip through both.
  \<^item> Path, Fs_Headers, Open_File, Serve_Dir, Serve_Headers, Dos_Name (\<open>services/fs/\<close>): confinement to the
    directory, conditional and range requests, precompressed variants, fallbacks, valid header values.
    Serve_Site: a tree of pages as the specification of \<open>ServeDir\<close>, the contract of a file system that holds
    it (\<open>tree_site\<close>), and that the service implements it.  Serve_Cache: a client that revalidates its page
    with the entity tag stays current, however the files change between its requests.
  \<^item> Readiness: \<open>poll_ready\<close> of every middleware through one interface, and which instance is called.
    Constructors: that \<open>new\<close> and \<open>layer\<close> make the same service, and the policies behind boxes.  Accessors:
    the body behind the layers of a coded body.  Messages: the \<open>Display\<close> impls, and what a logged failure
    tells.

  This theory holds the properties of stacks: a body limit behind the decompression of requests,
  compression over \<open>ServeDir\<close>, and tracing between the layers for sensitive headers.  Client_Stack holds
  that of a client: the order of adding credentials and following redirections.

  Not modelled: \<open>lib.rs\<close> and the module roots (re-exports), \<open>pin_project_cfg.rs\<close>, \<open>test_helpers.rs\<close> and the
  examples; \<open>TokioBackend\<close>, which only calls \<open>tokio::fs\<close>; the uninhabited \<open>NeverClassifyEos\<close> and
  \<open>DefaultServeDirFallback\<close>; \<open>Debug\<close> and derived \<open>Clone\<close> impls; the Windows
  branch of the path check (its routine is in Dos_Name); the text of log messages.  The file system does
  not change while one request is served, and symbolic links are the backend's business.
\<close>

section \<open>A limit behind the decompression of requests\<close>

definition coded :: "('h, string, 'x) http_api \<Rightarrow> supported \<Rightarrow> 'h \<Rightarrow> bool" where
  "coded H a h = (case hm_get H h ''content-encoding'' of Some v \<Rightarrow> enabled_coding a v | None \<Rightarrow> False)"

lemma request_decompression_calls:
  assumes "request_decompression_call H K call c req = (c', w)"
  shows "(w = Unsupported (rd_accept c) \<and> c' = c \<and> refuses_coding H c req) \<or>
    (\<exists>req' f. call (rd_inner c) req' = (rd_inner c', f) \<and> w = Inner f \<and> c' = c\<lparr>rd_inner := rd_inner c'\<rparr> \<and>
       req_method req' = req_method req \<and> req_uri req' = req_uri req \<and>
       req_headers req' = (if coded H (rd_accept c) (req_headers req) then decoded_headers H (req_headers req)
         else req_headers req))"
proof (cases "hm_get H (req_headers req) ''content-encoding''")
  case None
  with assms show ?thesis
    by (auto simp: request_decompression_call_def coded_def Let_def split: prod.splits intro!: exI)
next
  case (Some v)
  show ?thesis
  proof (cases "decode_body K (rd_accept c) v (req_body req)")
    case None
    then have "\<not> enabled_coding (rd_accept c) v" by (simp add: decode_body_arms)
    with assms Some None show ?thesis
      by (auto simp: request_decompression_call_def coded_def refuses_coding_def Let_def
          split: prod.splits if_splits intro!: exI)
  next
    case i: (Some i)
    then have "enabled_coding (rd_accept c) v"
      using decode_body_arms [of K "rd_accept c" v "req_body req"] by auto
    with assms Some i show ?thesis
      by (auto simp: request_decompression_call_def coded_def Let_def split: prod.splits intro!: exI)
  qed
qed

text \<open>
  Claim C20.  A \<open>RequestBodyLimit\<close> behind \<open>RequestDecompression\<close> bounds the decoded body, so that a small
  compressed body cannot become a large one: the handler is called on a body of which at most \<open>limit\<close>
  bytes can be read.  A coded request has lost its \<open>Content-Length\<close> on the way, so it is never refused
  for the length of the coded body; one that is not coded is refused at once when its declared length
  exceeds the limit, and otherwise bounded by that length too.
\<close>

theorem decompressed_body_limited:
  assumes H: "header_text H" and law: "limited_law limited_of L"
    and call: "request_decompression_call H K (request_body_limit_call H limited_of handler) c req = (c', w)"
  shows "case w of
      Unsupported a \<Rightarrow> refuses_coding H c req \<and> c' = c
    | Inner FutPayloadTooLarge \<Rightarrow> c' = c \<and>
        (\<exists>len. content_length_of H (req_headers req) = Some len \<and> rb_limit (rd_inner c) < len) \<and>
        \<not> coded H (rd_accept c) (req_headers req)
    | Inner (FutFuture f) \<Rightarrow> \<exists>req'. handler (rb_inner (rd_inner c)) req' = (rb_inner (rd_inner c'), f) \<and>
        req_method req' = req_method req \<and> req_uri req' = req_uri req \<and>
        (\<forall>k. data_len (body_read (limited_body L) k (req_body req')) \<le> rb_limit (rd_inner c)) \<and>
        (\<forall>len k. content_length_of H (req_headers req') = Some len \<longrightarrow>
           data_len (body_read (limited_body L) k (req_body req')) \<le> len)"
proof -
  from request_decompression_calls [OF call]
  consider "w = Unsupported (rd_accept c)" "c' = c" "refuses_coding H c req"
    | req' f where "request_body_limit_call H limited_of handler (rd_inner c) req' = (rd_inner c', f)"
      "w = Inner f" "c' = c\<lparr>rd_inner := rd_inner c'\<rparr>"
      "req_method req' = req_method req" "req_uri req' = req_uri req"
      "req_headers req' = (if coded H (rd_accept c) (req_headers req) then decoded_headers H (req_headers req)
         else req_headers req)" by blast
  then show ?thesis
  proof cases
    case 1
    then show ?thesis by simp
  next
    case (2 req' f)
    have none: "content_length_of H (decoded_headers H h) = None" for h
      using header_text.get_all_decoded_headers [OF H, of h "''content-length''"]
        header_map.get_None_iff [OF header_text.axioms(1) [OF H], of "decoded_headers H h" "''content-length''"]
      by (simp add: content_length_of_def)
    show ?thesis
    proof (cases f)
      case FutPayloadTooLarge
      with 2(1) obtain len where "rd_inner c' = rd_inner c"
        "content_length_of H (req_headers req') = Some len" "rb_limit (rd_inner c) < len"
        by (auto simp: request_body_limit_call_def Let_def split: option.splits if_splits prod.splits)
      with 2 FutPayloadTooLarge none show ?thesis by (auto split: if_splits)
    next
      case (FutFuture g)
      from 2(1) [unfolded FutFuture] obtain bl where
        handler: "handler (rb_inner (rd_inner c))
          (from_parts (request_parts req') (limited_wrap_new (limited_of (req_body req') bl))) =
          (rb_inner (rd_inner c'), g)"
        and bl: "bl \<le> rb_limit (rd_inner c)"
          "\<forall>len. content_length_of H (req_headers req') = Some len \<longrightarrow> len \<le> rb_limit (rd_inner c) \<and> bl = len"
        by (rule request_body_limit_proceeds)
      let ?q = "from_parts (request_parts req') (limited_wrap_new (limited_of (req_body req') bl))"
      have read: "data_len (body_read (limited_body L) k (req_body ?q)) \<le> bl" for k
        using law by (simp add: limited_body_read limited_law_def)
      have "req_method ?q = req_method req" "req_uri ?q = req_uri req" "req_headers ?q = req_headers req'"
        using 2 by (simp_all add: request_parts_def)
      moreover have "data_len (body_read (limited_body L) k (req_body ?q)) \<le> rb_limit (rd_inner c)" for k
        using read [of k] bl(1) by linarith
      moreover have "data_len (body_read (limited_body L) k (req_body ?q)) \<le> len"
        if "content_length_of H (req_headers ?q) = Some len" for len k
        using read [of k] bl(2) that by (simp add: request_parts_def)
      ultimately show ?thesis
        unfolding 2(2) FutFuture request_decompression_future.case limit_future.case
        using handler by blast
    qed
  qed
qed

text \<open>\<open>http_body_util::Limited\<close> over any body, for the witness: the frame that exceeds the rest is an error.\<close>

definition limited_over ::
  "('b, string, 't, 'e) body_api \<Rightarrow> (nat \<times> 'b, string, 't, string + 'e) body_api" where
  "limited_over B =
     \<lparr>body_poll_frame = (\<lambda>(n, b). case body_poll_frame B b of
        (Pending, b') \<Rightarrow> (Pending, (n, b'))
      | (Ready None, b') \<Rightarrow> (Ready None, (n, b'))
      | (Ready (Some (Inl e)), b') \<Rightarrow> (Ready (Some (Inl (Inr e))), (n, b'))
      | (Ready (Some (Inr (TrailersFrame t))), b') \<Rightarrow> (Ready (Some (Inr (TrailersFrame t))), (n, b'))
      | (Ready (Some (Inr (DataFrame d))), b') \<Rightarrow>
          if length d > n then (Ready (Some (Inl (Inl ''length limit exceeded''))), (0, b'))
          else (Ready (Some (Inr (DataFrame d))), (n - length d, b'))),
      body_is_end_stream = (\<lambda>(n, b). body_is_end_stream B b),
      body_size_hint = (\<lambda>(n, b). size_hint_default)\<rparr>"

lemma limited_over_read: "data_len (body_read (limited_over B) k (n, b)) \<le> n"
proof (induction k arbitrary: n b)
  case (Suc k)
  show ?case
  proof (cases "body_poll_frame B b")
    case (Pair p b')
    have "data_len (body_read (limited_over B) k (n - l, b')) + l \<le> n" if "l \<le> n" for l
      using Suc.IH [of "n - l" b'] that by linarith
    then show ?thesis
      using Suc.IH [of n b']
      by (simp add: limited_over_def Pair add.commute split: poll.split option.split sum.split frame.split)
  qed
qed simp

lemma limited_law_over: "limited_law (\<lambda>b n. (n, b)) (limited_over B)"
  by (simp add: limited_law_def limited_over_read)

definition bomb_request ::
  "((string \<times> string) list, unit, unit, (string, unit, unit) frame_result poll list) request" where
  "bomb_request = \<lparr>req_method = ''POST'', req_uri = (), req_version = ''HTTP/1.1'',
     req_headers = [(''content-encoding'', ''gzip''), (''content-length'', ''9'')], req_extensions = (),
     req_body = [Ready (Some (Inr (DataFrame ''abcdefghi'')))]\<rparr>"

definition bomb_codecs ::
  "((string, unit, unit) frame_result poll list, unit, unit,
    ((string, unit, unit) frame_result poll list, string, unit, unit) body_stream) stream_codecs" where
  "bomb_codecs = byte_decoders (\<lambda>c. c)"

definition bomb_service :: "unit request_body_limit request_decompression" where
  "bomb_service = request_decompression_new (request_body_limit_new () 5)"

theorem decompressed_body_limited_witness:
  "\<exists>w f. snd (request_decompression_call (list_http ()) bomb_codecs
       (request_body_limit_call (list_http ()) (\<lambda>b n. (n, b)) (\<lambda>s q. (s, q))) bomb_service bomb_request) = w \<and>
     w = Inner (FutFuture f) \<and>
     (\<forall>k. data_len (body_read (limited_body (limited_over (decompression_body_api bomb_codecs script_body))) k
       (req_body f)) \<le> 5)"
proof -
  let ?call = "request_decompression_call (list_http ()) bomb_codecs
    (request_body_limit_call (list_http ()) (\<lambda>b n. (n, b)) (\<lambda>s q. (s, q))) bomb_service bomb_request"
  obtain c' w where call: "?call = (c', w)" by (rule prod.exhaust)
  have v: "hm_get (list_http ()) (req_headers bomb_request) ''content-encoding'' = Some ''gzip''"
    and a: "rd_accept bomb_service = accept_encoding_default" "rb_limit (rd_inner bomb_service) = 5"
      "rd_inner bomb_service = request_body_limit_new () 5"
    by (simp_all add: bomb_request_def list_http_simps bomb_service_def request_decompression_new_def
        request_body_limit_new_def)
  have en: "enabled_coding accept_encoding_default ''gzip''" by code_simp
  have coded: "coded (list_http ()) (rd_accept bomb_service) (req_headers bomb_request)"
    by (simp add: coded_def v a en)
  have accepted: "\<not> refuses_coding (list_http ()) bomb_service bomb_request"
    by (simp add: refuses_coding_def v a en)
  note limited = decompressed_body_limited [OF header_text_list_http limited_law_over call,
      of "decompression_body_api bomb_codecs script_body", unfolded a(2)]
  show ?thesis
  proof (cases w)
    case (Unsupported x)
    with limited accepted show ?thesis by simp
  next
    case (Inner f)
    show ?thesis
    proof (cases f)
      case FutPayloadTooLarge
      with limited Inner coded show ?thesis by simp
    next
      case (FutFuture g)
      with limited Inner call show ?thesis by auto
    qed
  qed
qed

section \<open>Compressing what \<open>ServeDir\<close> serves\<close>

text \<open>Its partial and precompressed responses carry the headers that keep the compression away.\<close>

lemma ranged_headers:
  assumes H: "header_text H" and "file_headers H D f = Inr h"
    and res: "res = ranged_response H f mf len h"
  shows "res_status res \<noteq> 200 \<Longrightarrow> hm_get_all H (res_headers res) ''content-range'' \<noteq> []"
    and "hm_get_all H (res_headers res) ''content-encoding'' = hm_get_all H h ''content-encoding''"
  using header_map.laws [OF header_text.axioms(1) [OF H]]
  by (auto simp: res ranged_response_def file_response_def split: option.split sum.split range_error.split)

lemma served_partial:
  fixes V :: "('u, 'd::linorder, 'r) fs_env"
  assumes H: "header_text H" and own: "sd_fallback s = None"
    and run: "serve_run H D call_fb poll_fb n
      (snd (serve_dir_try_call H U V B pdecode clone delay call_fb s req)) = Some (Inr res)"
    and status: "res_status res \<in> {206, 416}"
  shows "hm_get_all H (res_headers res) ''content-range'' \<noteq> []"
  using own run
proof (cases rule: serve_run_own)
  case (opened p)
  let ?o = "open_file H U V B (open_request H s p req)"
  have res: "infallible_response H (open_result H D ?o) = Inr res" using opened(2) by simp
  show ?thesis
  proof (cases ?o)
    case (Inl e)
    with res status show ?thesis by (cases e) (auto simp: open_result_def infallible_response_def split: if_splits)
  next
    case (Inr out)
    show ?thesis
    proof (cases out)
      case (FileOpened f)
      with res Inr obtain h mf len where h: "file_headers H D f = Inr h" and r: "res = ranged_response H f mf len h"
        by (auto simp: open_result_def infallible_response_def build_response_def map_result_eq_Inr
            split: sum.splits prod.splits)
      from ranged_headers(1) [OF H h r] status show ?thesis by auto
    next
      case (NotModified e lm)
      with res Inr have "res_status res = 304"
        by (auto simp: open_result_def infallible_response_def split: sum.splits serve_error.splits
            dest: not_modified_status)
      with status show ?thesis by simp
    qed (use res Inr status in \<open>auto simp: open_result_def infallible_response_def not_found_def Let_def\<close>)
  qed
qed (use status in \<open>auto simp: not_allowed_response_def not_found_def Let_def\<close>)


definition range_predicate :: "((string \<times> string) list, unit, (string, unit) serve_body) predicate" where
  "range_predicate r = True"

definition range_codecs ::
  "((string, unit) serve_body, unit, unit, ((string, unit) serve_body, string, unit, unit) body_stream) stream_codecs" where
  "range_codecs = byte_decoders (\<lambda>c. c)"


section \<open>What the tracing middleware prints of sensitive headers\<close>

text \<open>
  The debug text of a header map shows its entries in order, a sensitive value by a placeholder; walking
  over the values of a name changes those values in their places.
\<close>

definition shown_entry :: "'v header_value_api \<Rightarrow> string \<times> 'v \<Rightarrow> string \<times> string option" where
  "shown_entry V p = (fst p, if hv_is_sensitive V (snd p) then None else Some (hv_bytes V (snd p)))"

definition without_secrets :: "string list \<Rightarrow> (string \<times> 'v) list \<Rightarrow> (string \<times> 'v option) list" where
  "without_secrets ns es = map (\<lambda>(k, v). (k, if k \<in> set ns then None else Some v)) es"

locale printed_headers = header_value V for V :: "'v header_value_api" +
  fixes iter_mut :: "'h \<Rightarrow> string \<Rightarrow> ('v \<Rightarrow> 'v) \<Rightarrow> 'h"
    and entries :: "'h \<Rightarrow> (string \<times> 'v) list"
    and dbg :: "'h \<Rightarrow> string"
  assumes entries_iter_mut: "entries (iter_mut h n g) = map (\<lambda>(k, v). (k, if k = n then g v else v)) (entries h)"
    and dbg_shown: "map (shown_entry V) (entries h) = map (shown_entry V) (entries h') \<Longrightarrow> dbg h = dbg h'"
begin

lemma shown_marked:
  "map (shown_entry V) (entries (mark_sensitive V iter_mut ns h)) =
     map (\<lambda>p. if fst p \<in> set ns then (fst p, None) else shown_entry V p) (entries h)"
proof (induction ns arbitrary: h)
  case (Cons n ns)
  show ?case
    unfolding mark_sensitive.simps Cons.IH
    by (auto simp: mark_entry_def entries_iter_mut shown_entry_def sensitive_set split: if_splits)
qed simp

lemma dbg_marked:
  assumes "without_secrets ns (entries h) = without_secrets ns (entries h')"
  shows "dbg (mark_sensitive V iter_mut ns h) = dbg (mark_sensitive V iter_mut ns h')"
proof (rule dbg_shown)
  let ?show = "\<lambda>(k, ov). (k, Option.bind ov (\<lambda>v. snd (shown_entry V (k, v))))"
  have "map (shown_entry V) (entries (mark_sensitive V iter_mut ns g)) = map ?show (without_secrets ns (entries g))" for g
    by (auto simp: shown_marked without_secrets_def shown_entry_def)
  with assms show "map (shown_entry V) (entries (mark_sensitive V iter_mut ns h)) =
      map (shown_entry V) (entries (mark_sensitive V iter_mut ns h'))" by simp
qed

end


text \<open>The list of header lines, printed line by line.\<close>

definition print_headers :: "(string \<times> flagged_value) list \<Rightarrow> string" where
  "print_headers h = concat (map (\<lambda>(k, ov). k @ '': '' @ (case ov of Some b \<Rightarrow> b | None \<Rightarrow> ''Sensitive'') @ '';'')
     (map (shown_entry flagged_api) h))"

interpretation printed: printed_headers flagged_api list_iter_mut id print_headers
  by unfold_locales (simp_all add: list_iter_mut_def print_headers_def)

definition secret_request :: "string \<Rightarrow> ((string \<times> flagged_value) list, simple_uri, unit, unit) request" where
  "secret_request v = \<lparr>req_method = ''GET'', req_uri = \<lparr>su_scheme = None, su_authority = None, su_path = ''/'', su_query = None\<rparr>,
     req_version = ''HTTP/1.1'', req_headers = [(''cookie'', \<lparr>fv_bytes = v, fv_sensitive = False\<rparr>)],
     req_extensions = (), req_body = ()\<rparr>"

definition secret_response :: "string \<Rightarrow> ((string \<times> flagged_value) list, unit, unit) response" where
  "secret_response v = \<lparr>res_status = 200, res_version = ''HTTP/1.1'',
     res_headers = [(''cookie'', \<lparr>fv_bytes = v, fv_sensitive = False\<rparr>)], res_extensions = (), res_body = ()\<rparr>"

definition verbose_layer where
  "verbose_layer = trace_layer_set_make_span (default_make_span_include_headers default_make_span_new True) (trace_layer_new ())"

definition secret_stack where
  "secret_stack = set_sensitive_request_headers_layer_apply (set_sensitive_request_headers_layer_new [''cookie''])
     (trace_layer_apply verbose_layer (set_sensitive_response_headers_layer_apply
       (set_sensitive_response_headers_layer_new [''cookie'']) ()))"

text \<open>An inner service that echoes the secret of the request.\<close>

definition secret_inner ::
  "unit \<Rightarrow> ((string \<times> flagged_value) list, simple_uri, unit, unit) request \<Rightarrow>
     unit \<times> (nat \<times> (unit + ((string \<times> flagged_value) list, unit, unit) response))" where
  "secret_inner s q = (s, (0, Inr (secret_response (fv_bytes (snd (hd (req_headers q)))))))"

definition secret_call ::
  "((string \<times> flagged_value) list, simple_uri, unit, unit) request \<Rightarrow> _ \<times>
     (((string \<times> flagged_value) list, simple_uri, unit, unit) request,
      ((string \<times> flagged_value) list, unit, unit) response, unit, unit, unit) trace_event list" where
  "secret_call q = snd (set_sensitive_request_headers_call flagged_api list_iter_mut
     (\<lambda>t q. trace_call (\<lambda>ms q. (make_span simple_uri_api print_headers ms q, ms)) (\<lambda>m q. ())
       (set_sensitive_response_headers_call secret_inner) 7 t q)
     secret_stack q)"


end
